(* ===== verification/Go_Prelude.thy ===== *)
theory Go_Prelude
  imports Main "HOL-Library.List_Lexorder" "HOL-Library.Char_ord" "HOL-Library.AList"
    "HOL-Library.Sublist" "HOL-Library.Multiset" "HOL-Library.Word"
begin

text \<open>
  What the components share: Go errors and outcomes as values, the functions of Go's
  \<^verbatim>\<open>strings\<close>, \<^verbatim>\<open>strconv\<close> and \<^verbatim>\<open>fmt\<close> packages that the source calls, and the
  lemmas about them. A Go string is a list of bytes (\<open>string\<close>), ordered byte by byte
  (the lexicographic order of \<open>List_Lexorder\<close> over \<open>Char_ord\<close>), as Go's \<open><\<close> orders it.
  Go's 64-bit \<open>int\<close> is \<open>int\<close> here; parsing writes its bounds out. A Go
  \<^verbatim>\<open>map[string]string\<close> is a partial map, with \<open>None\<close> outside it for the nil map where the
  source tells nil and empty apart.
\<close>

section \<open>Errors and outcomes\<close>

text \<open>
  \<open>Errorf\<close> is an error made by \<open>errors.New\<close> or by \<open>fmt.Errorf\<close> without a wrapped error,
  \<open>Wrapf\<close> one made with \<open>%w\<close> (the text before the wrapped error and the error). The two
  sentinels are values of \<^verbatim>\<open>k8s.io/cloud-provider\<close>; \<open>External\<close> is an error that came from
  a client library.
\<close>

datatype go_error =
    Errorf string
  | Wrapf string go_error
  | InstanceNotFound
  | ImplementedElsewhere
  | External string

fun errors_Is :: "go_error \<Rightarrow> go_error \<Rightarrow> bool" where
  "errors_Is (Wrapf m e) target = (Wrapf m e = target \<or> errors_Is e target)"
| "errors_Is e target = (e = target)"

text \<open>The text of an error, as \<open>%v\<close> prints it into another one.\<close>

fun error_text :: "go_error \<Rightarrow> string" where
  "error_text (Errorf s) = s"
| "error_text (Wrapf s e) = s @ error_text e"
| "error_text InstanceNotFound = ''instance not found''"
| "error_text ImplementedElsewhere = ''implemented by alternate to cloud provider''"
| "error_text (External s) = s"

text \<open>
  The outcome of a Go call: a value with a nil error, an error, or a run-time panic
  (a nil dereference, an index out of range).
\<close>

datatype 'a outcome = Ok 'a | Err go_error | Panic

text \<open>Indexing a slice: \<open>None\<close> is an index out of range, which panics where it is used.\<close>

definition slice_index :: "'a list \<Rightarrow> nat \<Rightarrow> 'a option" where
  "slice_index xs i = (if i < length xs then Some (xs ! i) else None)"

text \<open>The value of a 64-bit \<open>int\<close> after an operation whose result is \<open>i\<close>.\<close>

definition wrap_int64 :: "int \<Rightarrow> int" where
  "wrap_int64 i = (i + 2 ^ 63) mod 2 ^ 64 - 2 ^ 63"

named_theorems go_defs \<open>definitions that only compose the calls of the source\<close>

section \<open>Maps\<close>

type_synonym strmap = "string \<rightharpoonup> string"

text \<open>Reading a map: the zero value for a missing key, and the nil map reads as empty.\<close>

definition map_get :: "strmap \<Rightarrow> string \<Rightarrow> string" where
  "map_get m k = (case m k of None \<Rightarrow> '''' | Some v \<Rightarrow> v)"

definition nil_map :: "strmap option \<Rightarrow> strmap" where
  "nil_map m = (case m of None \<Rightarrow> Map.empty | Some m' \<Rightarrow> m')"

text \<open>A slice that may be nil: a nil slice reads as an empty one.\<close>

definition nil_list :: "'a list option \<Rightarrow> 'a list" where
  "nil_list xs = (case xs of None \<Rightarrow> [] | Some ys \<Rightarrow> ys)"

lemma nil_list_simps [simp]: "nil_list None = []" "nil_list (Some xs) = xs"
  by (simp_all add: nil_list_def)

text \<open>
  The order in which \<open>range\<close> visits a map is picked by the run time. Where it can matter the
  model takes the order as a function that permutes the entries.
\<close>

definition iteration_order :: "('a list \<Rightarrow> 'a list) \<Rightarrow> bool" where
  "iteration_order ord \<longleftrightarrow> (\<forall>xs. mset (ord xs) = mset xs)"

section \<open>Package strings\<close>

definition TrimPrefix :: "string \<Rightarrow> string \<Rightarrow> string" where
  "TrimPrefix s p = (if prefix p s then drop (length p) s else s)"

definition TrimSuffix :: "string \<Rightarrow> string \<Rightarrow> string" where
  "TrimSuffix s p = (if suffix p s then take (length s - length p) s else s)"

text \<open>\<open>cut sep s\<close>: what stands before the first \<open>sep\<close> of \<open>s\<close>, and what stands after it.\<close>

fun cut :: "string \<Rightarrow> string \<Rightarrow> string \<times> string option" where
  "cut sep [] = ([], if sep = [] then Some [] else None)"
| "cut sep (c # cs) =
     (if prefix sep (c # cs) then ([], Some (drop (length sep) (c # cs)))
      else case cut sep cs of (b, a) \<Rightarrow> (c # b, a))"

text \<open>\<open>strings.Split\<close> for a separator that is not empty, as every call of the source has it.\<close>

function split_on :: "string \<Rightarrow> string \<Rightarrow> string list" where
  "split_on sep s =
     (if sep = [] then [s] else
      case cut sep s of (b, None) \<Rightarrow> [b] | (b, Some a) \<Rightarrow> b # split_on sep a)"
  by pat_completeness auto
termination
proof (relation "measure (\<lambda>(sep, s). length s)", goal_cases)
  case 1
  show ?case by simp
next
  case (2 sep s b a x2)
  have len: "cut sep t = (u, Some v) \<Longrightarrow> length t = length u + length sep + length v" for t u v
    by (induction t arbitrary: u)
      (auto simp: prefix_def dest!: arg_cong [where f = length] split: if_splits prod.splits)
  from len [of s b x2] 2 have "length s = length b + length sep + length x2" by simp
  with 2 show ?case by simp
qed

declare split_on.simps [simp del]

text \<open>\<open>strings.SplitN(s, sep, 2)\<close>, \<open>strings.Replace(s, old, new, 1)\<close>, \<open>strings.Join\<close>.\<close>

definition split_n2 :: "string \<Rightarrow> string \<Rightarrow> string list" where
  "split_n2 sep s = (case cut sep s of (b, None) \<Rightarrow> [b] | (b, Some a) \<Rightarrow> [b, a])"

definition replace1 :: "string \<Rightarrow> string \<Rightarrow> string \<Rightarrow> string" where
  "replace1 s old new = (case cut old s of (b, None) \<Rightarrow> b | (b, Some a) \<Rightarrow> b @ new @ a)"

fun join_with :: "string \<Rightarrow> string list \<Rightarrow> string" where
  "join_with sep [] = []"
| "join_with sep [x] = x"
| "join_with sep (x # y # ys) = x @ sep @ join_with sep (y # ys)"

text \<open>\<open>strings.ToLower\<close> on the ASCII letters, the only ones the names it is applied to have.\<close>

definition to_lower_char :: "char \<Rightarrow> char" where
  "to_lower_char c = (if 65 \<le> (of_char c :: nat) \<and> (of_char c :: nat) \<le> 90
     then char_of ((of_char c :: nat) + 32) else c)"

definition ToLower :: "string \<Rightarrow> string" where
  "ToLower s = map to_lower_char s"

section \<open>Package strconv\<close>

text \<open>Printing with \<open>%d\<close> or \<open>strconv.Itoa\<close>.\<close>

definition digit_char :: "nat \<Rightarrow> char" where
  "digit_char d = char_of (48 + d)"

fun dec_nat :: "nat \<Rightarrow> string" where
  "dec_nat n = (if n < 10 then [digit_char n] else dec_nat (n div 10) @ [digit_char (n mod 10)])"

declare dec_nat.simps [simp del]

definition itoa :: "int \<Rightarrow> string" where
  "itoa n = (if n < 0 then CHR ''-'' # dec_nat (nat (- n)) else dec_nat (nat n))"

text \<open>
  \<open>strconv.ParseInt(s, 10, bits)\<close>: an optional sign, then decimal digits. The unsigned part
  reports a range error at the first digit that takes it past \<open>2 ^ bits - 1\<close>, before it
  looks at the rest. \<open>strconv.Atoi\<close> is the 64-bit case.
\<close>

datatype num_error = ErrSyntax | ErrRange

definition digit_val :: "char \<Rightarrow> nat option" where
  "digit_val c = (if 48 \<le> (of_char c :: nat) \<and> (of_char c :: nat) \<le> 57
     then Some (of_char c - 48) else None)"

fun parse_uint :: "nat \<Rightarrow> nat \<Rightarrow> string \<Rightarrow> num_error + nat" where
  "parse_uint mx n [] = Inr n"
| "parse_uint mx n (c # cs) =
     (case digit_val c of
        None \<Rightarrow> Inl ErrSyntax
      | Some d \<Rightarrow> if mx < n * 10 + d then Inl ErrRange else parse_uint mx (n * 10 + d) cs)"

definition ParseUint :: "nat \<Rightarrow> string \<Rightarrow> num_error + nat" where
  "ParseUint bits s = (if s = [] then Inl ErrSyntax else parse_uint (2 ^ bits - 1) 0 s)"

definition ParseInt :: "nat \<Rightarrow> string \<Rightarrow> num_error + int" where
  "ParseInt bits s =
     (case s of
        [] \<Rightarrow> Inl ErrSyntax
      | c # cs \<Rightarrow>
          let neg = (c = CHR ''-'');
              body = (if c = CHR ''-'' \<or> c = CHR ''+'' then cs else s)
          in case ParseUint bits body of
               Inl e \<Rightarrow> Inl e
             | Inr un \<Rightarrow>
                 if \<not> neg \<and> 2 ^ (bits - 1) \<le> un then Inl ErrRange
                 else if neg \<and> 2 ^ (bits - 1) < un then Inl ErrRange
                 else Inr (if neg then - int un else int un))"

definition Atoi :: "string \<Rightarrow> num_error + int" where
  "Atoi s = ParseInt 64 s"

text \<open>\<open>strconv.ParseBool\<close>.\<close>

definition ParseBool :: "string \<Rightarrow> num_error + bool" where
  "ParseBool s =
     (if s \<in> {''1'', ''t'', ''T'', ''true'', ''TRUE'', ''True''} then Inr True
      else if s \<in> {''0'', ''f'', ''F'', ''false'', ''FALSE'', ''False''} then Inr False
      else Inl ErrSyntax)"

text \<open>Numbers of Go's fixed-width types.\<close>

type_synonym uint32 = "32 word"
type_synonym uint16 = "16 word"

abbreviation int32_range :: "int \<Rightarrow> bool" where
  "int32_range n \<equiv> - (2 ^ 31) \<le> n \<and> n < 2 ^ 31"

abbreviation int64_range :: "int \<Rightarrow> bool" where
  "int64_range n \<equiv> - (2 ^ 63) \<le> n \<and> n < 2 ^ 63"

section \<open>Lemmas on strings\<close>

lemma map_get_upd [simp]: "map_get (m(k \<mapsto> v)) k' = (if k' = k then v else map_get m k')"
  by (simp add: map_get_def)

lemma map_get_empty [simp]: "map_get Map.empty k = ''''"
  by (simp add: map_get_def)

lemma nil_map_simps [simp]: "nil_map None = Map.empty" "nil_map (Some m) = m"
  by (simp_all add: nil_map_def)

lemma iteration_order_set: "iteration_order ord \<Longrightarrow> set (ord xs) = set xs"
  using mset_eq_setD [of "ord xs" xs] by (simp add: iteration_order_def)

lemma iteration_order_length: "iteration_order ord \<Longrightarrow> length (ord xs) = length xs"
  using mset_eq_length [of "ord xs" xs] by (simp add: iteration_order_def)

lemma iteration_order_distinct: "iteration_order ord \<Longrightarrow> distinct (ord xs) = distinct xs"
  using mset_eq_imp_distinct_iff [of "ord xs" xs] by (simp add: iteration_order_def)

lemma iteration_order_id [simp]: "iteration_order (\<lambda>xs. xs)"
  by (simp add: iteration_order_def)

lemma iteration_order_rev [simp]: "iteration_order rev"
  by (simp add: iteration_order_def)

lemma cut_snd_Some: "snd (cut sep s) = Some a \<Longrightarrow> s = fst (cut sep s) @ sep @ a"
  by (induction s) (auto simp: prefix_def split: if_splits prod.splits)

lemma cut_snd_None: "snd (cut sep s) = None \<Longrightarrow> fst (cut sep s) = s \<and> \<not> sublist sep s"
  by (induction s) (auto simp: sublist_Cons_right split: if_splits prod.splits)

lemma cut_Some: "cut sep s = (b, Some a) \<Longrightarrow> s = b @ sep @ a"
  using cut_snd_Some [of sep s a] by simp

lemma cut_None: "cut sep s = (b, None) \<Longrightarrow> b = s \<and> \<not> sublist sep s"
  using cut_snd_None [of sep s] by simp

lemma cut_no_occurrence: "\<not> sublist sep s \<Longrightarrow> cut sep s = (s, None)"
proof -
  assume no: "\<not> sublist sep s"
  have "snd (cut sep s) = None"
  proof (rule ccontr)
    assume "snd (cut sep s) \<noteq> None"
    then obtain a where "s = fst (cut sep s) @ sep @ a" by (auto dest: cut_snd_Some)
    with no show False unfolding sublist_def by blast
  qed
  with cut_snd_None [OF this] show ?thesis by (simp add: prod_eq_iff)
qed

lemma split_on_no_occurrence: "sep \<noteq> [] \<Longrightarrow> \<not> sublist sep s \<Longrightarrow> split_on sep s = [s]"
  by (subst split_on.simps) (simp add: cut_no_occurrence)

lemma split_on_neq_Nil [simp]: "split_on sep s \<noteq> []"
  by (subst split_on.simps) (auto split: prod.splits option.splits)

text \<open>Splitting is undone by joining: \<open>strings.Join(strings.Split(s, sep), sep) = s\<close>.\<close>

lemma join_with_Cons: "ys \<noteq> [] \<Longrightarrow> join_with sep (x # ys) = x @ sep @ join_with sep ys"
  by (cases ys) auto

lemma join_split: "join_with sep (split_on sep s) = s"
proof (induction sep s rule: split_on.induct)
  case (1 sep s)
  show ?case
  proof (cases "sep = []")
    case True
    then show ?thesis by (simp add: split_on.simps)
  next
    case False
    obtain b r where c: "cut sep s = (b, r)" by fastforce
    show ?thesis
    proof (cases r)
      case None
      with False c show ?thesis
        by (subst split_on.simps) (auto dest: cut_None)
    next
      case (Some a)
      with "1" False c have "join_with sep (split_on sep a) = a" by simp
      with False c Some show ?thesis
        by (subst split_on.simps) (auto simp: join_with_Cons dest: cut_Some)
    qed
  qed
qed

text \<open>With a separator of one character joining is undone by splitting, too.\<close>

lemma cut_char: "c \<notin> set b \<Longrightarrow> cut [c] (b @ c # a) = (b, Some a)"
  by (induction b) auto

lemma split_char_Cons: "c \<notin> set b \<Longrightarrow> split_on [c] (b @ c # a) = b # split_on [c] a"
  by (subst split_on.simps) (simp add: cut_char)

lemma sublist_char: "sublist [c] s \<longleftrightarrow> c \<in> set s"
  by (auto simp: sublist_def in_set_conv_decomp)

lemma split_char_notin: "c \<notin> set s \<Longrightarrow> split_on [c] s = [s]"
  by (rule split_on_no_occurrence) (simp_all add: sublist_char)

lemma split_join: "xs \<noteq> [] \<Longrightarrow> \<forall>x \<in> set xs. c \<notin> set x \<Longrightarrow> split_on [c] (join_with [c] xs) = xs"
  by (induction xs rule: list_nonempty_induct) (simp_all add: split_char_notin join_with_Cons split_char_Cons)

lemma split_char_parts: "x \<in> set (split_on [c] s) \<Longrightarrow> c \<notin> set x"
proof (induction "[c]" s rule: split_on.induct)
  case (1 s)
  show ?case
  proof (cases "c \<in> set s")
    case True
    then obtain b a where s: "s = b @ c # a" "c \<notin> set b" by (metis split_list_first)
    with 1 cut_char [OF s(2), of a] show ?thesis by (auto simp: split_char_Cons)
  qed (use 1 in \<open>simp add: split_char_notin\<close>)
qed

section \<open>Lemmas on numbers\<close>

text \<open>The digits as characters, so that numbers in concrete terms print by \<open>simp\<close>.\<close>

lemma digit_char_eval:
  "digit_char 0 = CHR ''0''" "digit_char 1 = CHR ''1''" "digit_char (Suc 0) = CHR ''1''"
  "digit_char 2 = CHR ''2''" "digit_char 3 = CHR ''3''" "digit_char 4 = CHR ''4''"
  "digit_char 5 = CHR ''5''" "digit_char 6 = CHR ''6''" "digit_char 7 = CHR ''7''"
  "digit_char 8 = CHR ''8''" "digit_char 9 = CHR ''9''"
  by code_simp+

lemmas print_eval = dec_nat.simps itoa_def digit_char_eval

lemma of_char_digit_char [simp]: "d < 10 \<Longrightarrow> of_char (digit_char d) = 48 + d"
  by (simp add: digit_char_def)

lemma digit_val_digit_char [simp]: "d < 10 \<Longrightarrow> digit_val (digit_char d) = Some d"
  by (simp add: digit_val_def)

lemma digit_char_inj: "c < 10 \<Longrightarrow> d < 10 \<Longrightarrow> digit_char c = digit_char d \<Longrightarrow> c = d"
  by (metis digit_val_digit_char option.inject)

lemma dec_nat_neq_Nil [simp]: "dec_nat n \<noteq> []"
  by (subst dec_nat.simps) simp

lemma dec_nat_digits: "c \<in> set (dec_nat n) \<Longrightarrow> \<exists>d < 10. c = digit_char d"
proof (induction n rule: dec_nat.induct)
  case (1 n)
  have "n mod 10 < 10" by simp
  with 1 show ?case
    by (cases "n < 10") (fastforce simp: dec_nat.simps [of n])+
qed

lemma digit_val_dec_nat: "c \<in> set (dec_nat n) \<Longrightarrow> digit_val c \<noteq> None"
  by (auto dest!: dec_nat_digits)

lemma not_digit_notin_dec_nat: "digit_val c = None \<Longrightarrow> c \<notin> set (dec_nat n)"
  using digit_val_dec_nat by blast

lemma parse_uint_append:
  "parse_uint mx n (xs @ ys) =
     (case parse_uint mx n xs of Inl e \<Rightarrow> Inl e | Inr k \<Rightarrow> parse_uint mx k ys)"
  by (induction xs arbitrary: n) (auto split: option.splits)

lemma parse_uint_dec_nat: "n \<le> mx \<Longrightarrow> parse_uint mx 0 (dec_nat n) = Inr n"
proof (induction n rule: dec_nat.induct)
  case (1 n)
  show ?case
  proof (cases "n < 10")
    case True
    with "1.prems" show ?thesis by (simp add: dec_nat.simps)
  next
    case False
    moreover have "n div 10 \<le> mx" using "1.prems" by (meson div_le_dividend le_trans)
    ultimately have "parse_uint mx 0 (dec_nat (n div 10)) = Inr (n div 10)"
      using "1.IH" by simp
    with False "1.prems" show ?thesis
      by (subst dec_nat.simps) (simp add: parse_uint_append)
  qed
qed

lemma dec_nat_hd_digit: "dec_nat n = c # cs \<Longrightarrow> digit_val c \<noteq> None"
  by (metis digit_val_dec_nat list.set_intros(1))

lemma sign_not_digit [simp]: "digit_val (CHR ''-'') = None" "digit_val (CHR ''+'') = None"
  by (simp_all add: digit_val_def)

lemma ParseInt_itoa:
  assumes "0 < bits" and "- (2 ^ (bits - 1)) \<le> n" and "n < 2 ^ (bits - 1)"
  shows "ParseInt bits (itoa n) = Inr n"
proof -
  let ?m = "nat \<bar>n\<bar>"
  have pow: "(2::nat) ^ bits = 2 * 2 ^ (bits - 1)"
    using assms(1) by (metis power_eq_if not_gr_zero)
  have le: "?m \<le> 2 ^ (bits - 1)"
    using assms(2,3) by (simp add: nat_le_iff abs_if)
  have "(1::nat) \<le> 2 ^ (bits - 1)" by simp
  with le pow have "?m \<le> 2 ^ bits - 1" by linarith
  then have pu: "ParseUint bits (dec_nat ?m) = Inr ?m"
    by (simp add: ParseUint_def parse_uint_dec_nat)
  show ?thesis
  proof (cases "n < 0")
    case True
    with pu le show ?thesis
      by (simp add: itoa_def ParseInt_def Let_def)
  next
    case False
    then have m: "?m = nat n" by simp
    obtain c cs where d: "dec_nat (nat n) = c # cs" by (meson dec_nat_neq_Nil list.exhaust)
    then have c: "c \<noteq> CHR ''-''" "c \<noteq> CHR ''+''"
      using dec_nat_hd_digit sign_not_digit by metis+
    have lt: "nat n < 2 ^ (bits - 1)" using False assms(3) by (simp add: nat_less_iff)
    from False d c pu m lt show ?thesis
      by (simp add: itoa_def ParseInt_def Let_def)
  qed
qed

lemma Atoi_itoa: "int64_range n \<Longrightarrow> Atoi (itoa n) = Inr n"
  by (simp add: Atoi_def ParseInt_itoa)

lemma ParseInt_range:
  assumes "ParseInt bits s = Inr n"
  shows "- (2 ^ (bits - 1)) \<le> n \<and> n < 2 ^ (bits - 1)"
proof -
  have "\<And>u. u < (2::nat) ^ (bits - 1) \<Longrightarrow> int u < 2 ^ (bits - 1)"
    by (metis of_nat_less_iff of_nat_numeral of_nat_power)
  moreover have "\<And>u. u \<le> (2::nat) ^ (bits - 1) \<Longrightarrow> - (2 ^ (bits - 1)) \<le> - int u"
    by (metis neg_le_iff_le of_nat_le_iff of_nat_numeral of_nat_power)
  moreover have "\<And>u. - (2 ^ (bits - 1)) \<le> int u"
    by (meson neg_le_0_iff_le of_nat_0_le_iff order_trans zero_le_numeral zero_le_power)
  moreover have "\<And>u. - int u < 2 ^ (bits - 1)"
    by (meson le_less_trans neg_le_0_iff_le of_nat_0_le_iff zero_less_numeral zero_less_power)
  ultimately show ?thesis
    using assms by (auto simp: ParseInt_def Let_def split: list.splits sum.splits if_splits)
qed

lemma parse_uint_mono: "parse_uint mx n s = Inr k \<Longrightarrow> mx \<le> mx' \<Longrightarrow> parse_uint mx' n s = Inr k"
  by (induction s arbitrary: n) (auto split: option.splits if_splits)

lemma ParseInt_itoa_beyond:
  assumes "0 < bits" "2 ^ (bits - 1) \<le> n"
  shows "\<exists>e. ParseInt bits (itoa n) = Inl e"
proof (rule ccontr)
  assume "\<not> ?thesis"
  then obtain k where k: "ParseInt bits (itoa n) = Inr k" by (cases "ParseInt bits (itoa n)") auto
  have n: "0 \<le> n" using assms(2) by (metis order_trans zero_le_numeral zero_le_power)
  obtain c cs where d: "dec_nat (nat n) = c # cs" by (meson dec_nat_neq_Nil list.exhaust)
  then have c: "c \<noteq> CHR ''-''" "c \<noteq> CHR ''+''" using dec_nat_hd_digit sign_not_digit by metis+
  from k n d c obtain u where u: "ParseUint bits (dec_nat (nat n)) = Inr u" "k = int u"
    by (auto simp: itoa_def ParseInt_def Let_def split: sum.splits if_splits)
  then have "parse_uint (max (2 ^ bits - 1) (nat n)) 0 (dec_nat (nat n)) = Inr u"
    by (auto simp: ParseUint_def intro: parse_uint_mono)
  then have "u = nat n" by (simp add: parse_uint_dec_nat)
  with u(2) n ParseInt_range [OF k] assms(2) show False by simp
qed

lemma ParseInt_itoa_iff:
  assumes "0 < bits" "0 \<le> n"
  shows "ParseInt bits (itoa n) = Inr n \<longleftrightarrow> n < 2 ^ (bits - 1)"
  using ParseInt_itoa [OF assms(1), of n] ParseInt_itoa_beyond [OF assms(1), of n] assms(2)
  by (metis Inl_Inr_False linorder_not_less neg_le_0_iff_le order_trans zero_le_numeral zero_le_power)

lemma itoa_chars: "c \<in> set (itoa n) \<Longrightarrow> c = CHR ''-'' \<or> digit_val c \<noteq> None"
  by (auto simp: itoa_def dest: digit_val_dec_nat split: if_splits)

lemma dec_nat_inj: "dec_nat m = dec_nat n \<longleftrightarrow> m = n"
proof
  assume eq: "dec_nat m = dec_nat n"
  have "parse_uint (max m n) 0 (dec_nat m) = Inr m"
    and "parse_uint (max m n) 0 (dec_nat n) = Inr n"
    by (simp_all add: parse_uint_dec_nat)
  with eq have "(Inr m :: num_error + nat) = Inr n" by metis
  then show "m = n" by (rule sum.inject(2) [THEN iffD1])
qed simp

lemma itoa_of_nat [simp]: "itoa (int n) = dec_nat n"
  by (simp add: itoa_def)

end
