(* ===== verification/Api_Types.thy ===== *)
theory Api_Types
  imports Go_Prelude
begin

text \<open>
  The data the program exchanges with its client libraries (the Cherry Servers SDK
  \<^verbatim>\<open>cherrygo\<close> and the Kubernetes API), with the fields the source reads or writes, and the
  clients themselves. A client is not code of this repository: it is a record of functions,
  an argument of every definition that calls it, over a type \<open>'w\<close> of the outside world. A
  call takes the world and returns its result and the world after it, so that a statement
  can say which calls happened and in which order. Nothing is assumed of a client here; a
  theorem that needs something states it as a hypothesis.
\<close>

section \<open>Objects of the Cherry Servers API\<close>

record region =
  rg_ID :: int
  rg_Name :: string
  rg_RegionIso2 :: string
  rg_Slug :: string
  rg_BGP_Hosts :: "string list"
  rg_BGP_Asn :: int

record plan =
  pl_ID :: int
  pl_Name :: string
  pl_Slug :: string

record project =
  pj_ID :: int
  pj_Name :: string
  pj_Bgp_Enabled :: bool
  pj_Bgp_LocalASN :: int

record ip_address =
  ip_ID :: string
  ip_Address :: string
  ip_Cidr :: string
  ip_Type :: string
  ip_Tags :: "strmap option"
  ip_TargetedTo :: int

record server =
  srv_ID :: int
  srv_Hostname :: string
  srv_State :: string
  srv_Region :: region
  srv_Plan :: plan
  srv_ProjectID :: int
  srv_IPAddresses :: "ip_address list"
  srv_Tags :: "strmap option"
  srv_BGP_Enabled :: bool

section \<open>Objects of the Kubernetes API\<close>

record node_address =
  na_Type :: string
  na_Address :: string

record node =
  nd_Name :: string
  nd_ProviderID :: string
  nd_Labels :: "strmap option"
  nd_Annotations :: "strmap option"
  nd_Addresses :: "node_address list"
  nd_Unschedulable :: bool
  nd_Deleting :: bool

record service =
  svc_Namespace :: string
  svc_Name :: string
  svc_Annotations :: "strmap option"
  svc_LoadBalancerIP :: string
  svc_TargetPorts :: "int list"

section \<open>The Cherry Servers client\<close>

text \<open>
  \<open>Servers_Get\<close> returns the server, the status code of the HTTP response (\<open>None\<close> when there
  was no response, a nil pointer in Go) and the error. The other calls return an error or a
  value. \<open>Projects_Update\<close> takes the name and the BGP flag of the request, \<open>Servers_Update\<close>
  the tags and the BGP flag, \<open>IPs_Create\<close> the region and the tags, \<open>IPs_Update\<close> the
  \<open>TargetedTo\<close> field.
\<close>

record 'w cherry_client =
  Projects_Get :: "int \<Rightarrow> 'w \<Rightarrow> (go_error + project) \<times> 'w"
  Projects_Update :: "int \<Rightarrow> string \<Rightarrow> bool \<Rightarrow> 'w \<Rightarrow> (go_error + project) \<times> 'w"
  Servers_Get :: "int \<Rightarrow> 'w \<Rightarrow> (server \<times> int option \<times> go_error option) \<times> 'w"
  Servers_List :: "int \<Rightarrow> 'w \<Rightarrow> (go_error + server list) \<times> 'w"
  Servers_Update :: "int \<Rightarrow> strmap option \<Rightarrow> bool \<Rightarrow> 'w \<Rightarrow> (go_error + server) \<times> 'w"
  IPs_List :: "int \<Rightarrow> 'w \<Rightarrow> (go_error + ip_address list) \<times> 'w"
  IPs_Create :: "int \<Rightarrow> string \<Rightarrow> strmap \<Rightarrow> 'w \<Rightarrow> (go_error + ip_address) \<times> 'w"
  IPs_Remove :: "string \<Rightarrow> 'w \<Rightarrow> go_error option \<times> 'w"
  IPs_Update :: "string \<Rightarrow> string \<Rightarrow> 'w \<Rightarrow> go_error option \<times> 'w"

section \<open>The Kubernetes client\<close>

text \<open>
  \<open>Services_Get\<close> takes a namespace and a name and returns a service pointer and an error;
  \<open>Nodes_Patch\<close> takes the node name and the annotations of the merge patch. \<open>Namespaces_Get\<close>
  returns the UID of a namespace, \<open>None\<close> for a nil pointer.
\<close>

record 'w k8s_client =
  Namespaces_Get :: "string \<Rightarrow> 'w \<Rightarrow> (string option \<times> go_error option) \<times> 'w"
  Services_Get :: "string \<Rightarrow> string \<Rightarrow> 'w \<Rightarrow> (service option \<times> go_error option) \<times> 'w"
  Services_Update :: "service \<Rightarrow> 'w \<Rightarrow> go_error option \<times> 'w"
  Nodes_Patch :: "string \<Rightarrow> strmap \<Rightarrow> 'w \<Rightarrow> go_error option \<times> 'w"

end
