(* ===== verification/Samples.thy ===== *)
theory Samples
  imports Api_Types
begin

text \<open>
  Concrete objects and clients on which the witnesses of the theorems with hypotheses are
  evaluated.
\<close>

definition sample_server :: "int \<Rightarrow> server" where
  "sample_server i = \<lparr>srv_ID = i, srv_Hostname = ''node-a'', srv_State = ''active'',
     srv_Region = \<lparr>rg_ID = 1, rg_Name = ''EU-Nord-1'', rg_RegionIso2 = ''LT'', rg_Slug = ''LT-Siauliai'',
       rg_BGP_Hosts = [''10.0.0.1'', ''10.0.0.2''], rg_BGP_Asn = 65000\<rparr>,
     srv_Plan = \<lparr>pl_ID = 1, pl_Name = ''baremetal'', pl_Slug = ''slug-baremetal''\<rparr>, srv_ProjectID = 7,
     srv_IPAddresses =
       [\<lparr>ip_ID = ''a'', ip_Address = ''5.6.7.8'', ip_Cidr = ''5.6.7.8/32'', ip_Type = ''primary-ip'',
         ip_Tags = None, ip_TargetedTo = 0\<rparr>,
        \<lparr>ip_ID = ''b'', ip_Address = ''10.0.0.9'', ip_Cidr = ''10.0.0.0/24'', ip_Type = ''private-ip'',
         ip_Tags = None, ip_TargetedTo = 0\<rparr>],
     srv_Tags = None, srv_BGP_Enabled = True\<rparr>"

definition sample_client :: "unit cherry_client" where
  "sample_client = \<lparr>Projects_Get = (\<lambda>_ w. (Inl (External ''none''), w)),
     Projects_Update = (\<lambda>_ _ _ w. (Inl (External ''none''), w)),
     Servers_Get = (\<lambda>i w. ((sample_server i, Some 200, None), w)),
     Servers_List = (\<lambda>_ w. (Inr [sample_server 1], w)),
     Servers_Update = (\<lambda>_ _ _ w. (Inl (External ''none''), w)),
     IPs_List = (\<lambda>_ w. (Inr [], w)), IPs_Create = (\<lambda>_ _ _ w. (Inl (External ''none''), w)),
     IPs_Remove = (\<lambda>_ w. (None, w)), IPs_Update = (\<lambda>_ _ w. (None, w))\<rparr>"

definition sample_node :: "string \<Rightarrow> string \<Rightarrow> node" where
  "sample_node name pid = \<lparr>nd_Name = name, nd_ProviderID = pid, nd_Labels = None, nd_Annotations = None,
     nd_Addresses = [], nd_Unschedulable = False, nd_Deleting = False\<rparr>"

end
