(* ===== verification/Server_IP.thy ===== *)
theory Server_IP
  imports Samples
begin

text \<open>
  \<^verbatim>\<open>cherry/server_ip.go\<close>: the addresses of a server, sorted into public and private ones, and
  the IPv4 addresses among them. \<^verbatim>\<open>net/netip\<close> is modelled as far as the source uses it:
  \<open>ParseAddr\<close> on dotted decimals, \<open>Is4\<close> and \<open>String\<close>. Which strings with a colon
  \<open>ParseAddr\<close> accepts as IPv6 addresses is the argument \<open>v6\<close>: an accepted one is only ever
  dropped again, and the lemmas here show that no result depends on \<open>v6\<close>.
\<close>

section \<open>Package netip\<close>

datatype addr = Addr4 "8 word" "8 word" "8 word" "8 word" | Addr6 string

definition Is4 :: "addr \<Rightarrow> bool" where
  "Is4 a = (case a of Addr4 _ _ _ _ \<Rightarrow> True | Addr6 _ \<Rightarrow> False)"

definition addr_string :: "addr \<Rightarrow> string" where
  "addr_string a = (case a of
      Addr4 p q r s \<Rightarrow> join_with ''.'' (map (\<lambda>o'. dec_nat (unat o')) [p, q, r, s])
    | Addr6 s \<Rightarrow> s)"

text \<open>One field of a dotted decimal: digits only, no leading zero, at most 255.\<close>

definition parse_octet :: "string \<Rightarrow> 8 word option" where
  "parse_octet s =
     (if 1 < length s \<and> hd s = CHR ''0'' then None
      else if s = [] then None
      else case parse_uint 255 0 s of Inl _ \<Rightarrow> None | Inr n \<Rightarrow> Some (of_nat n))"

definition parse_addr4 :: "string \<Rightarrow> addr option" where
  "parse_addr4 s =
     (case map parse_octet (split_on ''.'' s) of
        [Some p, Some q, Some r, Some t] \<Rightarrow> Some (Addr4 p q r t)
      | _ \<Rightarrow> None)"

text \<open>\<open>ParseAddr\<close> looks for the first dot, colon or percent sign.\<close>

fun first_mark :: "string \<Rightarrow> char option" where
  "first_mark [] = None"
| "first_mark (c # cs) =
     (if c = CHR ''.'' \<or> c = CHR '':'' \<or> c = CHR ''%'' then Some c else first_mark cs)"

definition ParseAddr :: "(string \<Rightarrow> bool) \<Rightarrow> string \<Rightarrow> addr option" where
  "ParseAddr v6 s =
     (if first_mark s = Some (CHR ''.'') then parse_addr4 s
      else if first_mark s = Some (CHR '':'') then (if v6 s then Some (Addr6 s) else None)
      else None)"

section \<open>The addresses of a server\<close>

definition serverPublicIPType :: string where "serverPublicIPType = ''primary-ip''"
definition serverPrivateIPType :: string where "serverPrivateIPType = ''private-ip''"

record serverIPs =
  ips_public :: "addr list"
  ips_private :: "addr list"

text \<open>
  The loop of \<open>ipsFromServer\<close>. The second component counts the addresses that did not parse:
  the joined error is non-nil exactly when there is one, and both callers only log it.
\<close>

fun ips_loop :: "(string \<Rightarrow> bool) \<Rightarrow> ip_address list \<Rightarrow> serverIPs \<times> nat \<Rightarrow> serverIPs \<times> nat" where
  "ips_loop v6 [] acc = acc"
| "ips_loop v6 (ip # ips) (s, errs) =
     (case ParseAddr v6 (ip_Address ip) of
        None \<Rightarrow> ips_loop v6 ips (s, Suc errs)
      | Some a \<Rightarrow>
          if ip_Type ip = serverPublicIPType then ips_loop v6 ips (s\<lparr>ips_public := ips_public s @ [a]\<rparr>, errs)
          else if ip_Type ip = serverPrivateIPType
          then ips_loop v6 ips (s\<lparr>ips_private := ips_private s @ [a]\<rparr>, errs)
          else ips_loop v6 ips (s, errs))"

definition ipsFromServer :: "(string \<Rightarrow> bool) \<Rightarrow> server \<Rightarrow> serverIPs \<times> nat" where
  "ipsFromServer v6 s = ips_loop v6 (srv_IPAddresses s) (\<lparr>ips_public = [], ips_private = []\<rparr>, 0)"

definition anyPublic4 :: "serverIPs \<Rightarrow> go_error + addr" where
  "anyPublic4 s = (case filter Is4 (ips_public s) of
      a # _ \<Rightarrow> Inr a
    | [] \<Rightarrow> Inl (Errorf ''server doesn't have a public IPv4''))"

definition allPublic4 :: "serverIPs \<Rightarrow> addr list" where
  "allPublic4 s = filter Is4 (ips_public s)"

definition allPrivate4 :: "serverIPs \<Rightarrow> addr list" where
  "allPrivate4 s = filter Is4 (ips_private s)"

text \<open>The reference for the three: walk the addresses of one type and keep those that parse as IPv4.\<close>

definition v4_of :: "ip_address \<Rightarrow> addr option" where
  "v4_of ip = (if first_mark (ip_Address ip) = Some (CHR ''.'') then parse_addr4 (ip_Address ip) else None)"

definition v4s_of_type :: "string \<Rightarrow> ip_address list \<Rightarrow> addr list" where
  "v4s_of_type ty ips = List.map_filter (\<lambda>ip. if ip_Type ip = ty then v4_of ip else None) ips"

section \<open>Parsing and printing dotted decimals\<close>

lemma dec_nat_no_dot: "\<not> sublist ''.'' (dec_nat n)"
  using not_digit_notin_dec_nat [of "CHR ''.''" n]
  by (auto simp: sublist_def digit_val_def)



lemma dot_notin_dec_nat [simp]: "CHR ''.'' \<notin> set (dec_nat n)"
  by (rule not_digit_notin_dec_nat) (simp add: digit_val_def)

lemmas split_dot_Cons = split_char_Cons [of "CHR ''.''"]

lemma dec_nat_hd_zero: "1 < length (dec_nat n) \<Longrightarrow> hd (dec_nat n) \<noteq> CHR ''0''"
proof (induction n rule: dec_nat.induct)
  case (1 n)
  show ?case
  proof (cases "n < 10")
    case True
    with "1.prems" show ?thesis by (simp add: dec_nat.simps)
  next
    case False
    show ?thesis
    proof (cases "n div 10 < 10")
      case True
      with False have "0 < n div 10" "hd (dec_nat n) = digit_char (n div 10)"
        by (simp_all add: dec_nat.simps [of n] dec_nat.simps [of "n div 10"])
      moreover have "CHR ''0'' = digit_char 0" by (simp add: digit_char_eval)
      ultimately show ?thesis using True digit_char_inj [of "n div 10" 0] by auto
    next
      case far: False
      then have "1 < length (dec_nat (n div 10))"
        by (subst dec_nat.simps) (simp add: Suc_lessI)
      with False "1.IH" have "hd (dec_nat (n div 10)) \<noteq> CHR ''0''" by simp
      with False show ?thesis by (subst dec_nat.simps) simp
    qed
  qed
qed

lemma parse_octet_dec_nat: "parse_octet (dec_nat (unat o')) = Some o'"
proof -
  have "unat o' < 2 ^ LENGTH(8)" by (rule unsigned_less)
  then show ?thesis
    using dec_nat_hd_zero [of "unat o'"]
    by (auto simp: parse_octet_def parse_uint_dec_nat)
qed

lemma parse_addr4_string: "parse_addr4 (addr_string (Addr4 p q r t)) = Some (Addr4 p q r t)"
  by (simp add: parse_addr4_def addr_string_def split_dot_Cons parse_octet_dec_nat
      split_on_no_occurrence dec_nat_no_dot)

text \<open>What parses as a field is printed back as it was.\<close>

lemma parse_uint_digits:
  "parse_uint mx n s = Inr k \<Longrightarrow> k \<le> mx \<or> (s = [] \<and> k = n)"
  by (induction s arbitrary: n) (fastforce split: option.splits if_splits)+

lemma digit_val_Some: "digit_val c = Some d \<Longrightarrow> d < 10 \<and> c = digit_char d"
proof -
  assume a: "digit_val c = Some d"
  then have "of_char c = (48 + d :: nat)" "d < 10"
    by (auto simp: digit_val_def split: if_splits)
  then show ?thesis
    by (metis char_of_char digit_char_def)
qed

lemma dec_nat_snoc: "0 < n \<Longrightarrow> d < 10 \<Longrightarrow> dec_nat (n * 10 + d) = dec_nat n @ [digit_char d]"
  by (subst dec_nat.simps) simp

lemma parse_uint_print:
  "0 < n \<Longrightarrow> parse_uint mx n s = Inr k \<Longrightarrow> dec_nat k = dec_nat n @ s"
proof (induction s arbitrary: n)
  case Nil
  then show ?case by simp
next
  case (Cons c s)
  then obtain d where d: "digit_val c = Some d" "parse_uint mx (n * 10 + d) s = Inr k"
    by (auto split: option.splits if_splits)
  then have "dec_nat k = dec_nat (n * 10 + d) @ s" using Cons by simp
  with d Cons.prems digit_val_Some [OF d(1)] show ?case by (simp add: dec_nat_snoc)
qed

lemma parse_octet_print: "parse_octet s = Some o' \<Longrightarrow> dec_nat (unat o') = s"
proof -
  assume a: "parse_octet s = Some o'"
  then obtain c cs where s: "s = c # cs" by (cases s) (auto simp: parse_octet_def)
  from a s obtain k where k: "parse_uint 255 0 (c # cs) = Inr k" "o' = of_nat k"
    by (auto simp: parse_octet_def split: sum.splits if_splits)
  then obtain d where d: "digit_val c = Some d" "parse_uint 255 d cs = Inr k"
    by (auto split: option.splits if_splits)
  have "k \<le> 255"
    using parse_uint_digits [OF k(1)] by simp
  then have u: "unat o' = k" using k(2) by (simp add: unsigned_of_nat take_bit_nat_eq_self)
  show ?thesis
  proof (cases "d = 0")
    case True
    with d have "c = CHR ''0''" using digit_val_Some [of c d] by (simp add: digit_char_eval)
    with a s have "cs = []" by (auto simp: parse_octet_def split: if_splits)
    with d True u s show ?thesis using digit_val_Some [of c d] by (simp add: dec_nat.simps)
  next
    case False
    with d have "dec_nat k = dec_nat d @ cs" by (simp add: parse_uint_print)
    with d u s show ?thesis using digit_val_Some [of c d] by (simp add: dec_nat.simps [of d])
  qed
qed

lemma parse_addr4_print: "parse_addr4 s = Some a \<Longrightarrow> Is4 a \<and> addr_string a = s"
proof -
  assume "parse_addr4 s = Some a"
  then obtain p q r t where o': "map parse_octet (split_on ''.'' s) = [Some p, Some q, Some r, Some t]"
    and a: "a = Addr4 p q r t"
    by (auto simp: parse_addr4_def split: list.splits option.splits)
  then obtain x1 x2 x3 x4 where sp: "split_on ''.'' s = [x1, x2, x3, x4]"
    by (auto simp: map_eq_Cons_conv)
  with o' have "join_with ''.'' (map (\<lambda>o'. dec_nat (unat o')) [p, q, r, t]) = join_with ''.'' [x1, x2, x3, x4]"
    by (auto dest!: parse_octet_print)
  with sp join_split [of "''.''" s] a show ?thesis by (simp add: addr_string_def Is4_def)
qed

lemma first_mark_addr_string: "first_mark (addr_string (Addr4 p q r t)) = Some (CHR ''.'')"
proof -
  have "first_mark (b @ CHR ''.'' # a) = Some (CHR ''.'')"
    if "\<forall>c \<in> set b. digit_val c \<noteq> None" for a b
    using that by (induction b) (auto simp: digit_val_def)
  moreover have "\<forall>c \<in> set (dec_nat (unat p)). digit_val c \<noteq> None"
    using digit_val_dec_nat by blast
  ultimately show ?thesis by (simp add: addr_string_def)
qed

lemma ParseAddr_v4_iff:
  "ParseAddr v6 s = Some a \<and> Is4 a \<longleftrightarrow> first_mark s = Some (CHR ''.'') \<and> parse_addr4 s = Some a"
  by (auto simp: ParseAddr_def Is4_def dest: parse_addr4_print split: if_splits addr.splits)

section \<open>The addresses found\<close>

lemma v4_of_ParseAddr:
  "v4_of ip = (case ParseAddr v6 (ip_Address ip) of
     None \<Rightarrow> None | Some a \<Rightarrow> if Is4 a then Some a else None)"
  by (auto simp: v4_of_def ParseAddr_def Is4_def dest!: parse_addr4_print
      split: option.splits addr.splits if_splits)

lemma ips_loop_v4:
  "filter Is4 (ips_public (fst (ips_loop v6 ips (s, e)))) =
     filter Is4 (ips_public s) @ v4s_of_type serverPublicIPType ips \<and>
   filter Is4 (ips_private (fst (ips_loop v6 ips (s, e)))) =
     filter Is4 (ips_private s) @ v4s_of_type serverPrivateIPType ips"
proof (induction ips arbitrary: s e)
  case Nil
  show ?case by (simp add: v4s_of_type_def List.map_filter_def)
next
  case (Cons ip ips)
  have d: "serverPublicIPType \<noteq> serverPrivateIPType"
    by (simp add: serverPublicIPType_def serverPrivateIPType_def)
  show ?case
    using d by (auto simp: Cons.IH v4s_of_type_def List.map_filter_simps v4_of_ParseAddr [of ip v6]
        split: option.splits)
qed

lemma allPublic4_eq:
  "allPublic4 (fst (ipsFromServer v6 s)) = v4s_of_type serverPublicIPType (srv_IPAddresses s)"
  by (simp add: allPublic4_def ipsFromServer_def ips_loop_v4)

lemma allPrivate4_eq:
  "allPrivate4 (fst (ipsFromServer v6 s)) = v4s_of_type serverPrivateIPType (srv_IPAddresses s)"
  by (simp add: allPrivate4_def ipsFromServer_def ips_loop_v4)

lemma anyPublic4_eq:
  "anyPublic4 (fst (ipsFromServer v6 s)) =
     (case v4s_of_type serverPublicIPType (srv_IPAddresses s) of
        a # _ \<Rightarrow> Inr a | [] \<Rightarrow> Inl (Errorf ''server doesn't have a public IPv4''))"
  using allPublic4_eq [of v6 s] by (simp add: anyPublic4_def allPublic4_def)

lemma v4s_of_type_Is4: "a \<in> set (v4s_of_type ty ips) \<Longrightarrow> Is4 a"
  by (induction ips) (auto simp: v4s_of_type_def v4_of_def List.map_filter_simps dest: parse_addr4_print
      split: option.splits if_splits)

end
