(* ===== verification/Instances.thy ===== *)
theory Instances
  imports Server_IP
begin

text \<open>
  \<^verbatim>\<open>cherry/instances.go\<close>: the implementation of \<^verbatim>\<open>cloudprovider.InstancesV2\<close>. A node is tied to
  its server by a provider ID, \<^verbatim>\<open>cherryservers://<server id>\<close> or the bare server id; the
  component reads the server behind a node, whether it exists or is shut down, and its
  metadata. The \<open>instances\<close> struct holds the client and the project, arguments here.
\<close>

section \<open>Provider IDs\<close>

definition ProviderName :: string where "ProviderName = ''cherryservers''"

definition num_error_Err :: "num_error \<Rightarrow> go_error" where
  "num_error_Err e = (case e of ErrSyntax \<Rightarrow> Errorf ''invalid syntax'' | ErrRange \<Rightarrow> Errorf ''value out of range'')"

definition serverIDFromProviderID :: "string \<Rightarrow> go_error + int" where
  "serverIDFromProviderID providerID =
     (let conv = (\<lambda>serverIDString. case Atoi serverIDString of
            Inl e \<Rightarrow> Inl (Wrapf ''error converting serverID from providerID: '' (num_error_Err e))
          | Inr serverID \<Rightarrow> Inr serverID)
      in if providerID = [] then Inl (Errorf ''providerID cannot be empty string'')
      else case split_on ''://'' providerID of
          [p, s] \<Rightarrow>
            if p \<noteq> ProviderName
            then Inl (Errorf (''provider name from providerID should be '' @ ProviderName @ '', was '' @ p))
            else conv s
        | [_] \<Rightarrow> conv providerID
        | _ \<Rightarrow> Inl (Errorf (''unexpected providerID format: '' @ providerID
            @ '', format should be: 'server-id' or 'cherryservers://server-id'')))"

definition providerIDFromServer :: "server \<Rightarrow> string" where
  "providerIDFromServer s = ProviderName @ ''://'' @ itoa (srv_ID s)"

section \<open>Looking servers up\<close>

definition serverByID :: "'w cherry_client \<Rightarrow> int \<Rightarrow> 'w \<Rightarrow> server outcome \<times> 'w" where
  "serverByID c serverID w =
     (case Servers_Get c serverID w of ((srv, resp, err), w') \<Rightarrow>
        (case resp of
           None \<Rightarrow> (Panic, w')
         | Some code \<Rightarrow>
             if code = 404 then (Err InstanceNotFound, w')
             else (case err of Some e \<Rightarrow> (Err e, w') | None \<Rightarrow> (Ok srv, w'))))"

definition serverByName :: "'w cherry_client \<Rightarrow> int \<Rightarrow> string \<Rightarrow> 'w \<Rightarrow> server outcome \<times> 'w" where
  "serverByName c projectID nodeName w =
     (if nodeName = [] then (Err (Errorf ''node name cannot be empty string''), w)
      else case Servers_List c projectID w of
          (Inl e, w') \<Rightarrow> (Err e, w')
        | (Inr servers, w') \<Rightarrow>
            (case find (\<lambda>s. srv_Hostname s = nodeName) servers of
               Some s \<Rightarrow> (Ok s, w')
             | None \<Rightarrow> (Err InstanceNotFound, w')))"

definition serverFromProviderID :: "'w cherry_client \<Rightarrow> string \<Rightarrow> 'w \<Rightarrow> server outcome \<times> 'w" where
  "serverFromProviderID c providerID w =
     (case serverIDFromProviderID providerID of
        Inl e \<Rightarrow> (Err e, w)
      | Inr serverID \<Rightarrow> serverByID c serverID w)"

definition serverByNode :: "'w cherry_client \<Rightarrow> int \<Rightarrow> node \<Rightarrow> 'w \<Rightarrow> server outcome \<times> 'w" where
  "serverByNode c project n w =
     (if nd_ProviderID n \<noteq> [] then serverFromProviderID c (nd_ProviderID n) w
      else serverByName c project (nd_Name n) w)"

section \<open>The InstancesV2 interface\<close>

definition InstanceShutdown :: "'w cherry_client \<Rightarrow> node \<Rightarrow> 'w \<Rightarrow> bool outcome \<times> 'w" where
  "InstanceShutdown c n w =
     (case serverFromProviderID c (nd_ProviderID n) w of
        (Ok s, w') \<Rightarrow> (Ok (srv_State s = ''inactive''), w')
      | (Err e, w') \<Rightarrow> (Err e, w')
      | (Panic, w') \<Rightarrow> (Panic, w'))"

definition InstanceExists :: "'w cherry_client \<Rightarrow> node \<Rightarrow> 'w \<Rightarrow> bool outcome \<times> 'w" where
  "InstanceExists c n w =
     (case serverFromProviderID c (nd_ProviderID n) w of
        (Ok s, w') \<Rightarrow> (Ok True, w')
      | (Err e, w') \<Rightarrow> if errors_Is e InstanceNotFound then (Ok False, w') else (Err e, w')
      | (Panic, w') \<Rightarrow> (Panic, w'))"

record instance_metadata =
  im_ProviderID :: string
  im_InstanceType :: string
  im_NodeAddresses :: "node_address list"
  im_Region :: string

definition NodeHostName :: string where "NodeHostName = ''Hostname''"
definition NodeExternalIP :: string where "NodeExternalIP = ''ExternalIP''"
definition NodeInternalIP :: string where "NodeInternalIP = ''InternalIP''"

definition nodeAddresses :: "(string \<Rightarrow> bool) \<Rightarrow> server \<Rightarrow> go_error + node_address list" where
  "nodeAddresses v6 s =
     (let ips = fst (ipsFromServer v6 s); pub = allPublic4 ips; pri = allPrivate4 ips
      in if length pri < 1 then Inl (Errorf ''could not get at least one private ip'')
      else if length pub < 1 then Inl (Errorf ''could not get at least one public ip'')
      else Inr ([\<lparr>na_Type = NodeHostName, na_Address = srv_Hostname s\<rparr>]
        @ map (\<lambda>ip. \<lparr>na_Type = NodeExternalIP, na_Address = addr_string ip\<rparr>) pub
        @ map (\<lambda>ip. \<lparr>na_Type = NodeInternalIP, na_Address = addr_string ip\<rparr>) pri))"

definition InstanceMetadata ::
  "(string \<Rightarrow> bool) \<Rightarrow> 'w cherry_client \<Rightarrow> int \<Rightarrow> node \<Rightarrow> 'w \<Rightarrow> instance_metadata outcome \<times> 'w" where
  "InstanceMetadata v6 c project n w =
     (case serverByNode c project n w of
        (Err e, w') \<Rightarrow> (Err e, w')
      | (Panic, w') \<Rightarrow> (Panic, w')
      | (Ok s, w') \<Rightarrow>
          (case nodeAddresses v6 s of
             Inl e \<Rightarrow> (Err e, w')
           | Inr addrs \<Rightarrow>
               (Ok \<lparr>im_ProviderID = providerIDFromServer s, im_InstanceType = pl_Slug (srv_Plan s),
                    im_NodeAddresses = addrs, im_Region = rg_Slug (srv_Region s)\<rparr>, w')))"

section \<open>Provider IDs: parsing\<close>

lemma digit_val_colon [simp]: "digit_val (CHR '':'') = None" "digit_val (CHR ''/'') = None"
  by (simp_all add: digit_val_def)

lemma parse_uint_all_digits: "parse_uint mx n s = Inr k \<Longrightarrow> c \<in> set s \<Longrightarrow> digit_val c \<noteq> None"
  by (induction s arbitrary: n) (auto split: option.splits if_splits)

lemma ParseUint_all_digits: "ParseUint bits s = Inr k \<Longrightarrow> c \<in> set s \<Longrightarrow> digit_val c \<noteq> None"
  by (auto simp: ParseUint_def split: if_splits dest: parse_uint_all_digits simp del: parse_uint.simps)

lemma Atoi_chars:
  assumes "Atoi s = Inr n" and "c \<in> set s"
  shows "c = CHR ''-'' \<or> c = CHR ''+'' \<or> digit_val c \<noteq> None"
  using assms
  by (auto simp: Atoi_def ParseInt_def Let_def dest: ParseUint_all_digits
      split: list.splits sum.splits if_splits)

lemma Atoi_nonempty: "Atoi s = Inr n \<Longrightarrow> s \<noteq> []"
  by (auto simp: Atoi_def ParseInt_def)

lemma Atoi_no_scheme: "Atoi s = Inr n \<Longrightarrow> \<not> sublist ''://'' s"
  using Atoi_chars [of s n "CHR '':''"] by (auto simp: sublist_def)

lemma cut_provider:
  "cut ''://'' (ProviderName @ ''://'' @ t) = (ProviderName, Some t)"
  by (simp add: ProviderName_def)

lemma split_provider:
  "\<not> sublist ''://'' t \<Longrightarrow> split_on ''://'' (ProviderName @ ''://'' @ t) = [ProviderName, t]"
  using cut_provider [of t] by (subst split_on.simps) (simp add: split_on_no_occurrence)

lemma split_on_single: "sep \<noteq> [] \<Longrightarrow> split_on sep s = [x] \<Longrightarrow> x = s"
  using join_split [of sep s] by simp

lemma split_on_pair: "sep \<noteq> [] \<Longrightarrow> split_on sep s = [x, y] \<Longrightarrow> s = x @ sep @ y"
  using join_split [of sep s] by simp

lemma serverIDFromProviderID_accepts:
  assumes "Atoi t = Inr n"
  shows "serverIDFromProviderID t = Inr n"
    and "serverIDFromProviderID (ProviderName @ ''://'' @ t) = Inr n"
proof -
  have "split_on ''://'' t = [t]"
    by (rule split_on_no_occurrence) (simp_all add: Atoi_no_scheme [OF assms])
  with assms Atoi_nonempty [OF assms] show "serverIDFromProviderID t = Inr n"
    by (simp add: serverIDFromProviderID_def)
  have "split_on ''://'' (ProviderName @ ''://'' @ t) = [ProviderName, t]"
    by (rule split_provider) (rule Atoi_no_scheme [OF assms])
  moreover have "ProviderName @ ''://'' @ t \<noteq> []" by simp
  ultimately show "serverIDFromProviderID (ProviderName @ ''://'' @ t) = Inr n"
    using assms unfolding serverIDFromProviderID_def Let_def by (simp only: if_False) simp
qed

lemma serverIDFromProviderID_sound:
  assumes "serverIDFromProviderID pid = Inr n"
  shows "\<exists>t. Atoi t = Inr n \<and> (pid = t \<or> pid = ProviderName @ ''://'' @ t)"
proof -
  consider (one) "split_on ''://'' pid = [pid]" "Atoi pid = Inr n"
    | (two) s where "split_on ''://'' pid = [ProviderName, s]" "Atoi s = Inr n"
    using assms split_on_single [of "''://''" pid]
    by (auto simp: serverIDFromProviderID_def Let_def split: if_splits list.splits sum.splits)
  then show ?thesis
  proof cases
    case one
    then show ?thesis by blast
  next
    case two
    then show ?thesis using split_on_pair [of "''://''" pid ProviderName s] by auto
  qed
qed

lemma serverIDFromProviderID_range: "serverIDFromProviderID pid = Inr n \<Longrightarrow> int64_range n"
  using serverIDFromProviderID_sound [of pid n] ParseInt_range [of 64 _ n]
  by (auto simp: Atoi_def)

lemma serverIDFromProviderID_print:
  "int64_range (srv_ID s) \<Longrightarrow> serverIDFromProviderID (providerIDFromServer s) = Inr (srv_ID s)"
  unfolding providerIDFromServer_def by (rule serverIDFromProviderID_accepts(2)) (rule Atoi_itoa)

lemma v4s_of_type_strings:
  "map addr_string (v4s_of_type ty ips) =
     map ip_Address (filter (\<lambda>ip. ip_Type ip = ty \<and> v4_of ip \<noteq> None) ips)"
  by (induction ips)
    (auto simp: v4s_of_type_def List.map_filter_simps v4_of_def dest: parse_addr4_print
      split: option.splits)

section \<open>Properties\<close>

text \<open>C15: The provider ID printed for a server is read back as that server's ID, for every ID a
  Go \<open>int\<close> can hold.\<close>

theorem provider_id_round_trip:
  assumes "int64_range (srv_ID s)"
  shows "serverIDFromProviderID (providerIDFromServer s) = Inr (srv_ID s)"
  using assms by (rule serverIDFromProviderID_print)

theorem provider_id_round_trip_witness:
  "serverIDFromProviderID (providerIDFromServer (sample_server 12345)) = Inr 12345"
  using provider_id_round_trip [of "sample_server 12345"] by (simp add: sample_server_def)

text \<open>C16: \<open>serverIDFromProviderID\<close> accepts exactly the decimal 64-bit integers \<open>strconv.Atoi\<close>
  accepts, bare or after \<^verbatim>\<open>cherryservers://\<close>, and returns their value; everything else (an empty
  string, another provider name, several separators) is an error.\<close>

theorem provider_id_accepted_iff:
  "serverIDFromProviderID pid = Inr n \<longleftrightarrow>
     (\<exists>t. Atoi t = Inr n \<and> (pid = t \<or> pid = ''cherryservers://'' @ t))"
proof -
  have e: "''cherryservers://'' @ t = ProviderName @ ''://'' @ t" for t
    by (simp add: ProviderName_def)
  show ?thesis
    using serverIDFromProviderID_sound [of pid n] serverIDFromProviderID_accepts [of _ n]
    unfolding e by blast
qed

text \<open>C24: The addresses reported for a node are its host name first, then the IPv4 addresses of
  type \<^verbatim>\<open>primary-ip\<close> as external addresses, then those of type \<^verbatim>\<open>private-ip\<close> as internal
  ones, each group non-empty, in the order of the API and written exactly as the API wrote
  them; it does not matter which IPv6 strings parse.\<close>

theorem node_addresses_from_api:
  assumes "nodeAddresses v6 s = Inr addrs"
  defines "of_type \<equiv> \<lambda>ty. map ip_Address
    (filter (\<lambda>ip. ip_Type ip = ty \<and> v4_of ip \<noteq> None) (srv_IPAddresses s))"
  shows "addrs = \<lparr>na_Type = ''Hostname'', na_Address = srv_Hostname s\<rparr>
      # map (\<lambda>a. \<lparr>na_Type = ''ExternalIP'', na_Address = a\<rparr>) (of_type ''primary-ip'')
      @ map (\<lambda>a. \<lparr>na_Type = ''InternalIP'', na_Address = a\<rparr>) (of_type ''private-ip'')
    \<and> of_type ''primary-ip'' \<noteq> [] \<and> of_type ''private-ip'' \<noteq> []"
proof -
  have m: "map (\<lambda>ip. \<lparr>na_Type = t, na_Address = addr_string ip\<rparr>) xs
      = map (\<lambda>a. \<lparr>na_Type = t, na_Address = a\<rparr>) (map addr_string xs)" for t xs
    by simp
  have e: "v4s_of_type ty ips = [] \<longleftrightarrow> map addr_string (v4s_of_type ty ips) = []" for ty ips
    by simp
  from assms(1) show ?thesis
    by (simp add: nodeAddresses_def Let_def allPublic4_eq allPrivate4_eq m e v4s_of_type_strings of_type_def
        serverPublicIPType_def serverPrivateIPType_def NodeHostName_def NodeExternalIP_def
        NodeInternalIP_def less_Suc_eq split: if_splits del: map_map map_is_Nil_conv)
qed

theorem node_addresses_from_api_witness:
  "nodeAddresses (\<lambda>_. False) (sample_server 3) =
     Inr [\<lparr>na_Type = ''Hostname'', na_Address = ''node-a''\<rparr>,
          \<lparr>na_Type = ''ExternalIP'', na_Address = ''5.6.7.8''\<rparr>,
          \<lparr>na_Type = ''InternalIP'', na_Address = ''10.0.0.9''\<rparr>]"
proof -
  have p: "parse_addr4 ''5.6.7.8'' = Some (Addr4 5 6 7 8)" "parse_addr4 ''10.0.0.9'' = Some (Addr4 10 0 0 9)"
    by code_simp+
  have v: "\<exists>addrs. nodeAddresses (\<lambda>_. False) (sample_server 3) = Inr addrs"
    by (simp add: nodeAddresses_def Let_def allPublic4_eq allPrivate4_eq sample_server_def
        v4s_of_type_def v4_of_def List.map_filter_simps p serverPublicIPType_def serverPrivateIPType_def)
  then obtain addrs where "nodeAddresses (\<lambda>_. False) (sample_server 3) = Inr addrs" ..
  with node_addresses_from_api [OF this] p show ?thesis
    by (simp add: sample_server_def v4_of_def)
qed

text \<open>When the API returns the server that was asked for, the metadata of a node that has a
  provider ID names the same server ID as that provider ID did.\<close>

theorem instance_metadata_keeps_server_id:
  assumes get: "\<And>i w s r w'. Servers_Get c i w = ((s, r, None), w') \<Longrightarrow> srv_ID s = i"
    and pid: "nd_ProviderID n \<noteq> []"
    and md: "InstanceMetadata v6 c project n w = (Ok md, w')"
  shows "serverIDFromProviderID (im_ProviderID md) = serverIDFromProviderID (nd_ProviderID n)"
proof -
  obtain i s r where i: "serverIDFromProviderID (nd_ProviderID n) = Inr i"
    and s: "Servers_Get c i w = ((s, r, None), w')" and m: "im_ProviderID md = providerIDFromServer s"
    using md pid
    by (auto simp: InstanceMetadata_def serverByNode_def serverFromProviderID_def serverByID_def
        split: sum.splits outcome.splits prod.splits option.splits if_splits)
  from get [OF s] serverIDFromProviderID_range [OF i] have "int64_range (srv_ID s)" by simp
  with i m get [OF s] show ?thesis by (simp add: serverIDFromProviderID_print)
qed

theorem instance_metadata_keeps_server_id_witness:
  "\<exists>md. InstanceMetadata (\<lambda>_. False) sample_client 7 (sample_node ''node-a'' ''42'') () = (Ok md, ())
     \<and> serverIDFromProviderID (im_ProviderID md) = serverIDFromProviderID ''42''"
proof -
  let ?n = "sample_node ''node-a'' ''42''"
  have n: "nd_ProviderID ?n = ''42''" by (simp add: sample_node_def)
  have p: "parse_addr4 ''5.6.7.8'' = Some (Addr4 5 6 7 8)" "parse_addr4 ''10.0.0.9'' = Some (Addr4 10 0 0 9)"
    by code_simp+
  have a: "\<exists>addrs. nodeAddresses (\<lambda>_. False) (sample_server 42) = Inr addrs"
    by (simp add: nodeAddresses_def Let_def allPublic4_eq allPrivate4_eq sample_server_def
        v4s_of_type_def v4_of_def List.map_filter_simps p serverPublicIPType_def serverPrivateIPType_def)
  have "''42'' = itoa 42" by (simp add: print_eval)
  then have i: "serverIDFromProviderID ''42'' = Inr 42"
    by (simp add: serverIDFromProviderID_accepts(1) Atoi_itoa)
  have g: "\<And>i w s r w'. Servers_Get sample_client i w = ((s, r, None), w') \<Longrightarrow> srv_ID s = i"
    by (auto simp: sample_client_def sample_server_def)
  from a obtain addrs where "nodeAddresses (\<lambda>_. False) (sample_server 42) = Inr addrs" ..
  with i n have "\<exists>md. InstanceMetadata (\<lambda>_. False) sample_client 7 ?n () = (Ok md, ())"
    by (simp add: InstanceMetadata_def serverByNode_def serverFromProviderID_def serverByID_def sample_client_def)
  then obtain md where md: "InstanceMetadata (\<lambda>_. False) sample_client 7 ?n () = (Ok md, ())" ..
  have "nd_ProviderID ?n \<noteq> []" by (simp add: n)
  from instance_metadata_keeps_server_id [OF g this md] md n show ?thesis by auto
qed

text \<open>\<open>InstanceExists\<close> answers false exactly when the lookup ends in \<open>InstanceNotFound\<close> (a 404,
  or an API error that is it), so it never returns that error itself, while
  \<open>InstanceShutdown\<close> passes it on; a lookup with no HTTP response at all is a nil
  dereference in both.\<close>

theorem instance_exists_and_shutdown_outcomes:
  assumes "serverIDFromProviderID (nd_ProviderID n) = Inr i"
    and "Servers_Get c i w = ((s, resp, err), w')"
  shows "InstanceExists c n w =
      (if resp = None then Panic
       else if resp = Some 404 \<or> (\<exists>e. err = Some e \<and> errors_Is e InstanceNotFound) then Ok False
       else case err of None \<Rightarrow> Ok True | Some e \<Rightarrow> Err e, w')
    \<and> InstanceShutdown c n w =
      (if resp = None then Panic
       else if resp = Some 404 then Err InstanceNotFound
       else case err of None \<Rightarrow> Ok (srv_State s = ''inactive'') | Some e \<Rightarrow> Err e, w')"
  using assms
  by (auto simp: InstanceExists_def InstanceShutdown_def serverFromProviderID_def serverByID_def
      split: option.splits)

theorem instance_exists_and_shutdown_outcomes_witness:
  "InstanceExists sample_client (sample_node ''node-a'' ''42'') () = (Ok True, ())"
proof -
  have "''42'' = itoa 42" by (simp add: print_eval)
  then have i: "serverIDFromProviderID (nd_ProviderID (sample_node ''node-a'' ''42'')) = Inr 42"
    by (simp add: sample_node_def serverIDFromProviderID_accepts(1) Atoi_itoa)
  have g: "Servers_Get sample_client 42 () = ((sample_server 42, Some 200, None), ())"
    by (simp add: sample_client_def)
  show ?thesis using instance_exists_and_shutdown_outcomes [OF i g] by simp
qed

end
