(* ===== verification/Provider_Config.thy ===== *)
theory Provider_Config
  imports Instances
begin

text \<open>
  \<^verbatim>\<open>cherry/config.go\<close> and \<^verbatim>\<open>cherry/constants.go\<close>: the configuration of the provider, from the
  environment and the JSON file handed to it. The environment is a function from names to
  values with the empty string for an unset variable, as \<open>os.Getenv\<close> reads it; the bytes read,
  what \<open>json.Unmarshal\<close> makes of them and \<open>labels.Parse\<close> are arguments.
\<close>

section \<open>Names and defaults\<close>

definition apiKeyName :: string where "apiKeyName = ''CHERRY_API_KEY''"
definition projectIDName :: string where "projectIDName = ''CHERRY_PROJECT_ID''"
definition regionName :: string where "regionName = ''CHERRY_REGION_NAME''"
definition loadBalancerSettingName :: string where "loadBalancerSettingName = ''CHERRY_LOAD_BALANCER''"
definition envVarAnnotationLocalASN :: string where "envVarAnnotationLocalASN = ''CHERRY_ANNOTATION_LOCAL_ASN''"
definition envVarAnnotationPeerASN :: string where "envVarAnnotationPeerASN = ''CHERRY_ANNOTATION_PEER_ASN''"
definition envVarAnnotationPeerIP :: string where "envVarAnnotationPeerIP = ''CHERRY_ANNOTATION_PEER_IP''"
definition envVarAnnotationSrcIP :: string where "envVarAnnotationSrcIP = ''CHERRY_ANNOTATION_SRC_IP''"
definition envVarAnnotationFIPRegion :: string where "envVarAnnotationFIPRegion = ''CHERRY_ANNOTATION_FIP_REGION''"
definition envVarAnnotationMultiHop :: string where "envVarAnnotationMultiHop = ''CHERRY_ANNOTATION_MULTI_HOP''"
definition envVarFIPTag :: string where "envVarFIPTag = ''CHERRY_FIP_TAG''"
definition envVarAPIServerPort :: string where "envVarAPIServerPort = ''CHERRY_API_SERVER_PORT''"
definition envVarBGPNodeSelector :: string where "envVarBGPNodeSelector = ''CHERRY_BGP_NODE_SELECTOR''"
definition envVarFIPHealthCheckUseHostIP :: string where
  "envVarFIPHealthCheckUseHostIP = ''CHERRY_FIP_HEALTH_CHECK_USE_HOST_IP''"

definition DefaultAnnotationNodeASN :: string where
  "DefaultAnnotationNodeASN = ''cherryservers.com/bgp-peers-{{n}}-node-asn''"
definition DefaultAnnotationPeerASN :: string where
  "DefaultAnnotationPeerASN = ''cherryservers.com/bgp-peers-{{n}}-peer-asn''"
definition DefaultAnnotationPeerIP :: string where
  "DefaultAnnotationPeerIP = ''cherryservers.com/bgp-peers-{{n}}-peer-ip''"
definition DefaultAnnotationSrcIP :: string where
  "DefaultAnnotationSrcIP = ''cherryservers.com/bgp-peers-{{n}}-src-ip''"
definition DefaultAnnotationFIPRegion :: string where
  "DefaultAnnotationFIPRegion = ''cherryservers.com/fip-region''"
definition DefaultAnnotationMultiHop :: string where
  "DefaultAnnotationMultiHop = ''cherryservers.com/bgp-peers-{{n}}-peer-multi-hop''"

section \<open>The configuration\<close>

record Config =
  AuthToken :: string
  ProjectID :: int
  BaseURL :: "string option"
  LoadBalancerSetting :: string
  Region :: string
  AnnotationLocalASN :: string
  AnnotationPeerASN :: string
  AnnotationPeerIP :: string
  AnnotationSrcIP :: string
  AnnotationFIPRegion :: string
  AnnotationMultiHop :: string
  FIPTag :: string
  APIServerPort :: int
  BGPNodeSelector :: string
  FIPHealthCheckUseHostIP :: bool

text \<open>The zero value of the struct, which \<open>var config Config\<close> starts from.\<close>

definition zero_Config :: Config where
  "zero_Config = \<lparr>AuthToken = '''', ProjectID = 0, BaseURL = None, LoadBalancerSetting = '''', Region = '''',
     AnnotationLocalASN = '''', AnnotationPeerASN = '''', AnnotationPeerIP = '''', AnnotationSrcIP = '''',
     AnnotationFIPRegion = '''', AnnotationMultiHop = '''', FIPTag = '''', APIServerPort = 0,
     BGPNodeSelector = '''', FIPHealthCheckUseHostIP = False\<rparr>"

definition Config_Strings :: "Config \<Rightarrow> string list" where
  "Config_Strings c =
     [if AuthToken c \<noteq> '''' then ''authToken: '' @ [CHR 0x27] @ ''<masked>'' @ [CHR 0x27]
      else ''authToken: '' @ [CHR 0x27, CHR 0x27],
      ''projectID: '' @ [CHR 0x27] @ itoa (ProjectID c) @ [CHR 0x27],
      if LoadBalancerSetting c = '''' then ''loadbalancer config: disabled''
      else ''load balancer config: '' @ [CHR 0x27, CHR 0x27] @ LoadBalancerSetting c,
      ''region: '' @ [CHR 0x27] @ Region c @ [CHR 0x27],
      ''Floating IP Tag: '' @ [CHR 0x27] @ FIPTag c @ [CHR 0x27],
      ''API Server Port: '' @ [CHR 0x27] @ itoa (APIServerPort c) @ [CHR 0x27],
      ''BGP Node Selector: '' @ [CHR 0x27] @ BGPNodeSelector c @ [CHR 0x27]]"

text \<open>
  \<open>getConfig\<close>, in the order of the source; the part that sets the six annotation names is a
  definition of its own, as is the port. The Go function returns the half-built
  configuration beside an error; its only caller drops it, so the model returns the error
  alone.
\<close>

definition config_annotations :: "(string \<Rightarrow> string) \<Rightarrow> Config \<Rightarrow> Config" where
  "config_annotations getenv config =
     (let config = config\<lparr>AnnotationLocalASN := DefaultAnnotationNodeASN\<rparr>;
          config = (if getenv envVarAnnotationLocalASN \<noteq> ''''
            then config\<lparr>AnnotationLocalASN := getenv envVarAnnotationLocalASN\<rparr> else config);
          config = config\<lparr>AnnotationPeerASN := DefaultAnnotationPeerASN\<rparr>;
          config = (if getenv envVarAnnotationPeerASN \<noteq> ''''
            then config\<lparr>AnnotationPeerASN := getenv envVarAnnotationPeerASN\<rparr> else config);
          config = config\<lparr>AnnotationPeerIP := DefaultAnnotationPeerIP\<rparr>;
          config = (if getenv envVarAnnotationPeerIP \<noteq> ''''
            then config\<lparr>AnnotationPeerIP := getenv envVarAnnotationPeerIP\<rparr> else config);
          config = config\<lparr>AnnotationSrcIP := DefaultAnnotationSrcIP\<rparr>;
          config = (if getenv envVarAnnotationSrcIP \<noteq> ''''
            then config\<lparr>AnnotationSrcIP := getenv envVarAnnotationSrcIP\<rparr> else config);
          config = config\<lparr>AnnotationFIPRegion := DefaultAnnotationFIPRegion\<rparr>;
          config = (if getenv envVarAnnotationFIPRegion \<noteq> ''''
            then config\<lparr>AnnotationFIPRegion := getenv envVarAnnotationFIPRegion\<rparr> else config);
          config = config\<lparr>AnnotationMultiHop := DefaultAnnotationMultiHop\<rparr>;
          config = (if getenv envVarAnnotationMultiHop \<noteq> ''''
            then config\<lparr>AnnotationMultiHop := getenv envVarAnnotationMultiHop\<rparr> else config)
      in config)"

definition config_port :: "(string \<Rightarrow> string) \<Rightarrow> Config \<Rightarrow> num_error + int" where
  "config_port getenv rawConfig =
     (if getenv envVarAPIServerPort \<noteq> '''' then ParseInt 32 (getenv envVarAPIServerPort)
      else if APIServerPort rawConfig \<noteq> 0 then Inr (APIServerPort rawConfig)
      else Inr 0)"

definition getConfig ::
  "(string \<Rightarrow> go_error option) \<Rightarrow> (string \<Rightarrow> go_error + Config) \<Rightarrow> (string \<Rightarrow> string)
   \<Rightarrow> go_error + string \<Rightarrow> go_error + Config" where
  "getConfig labels_Parse unmarshal getenv readAll =
     (case readAll of Inl e \<Rightarrow> Inl (Wrapf ''failed to read configuration : '' e) | Inr configBytes \<Rightarrow>
      (case unmarshal configBytes of
         Inl e \<Rightarrow> Inl (Wrapf ''failed to process json of configuration file at path: '' e)
       | Inr rawConfig \<Rightarrow>
      let apiToken = (if getenv apiKeyName = '''' then AuthToken rawConfig else getenv apiKeyName);
          config = zero_Config\<lparr>AuthToken := apiToken\<rparr>;
          projectID = (if getenv projectIDName = '''' then itoa (ProjectID rawConfig) else getenv projectIDName)
      in case ParseInt 32 projectID of
           Inl e \<Rightarrow> Inl (Errorf (''project ID must be a valid integer: '' @ error_text (num_error_Err e)))
         | Inr projID \<Rightarrow>
      let config = config\<lparr>ProjectID := projID\<rparr>;
          config = config\<lparr>LoadBalancerSetting := LoadBalancerSetting rawConfig\<rparr>;
          config = (if getenv loadBalancerSettingName \<noteq> ''''
            then config\<lparr>LoadBalancerSetting := getenv loadBalancerSettingName\<rparr> else config);
          region = (if getenv regionName = '''' then Region rawConfig else getenv regionName)
      in if apiToken = '''' then Inl (Errorf (''environment variable '' @ apiKeyName @ '' is required''))
      else if projectID = '''' then Inl (Errorf (''environment variable '' @ projectIDName @ '' is required''))
      else
      let config = config_annotations getenv (config\<lparr>Region := region\<rparr>);
          config = (if FIPTag rawConfig \<noteq> '''' then config\<lparr>FIPTag := FIPTag rawConfig\<rparr> else config);
          config = (if getenv envVarFIPTag \<noteq> '''' then config\<lparr>FIPTag := getenv envVarFIPTag\<rparr> else config)
      in case config_port getenv rawConfig of
           Inl e \<Rightarrow> Inl (Wrapf (''env var '' @ envVarAPIServerPort @ '' must be a number, was ''
                      @ getenv envVarAPIServerPort @ '': '') (num_error_Err e))
         | Inr apiServerNo \<Rightarrow>
      let config = config\<lparr>APIServerPort := apiServerNo\<rparr>;
          config = config\<lparr>BGPNodeSelector := BGPNodeSelector rawConfig\<rparr>;
          config = (if getenv envVarBGPNodeSelector \<noteq> ''''
            then config\<lparr>BGPNodeSelector := getenv envVarBGPNodeSelector\<rparr> else config)
      in case labels_Parse (BGPNodeSelector config) of
           Some e \<Rightarrow> Inl (Wrapf ''BGP Node Selector must be valid Kubernetes selector: '' e)
         | None \<Rightarrow>
      let config = config\<lparr>FIPHealthCheckUseHostIP := FIPHealthCheckUseHostIP rawConfig\<rparr>
      in if getenv envVarFIPHealthCheckUseHostIP \<noteq> '''' then
           (case ParseBool (getenv envVarFIPHealthCheckUseHostIP) of
              Inl e \<Rightarrow> Inl (Wrapf (''env var '' @ envVarFIPHealthCheckUseHostIP @ '' must be a boolean, was ''
                         @ getenv envVarFIPHealthCheckUseHostIP @ '': '') (num_error_Err e))
            | Inr useHostIP \<Rightarrow> Inr (config\<lparr>FIPHealthCheckUseHostIP := useHostIP\<rparr>))
         else Inr config))"

text \<open>The value of an option that the environment overrides.\<close>

definition env_or :: "(string \<Rightarrow> string) \<Rightarrow> string \<Rightarrow> string \<Rightarrow> string" where
  "env_or getenv name fallback = (if getenv name = '''' then fallback else getenv name)"

text \<open>The configuration that comes out when every check passes, as one record.\<close>

definition effective_config :: "(string \<Rightarrow> string) \<Rightarrow> Config \<Rightarrow> int \<Rightarrow> int \<Rightarrow> bool \<Rightarrow> Config" where
  "effective_config getenv raw pid port host =
     \<lparr>AuthToken = env_or getenv apiKeyName (AuthToken raw), ProjectID = pid, BaseURL = None,
      LoadBalancerSetting = env_or getenv loadBalancerSettingName (LoadBalancerSetting raw),
      Region = env_or getenv regionName (Region raw),
      AnnotationLocalASN = env_or getenv envVarAnnotationLocalASN DefaultAnnotationNodeASN,
      AnnotationPeerASN = env_or getenv envVarAnnotationPeerASN DefaultAnnotationPeerASN,
      AnnotationPeerIP = env_or getenv envVarAnnotationPeerIP DefaultAnnotationPeerIP,
      AnnotationSrcIP = env_or getenv envVarAnnotationSrcIP DefaultAnnotationSrcIP,
      AnnotationFIPRegion = env_or getenv envVarAnnotationFIPRegion DefaultAnnotationFIPRegion,
      AnnotationMultiHop = env_or getenv envVarAnnotationMultiHop DefaultAnnotationMultiHop,
      FIPTag = env_or getenv envVarFIPTag (FIPTag raw), APIServerPort = port,
      BGPNodeSelector = env_or getenv envVarBGPNodeSelector (BGPNodeSelector raw),
      FIPHealthCheckUseHostIP = host\<rparr>"

text \<open>A file and an environment for the witnesses.\<close>

definition sample_raw_config :: Config where
  "sample_raw_config = zero_Config\<lparr>AuthToken := ''secret'', ProjectID := 87553, FIPTag := ''role=cp''\<rparr>"

definition sample_env :: "string \<Rightarrow> string" where
  "sample_env = (\<lambda>_. '''')(regionName := ''EU-Nord-1'')"

section \<open>Properties\<close>

lemma itoa_neq_Nil [simp]: "itoa n \<noteq> []"
  by (simp add: itoa_def)

lemma ParseInt_neq_Nil: "ParseInt b s = Inr n \<Longrightarrow> s \<noteq> []"
  by (auto simp: ParseInt_def)

text \<open>One rewrite rule per overridable setting, so that no proof splits on them.\<close>

lemma env_override:
  "(if getenv v \<noteq> '''' then c\<lparr>LoadBalancerSetting := getenv v\<rparr> else c)
     = c\<lparr>LoadBalancerSetting := env_or getenv v (LoadBalancerSetting c)\<rparr>"
  "(if getenv v \<noteq> '''' then c\<lparr>AnnotationLocalASN := getenv v\<rparr> else c)
     = c\<lparr>AnnotationLocalASN := env_or getenv v (AnnotationLocalASN c)\<rparr>"
  "(if getenv v \<noteq> '''' then c\<lparr>AnnotationPeerASN := getenv v\<rparr> else c)
     = c\<lparr>AnnotationPeerASN := env_or getenv v (AnnotationPeerASN c)\<rparr>"
  "(if getenv v \<noteq> '''' then c\<lparr>AnnotationPeerIP := getenv v\<rparr> else c)
     = c\<lparr>AnnotationPeerIP := env_or getenv v (AnnotationPeerIP c)\<rparr>"
  "(if getenv v \<noteq> '''' then c\<lparr>AnnotationSrcIP := getenv v\<rparr> else c)
     = c\<lparr>AnnotationSrcIP := env_or getenv v (AnnotationSrcIP c)\<rparr>"
  "(if getenv v \<noteq> '''' then c\<lparr>AnnotationFIPRegion := getenv v\<rparr> else c)
     = c\<lparr>AnnotationFIPRegion := env_or getenv v (AnnotationFIPRegion c)\<rparr>"
  "(if getenv v \<noteq> '''' then c\<lparr>AnnotationMultiHop := getenv v\<rparr> else c)
     = c\<lparr>AnnotationMultiHop := env_or getenv v (AnnotationMultiHop c)\<rparr>"
  "(if getenv v \<noteq> '''' then c\<lparr>FIPTag := getenv v\<rparr> else c)
     = c\<lparr>FIPTag := env_or getenv v (FIPTag c)\<rparr>"
  "(if getenv v \<noteq> '''' then c\<lparr>BGPNodeSelector := getenv v\<rparr> else c)
     = c\<lparr>BGPNodeSelector := env_or getenv v (BGPNodeSelector c)\<rparr>"
  "(if t \<noteq> '''' then c\<lparr>FIPTag := t\<rparr> else c)
     = c\<lparr>FIPTag := (if t \<noteq> '''' then t else FIPTag c)\<rparr>"
  "(if getenv v = '''' then f else getenv v) = env_or getenv v f"
  by (simp_all add: env_or_def)

lemma config_annotations_eq:
  "config_annotations getenv c = c\<lparr>
     AnnotationLocalASN := env_or getenv envVarAnnotationLocalASN DefaultAnnotationNodeASN,
     AnnotationPeerASN := env_or getenv envVarAnnotationPeerASN DefaultAnnotationPeerASN,
     AnnotationPeerIP := env_or getenv envVarAnnotationPeerIP DefaultAnnotationPeerIP,
     AnnotationSrcIP := env_or getenv envVarAnnotationSrcIP DefaultAnnotationSrcIP,
     AnnotationFIPRegion := env_or getenv envVarAnnotationFIPRegion DefaultAnnotationFIPRegion,
     AnnotationMultiHop := env_or getenv envVarAnnotationMultiHop DefaultAnnotationMultiHop\<rparr>"
  unfolding config_annotations_def by (simp only: env_override) (simp add: Let_def)

lemma config_port_eq:
  "config_port getenv raw = (if getenv envVarAPIServerPort = '''' then Inr (APIServerPort raw)
     else ParseInt 32 (getenv envVarAPIServerPort))"
  by (simp add: config_port_def)

lemmas env_names = apiKeyName_def projectIDName_def regionName_def loadBalancerSettingName_def
  envVarAnnotationLocalASN_def envVarAnnotationPeerASN_def envVarAnnotationPeerIP_def
  envVarAnnotationSrcIP_def envVarAnnotationFIPRegion_def envVarAnnotationMultiHop_def
  envVarFIPTag_def envVarAPIServerPort_def envVarBGPNodeSelector_def envVarFIPHealthCheckUseHostIP_def

text \<open>
  The checks one after the other, with the configuration of the end in place of the
  half-built ones.
\<close>

lemma getConfig_run:
  "getConfig labels_Parse (\<lambda>_. Inr raw) getenv (Inr bytes) =
     (case ParseInt 32 (env_or getenv projectIDName (itoa (ProjectID raw))) of
        Inl e \<Rightarrow> Inl (Errorf (''project ID must be a valid integer: '' @ error_text (num_error_Err e)))
      | Inr pid \<Rightarrow>
          if env_or getenv apiKeyName (AuthToken raw) = ''''
          then Inl (Errorf (''environment variable '' @ apiKeyName @ '' is required''))
          else case config_port getenv raw of
              Inl e \<Rightarrow> Inl (Wrapf (''env var '' @ envVarAPIServerPort @ '' must be a number, was ''
                @ getenv envVarAPIServerPort @ '': '') (num_error_Err e))
            | Inr port \<Rightarrow>
                (case labels_Parse (env_or getenv envVarBGPNodeSelector (BGPNodeSelector raw)) of
                   Some e \<Rightarrow> Inl (Wrapf ''BGP Node Selector must be valid Kubernetes selector: '' e)
                 | None \<Rightarrow>
                     if getenv envVarFIPHealthCheckUseHostIP \<noteq> ''''
                     then (case ParseBool (getenv envVarFIPHealthCheckUseHostIP) of
                         Inl e \<Rightarrow> Inl (Wrapf (''env var '' @ envVarFIPHealthCheckUseHostIP
                           @ '' must be a boolean, was '' @ getenv envVarFIPHealthCheckUseHostIP @ '': '')
                           (num_error_Err e))
                       | Inr host \<Rightarrow> Inr (effective_config getenv raw pid port host))
                     else Inr (effective_config getenv raw pid port (FIPHealthCheckUseHostIP raw))))"
proof -
  have pid: "env_or getenv projectIDName (itoa (ProjectID raw)) \<noteq> ''''"
    by (simp add: env_or_def)
  have tag: "(if t \<noteq> '''' then t else '''') = t" for t :: string by simp
  show ?thesis
    unfolding getConfig_def
    by (simp only: env_override sum.case)
      (simp add: pid Let_def tag config_annotations_eq zero_Config_def effective_config_def
        cong: sum.case_cong option.case_cong if_cong)
qed


lemma getConfig_Inr:
  assumes "getConfig labels_Parse (\<lambda>_. Inr raw) getenv (Inr bytes) = Inr c"
  obtains pid port host where "c = effective_config getenv raw pid port host"
    and "ParseInt 32 (env_or getenv projectIDName (itoa (ProjectID raw))) = Inr pid"
    and "config_port getenv raw = Inr port"
    and "host = (if getenv envVarFIPHealthCheckUseHostIP = '''' then FIPHealthCheckUseHostIP raw
           else projr (ParseBool (getenv envVarFIPHealthCheckUseHostIP)))"
    and "AuthToken c \<noteq> ''''" and "labels_Parse (BGPNodeSelector c) = None"
proof -
  let ?pid = "ParseInt 32 (env_or getenv projectIDName (itoa (ProjectID raw)))"
  let ?bool = "ParseBool (getenv envVarFIPHealthCheckUseHostIP)"
  obtain pid port where "?pid = Inr pid" "config_port getenv raw = Inr port"
    using assms by (simp add: getConfig_run split: sum.splits if_splits)
  with assms that show thesis
    by (cases ?bool) (fastforce simp: getConfig_run effective_config_def simp del: append_Cons
        split: option.splits if_splits)+
qed

text \<open>C18: The precedence of the configuration: the token, the project, the load balancer setting,
  the region, the tag, the port, the node selector and the health check switch are those of the
  environment where it has them and those of the file otherwise, and so are the six annotation
  names where the environment has them. A configuration is only produced with a token, a
  project ID and an API server port that fit in 32 bits, and a selector that parses.\<close>

theorem config_precedence:
  assumes "getConfig labels_Parse (\<lambda>_. Inr raw) getenv (Inr bytes) = Inr c"
    and "int32_range (APIServerPort raw)"
  shows "AuthToken c = env_or getenv ''CHERRY_API_KEY'' (AuthToken raw)
    \<and> ParseInt 32 (env_or getenv ''CHERRY_PROJECT_ID'' (itoa (ProjectID raw))) = Inr (ProjectID c)
    \<and> LoadBalancerSetting c = env_or getenv ''CHERRY_LOAD_BALANCER'' (LoadBalancerSetting raw)
    \<and> Region c = env_or getenv ''CHERRY_REGION_NAME'' (Region raw)
    \<and> FIPTag c = env_or getenv ''CHERRY_FIP_TAG'' (FIPTag raw)
    \<and> (if getenv ''CHERRY_API_SERVER_PORT'' = '''' then APIServerPort c = APIServerPort raw
       else ParseInt 32 (getenv ''CHERRY_API_SERVER_PORT'') = Inr (APIServerPort c))
    \<and> BGPNodeSelector c = env_or getenv ''CHERRY_BGP_NODE_SELECTOR'' (BGPNodeSelector raw)
    \<and> FIPHealthCheckUseHostIP c =
        (if getenv ''CHERRY_FIP_HEALTH_CHECK_USE_HOST_IP'' = '''' then FIPHealthCheckUseHostIP raw
         else projr (ParseBool (getenv ''CHERRY_FIP_HEALTH_CHECK_USE_HOST_IP'')))
    \<and> (\<forall>(name, annotation) \<in> {(''CHERRY_ANNOTATION_LOCAL_ASN'', AnnotationLocalASN c),
         (''CHERRY_ANNOTATION_PEER_ASN'', AnnotationPeerASN c), (''CHERRY_ANNOTATION_PEER_IP'', AnnotationPeerIP c),
         (''CHERRY_ANNOTATION_SRC_IP'', AnnotationSrcIP c), (''CHERRY_ANNOTATION_FIP_REGION'', AnnotationFIPRegion c),
         (''CHERRY_ANNOTATION_MULTI_HOP'', AnnotationMultiHop c)}. getenv name \<noteq> '''' \<longrightarrow> annotation = getenv name)
    \<and> AuthToken c \<noteq> '''' \<and> int32_range (ProjectID c) \<and> int32_range (APIServerPort c)
    \<and> labels_Parse (BGPNodeSelector c) = None"
proof -
  obtain pid port host where c: "c = effective_config getenv raw pid port host"
    and pid: "ParseInt 32 (env_or getenv projectIDName (itoa (ProjectID raw))) = Inr pid"
    and port: "config_port getenv raw = Inr port"
    and host: "host = (if getenv envVarFIPHealthCheckUseHostIP = '''' then FIPHealthCheckUseHostIP raw
           else projr (ParseBool (getenv envVarFIPHealthCheckUseHostIP)))"
    and ok: "AuthToken c \<noteq> ''''" "labels_Parse (BGPNodeSelector c) = None"
    using getConfig_Inr [OF assms(1)] by metis
  have r: "int32_range pid" using ParseInt_range [OF pid] by simp
  have "int32_range port"
    using port assms(2) ParseInt_range [of 32 "getenv envVarAPIServerPort" port]
    by (auto simp: config_port_eq split: if_splits)
  moreover have "if getenv envVarAPIServerPort = '''' then port = APIServerPort raw
      else ParseInt 32 (getenv envVarAPIServerPort) = Inr port"
    using port by (auto simp: config_port_eq split: if_splits)
  ultimately show ?thesis
    using ok r pid host c unfolding env_names by (simp add: effective_config_def env_names env_or_def)
qed

theorem config_precedence_witness:
  "\<exists>c. getConfig (\<lambda>_. None) (\<lambda>_. Inr sample_raw_config) sample_env (Inr ''{}'') = Inr c
     \<and> AuthToken c = ''secret'' \<and> Region c = ''EU-Nord-1'' \<and> FIPTag c = ''role=cp''"
proof -
  have p: "ParseInt 32 (itoa 87553) = Inr 87553" by (rule ParseInt_itoa) simp_all
  have "\<exists>c. getConfig (\<lambda>_. None) (\<lambda>_. Inr sample_raw_config) sample_env (Inr ''{}'') = Inr c"
    by (simp add: getConfig_run config_port_eq env_or_def sample_env_def sample_raw_config_def
        zero_Config_def env_names p)
  then obtain c where c: "getConfig (\<lambda>_. None) (\<lambda>_. Inr sample_raw_config) sample_env (Inr ''{}'') = Inr c" ..
  have "int32_range (APIServerPort sample_raw_config)"
    by (simp add: sample_raw_config_def zero_Config_def)
  from config_precedence [OF c this] c show ?thesis
    by (simp add: env_or_def sample_env_def sample_raw_config_def zero_Config_def env_names)
qed

text \<open>The annotation names and the base URL of the configuration file have no effect: two
  files that agree on everything else give the same result, errors included.\<close>

theorem config_ignores_file_annotations:
  "getConfig labels_Parse (\<lambda>_. Inr (raw\<lparr>AnnotationLocalASN := a1, AnnotationPeerASN := a2,
      AnnotationPeerIP := a3, AnnotationSrcIP := a4, AnnotationFIPRegion := a5,
      AnnotationMultiHop := a6, BaseURL := u\<rparr>)) getenv (Inr bytes)
   = getConfig labels_Parse (\<lambda>_. Inr raw) getenv (Inr bytes)"
  unfolding getConfig_run effective_config_def config_port_eq
  by (simp cong: sum.case_cong option.case_cong if_cong)

text \<open>What is logged of the configuration depends on the API token only by whether there is
  one.\<close>

theorem config_strings_mask_token:
  "Config_Strings (c\<lparr>AuthToken := t\<rparr>) = Config_Strings (c\<lparr>AuthToken := t'\<rparr>)
     \<longleftrightarrow> (t = '''') = (t' = '''')"
  by (auto simp: Config_Strings_def)

text \<open>A missing project ID is never refused: with neither the variable nor the field set
  (the field is then 0) the check for it can not fail, and the configuration that comes out
  is one for project 0.\<close>

theorem config_missing_project_is_zero:
  assumes "getenv ''CHERRY_PROJECT_ID'' = ''''" and "ProjectID raw = 0"
    and "AuthToken raw \<noteq> ''''"
    and "labels_Parse (env_or getenv ''CHERRY_BGP_NODE_SELECTOR'' (BGPNodeSelector raw)) = None"
    and "getenv ''CHERRY_API_SERVER_PORT'' = ''''" and "getenv ''CHERRY_FIP_HEALTH_CHECK_USE_HOST_IP'' = ''''"
  shows "\<exists>c. getConfig labels_Parse (\<lambda>_. Inr raw) getenv (Inr bytes) = Inr c \<and> ProjectID c = 0"
proof -
  have "ParseInt 32 (itoa 0) = Inr 0" by (rule ParseInt_itoa) simp_all
  moreover have "env_or getenv projectIDName (itoa (ProjectID raw)) = itoa 0"
    using assms(1,2) by (simp add: env_or_def env_names)
  moreover have "env_or getenv apiKeyName (AuthToken raw) \<noteq> ''''"
    using assms(3) by (simp add: env_or_def)
  ultimately show ?thesis
    using assms(4,5,6) unfolding getConfig_run config_port_eq env_names
    by (simp add: effective_config_def)
qed

theorem config_missing_project_is_zero_witness:
  "\<exists>c. getConfig (\<lambda>_. None) (\<lambda>_. Inr (zero_Config\<lparr>AuthToken := ''secret''\<rparr>)) sample_env (Inr ''{}'') = Inr c
     \<and> ProjectID c = 0"
  by (rule config_missing_project_is_zero) (simp_all add: sample_env_def zero_Config_def env_names)

end
