(* ===== verification/IP_Reservations.thy ===== *)
theory IP_Reservations
  imports Samples
begin

text \<open>
  \<^verbatim>\<open>cherry/ipreservations.go\<close>: finding the floating IPs that carry given tags. The wanted tags
  are the entries of a Go map, a list here: the loop over them can only end in "all there" or
  "one missing", so the order does not matter, which \<open>ipReservationsByAllTags_perm\<close> shows.
\<close>

fun has_all_tags :: "(string \<times> string) list \<Rightarrow> strmap \<Rightarrow> bool" where
  "has_all_tags [] tags = True"
| "has_all_tags ((k, v) # target) tags =
     (case tags k of
        None \<Rightarrow> False
      | Some tagv \<Rightarrow> if v \<noteq> tagv then False else has_all_tags target tags)"

fun ipReservationsByAllTags :: "(string \<times> string) list \<Rightarrow> ip_address list \<Rightarrow> ip_address list" where
  "ipReservationsByAllTags target [] = []"
| "ipReservationsByAllTags target (ip # ips) =
     (case ip_Tags ip of
        None \<Rightarrow> ipReservationsByAllTags target ips
      | Some tags \<Rightarrow>
          if has_all_tags target tags then ip # ipReservationsByAllTags target ips
          else ipReservationsByAllTags target ips)"

definition ipReservationByAllTags :: "(string \<times> string) list \<Rightarrow> ip_address list \<Rightarrow> ip_address option" where
  "ipReservationByAllTags target ips =
     (case ipReservationsByAllTags target ips of [] \<Rightarrow> None | ip # _ \<Rightarrow> Some ip)"

text \<open>What the search is for: a non-nil tag map that agrees with every wanted tag.\<close>

definition carries_tags :: "(string \<times> string) list \<Rightarrow> ip_address \<Rightarrow> bool" where
  "carries_tags target ip =
     (case ip_Tags ip of None \<Rightarrow> False | Some tags \<Rightarrow> \<forall>(k, v) \<in> set target. tags k = Some v)"

section \<open>Lemmas\<close>

lemma has_all_tags_iff: "has_all_tags target tags \<longleftrightarrow> (\<forall>(k, v) \<in> set target. tags k = Some v)"
  by (induction target tags rule: has_all_tags.induct) (auto split: option.splits)

lemma ipReservationsByAllTags_filter:
  "ipReservationsByAllTags target ips = filter (carries_tags target) ips"
  by (induction ips) (auto simp: carries_tags_def has_all_tags_iff split: option.splits)

lemma ipReservationByAllTags_find:
  "ipReservationByAllTags target ips = find (carries_tags target) ips"
  by (induction ips) (auto simp: ipReservationByAllTags_def ipReservationsByAllTags_filter)

lemma carries_tags_set: "set t = set t' \<Longrightarrow> carries_tags t = carries_tags t'"
  by (simp add: carries_tags_def fun_eq_iff split: option.splits)

lemma ipReservationByAllTags_Some:
  "ipReservationByAllTags target ips = Some ip \<Longrightarrow> ip \<in> set ips \<and> carries_tags target ip"
  by (auto simp: ipReservationByAllTags_find find_Some_iff)

lemma ipReservationByAllTags_None:
  "ipReservationByAllTags target ips = None \<longleftrightarrow> (\<forall>ip \<in> set ips. \<not> carries_tags target ip)"
  by (auto simp: ipReservationByAllTags_find find_None_iff)

section \<open>Properties\<close>

text \<open>\<open>ipReservationByAllTags\<close> returns the first reservation of the list whose tags agree with
  every wanted tag, and nothing exactly when there is none; the order in which the wanted
  tags are visited makes no difference.\<close>

theorem reservation_by_tags_is_first_match:
  assumes "iteration_order ord"
  shows "ipReservationByAllTags (ord target) ips = find (carries_tags target) ips"
  using assms carries_tags_set [OF iteration_order_set]
  by (simp add: ipReservationByAllTags_find)

theorem reservation_by_tags_is_first_match_witness:
  "ipReservationByAllTags (rev [(''a'', ''1''), (''b'', ''2'')])
     (srv_IPAddresses (sample_server 1)) = None"
proof -
  have "iteration_order (rev :: (string \<times> string) list \<Rightarrow> _)" by simp
  from reservation_by_tags_is_first_match [OF this, of "[(''a'', ''1''), (''b'', ''2'')]"]
  show ?thesis by (simp add: sample_server_def carries_tags_def)
qed

end
