(* ===== verification/BGP.thy ===== *)
theory BGP
  imports Instances
begin

text \<open>
  \<^verbatim>\<open>cherry/bgp.go\<close>: BGP on the project and on its servers. The \<open>bgp\<close> struct keeps the project and
  the local AS number read when BGP is enabled on the project; \<open>ensureNodeBGPEnabled\<close> turns
  BGP on for the server behind a provider ID and returns what a load balancer needs to peer
  from it. The interface \<open>bgpEnabler\<close> of \<^verbatim>\<open>cherry/cloud.go\<close>, through which the load balancer
  calls it, is the locale \<open>bgp_enabler\<close>.
\<close>

section \<open>Data\<close>

definition PeerPort :: int where "PeerPort = 179"

record BGPPeer =
  bp_Address :: string
  bp_Port :: int

record NodeBGPInfo =
  bi_SourceIP :: string
  bi_LocalASN :: int
  bi_RemoteASN :: int
  bi_Peers :: "BGPPeer list"

record bgp =
  bgp_project :: int
  bgp_localASN :: int

section \<open>Operations\<close>

definition enableBGP :: "'w cherry_client \<Rightarrow> bgp \<Rightarrow> 'w \<Rightarrow> go_error option \<times> bgp \<times> 'w" where
  "enableBGP c b w =
     (case Projects_Get c (bgp_project b) w of
        (Inl e, w1) \<Rightarrow> (Some (Errorf (''error getting project '' @ itoa (bgp_project b) @ '': '' @ error_text e)), b, w1)
      | (Inr project, w1) \<Rightarrow>
          if pj_Bgp_Enabled project then (None, b\<lparr>bgp_localASN := pj_Bgp_LocalASN project\<rparr>, w1)
          else (case Projects_Update c (bgp_project b) (pj_Name project) True w1 of
              (Inl e, w2) \<Rightarrow> (Some e, b, w2)
            | (Inr project', w2) \<Rightarrow> (None, b\<lparr>bgp_localASN := pj_Bgp_LocalASN project'\<rparr>, w2)))"

definition newBGP :: "'w cherry_client \<Rightarrow> int \<Rightarrow> 'w \<Rightarrow> (go_error + bgp) \<times> 'w" where
  "newBGP c project w =
     (case enableBGP c \<lparr>bgp_project = project, bgp_localASN = 0\<rparr> w of
        (Some e, _, w') \<Rightarrow> (Inl (Wrapf (''failed to enable BGP on project '' @ itoa project @ '': '') e), w')
      | (None, b, w') \<Rightarrow> (Inr b, w'))"

definition nodeBGPInfoFromServer :: "(string \<Rightarrow> bool) \<Rightarrow> bgp \<Rightarrow> server \<Rightarrow> go_error + NodeBGPInfo" where
  "nodeBGPInfoFromServer v6 b s =
     (case anyPublic4 (fst (ipsFromServer v6 s)) of
        Inl e \<Rightarrow> Inl (Wrapf (''no public IP for server '' @ itoa (srv_ID s) @ '': '') e)
      | Inr sourceIP \<Rightarrow>
          Inr \<lparr>bi_SourceIP = addr_string sourceIP, bi_LocalASN = bgp_localASN b,
               bi_RemoteASN = rg_BGP_Asn (srv_Region s),
               bi_Peers = map (\<lambda>a. \<lparr>bp_Address = a, bp_Port = PeerPort\<rparr>) (rg_BGP_Hosts (srv_Region s))\<rparr>)"

definition ensureNodeBGPEnabled ::
  "(string \<Rightarrow> bool) \<Rightarrow> 'w cherry_client \<Rightarrow> bgp \<Rightarrow> string \<Rightarrow> 'w \<Rightarrow> (go_error + NodeBGPInfo) \<times> 'w" where
  "ensureNodeBGPEnabled v6 c b providerID w =
     (case serverIDFromProviderID providerID of
        Inl e \<Rightarrow> (Inl e, w)
      | Inr serverID \<Rightarrow>
          (case Servers_Get c serverID w of
             ((_, _, Some e), w1) \<Rightarrow> (Inl (Errorf (''error getting server '' @ itoa serverID @ '': '' @ error_text e)), w1)
           | ((server, _, None), w1) \<Rightarrow>
               let ips = srv_IPAddresses server
               in if srv_BGP_Enabled server then (nodeBGPInfoFromServer v6 b server, w1)
               else (case Servers_Update c serverID (srv_Tags server) True w1 of
                   (Inl e, w2) \<Rightarrow> (Inl e, w2)
                 | (Inr server', w2) \<Rightarrow>
                     (nodeBGPInfoFromServer v6 b (server'\<lparr>srv_IPAddresses := ips\<rparr>), w2))))"

text \<open>
  What a client of the servers API may expect: reading changes nothing, and a server that was
  just updated reads back with the BGP flag, the region and the addresses it has.
\<close>

definition servers_api_contract :: "'w cherry_client \<Rightarrow> bool" where
  "servers_api_contract c \<longleftrightarrow>
     (\<forall>i w. snd (Servers_Get c i w) = w) \<and>
     (\<forall>i t b w s w'. Servers_Update c i t b w = (Inr s, w') \<longrightarrow>
        (\<exists>s0 r0 s' r. fst (Servers_Get c i w) = (s0, r0, None) \<and> fst (Servers_Get c i w') = (s', r, None)
          \<and> srv_BGP_Enabled s' = b \<and> srv_ID s' = srv_ID s \<and> srv_Region s' = srv_Region s
          \<and> srv_Tags s' = t \<and> srv_IPAddresses s' = srv_IPAddresses s0))"

text \<open>
  Of the projects API: reading changes nothing, and a project just updated reads back as the
  update returned it, with the name and the BGP flag of the request.
\<close>

definition projects_api_contract :: "'w cherry_client \<Rightarrow> bool" where
  "projects_api_contract c \<longleftrightarrow>
     (\<forall>i w. snd (Projects_Get c i w) = w) \<and>
     (\<forall>i n b w p w'. Projects_Update c i n b w = (Inr p, w') \<longrightarrow>
        fst (Projects_Get c i w') = Inr p \<and> pj_Name p = n \<and> pj_Bgp_Enabled p = b)"

text \<open>A world with one project, which gets its AS number when BGP is enabled.\<close>

definition one_project_client :: "project cherry_client" where
  "one_project_client =
     \<lparr>Projects_Get = (\<lambda>_ w. (Inr w, w)),
      Projects_Update = (\<lambda>_ n b w. let p = w\<lparr>pj_Name := n, pj_Bgp_Enabled := b, pj_Bgp_LocalASN := 65010\<rparr> in (Inr p, p)),
      Servers_Get = (\<lambda>i w. ((sample_server i, Some 200, None), w)),
      Servers_List = (\<lambda>_ w. (Inr [], w)),
      Servers_Update = (\<lambda>_ _ _ w. (Inl (External ''none''), w)),
      IPs_List = (\<lambda>_ w. (Inr [], w)), IPs_Create = (\<lambda>_ _ _ w. (Inl (External ''none''), w)),
      IPs_Remove = (\<lambda>_ w. (None, w)), IPs_Update = (\<lambda>_ _ w. (None, w))\<rparr>"

text \<open>A world with one server, whose update request does not return the addresses.\<close>

definition one_server_client :: "server cherry_client" where
  "one_server_client =
     \<lparr>Projects_Get = (\<lambda>_ w. (Inl (External ''none''), w)),
      Projects_Update = (\<lambda>_ _ _ w. (Inl (External ''none''), w)),
      Servers_Get = (\<lambda>_ w. ((w, Some 200, None), w)),
      Servers_List = (\<lambda>_ w. (Inr [w], w)),
      Servers_Update = (\<lambda>_ t b w. let s = w\<lparr>srv_Tags := t, srv_BGP_Enabled := b\<rparr>
        in (Inr (s\<lparr>srv_IPAddresses := []\<rparr>), s)),
      IPs_List = (\<lambda>_ w. (Inr [], w)), IPs_Create = (\<lambda>_ _ _ w. (Inl (External ''none''), w)),
      IPs_Remove = (\<lambda>_ w. (None, w)), IPs_Update = (\<lambda>_ _ w. (None, w))\<rparr>"

section \<open>The interface bgpEnabler\<close>

text \<open>
  What the load balancer relies on: an unusable provider ID is refused without a call, and the
  peers are to be reached at the BGP port.
\<close>

locale bgp_enabler =
  fixes ensure :: "string \<Rightarrow> 'w \<Rightarrow> (go_error + NodeBGPInfo) \<times> 'w"
  assumes bad_provider_id: "serverIDFromProviderID p = Inl e \<Longrightarrow> ensure p w = (Inl e, w)"
    and peers_at_bgp_port: "ensure p w = (Inr i, w') \<Longrightarrow> q \<in> set (bi_Peers i) \<Longrightarrow> bp_Port q = PeerPort"
begin

lemma empty_provider_id: "\<exists>e. ensure '''' w = (Inl e, w)"
  using bad_provider_id [of "''''"] by (simp add: serverIDFromProviderID_def)

lemma port_fits_uint16:
  assumes "ensure p w = (Inr i, w')" and "q \<in> set (bi_Peers i)"
  shows "uint (word_of_int (bp_Port q) :: uint16) = bp_Port q"
  using peers_at_bgp_port [OF assms] by (simp add: PeerPort_def)

end

lemma nodeBGPInfoFromServer_port:
  "nodeBGPInfoFromServer v6 b s = Inr i \<Longrightarrow> q \<in> set (bi_Peers i) \<Longrightarrow> bp_Port q = PeerPort"
  by (auto simp: nodeBGPInfoFromServer_def split: sum.splits)

interpretation bgp_impl: bgp_enabler "ensureNodeBGPEnabled v6 c b" for v6 c b
proof unfold_locales
  show "ensureNodeBGPEnabled v6 c b p w = (Inl e, w)" if "serverIDFromProviderID p = Inl e" for p e w
    using that by (simp add: ensureNodeBGPEnabled_def)
  show "bp_Port q = PeerPort"
    if "ensureNodeBGPEnabled v6 c b p w = (Inr i, w')" "q \<in> set (bi_Peers i)" for p w i w' q
    using that by (auto simp: ensureNodeBGPEnabled_def Let_def dest: nodeBGPInfoFromServer_port
        split: sum.splits prod.splits option.splits if_splits)
qed

section \<open>Lemmas\<close>

lemma nodeBGPInfoFromServer_v6: "nodeBGPInfoFromServer v6 b s = nodeBGPInfoFromServer v6' b s"
  by (simp add: nodeBGPInfoFromServer_def anyPublic4_eq)

lemma nodeBGPInfoFromServer_cong:
  assumes "srv_ID s = srv_ID t" "srv_Region s = srv_Region t" "srv_IPAddresses s = srv_IPAddresses t"
  shows "nodeBGPInfoFromServer v6 b s = nodeBGPInfoFromServer v6 b t"
  unfolding nodeBGPInfoFromServer_def anyPublic4_eq assms ..

lemma newBGP_enabled:
  assumes api: "projects_api_contract c"
    and get: "Projects_Get c project w = (Inr p, w0)"
    and new: "newBGP c project w = (Inr b, w')"
  shows "\<exists>p'. Projects_Get c project w' = (Inr p', w') \<and> pj_Bgp_Enabled p' \<and> pj_Name p' = pj_Name p
    \<and> bgp_localASN b = pj_Bgp_LocalASN p' \<and> bgp_project b = project
    \<and> newBGP c project w' = (Inr b, w')"
proof (cases "pj_Bgp_Enabled p")
  case True
  have "w0 = w" using api get by (metis projects_api_contract_def snd_conv)
  with True get new show ?thesis by (auto simp: newBGP_def enableBGP_def)
next
  case False
  have w0: "w0 = w" using api get by (metis projects_api_contract_def snd_conv)
  with False get new obtain p' where u: "Projects_Update c project (pj_Name p) True w = (Inr p', w')"
    and b: "b = \<lparr>bgp_project = project, bgp_localASN = pj_Bgp_LocalASN p'\<rparr>"
    by (auto simp: newBGP_def enableBGP_def split: sum.splits prod.splits)
  from api u have g: "Projects_Get c project w' = (Inr p', w')" "pj_Name p' = pj_Name p" "pj_Bgp_Enabled p'"
    by (auto simp: projects_api_contract_def prod_eq_iff)
  then show ?thesis by (auto simp: newBGP_def enableBGP_def b)
qed

section \<open>Properties\<close>

text \<open>After \<open>newBGP\<close> succeeded, BGP is enabled on the project, the project keeps its name,
  the local AS number that was kept is the one the project has, and starting again gives the
  same state without any further change to the project.\<close>

theorem new_bgp_converges:
  assumes api: "projects_api_contract c"
    and get: "Projects_Get c project w = (Inr p, w0)"
    and new: "newBGP c project w = (Inr b, w')"
  shows "\<exists>p'. Projects_Get c project w' = (Inr p', w') \<and> pj_Bgp_Enabled p' \<and> pj_Name p' = pj_Name p
    \<and> bgp_localASN b = pj_Bgp_LocalASN p' \<and> bgp_project b = project
    \<and> newBGP c project w' = (Inr b, w')"
  by (rule newBGP_enabled [OF assms])

theorem new_bgp_converges_witness:
  "\<exists>b p'. newBGP one_project_client 7 \<lparr>pj_ID = 7, pj_Name = ''p'', pj_Bgp_Enabled = False, pj_Bgp_LocalASN = 0\<rparr>
     = (Inr b, p') \<and> bgp_localASN b = 65010 \<and> pj_Bgp_Enabled p'
     \<and> newBGP one_project_client 7 p' = (Inr b, p')"
proof -
  let ?p = "\<lparr>pj_ID = 7, pj_Name = ''p'', pj_Bgp_Enabled = False, pj_Bgp_LocalASN = 0\<rparr>"
  let ?q = "\<lparr>pj_ID = 7, pj_Name = ''p'', pj_Bgp_Enabled = True, pj_Bgp_LocalASN = 65010\<rparr>"
  let ?b = "\<lparr>bgp_project = 7, bgp_localASN = 65010\<rparr>"
  have api: "projects_api_contract one_project_client"
    by (simp add: projects_api_contract_def one_project_client_def Let_def)
  have get: "Projects_Get one_project_client 7 ?p = (Inr ?p, ?p)" by (simp add: one_project_client_def)
  have new: "newBGP one_project_client 7 ?p = (Inr ?b, ?q)"
    by (simp add: newBGP_def enableBGP_def one_project_client_def Let_def)
  from new_bgp_converges [OF api get new] new show ?thesis by auto
qed

text \<open>C23: Enabling BGP on a node converges: after a call that succeeded the server reads back with
  BGP enabled and with the tags and addresses it had, the peering information has the AS number
  of the project and that of the server's region and one peer for each of the region's hosts,
  and a second call returns the same and changes nothing.\<close>

theorem ensure_node_bgp_converges:
  assumes api: "servers_api_contract c" and i: "serverIDFromProviderID pid = Inr i"
    and before: "Servers_Get c i w = ((s, r, None), w0)"
    and first: "ensureNodeBGPEnabled v6 c b pid w = (Inr info, w')"
  shows "\<exists>s' r'. Servers_Get c i w' = ((s', r', None), w') \<and> srv_BGP_Enabled s'
    \<and> srv_Tags s' = srv_Tags s \<and> srv_IPAddresses s' = srv_IPAddresses s
    \<and> bi_LocalASN info = bgp_localASN b \<and> bi_RemoteASN info = rg_BGP_Asn (srv_Region s')
    \<and> map bp_Address (bi_Peers info) = rg_BGP_Hosts (srv_Region s')
    \<and> ensureNodeBGPEnabled v6 c b pid w' = (Inr info, w')"
proof -
  have info: "bi_LocalASN info = bgp_localASN b \<and> bi_RemoteASN info = rg_BGP_Asn (srv_Region t)
      \<and> map bp_Address (bi_Peers info) = rg_BGP_Hosts (srv_Region t)"
    if "nodeBGPInfoFromServer v6 b t = Inr info" for t
    using that by (auto simp: nodeBGPInfoFromServer_def comp_def split: sum.splits)
  have "w0 = w" using api before by (metis servers_api_contract_def snd_conv)
  with before have g: "Servers_Get c i w = ((s, r, None), w)" by simp
  show ?thesis
  proof (cases "srv_BGP_Enabled s")
    case True
    with first i g have "nodeBGPInfoFromServer v6 b s = Inr info" "w' = w" by (simp_all add: ensureNodeBGPEnabled_def)
    with True i g info [of s] show ?thesis by (simp add: ensureNodeBGPEnabled_def)
  next
    case False
    with first i g obtain t where u: "Servers_Update c i (srv_Tags s) True w = (Inr t, w')"
      and ti: "nodeBGPInfoFromServer v6 b (t\<lparr>srv_IPAddresses := srv_IPAddresses s\<rparr>) = Inr info"
      by (auto simp: ensureNodeBGPEnabled_def split: sum.splits prod.splits)
    from api u g obtain s' r' where g': "Servers_Get c i w' = ((s', r', None), w')"
      and s': "srv_BGP_Enabled s'" "srv_ID s' = srv_ID t" "srv_Region s' = srv_Region t"
        "srv_IPAddresses s' = srv_IPAddresses s" "srv_Tags s' = srv_Tags s"
      unfolding servers_api_contract_def by (metis fst_conv prod.collapse prod.inject)
    have "nodeBGPInfoFromServer v6 b s' = Inr info"
      using s' by (subst ti [symmetric], intro nodeBGPInfoFromServer_cong) simp_all
    with i g' s' info [of s'] show ?thesis by (simp add: ensureNodeBGPEnabled_def)
  qed
qed

theorem ensure_node_bgp_converges_witness:
  "\<exists>info w'. ensureNodeBGPEnabled (\<lambda>_. False) one_server_client \<lparr>bgp_project = 7, bgp_localASN = 65010\<rparr>
       ''42'' (sample_server 42\<lparr>srv_BGP_Enabled := False, srv_Tags := Some [''role'' \<mapsto> ''worker'']\<rparr>) = (Inr info, w')
     \<and> srv_BGP_Enabled w' \<and> srv_Tags w' = Some [''role'' \<mapsto> ''worker'']
     \<and> ensureNodeBGPEnabled (\<lambda>_. False) one_server_client \<lparr>bgp_project = 7, bgp_localASN = 65010\<rparr> ''42'' w'
       = (Inr info, w')"
proof -
  let ?c = "one_server_client" and ?b = "\<lparr>bgp_project = 7, bgp_localASN = 65010\<rparr>"
  let ?w = "sample_server 42\<lparr>srv_BGP_Enabled := False, srv_Tags := Some [''role'' \<mapsto> ''worker'']\<rparr>"
  have api: "servers_api_contract ?c"
    by (simp add: servers_api_contract_def one_server_client_def Let_def)
  have "''42'' = itoa 42" by (simp add: print_eval)
  then have i: "serverIDFromProviderID ''42'' = Inr 42"
    by (simp add: serverIDFromProviderID_accepts(1) Atoi_itoa)
  have p: "parse_addr4 ''5.6.7.8'' = Some (Addr4 5 6 7 8)" by code_simp
  have "\<exists>info w'. ensureNodeBGPEnabled (\<lambda>_. False) ?c ?b ''42'' ?w = (Inr info, w')"
    by (simp add: ensureNodeBGPEnabled_def i one_server_client_def Let_def nodeBGPInfoFromServer_def
        anyPublic4_eq sample_server_def v4s_of_type_def v4_of_def List.map_filter_simps p serverPublicIPType_def)
  then obtain info w' where run: "ensureNodeBGPEnabled (\<lambda>_. False) ?c ?b ''42'' ?w = (Inr info, w')" by blast
  have "Servers_Get ?c 42 ?w = ((?w, Some 200, None), ?w)" "\<And>s r. Servers_Get ?c 42 w' = ((s, r, None), w') \<Longrightarrow> s = w'"
    by (simp_all add: one_server_client_def)
  with ensure_node_bgp_converges [OF api i _ run] run show ?thesis by fastforce
qed

end
