(* ===== verification/LB_Interface.thy ===== *)
theory LB_Interface
  imports Samples
begin

text \<open>
  \<^verbatim>\<open>cherry/loadbalancers/interface.go\<close> and \<^verbatim>\<open>node.go\<close>: the nodes a load balancer
  implementation gets, and the interface \<open>LB\<close>, a record of the operations it must have. The
  part \<open>ServiceIPAnnotations\<close> of the interface, whose operations read and set the address of
  a service, is the locale \<open>service_ip_annotations\<close>; the three implementations interpret it.
\<close>

section \<open>Nodes and peers\<close>

record LB_Peer =
  lbp_Address :: string
  lbp_Port :: int

record LB_Node =
  lbn_Name :: string
  lbn_SourceIP :: string
  lbn_LocalASN :: int
  lbn_PeerASN :: int
  lbn_Password :: string
  lbn_Peers :: "LB_Peer list"
  lbn_Region :: string

section \<open>The interface LB\<close>

text \<open>
  A service pointer is an option. \<open>SetServiceIP\<close> writes through the pointer it gets: its result
  is the error and the service after it. The other three operations take the namespace, the
  name, and the address or the nodes, and act on the world; they return an error or nothing, or panic.
\<close>

record 'w LB =
  lb_AddService :: "string \<Rightarrow> string \<Rightarrow> string \<Rightarrow> LB_Node list \<Rightarrow> 'w \<Rightarrow> unit outcome \<times> 'w"
  lb_RemoveService :: "string \<Rightarrow> string \<Rightarrow> string \<Rightarrow> 'w \<Rightarrow> unit outcome \<times> 'w"
  lb_UpdateService :: "string \<Rightarrow> string \<Rightarrow> LB_Node list \<Rightarrow> 'w \<Rightarrow> unit outcome \<times> 'w"
  lb_ServiceIP :: "service option \<Rightarrow> string \<times> bool"
  lb_SetServiceIP :: "service option \<Rightarrow> string \<Rightarrow> go_error option \<times> service option"

text \<open>Reading one annotation, and writing one into a map that may be nil.\<close>

definition annotation :: "service \<Rightarrow> string \<Rightarrow> string" where
  "annotation svc k = map_get (nil_map (svc_Annotations svc)) k"

definition set_annotation :: "string \<Rightarrow> string \<Rightarrow> service \<Rightarrow> service" where
  "set_annotation k v svc = svc\<lparr>svc_Annotations := Some ((nil_map (svc_Annotations svc))(k \<mapsto> v))\<rparr>"

lemma annotation_set [simp]: "annotation (set_annotation k v s) k' = (if k' = k then v else annotation s k')"
  by (simp add: annotation_def set_annotation_def)

lemma set_annotation_frame [simp]:
  "svc_Namespace (set_annotation k v s) = svc_Namespace s"
  "svc_Name (set_annotation k v s) = svc_Name s"
  "svc_LoadBalancerIP (set_annotation k v s) = svc_LoadBalancerIP s"
  "svc_TargetPorts (set_annotation k v s) = svc_TargetPorts s"
  by (simp_all add: set_annotation_def)

section \<open>The contract of ServiceIPAnnotations\<close>

text \<open>
  \<open>key\<close> is the annotation that the implementation writes. An address is found when it is not
  empty, the key's annotation is what is read first, and setting touches this key only.
\<close>

locale service_ip_annotations =
  fixes get :: "service option \<Rightarrow> string \<times> bool"
    and set_ip :: "service option \<Rightarrow> string \<Rightarrow> go_error option \<times> service option"
    and key :: string
  assumes get_nil: "get None = ('''', False)"
    and found_iff: "snd (get p) \<longleftrightarrow> fst (get p) \<noteq> ''''"
    and key_first: "annotation s key \<noteq> '''' \<Longrightarrow> get (Some s) = (annotation s key, True)"
    and spec_last: "svc_LoadBalancerIP s \<noteq> '''' \<Longrightarrow> snd (get (Some s))"
    and set_nil: "\<exists>e. set_ip None ip = (Some e, None)"
    and set_some: "set_ip (Some s) ip = (None, Some (set_annotation key ip s))"
begin

lemma get_set:
  assumes "ip \<noteq> ''''"
  shows "get (snd (set_ip (Some s) ip)) = (ip, True)"
  using assms by (simp add: set_some key_first)

lemma set_again: "set_ip (snd (set_ip (Some s) ip)) ip' = set_ip (Some s) ip'"
  by (simp add: set_some set_annotation_def)

lemma set_frame:
  assumes "set_ip s ip = (None, s')"
  obtains t t' where "s = Some t" "s' = Some t'" "\<And>k. k \<noteq> key \<Longrightarrow> annotation t' k = annotation t k"
    "svc_LoadBalancerIP t' = svc_LoadBalancerIP t"
  using assms set_nil [of ip] by (cases s) (auto simp: set_some)

lemma not_found_means_no_address:
  assumes "\<not> snd (get (Some s))"
  shows "svc_LoadBalancerIP s = '''' \<and> annotation s key = ''''"
  using assms spec_last [of s] key_first [of s] by (metis snd_conv)

end

end
