(* ===== verification/Kubevip_LB.thy ===== *)
theory Kubevip_LB
  imports LB_Interface
begin

text \<open>
  \<^verbatim>\<open>cherry/loadbalancers/kubevip/kubevip.go\<close>: the implementation for kube-vip, which only
  marks the service with its address; kube-vip reads the annotation.
\<close>

definition kubevip_loadBalancerIPsAnnotation :: string where
  "kubevip_loadBalancerIPsAnnotation = ''kube-vip.io/loadbalancerIPs''"

definition kubevip_ServiceIP :: "service option \<Rightarrow> string \<times> bool" where
  "kubevip_ServiceIP svc =
     (case svc of None \<Rightarrow> ('''', False)
      | Some s \<Rightarrow>
          let ip = annotation s kubevip_loadBalancerIPsAnnotation in
          if ip \<noteq> '''' then (ip, True)
          else if svc_LoadBalancerIP s \<noteq> '''' then (svc_LoadBalancerIP s, True)
          else ('''', False))"

definition kubevip_SetServiceIP :: "service option \<Rightarrow> string \<Rightarrow> go_error option \<times> service option" where
  "kubevip_SetServiceIP svc ip =
     (case svc of
        None \<Rightarrow> (Some (Errorf ''failed to set ip, service is nil''), None)
      | Some s \<Rightarrow> (None, Some (set_annotation kubevip_loadBalancerIPsAnnotation ip s)))"

definition kubevip_AddService ::
  "string \<Rightarrow> string \<Rightarrow> string \<Rightarrow> LB_Node list \<Rightarrow> 'w \<Rightarrow> unit outcome \<times> 'w" where
  "kubevip_AddService svcNamespace svcName ip nodes w = (Ok (), w)"

definition kubevip_RemoveService :: "string \<Rightarrow> string \<Rightarrow> string \<Rightarrow> 'w \<Rightarrow> unit outcome \<times> 'w" where
  "kubevip_RemoveService svcNamespace svcName ip w = (Ok (), w)"

definition kubevip_UpdateService :: "string \<Rightarrow> string \<Rightarrow> LB_Node list \<Rightarrow> 'w \<Rightarrow> unit outcome \<times> 'w" where
  "kubevip_UpdateService svcNamespace svcName nodes w = (Ok (), w)"

definition kubevip_NewLB :: "string \<Rightarrow> 'w LB" where
  "kubevip_NewLB config =
     \<lparr>lb_AddService = kubevip_AddService, lb_RemoveService = kubevip_RemoveService,
      lb_UpdateService = kubevip_UpdateService, lb_ServiceIP = kubevip_ServiceIP,
      lb_SetServiceIP = kubevip_SetServiceIP\<rparr>"

interpretation kubevip_ip:
  service_ip_annotations kubevip_ServiceIP kubevip_SetServiceIP kubevip_loadBalancerIPsAnnotation
  by unfold_locales (auto simp: kubevip_ServiceIP_def kubevip_SetServiceIP_def Let_def split: option.splits)

end
