(* ===== verification/Empty_LB.thy ===== *)
theory Empty_LB
  imports LB_Interface
begin

text \<open>
  \<^verbatim>\<open>cherry/loadbalancers/empty/empty.go\<close>: the implementation that leaves the data plane to
  others. Its struct keeps the annotation that carries the address.
\<close>

definition defaultLoadBalancerIPsAnnotation :: string where
  "defaultLoadBalancerIPsAnnotation = ''cherryservers.com/loadBalancerIPs''"

record empty_LB =
  el_loadBalancerIPsAnnotation :: string

definition empty_ServiceIP :: "empty_LB \<Rightarrow> service option \<Rightarrow> string \<times> bool" where
  "empty_ServiceIP l svc =
     (case svc of None \<Rightarrow> ('''', False)
      | Some s \<Rightarrow>
          let ip = annotation s (el_loadBalancerIPsAnnotation l) in
          if ip \<noteq> '''' then (ip, True)
          else if svc_LoadBalancerIP s \<noteq> '''' then (svc_LoadBalancerIP s, True)
          else ('''', False))"

definition empty_SetServiceIP ::
  "empty_LB \<Rightarrow> service option \<Rightarrow> string \<Rightarrow> go_error option \<times> service option" where
  "empty_SetServiceIP l svc ip =
     (case svc of
        None \<Rightarrow> (Some (Errorf ''failed to set ip, service is nil''), None)
      | Some s \<Rightarrow> (None, Some (set_annotation (el_loadBalancerIPsAnnotation l) ip s)))"

definition empty_AddService ::
  "string \<Rightarrow> string \<Rightarrow> string \<Rightarrow> LB_Node list \<Rightarrow> 'w \<Rightarrow> unit outcome \<times> 'w" where
  "empty_AddService svcNamespace svcName ip nodes w = (Ok (), w)"

definition empty_RemoveService :: "string \<Rightarrow> string \<Rightarrow> string \<Rightarrow> 'w \<Rightarrow> unit outcome \<times> 'w" where
  "empty_RemoveService svcNamespace svcName ip w = (Ok (), w)"

definition empty_UpdateService :: "string \<Rightarrow> string \<Rightarrow> LB_Node list \<Rightarrow> 'w \<Rightarrow> unit outcome \<times> 'w" where
  "empty_UpdateService svcNamespace svcName nodes w = (Ok (), w)"

definition empty_NewLB :: "string \<Rightarrow> empty_LB" where
  "empty_NewLB a = \<lparr>el_loadBalancerIPsAnnotation = (if a = '''' then defaultLoadBalancerIPsAnnotation else a)\<rparr>"

text \<open>The struct seen as a value of the interface.\<close>

definition empty_as_LB :: "empty_LB \<Rightarrow> 'w LB" where
  "empty_as_LB l =
     \<lparr>lb_AddService = empty_AddService, lb_RemoveService = empty_RemoveService,
      lb_UpdateService = empty_UpdateService, lb_ServiceIP = empty_ServiceIP l,
      lb_SetServiceIP = empty_SetServiceIP l\<rparr>"

interpretation empty_ip:
  service_ip_annotations "empty_ServiceIP l" "empty_SetServiceIP l" "el_loadBalancerIPsAnnotation l" for l
  by unfold_locales (auto simp: empty_ServiceIP_def empty_SetServiceIP_def Let_def split: option.splits)

lemma empty_NewLB_key_nonempty: "el_loadBalancerIPsAnnotation (empty_NewLB a) \<noteq> ''''"
  by (simp add: empty_NewLB_def defaultLoadBalancerIPsAnnotation_def)

end
