(* ===== verification/MetalLB_Peers.thy ===== *)
theory MetalLB_Peers
  imports LB_Interface
begin

text \<open>
  \<^verbatim>\<open>cherry/loadbalancers/metallb/bgp_peers.go\<close>, with the types \<open>Peer\<close>, \<open>NodeSelector\<close>,
  \<open>SelectorRequirements\<close> and \<open>AddressPool\<close> of \<^verbatim>\<open>config.go\<close>: the peering mode read from the
  configuration URL, and the functions that turn the nodes of a service into BGP peers. AS
  numbers are kept at 32 and ports at 16 bits: the conversions from Go's \<open>int\<close> truncate. A slice
  is an option where the code tells a nil slice from an empty one.
\<close>

section \<open>Data\<close>

record SelectorRequirements =
  sr_Key :: string
  sr_Operator :: string
  sr_Values :: "string list option"

record NodeSelector =
  ns_MatchLabels :: "strmap option"
  ns_MatchExpressions :: "SelectorRequirements list option"

record Peer =
  pe_MyASN :: uint32
  pe_ASN :: uint32
  pe_Addr :: string
  pe_Port :: uint16
  pe_SrcAddr :: string
  pe_HoldTime :: string
  pe_RouterID :: string
  pe_NodeSelectors :: "NodeSelector list"
  pe_Password :: string
  pe_EBGPMultiHop :: bool
  pe_Name :: string

record BgpAdvertisement =
  ba_AggregationLength :: "int option"
  ba_LocalPref :: "uint32 option"
  ba_Communities :: "string list"

record AddressPool =
  ap_Protocol :: string
  ap_Name :: string
  ap_Addresses :: "string list"
  ap_AvoidBuggyIPs :: bool
  ap_AutoAssign :: "bool option"
  ap_BGPAdvertisements :: "BgpAdvertisement list"

definition hostnameKey :: string where "hostnameKey = ''kubernetes.io/hostname''"
definition regionKey :: string where "regionKey = ''topology.kubernetes.io/region''"
definition holdTime :: string where "holdTime = ''30s''"

text \<open>A \<open>metav1.LabelSelector\<close> of the Kubernetes API: labels and requirements.\<close>

record LabelSelectorRequirement =
  lsr_Key :: string
  lsr_Operator :: string
  lsr_Values :: "string list option"

record LabelSelector =
  ls_MatchLabels :: "strmap option"
  ls_MatchExpressions :: "LabelSelectorRequirement list"

section \<open>Peering modes\<close>

text \<open>The modes are numbered; the type has every other \<open>int\<close> too.\<close>

type_synonym BGPPeerMode = int

definition BGPPeerModeNone :: BGPPeerMode where "BGPPeerModeNone = 0"

definition BGPPeerModeNative :: BGPPeerMode where "BGPPeerModeNative = 1"

definition BGPPeerModeFRR :: BGPPeerMode where "BGPPeerModeFRR = 2"

lemmas BGPPeerMode_consts = BGPPeerModeNone_def BGPPeerModeNative_def BGPPeerModeFRR_def

definition BGPPeerMode_String :: "BGPPeerMode \<Rightarrow> string" where
  "BGPPeerMode_String m =
     (if m = BGPPeerModeNone then ''none''
      else if m = BGPPeerModeNative then ''native''
      else if m = BGPPeerModeFRR then ''frr''
      else ''unknown'')"

text \<open>
  The arguments are the \<open>Path\<close> of the URL and what its \<open>Query().Get\<close> returns for a key, both
  computed by \<^verbatim>\<open>net/url\<close>.
\<close>

definition ParseConfigURL :: "string \<Rightarrow> (string \<Rightarrow> string) \<Rightarrow> string \<times> BGPPeerMode \<times> go_error option" where
  "ParseConfigURL path query =
     (let namespace = TrimSuffix (TrimPrefix path ''/'') ''/'';
          rawMode = query ''bgp-peer-mode''
      in if rawMode = ''native'' then (namespace, BGPPeerModeNative, None)
      else if rawMode = ''frr'' then (namespace, BGPPeerModeFRR, None)
      else if rawMode = ''none'' then (namespace, BGPPeerModeNone, None)
      else if rawMode = '''' then (namespace, BGPPeerModeNative, None)
      else (namespace, BGPPeerModeNative,
            Some (Errorf (''invalid 'bgp-peer-mode' parameter: '' @ rawMode))))"

section \<open>Peers from nodes\<close>

type_synonym PeersFromNodesFunc = "LB_Node list \<Rightarrow> Peer list"

definition PeersFromNodesNone :: PeersFromNodesFunc where
  "PeersFromNodesNone nodes = []"

definition native_peer :: "LB_Node \<Rightarrow> nat \<times> LB_Peer \<Rightarrow> Peer" where
  "native_peer node ip =
     (case ip of (i, peer) \<Rightarrow>
       \<lparr>pe_MyASN = word_of_int (lbn_LocalASN node), pe_ASN = word_of_int (lbn_PeerASN node),
        pe_Addr = lbp_Address peer, pe_Port = word_of_int (lbp_Port peer),
        pe_SrcAddr = lbn_SourceIP node, pe_HoldTime = holdTime, pe_RouterID = '''',
        pe_NodeSelectors = [\<lparr>ns_MatchLabels = Some [hostnameKey \<mapsto> lbn_Name node], ns_MatchExpressions = None\<rparr>],
        pe_Password = lbn_Password node, pe_EBGPMultiHop = False,
        pe_Name = lbn_Name node @ ''-'' @ dec_nat i\<rparr>)"

definition PeersFromNodesNative :: PeersFromNodesFunc where
  "PeersFromNodesNative nodes = concat (map (\<lambda>node. map (native_peer node) (enumerate 0 (lbn_Peers node))) nodes)"

definition convertToMetalLBNodeSelector :: "LabelSelector \<Rightarrow> NodeSelector" where
  "convertToMetalLBNodeSelector ls =
     \<lparr>ns_MatchLabels = ls_MatchLabels ls,
      ns_MatchExpressions = Some (map (\<lambda>r. \<lparr>sr_Key = lsr_Key r, sr_Operator = lsr_Operator r, sr_Values = lsr_Values r\<rparr>)
        (ls_MatchExpressions ls))\<rparr>"

text \<open>\<open>Duplicate\<close> makes a map of its own: a nil map becomes an empty one.\<close>

definition NodeSelector_Duplicate :: "NodeSelector \<Rightarrow> NodeSelector" where
  "NodeSelector_Duplicate ns = \<lparr>ns_MatchLabels = Some (nil_map (ns_MatchLabels ns)),
     ns_MatchExpressions = Some (map (\<lambda>s. \<lparr>sr_Key = sr_Key s, sr_Operator = sr_Operator s, sr_Values = sr_Values s\<rparr>)
       (nil_list (ns_MatchExpressions ns)))\<rparr>"

definition frr_peer :: "NodeSelector \<Rightarrow> LB_Node \<Rightarrow> nat \<times> LB_Peer \<Rightarrow> Peer" where
  "frr_peer ns node ip =
     (case ip of (i, peer) \<Rightarrow>
       let nsDup = NodeSelector_Duplicate ns;
           nsReg = nsDup\<lparr>ns_MatchLabels := Some ((nil_map (ns_MatchLabels nsDup))(regionKey \<mapsto> lbn_Region node))\<rparr>
       in \<lparr>pe_MyASN = word_of_int (lbn_LocalASN node), pe_ASN = word_of_int (lbn_PeerASN node),
           pe_Addr = lbp_Address peer, pe_Port = word_of_int (lbp_Port peer),
           pe_SrcAddr = '''', pe_HoldTime = holdTime, pe_RouterID = '''',
           pe_NodeSelectors = [nsReg], pe_Password = '''', pe_EBGPMultiHop = True,
           pe_Name = ToLower (lbn_Region node @ ''-'' @ dec_nat i)\<rparr>)"

text \<open>
  The Go code collects the peers in a map by name, where a later one replaces an earlier one,
  and sorts the values by name. The map is an association list here; the order in which its
  values are visited does not matter, since the names are distinct.
\<close>

definition frr_map :: "NodeSelector \<Rightarrow> LB_Node list \<Rightarrow> (string \<times> Peer) list" where
  "frr_map ns nodes =
     fold (\<lambda>p m. AList.update (pe_Name p) p m)
       (concat (map (\<lambda>node. map (frr_peer ns node) (enumerate 0 (lbn_Peers node))) nodes)) []"

definition NewPeersFromNodesFRRFunc :: "(Peer list \<Rightarrow> Peer list) \<Rightarrow> LabelSelector \<Rightarrow> PeersFromNodesFunc" where
  "NewPeersFromNodesFRRFunc ord nodeSelector nodes =
     sort_key pe_Name (ord (map snd (frr_map (convertToMetalLBNodeSelector nodeSelector) nodes)))"

definition NewPeersFromNodesFunc ::
  "(Peer list \<Rightarrow> Peer list) \<Rightarrow> BGPPeerMode \<Rightarrow> LabelSelector \<Rightarrow> PeersFromNodesFunc" where
  "NewPeersFromNodesFunc ord mode nodeSelectors =
     (if mode = BGPPeerModeFRR then NewPeersFromNodesFRRFunc ord nodeSelectors
      else if mode = BGPPeerModeNative then PeersFromNodesNative
      else if mode = BGPPeerModeNone then PeersFromNodesNone
      else PeersFromNodesNative)"

section \<open>Lemmas\<close>

text \<open>A name and an index around the last dash read back uniquely.\<close>

lemma append_last_sep_inject:
  assumes "c \<notin> set v" and "c \<notin> set v'"
  shows "u @ c # v = u' @ c # v' \<longleftrightarrow> u = u' \<and> v = v'"
proof
  assume "u @ c # v = u' @ c # v'"
  then have "rev v @ c # rev u = rev v' @ c # rev u'"
    by (metis append.assoc append_Cons append_Nil rev.simps(2) rev_append)
  moreover have "takeWhile (\<lambda>d. d \<noteq> c) (rev v @ c # rev u) = rev v"
    and "takeWhile (\<lambda>d. d \<noteq> c) (rev v' @ c # rev u') = rev v'"
    using assms by (subst takeWhile_append2; auto)+
  ultimately have "rev v = rev v'" by metis
  with \<open>rev v @ c # rev u = rev v' @ c # rev u'\<close> show "u = u' \<and> v = v'" by simp
qed simp

lemma indexed_name_inject: "n @ ''-'' @ dec_nat i = m @ ''-'' @ dec_nat j \<longleftrightarrow> n = m \<and> i = j"
  using append_last_sep_inject [of "CHR ''-''" "dec_nat i" "dec_nat j" n m]
  by (simp add: not_digit_notin_dec_nat dec_nat_inj)

lemma native_peer_Name [simp]: "pe_Name (native_peer node (i, p)) = lbn_Name node @ ''-'' @ dec_nat i"
  by (simp add: native_peer_def)

lemma in_PeersFromNodesNative:
  "p \<in> set (PeersFromNodesNative nodes) \<longleftrightarrow>
     (\<exists>node \<in> set nodes. \<exists>i < length (lbn_Peers node). p = native_peer node (i, lbn_Peers node ! i))"
  by (force simp: PeersFromNodesNative_def in_set_enumerate_eq)

lemma native_names_of_node: "distinct (map (pe_Name \<circ> native_peer node) (enumerate k ps))"
proof -
  have "inj_on (pe_Name \<circ> native_peer node) (set (enumerate k ps))"
    by (auto simp: inj_on_def dec_nat_inj in_set_enumerate_eq)
  then show ?thesis by (simp add: distinct_map)
qed

text \<open>Folding updates into an association list keeps one entry per key, the last one.\<close>

lemma fold_update_distinct:
  "distinct (map fst m) \<Longrightarrow> distinct (map fst (fold (\<lambda>p m. AList.update (f p) p m) ps m))"
  by (induction ps arbitrary: m) (auto simp: distinct_update)

lemma fold_update_map_of:
  "map_of (fold (\<lambda>p m. AList.update (f p) p m) ps m) k =
     (case find (\<lambda>p. f p = k) (rev ps) of None \<Rightarrow> map_of m k | Some p \<Rightarrow> Some p)"
proof (induction ps rule: rev_induct)
  case (snoc p ps)
  then show ?case by (auto simp: update_conv')
qed simp

lemma find_Some_split_iff:
  "find P xs = Some p \<longleftrightarrow> (\<exists>ys zs. xs = ys @ p # zs \<and> P p \<and> (\<forall>y \<in> set ys. \<not> P y))"
proof (induction xs)
  case (Cons x xs)
  show ?case
  proof (cases "P x")
    case True
    then show ?thesis by (auto simp: Cons_eq_append_conv)
  next
    case False
    have "(\<exists>ys zs. x # xs = ys @ p # zs \<and> P p \<and> (\<forall>y \<in> set ys. \<not> P y))
        \<longleftrightarrow> (\<exists>ys zs. xs = ys @ p # zs \<and> P p \<and> (\<forall>y \<in> set ys. \<not> P y))" (is "?l \<longleftrightarrow> ?r")
    proof
      assume ?l
      with False show ?r by (fastforce simp: Cons_eq_append_conv)
    next
      assume ?r
      then obtain ys zs where "xs = ys @ p # zs" "P p" "\<forall>y \<in> set ys. \<not> P y" by blast
      with False have "x # xs = (x # ys) @ p # zs \<and> P p \<and> (\<forall>y \<in> set (x # ys). \<not> P y)" by simp
      then show ?l by blast
    qed
    with False Cons.IH show ?thesis by simp
  qed
qed simp

lemma find_rev_Some_iff:
  "find P (rev ps) = Some p \<longleftrightarrow> (\<exists>xs ys. ps = xs @ p # ys \<and> P p \<and> (\<forall>y \<in> set ys. \<not> P y))"
proof
  assume "find P (rev ps) = Some p"
  then obtain ys zs where "rev ps = ys @ p # zs" "P p" "\<forall>y \<in> set ys. \<not> P y"
    by (auto simp: find_Some_split_iff)
  then have "ps = rev zs @ p # rev ys \<and> P p \<and> (\<forall>y \<in> set (rev ys). \<not> P y)"
    by (simp add: rev_swap)
  then show "\<exists>xs ys. ps = xs @ p # ys \<and> P p \<and> (\<forall>y \<in> set ys. \<not> P y)" by blast
next
  assume "\<exists>xs ys. ps = xs @ p # ys \<and> P p \<and> (\<forall>y \<in> set ys. \<not> P y)"
  then obtain xs ys where d: "ps = xs @ p # ys" "P p" "\<forall>y \<in> set ys. \<not> P y" by blast
  then have "rev ps = rev ys @ p # rev xs \<and> P p \<and> (\<forall>y \<in> set (rev ys). \<not> P y)" by simp
  then show "find P (rev ps) = Some p" unfolding find_Some_split_iff by blast
qed

text \<open>All peers that the FRR mode considers, in the order the loops visit them.\<close>

abbreviation frr_candidates :: "LabelSelector \<Rightarrow> LB_Node list \<Rightarrow> Peer list" where
  "frr_candidates sel nodes \<equiv>
     concat (map (\<lambda>node. map (frr_peer (convertToMetalLBNodeSelector sel) node) (enumerate 0 (lbn_Peers node))) nodes)"

lemma frr_map_entries:
  "(k, p) \<in> set (frr_map (convertToMetalLBNodeSelector sel) nodes) \<longleftrightarrow>
     pe_Name p = k \<and> (\<exists>xs ys. frr_candidates sel nodes = xs @ p # ys \<and> (\<forall>y \<in> set ys. pe_Name y \<noteq> k))"
proof -
  let ?m = "frr_map (convertToMetalLBNodeSelector sel) nodes"
  have "distinct (map fst ?m)" unfolding frr_map_def by (rule fold_update_distinct) simp
  then have "(k, p) \<in> set ?m \<longleftrightarrow> map_of ?m k = Some p" by simp
  also have "\<dots> \<longleftrightarrow> find (\<lambda>p. pe_Name p = k) (rev (frr_candidates sel nodes)) = Some p"
    unfolding frr_map_def fold_update_map_of by (simp split: option.split)
  also have "\<dots> \<longleftrightarrow> pe_Name p = k \<and>
      (\<exists>xs ys. frr_candidates sel nodes = xs @ p # ys \<and> (\<forall>y \<in> set ys. pe_Name y \<noteq> k))"
    unfolding find_rev_Some_iff by blast
  finally show ?thesis .
qed

lemma frr_map_names_distinct: "distinct (map pe_Name (map snd (frr_map (convertToMetalLBNodeSelector sel) nodes)))"
proof -
  let ?m = "frr_map (convertToMetalLBNodeSelector sel) nodes"
  have "distinct (map fst ?m)" unfolding frr_map_def by (rule fold_update_distinct) simp
  moreover have "map pe_Name (map snd ?m) = map fst ?m"
    unfolding map_map by (rule map_cong [OF refl]) (auto simp: frr_map_entries)
  ultimately show ?thesis by metis
qed

lemma sorted_wrt_less_names:
  fixes f :: "'a \<Rightarrow> 'b :: linorder"
  shows "distinct (map f xs) \<Longrightarrow> sorted (map f xs) \<Longrightarrow> sorted_wrt (<) (map f xs)"
  by (simp add: strict_sorted_iff)

lemma sort_key_of_mset:
  fixes f :: "'a \<Rightarrow> 'b :: linorder"
  assumes "mset xs = mset ys" and "distinct (map f xs)"
  shows "sort_key f xs = sort_key f ys"
proof (rule sort_key_inj_key_eq [symmetric])
  show "mset ys = mset (sort_key f xs)" using assms(1) by simp
  show "inj_on f (set ys)" using assms by (metis distinct_map mset_eq_setD)
  show "sorted (map f (sort_key f xs))" by simp
qed

lemma native_names_distinct: "distinct (map lbn_Name nodes) \<Longrightarrow> distinct (map pe_Name (PeersFromNodesNative nodes))"
proof (induction nodes)
  case (Cons node nodes)
  have "pe_Name p \<noteq> pe_Name q" if "p \<in> set (map (native_peer node) (enumerate 0 (lbn_Peers node)))"
    and "q \<in> set (PeersFromNodesNative nodes)" for p q
    using that Cons.prems
    by (auto simp: in_PeersFromNodesNative in_set_enumerate_eq indexed_name_inject [simplified])
  then have "pe_Name ` set (map (native_peer node) (enumerate 0 (lbn_Peers node)))
      \<inter> pe_Name ` set (PeersFromNodesNative nodes) = {}" by blast
  with Cons native_names_of_node [of node 0 "lbn_Peers node"] show ?case
    by (simp add: PeersFromNodesNative_def image_image)
qed (simp add: PeersFromNodesNative_def)

section \<open>Properties\<close>

text \<open>C19: Native mode gives every node one peer object per BGP neighbour, named by the node and
  the neighbour's index; the object names are distinct when the node names are, each object is
  bound to its node by the host name label, and the AS numbers and the port are those of the
  node modulo \<open>2^32\<close> and \<open>2^16\<close>.\<close>

theorem native_peers_one_per_neighbour:
  assumes "distinct (map lbn_Name nodes)"
  shows "distinct (map pe_Name (PeersFromNodesNative nodes))
    \<and> length (PeersFromNodesNative nodes) = (\<Sum>node \<leftarrow> nodes. length (lbn_Peers node))
    \<and> (\<forall>node \<in> set nodes. \<forall>i < length (lbn_Peers node). \<exists>p \<in> set (PeersFromNodesNative nodes).
         pe_Name p = lbn_Name node @ ''-'' @ dec_nat i
         \<and> pe_NodeSelectors p = [\<lparr>ns_MatchLabels = Some [hostnameKey \<mapsto> lbn_Name node], ns_MatchExpressions = None\<rparr>]
         \<and> uint (pe_ASN p) = lbn_PeerASN node mod 2 ^ 32 \<and> uint (pe_MyASN p) = lbn_LocalASN node mod 2 ^ 32
         \<and> pe_Addr p = lbp_Address (lbn_Peers node ! i)
         \<and> uint (pe_Port p) = lbp_Port (lbn_Peers node ! i) mod 2 ^ 16)"
proof (intro conjI ballI allI impI)
  show "distinct (map pe_Name (PeersFromNodesNative nodes))"
    by (rule native_names_distinct [OF assms])
  show "length (PeersFromNodesNative nodes) = (\<Sum>node \<leftarrow> nodes. length (lbn_Peers node))"
    by (simp add: PeersFromNodesNative_def length_concat comp_def)
  fix node i assume "node \<in> set nodes" "i < length (lbn_Peers node)"
  then have "native_peer node (i, lbn_Peers node ! i) \<in> set (PeersFromNodesNative nodes)"
    unfolding in_PeersFromNodesNative by blast
  then show "\<exists>p \<in> set (PeersFromNodesNative nodes). pe_Name p = lbn_Name node @ ''-'' @ dec_nat i
      \<and> pe_NodeSelectors p = [\<lparr>ns_MatchLabels = Some [hostnameKey \<mapsto> lbn_Name node], ns_MatchExpressions = None\<rparr>]
      \<and> uint (pe_ASN p) = lbn_PeerASN node mod 2 ^ 32 \<and> uint (pe_MyASN p) = lbn_LocalASN node mod 2 ^ 32
      \<and> pe_Addr p = lbp_Address (lbn_Peers node ! i)
      \<and> uint (pe_Port p) = lbp_Port (lbn_Peers node ! i) mod 2 ^ 16"
    by (rule bexI [rotated]) (simp add: native_peer_def uint_word_of_int)
qed

theorem native_peers_one_per_neighbour_witness:
  "distinct (map pe_Name (PeersFromNodesNative
     [\<lparr>lbn_Name = ''a'', lbn_SourceIP = ''1.2.3.4'', lbn_LocalASN = 65000, lbn_PeerASN = 65010, lbn_Password = '''',
       lbn_Peers = [\<lparr>lbp_Address = ''10.0.0.1'', lbp_Port = 179\<rparr>], lbn_Region = ''LT''\<rparr>,
      \<lparr>lbn_Name = ''a-0'', lbn_SourceIP = ''1.2.3.5'', lbn_LocalASN = 65000, lbn_PeerASN = 65010, lbn_Password = '''',
       lbn_Peers = [\<lparr>lbp_Address = ''10.0.0.1'', lbp_Port = 179\<rparr>], lbn_Region = ''LT''\<rparr>]))"
  by (rule native_peers_one_per_neighbour [THEN conjunct1]) simp

text \<open>C20: FRR mode gives one peer per name, in ascending order of the names, whatever order the
  map of peers is visited in: of the peers that the nodes give under one name, the one of the
  last node. Every peer has multi-hop on and carries the labels of the configured selector
  with the region of its node added.\<close>

theorem frr_peers_one_per_name:
  assumes ord: "iteration_order ord"
  shows "sorted_wrt (<) (map pe_Name (NewPeersFromNodesFRRFunc ord sel nodes))
    \<and> NewPeersFromNodesFRRFunc ord sel nodes = NewPeersFromNodesFRRFunc (\<lambda>xs. xs) sel nodes
    \<and> (\<forall>p. p \<in> set (NewPeersFromNodesFRRFunc ord sel nodes) \<longleftrightarrow>
         (\<exists>xs ys. frr_candidates sel nodes = xs @ p # ys \<and> (\<forall>y \<in> set ys. pe_Name y \<noteq> pe_Name p)))
    \<and> (\<forall>p \<in> set (NewPeersFromNodesFRRFunc ord sel nodes). pe_EBGPMultiHop p \<and>
         (\<exists>node \<in> set nodes. map ns_MatchLabels (pe_NodeSelectors p)
            = [Some ((nil_map (ls_MatchLabels sel))(regionKey \<mapsto> lbn_Region node))]))"
proof -
  let ?v = "map snd (frr_map (convertToMetalLBNodeSelector sel) nodes)"
  have perm: "mset (ord ?v) = mset ?v" using ord by (simp add: iteration_order_def)
  have dist: "distinct (map pe_Name (ord ?v))"
    using frr_map_names_distinct [of sel nodes] perm by (metis mset_eq_imp_distinct_iff mset_map)
  have eq: "NewPeersFromNodesFRRFunc ord sel nodes = NewPeersFromNodesFRRFunc (\<lambda>xs. xs) sel nodes"
    unfolding NewPeersFromNodesFRRFunc_def by (rule sort_key_of_mset [OF perm dist])
  have sorted: "sorted_wrt (<) (map pe_Name (NewPeersFromNodesFRRFunc ord sel nodes))"
    unfolding NewPeersFromNodesFRRFunc_def
    by (rule sorted_wrt_less_names) (use dist in \<open>auto simp: distinct_map\<close>)
  have elem: "p \<in> set (NewPeersFromNodesFRRFunc ord sel nodes) \<longleftrightarrow>
      (\<exists>xs ys. frr_candidates sel nodes = xs @ p # ys \<and> (\<forall>y \<in> set ys. pe_Name y \<noteq> pe_Name p))" for p
  proof -
    have "p \<in> set (NewPeersFromNodesFRRFunc ord sel nodes) \<longleftrightarrow> (\<exists>k. (k, p) \<in> set (frr_map (convertToMetalLBNodeSelector sel) nodes))"
      unfolding eq by (force simp: NewPeersFromNodesFRRFunc_def)
    then show ?thesis unfolding frr_map_entries by blast
  qed
  have "pe_EBGPMultiHop p \<and> (\<exists>node \<in> set nodes. map ns_MatchLabels (pe_NodeSelectors p)
      = [Some ((nil_map (ls_MatchLabels sel))(regionKey \<mapsto> lbn_Region node))])"
    if "p \<in> set (NewPeersFromNodesFRRFunc ord sel nodes)" for p
  proof -
    from that elem have "p \<in> set (frr_candidates sel nodes)" by (metis in_set_conv_decomp)
    then show ?thesis
      by (auto simp: frr_peer_def Let_def NodeSelector_Duplicate_def convertToMetalLBNodeSelector_def)
  qed
  with eq sorted elem show ?thesis by blast
qed

theorem frr_peers_one_per_name_witness:
  "NewPeersFromNodesFRRFunc rev \<lparr>ls_MatchLabels = None, ls_MatchExpressions = []\<rparr>
     [\<lparr>lbn_Name = ''a'', lbn_SourceIP = ''1.2.3.4'', lbn_LocalASN = 65000, lbn_PeerASN = 65010, lbn_Password = '''',
       lbn_Peers = [\<lparr>lbp_Address = ''10.0.0.1'', lbp_Port = 179\<rparr>], lbn_Region = ''LT''\<rparr>]
   = NewPeersFromNodesFRRFunc (\<lambda>xs. xs) \<lparr>ls_MatchLabels = None, ls_MatchExpressions = []\<rparr>
     [\<lparr>lbn_Name = ''a'', lbn_SourceIP = ''1.2.3.4'', lbn_LocalASN = 65000, lbn_PeerASN = 65010, lbn_Password = '''',
       lbn_Peers = [\<lparr>lbp_Address = ''10.0.0.1'', lbp_Port = 179\<rparr>], lbn_Region = ''LT''\<rparr>]"
  by (rule frr_peers_one_per_name [OF iteration_order_rev, THEN conjunct2, THEN conjunct1])

lemma trim_slashes:
  assumes "ns \<noteq> [] \<longrightarrow> hd ns \<noteq> CHR ''/'' \<and> last ns \<noteq> CHR ''/''"
    and "path \<in> {ns, ''/'' @ ns, ns @ ''/'', ''/'' @ ns @ ''/''}"
  shows "TrimSuffix (TrimPrefix path ''/'') ''/'' = ns"
proof (cases "ns = []")
  case True
  with assms(2) show ?thesis by (auto simp: TrimSuffix_def TrimPrefix_def)
next
  case False
  with assms(1) have no: "\<not> prefix ''/'' ns" "\<not> suffix ''/'' ns" "\<not> prefix ''/'' (ns @ ''/'')"
    by (auto simp: prefix_def suffix_def neq_Nil_conv)
  have "TrimPrefix path ''/'' \<in> {ns, ns @ ''/''}"
    using assms(2) no(1,3) by (auto simp: TrimPrefix_def)
  with no(2) show ?thesis by (auto simp: TrimSuffix_def)
qed

text \<open>C27: The configuration URL reads back: the namespace is the path less one slash at either
  end, the mode is the one of the three whose name the query carries, a missing mode is native,
  and any other name is an error, the name \<open>unknown\<close> of the other modes included.\<close>

theorem config_url_reads_back:
  assumes ns: "ns \<noteq> [] \<longrightarrow> hd ns \<noteq> CHR ''/'' \<and> last ns \<noteq> CHR ''/''"
    and path: "path \<in> {ns, ''/'' @ ns, ns @ ''/'', ''/'' @ ns @ ''/''}"
  shows "(ParseConfigURL path (\<lambda>_. BGPPeerMode_String mode) = (ns, mode, None)
        \<longleftrightarrow> mode \<in> {BGPPeerModeNone, BGPPeerModeNative, BGPPeerModeFRR})
    \<and> ParseConfigURL path (\<lambda>_. '''') = (ns, BGPPeerModeNative, None)
    \<and> ((\<exists>e. snd (snd (ParseConfigURL path query)) = Some e) \<longleftrightarrow>
         query ''bgp-peer-mode'' \<notin> {'''', ''none'', ''native'', ''frr''})"
  by (simp add: ParseConfigURL_def BGPPeerMode_String_def BGPPeerMode_consts Let_def trim_slashes [OF ns path])

theorem config_url_reads_back_witness:
  "ParseConfigURL ''/metallb-system'' (\<lambda>_. BGPPeerMode_String BGPPeerModeFRR) = (''metallb-system'', BGPPeerModeFRR, None)"
  by (rule config_url_reads_back [THEN conjunct1, THEN iffD2]) simp_all

end
