(* ===== verification/MetalLB_Resources.thy ===== *)
theory MetalLB_Resources
  imports MetalLB_Peers
begin

text \<open>
  \<^verbatim>\<open>cherry/loadbalancers/metallb/resource.go\<close>, and the two loops over the node selectors of
  a peer by which a service is linked to the peer and unlinked from it. The loops stand twice
  in the source, in \<^verbatim>\<open>crd.go\<close> over the node selectors of MetalLB's API and in
  \<^verbatim>\<open>config.go\<close> over those of the old configuration file; here they are written once over
  the labels of a selector. What both promise is the locale \<open>service_links\<close>.
\<close>

section \<open>Resources\<close>

record Resource =
  res_Namespace :: string
  res_Name :: string

definition Resources_Less :: "Resource \<Rightarrow> Resource \<Rightarrow> bool" where
  "Resources_Less r s =
     (if res_Namespace r < res_Namespace s then True
      else if res_Name r < res_Name s then True
      else False)"

text \<open>
  \<open>sort.Sort\<close> sorts up to twelve elements by insertion: each element in turn moves to the
  left as long as it is less than its neighbour (the sorted part is kept reversed here).
  Longer slices go to its quicksort, which is only taken to permute the slice: it is the
  argument \<open>pdq\<close>.
\<close>

fun insert_left :: "('a \<Rightarrow> 'a \<Rightarrow> bool) \<Rightarrow> 'a \<Rightarrow> 'a list \<Rightarrow> 'a list" where
  "insert_left lt x [] = [x]"
| "insert_left lt x (y # ys) = (if lt x y then y # insert_left lt x ys else x # y # ys)"

definition insertionSort :: "('a \<Rightarrow> 'a \<Rightarrow> bool) \<Rightarrow> 'a list \<Rightarrow> 'a list" where
  "insertionSort lt xs = rev (foldl (\<lambda>acc x. insert_left lt x acc) [] xs)"

definition sort_Sort :: "('a list \<Rightarrow> 'a list) \<Rightarrow> ('a \<Rightarrow> 'a \<Rightarrow> bool) \<Rightarrow> 'a list \<Rightarrow> 'a list" where
  "sort_Sort pdq lt xs = (if length xs \<le> 12 then insertionSort lt xs else pdq xs)"

section \<open>Services in the labels of selectors\<close>

definition serviceNameKey :: string where "serviceNameKey = ''nomatch.cherryservers.com/service-name''"
definition serviceNameSpaceKey :: string where "serviceNameSpaceKey = ''nomatch.cherryservers.com/service-namespace''"

definition service_labels :: "Resource \<Rightarrow> strmap" where
  "service_labels r = [serviceNameSpaceKey \<mapsto> res_Namespace r, serviceNameKey \<mapsto> res_Name r]"

text \<open>The namespace and the name a selector carries, empty where it has no such label.\<close>

definition selector_service :: "('s \<Rightarrow> strmap option) \<Rightarrow> 's \<Rightarrow> string \<times> string" where
  "selector_service labels s =
     (map_get (nil_map (labels s)) serviceNameSpaceKey, map_get (nil_map (labels s)) serviceNameKey)"

text \<open>
  The loop of \<open>AddService\<close>: the services and the other selectors seen so far, and \<open>None\<close> for
  the early return when the service is there already.
\<close>

fun add_service_loop ::
  "('s \<Rightarrow> strmap option) \<Rightarrow> string \<Rightarrow> string \<Rightarrow> 's list \<Rightarrow> Resource list \<Rightarrow> 's list
    \<Rightarrow> (Resource list \<times> 's list) option" where
  "add_service_loop labels svcNamespace svcName [] services selectors = Some (services, selectors)"
| "add_service_loop labels svcNamespace svcName (ns # nss) services selectors =
     (case selector_service labels ns of (namespace, name) \<Rightarrow>
        let selectors' = (if name = '''' \<and> namespace = '''' then selectors @ [ns] else selectors)
        in if name \<noteq> '''' \<and> namespace \<noteq> '''' then
             if svcNamespace = namespace \<and> svcName = name then None
             else add_service_loop labels svcNamespace svcName nss
                    (services @ [\<lparr>res_Namespace = namespace, res_Name = name\<rparr>]) selectors'
           else add_service_loop labels svcNamespace svcName nss services selectors')"

definition add_service ::
  "(Resource list \<Rightarrow> Resource list) \<Rightarrow> ('s \<Rightarrow> strmap option) \<Rightarrow> (strmap \<Rightarrow> 's) \<Rightarrow> string \<Rightarrow> string
    \<Rightarrow> 's list \<Rightarrow> bool \<times> 's list" where
  "add_service pdq labels mk svcNamespace svcName nss =
     (case add_service_loop labels svcNamespace svcName nss
             [\<lparr>res_Namespace = svcNamespace, res_Name = svcName\<rparr>] [] of
        None \<Rightarrow> (False, nss)
      | Some (services, selectors) \<Rightarrow>
          (True, selectors @ map (\<lambda>svc. mk (service_labels svc)) (sort_Sort pdq Resources_Less services)))"

text \<open>The loop of \<open>RemoveService\<close>: its three cases in order; a selector in none of them goes away.\<close>

fun remove_service_loop ::
  "('s \<Rightarrow> strmap option) \<Rightarrow> string \<Rightarrow> string \<Rightarrow> 's list \<Rightarrow> bool \<Rightarrow> Resource list \<Rightarrow> 's list
    \<Rightarrow> bool \<times> Resource list \<times> 's list" where
  "remove_service_loop labels svcNamespace svcName [] found services selectors = (found, services, selectors)"
| "remove_service_loop labels svcNamespace svcName (ns # nss) found services selectors =
     (case selector_service labels ns of (namespace, name) \<Rightarrow>
        if name = '''' \<and> namespace = '''' then
          remove_service_loop labels svcNamespace svcName nss found services (selectors @ [ns])
        else if name = svcName \<and> namespace = svcNamespace then
          remove_service_loop labels svcNamespace svcName nss True services selectors
        else if name \<noteq> '''' \<and> namespace \<noteq> '''' \<and> (name \<noteq> svcName \<or> namespace \<noteq> svcNamespace) then
          remove_service_loop labels svcNamespace svcName nss found
            (services @ [\<lparr>res_Namespace = namespace, res_Name = name\<rparr>]) selectors
        else remove_service_loop labels svcNamespace svcName nss found services selectors)"

definition remove_service ::
  "(Resource list \<Rightarrow> Resource list) \<Rightarrow> ('s \<Rightarrow> strmap option) \<Rightarrow> (strmap \<Rightarrow> 's) \<Rightarrow> string \<Rightarrow> string
    \<Rightarrow> 's list \<Rightarrow> (bool \<times> nat) \<times> 's list" where
  "remove_service pdq labels mk svcNamespace svcName nss =
     (case remove_service_loop labels svcNamespace svcName nss False [] [] of
        (found, services, selectors) \<Rightarrow>
          let sorted = sort_Sort pdq Resources_Less services
          in ((found, length sorted), selectors @ map (\<lambda>svc. mk (service_labels svc)) sorted))"

text \<open>What the loops are about: the services that selectors link, and the selectors that link none.\<close>

definition services_of :: "('s \<Rightarrow> strmap option) \<Rightarrow> 's list \<Rightarrow> Resource list" where
  "services_of labels nss =
     map (\<lambda>s. case selector_service labels s of (n, m) \<Rightarrow> \<lparr>res_Namespace = n, res_Name = m\<rparr>)
       (filter (\<lambda>s. case selector_service labels s of (n, m) \<Rightarrow> m \<noteq> '''' \<and> n \<noteq> '''') nss)"

definition plain_of :: "('s \<Rightarrow> strmap option) \<Rightarrow> 's list \<Rightarrow> 's list" where
  "plain_of labels nss = filter (\<lambda>s. selector_service labels s = ('''', '''')) nss"

section \<open>Lemmas on sorting\<close>

lemma insert_left_mset [simp]: "mset (insert_left lt x ys) = add_mset x (mset ys)"
  by (induction ys) auto

lemma insertionSort_mset [simp]: "mset (insertionSort lt xs) = mset xs"
proof -
  have "mset (foldl (\<lambda>acc x. insert_left lt x acc) acc xs) = mset acc + mset xs" for acc
    by (induction xs arbitrary: acc) auto
  then show ?thesis by (simp add: insertionSort_def)
qed

lemma sort_Sort_mset: "iteration_order pdq \<Longrightarrow> mset (sort_Sort pdq lt xs) = mset xs"
  by (simp add: sort_Sort_def iteration_order_def)

lemma sort_Sort_set: "iteration_order pdq \<Longrightarrow> set (sort_Sort pdq lt xs) = set xs"
  by (metis sort_Sort_mset mset_eq_setD)

lemma sort_Sort_length: "iteration_order pdq \<Longrightarrow> length (sort_Sort pdq lt xs) = length xs"
  by (metis sort_Sort_mset mset_eq_length)

text \<open>Quicksort of a long slice is one of the functions that permute a list.\<close>

typedef slice_permutation = "{f :: Resource list \<Rightarrow> Resource list. iteration_order f}"
  morphisms permute Slice_Permutation
  by (rule exI [of _ "\<lambda>xs. xs"]) simp

lemma iteration_order_permute [simp]: "iteration_order (permute f)"
  using permute [of f] by simp

section \<open>Lemmas on the loops\<close>

lemma service_keys_differ [simp]: "serviceNameSpaceKey \<noteq> serviceNameKey" "serviceNameKey \<noteq> serviceNameSpaceKey"
  by (simp_all add: serviceNameSpaceKey_def serviceNameKey_def)

lemma map_get_service_labels [simp]:
  "map_get (service_labels r) serviceNameSpaceKey = res_Namespace r"
  "map_get (service_labels r) serviceNameKey = res_Name r"
  by (simp_all add: service_labels_def)

text \<open>Whoever builds a selector from labels has them read back.\<close>

lemma services_of_built:
  assumes "\<And>m. labels (mk m) = Some m" and "\<And>r. r \<in> set rs \<Longrightarrow> res_Namespace r \<noteq> '''' \<and> res_Name r \<noteq> ''''"
  shows "services_of labels (map (\<lambda>r. mk (service_labels r)) rs) = rs"
    and "plain_of labels (map (\<lambda>r. mk (service_labels r)) rs) = []"
  using assms(2) by (induction rs) (simp_all add: services_of_def plain_of_def selector_service_def assms(1))

lemma services_of_append [simp]: "services_of labels (xs @ ys) = services_of labels xs @ services_of labels ys"
  by (simp add: services_of_def)

lemma plain_of_append [simp]: "plain_of labels (xs @ ys) = plain_of labels xs @ plain_of labels ys"
  by (simp add: plain_of_def)

lemma plain_of_plain [simp]:
  "plain_of labels (plain_of labels xs) = plain_of labels xs" "services_of labels (plain_of labels xs) = []"
  by (auto simp: plain_of_def services_of_def filter_empty_conv)

lemma services_of_nonempty: "r \<in> set (services_of labels nss) \<Longrightarrow> res_Namespace r \<noteq> '''' \<and> res_Name r \<noteq> ''''"
  by (auto simp: services_of_def)

lemma add_service_loop_eq:
  "add_service_loop labels n m nss services selectors =
     (if \<lparr>res_Namespace = n, res_Name = m\<rparr> \<in> set (services_of labels nss) then None
      else Some (services @ services_of labels nss, selectors @ plain_of labels nss))"
  by (induction nss arbitrary: services selectors)
    (auto simp: services_of_def plain_of_def Let_def split: prod.splits)

lemma remove_service_loop_eq:
  assumes "n \<noteq> ''''" and "m \<noteq> ''''"
  shows "remove_service_loop labels n m nss found services selectors =
     (found \<or> \<lparr>res_Namespace = n, res_Name = m\<rparr> \<in> set (services_of labels nss),
      services @ filter (\<lambda>r. r \<noteq> \<lparr>res_Namespace = n, res_Name = m\<rparr>) (services_of labels nss),
      selectors @ plain_of labels nss)"
  using assms by (induction nss arbitrary: found services selectors)
    (auto simp: services_of_def plain_of_def split: prod.splits)

section \<open>The contract of a peer that services share\<close>

text \<open>
  \<open>services\<close> and \<open>plain\<close> read a peer: the services linked to it, and its other selectors. A
  service has a name and a namespace that are not empty.
\<close>

locale service_links =
  fixes add :: "'p \<Rightarrow> string \<Rightarrow> string \<Rightarrow> bool \<times> 'p"
    and remove :: "'p \<Rightarrow> string \<Rightarrow> string \<Rightarrow> (bool \<times> nat) \<times> 'p"
    and services :: "'p \<Rightarrow> Resource list"
    and plain :: "'p \<Rightarrow> 's list"
  assumes add_fst: "n \<noteq> '''' \<Longrightarrow> m \<noteq> '''' \<Longrightarrow>
      fst (add p n m) \<longleftrightarrow> \<lparr>res_Namespace = n, res_Name = m\<rparr> \<notin> set (services p)"
    and add_no_change: "\<not> fst (add p n m) \<Longrightarrow> snd (add p n m) = p"
    and add_services: "n \<noteq> '''' \<Longrightarrow> m \<noteq> '''' \<Longrightarrow> fst (add p n m) \<Longrightarrow>
      mset (services (snd (add p n m))) = add_mset \<lparr>res_Namespace = n, res_Name = m\<rparr> (mset (services p))"
    and add_plain: "n \<noteq> '''' \<Longrightarrow> m \<noteq> '''' \<Longrightarrow> plain (snd (add p n m)) = plain p"
    and remove_found: "n \<noteq> '''' \<Longrightarrow> m \<noteq> '''' \<Longrightarrow>
      fst (fst (remove p n m)) \<longleftrightarrow> \<lparr>res_Namespace = n, res_Name = m\<rparr> \<in> set (services p)"
    and remove_size: "n \<noteq> '''' \<Longrightarrow> m \<noteq> '''' \<Longrightarrow> snd (fst (remove p n m)) = length (services (snd (remove p n m)))"
    and remove_services: "n \<noteq> '''' \<Longrightarrow> m \<noteq> '''' \<Longrightarrow> mset (services (snd (remove p n m))) =
      filter_mset (\<lambda>r. r \<noteq> \<lparr>res_Namespace = n, res_Name = m\<rparr>) (mset (services p))"
    and remove_plain: "n \<noteq> '''' \<Longrightarrow> m \<noteq> '''' \<Longrightarrow> plain (snd (remove p n m)) = plain p"
begin

lemma add_linked:
  assumes "n \<noteq> ''''" and "m \<noteq> ''''"
  shows "\<lparr>res_Namespace = n, res_Name = m\<rparr> \<in> set (services (snd (add p n m)))"
  by (metis assms add_fst add_no_change add_services set_mset_mset union_single_eq_member)

lemma add_twice:
  assumes "n \<noteq> ''''" and "m \<noteq> ''''"
  shows "add (snd (add p n m)) n m = (False, snd (add p n m))"
  using assms add_linked [OF assms, of p] add_fst [OF assms] add_no_change
  by (metis prod.collapse)

lemma remove_gone:
  assumes "n \<noteq> ''''" and "m \<noteq> ''''"
  shows "\<lparr>res_Namespace = n, res_Name = m\<rparr> \<notin> set (services (snd (remove p n m)))"
  using remove_services [OF assms, of p] by (metis (mono_tags, lifting) mem_Collect_eq set_mset_filter set_mset_mset)

text \<open>Linking a new service and unlinking it leaves the services and the other selectors as they were.\<close>

lemma remove_add:
  assumes "n \<noteq> ''''" and "m \<noteq> ''''" and new: "\<lparr>res_Namespace = n, res_Name = m\<rparr> \<notin> set (services p)"
  shows "mset (services (snd (remove (snd (add p n m)) n m))) = mset (services p)"
    and "plain (snd (remove (snd (add p n m)) n m)) = plain p"
    and "fst (remove (snd (add p n m)) n m) = (True, length (services p))"
proof -
  have added: "fst (add p n m)" using assms add_fst by blast
  have "filter_mset (\<lambda>r. r \<noteq> \<lparr>res_Namespace = n, res_Name = m\<rparr>) (mset (services p)) = mset (services p)"
    using new by (auto simp: filter_mset_eq_conv)
  then show eq: "mset (services (snd (remove (snd (add p n m)) n m))) = mset (services p)"
    using remove_services [OF assms(1,2)] add_services [OF assms(1,2) added] by simp
  show "plain (snd (remove (snd (add p n m)) n m)) = plain p"
    using add_plain remove_plain assms by metis
  show "fst (remove (snd (add p n m)) n m) = (True, length (services p))"
    using remove_found [OF assms(1,2)] remove_size [OF assms(1,2)] add_linked [OF assms(1,2)] eq
    by (metis mset_eq_length prod.collapse)
qed

end

section \<open>The loops meet the contract\<close>

text \<open>
  The laws, for any kind of selector whose labels read back as they were given.
\<close>

lemma add_service_laws:
  assumes pdq: "iteration_order pdq" and mk: "\<And>m. labels (mk m) = Some m" and ne: "n \<noteq> ''''" "m \<noteq> ''''"
  shows "fst (add_service pdq labels mk n m nss) \<longleftrightarrow> \<lparr>res_Namespace = n, res_Name = m\<rparr> \<notin> set (services_of labels nss)"
    and "plain_of labels (snd (add_service pdq labels mk n m nss)) = plain_of labels nss"
    and "fst (add_service pdq labels mk n m nss) \<Longrightarrow>
      mset (services_of labels (snd (add_service pdq labels mk n m nss)))
        = add_mset \<lparr>res_Namespace = n, res_Name = m\<rparr> (mset (services_of labels nss))"
proof -
  let ?r = "\<lparr>res_Namespace = n, res_Name = m\<rparr>"
  let ?s = "sort_Sort pdq Resources_Less (?r # services_of labels nss)"
  have "res_Namespace r \<noteq> '''' \<and> res_Name r \<noteq> ''''" if "r \<in> set ?s" for r
    using that ne services_of_nonempty [of r labels nss] by (auto simp: sort_Sort_set [OF pdq])
  note built = services_of_built [where rs = ?s and labels = labels and mk = mk, OF mk this]
  show "fst (add_service pdq labels mk n m nss) \<longleftrightarrow> ?r \<notin> set (services_of labels nss)"
    and "plain_of labels (snd (add_service pdq labels mk n m nss)) = plain_of labels nss"
    and "fst (add_service pdq labels mk n m nss) \<Longrightarrow>
      mset (services_of labels (snd (add_service pdq labels mk n m nss))) = add_mset ?r (mset (services_of labels nss))"
    by (simp_all add: add_service_def add_service_loop_eq built sort_Sort_mset [OF pdq] split: if_splits)
qed

lemma remove_service_laws:
  assumes pdq: "iteration_order pdq" and mk: "\<And>m. labels (mk m) = Some m" and ne: "n \<noteq> ''''" "m \<noteq> ''''"
  shows "fst (fst (remove_service pdq labels mk n m nss)) \<longleftrightarrow> \<lparr>res_Namespace = n, res_Name = m\<rparr> \<in> set (services_of labels nss)"
    and "plain_of labels (snd (remove_service pdq labels mk n m nss)) = plain_of labels nss"
    and "mset (services_of labels (snd (remove_service pdq labels mk n m nss)))
        = filter_mset (\<lambda>r. r \<noteq> \<lparr>res_Namespace = n, res_Name = m\<rparr>) (mset (services_of labels nss))"
    and "snd (fst (remove_service pdq labels mk n m nss)) = length (services_of labels (snd (remove_service pdq labels mk n m nss)))"
proof -
  let ?r = "\<lparr>res_Namespace = n, res_Name = m\<rparr>"
  let ?s = "sort_Sort pdq Resources_Less (filter (\<lambda>r. r \<noteq> ?r) (services_of labels nss))"
  have "res_Namespace r \<noteq> '''' \<and> res_Name r \<noteq> ''''" if "r \<in> set ?s" for r
    using that services_of_nonempty [of r labels nss] by (auto simp: sort_Sort_set [OF pdq])
  note built = services_of_built [where rs = ?s and labels = labels and mk = mk, OF mk this]
  show "fst (fst (remove_service pdq labels mk n m nss)) \<longleftrightarrow> ?r \<in> set (services_of labels nss)"
    and "plain_of labels (snd (remove_service pdq labels mk n m nss)) = plain_of labels nss"
    and "mset (services_of labels (snd (remove_service pdq labels mk n m nss)))
        = filter_mset (\<lambda>r. r \<noteq> ?r) (mset (services_of labels nss))"
    and "snd (fst (remove_service pdq labels mk n m nss)) = length (services_of labels (snd (remove_service pdq labels mk n m nss)))"
    by (simp_all add: remove_service_def remove_service_loop_eq [OF ne] built Let_def sort_Sort_mset [OF pdq])
qed

section \<open>Properties\<close>

text \<open>The order that \<open>Resources.Less\<close> defines is not one: of two resources each can be less
  than the other, and then the order of the services that a peer ends up with depends on the
  order they came in.\<close>

theorem resources_less_is_no_order:
  "\<exists>r s. Resources_Less r s \<and> Resources_Less s r
     \<and> sort_Sort pdq Resources_Less [r, s] \<noteq> sort_Sort pdq Resources_Less [s, r]"
proof -
  let ?r = "\<lparr>res_Namespace = ''a'', res_Name = ''b''\<rparr>" and ?s = "\<lparr>res_Namespace = ''b'', res_Name = ''a''\<rparr>"
  have lt: "Resources_Less ?r ?s" "Resources_Less ?s ?r" by code_simp+
  then have "sort_Sort pdq Resources_Less [?r, ?s] = [?s, ?r]" "sort_Sort pdq Resources_Less [?s, ?r] = [?r, ?s]"
    by (simp_all add: sort_Sort_def insertionSort_def)
  then have "sort_Sort pdq Resources_Less [?r, ?s] \<noteq> sort_Sort pdq Resources_Less [?s, ?r]" by simp
  with lt show ?thesis by blast
qed

end
