(* ===== verification/MetalLB_CRD.thy ===== *)
theory MetalLB_CRD
  imports MetalLB_Resources
begin

text \<open>
  \<^verbatim>\<open>cherry/loadbalancers/metallb/crd.go\<close>: the configurer that keeps MetalLB's custom
  resources in step with the services. The objects of MetalLB's API are records with the fields
  the source uses. The API client (controller-runtime) is an argument: a record of \<open>List\<close>,
  \<open>Create\<close>, \<open>Patch\<close> and \<open>Delete\<close> for each of the three kinds, over a world \<open>'w\<close>. A patch gets
  the object as it should be and the copy it was made from, as \<open>client.MergeFrom\<close> does.
\<close>

section \<open>Objects of MetalLB's API\<close>

record MatchExpression =
  me_Key :: string
  me_Operator :: string
  me_Values :: "string list"

record metal_NodeSelector =
  mns_MatchLabels :: "strmap option"
  mns_MatchExpressions :: "MatchExpression list"

record BGPPeerSpec =
  bps_MyASN :: uint32
  bps_ASN :: uint32
  bps_Address :: string
  bps_SrcAddress :: string
  bps_Port :: uint16
  bps_HoldTime :: int
  bps_RouterID :: string
  bps_NodeSelectors :: "metal_NodeSelector list"
  bps_Password :: string
  bps_EBGPMultiHop :: bool

record metal_BGPPeer =
  bpo_Name :: string
  bpo_Namespace :: string
  bpo_Labels :: "strmap option"
  bpo_Spec :: BGPPeerSpec

record IPAddressPool =
  iap_Name :: string
  iap_Namespace :: string
  iap_Labels :: "strmap option"
  iap_Addresses :: "string list"
  iap_AutoAssign :: "bool option"
  iap_AvoidBuggyIPs :: bool

record BGPAdvertisement =
  adv_Name :: string
  adv_Namespace :: string
  adv_Labels :: "strmap option"
  adv_IPAddressPools :: "string list"

record ('w, 'o) kind_client =
  api_List :: "strmap \<Rightarrow> string \<Rightarrow> 'w \<Rightarrow> (go_error + 'o list) \<times> 'w"
  api_Create :: "'o \<Rightarrow> 'w \<Rightarrow> go_error option \<times> 'w"
  api_Patch :: "'o \<Rightarrow> 'o \<Rightarrow> 'w \<Rightarrow> go_error option \<times> 'w"
  api_Delete :: "'o \<Rightarrow> 'w \<Rightarrow> go_error option \<times> 'w"

record 'w metal_client =
  mc_Peers :: "('w, metal_BGPPeer) kind_client"
  mc_Pools :: "('w, IPAddressPool) kind_client"
  mc_Advs :: "('w, BGPAdvertisement) kind_client"

record 'w CRDConfigurer =
  crd_namespace :: string
  crd_client :: "'w metal_client"

section \<open>Constants and labels\<close>

definition defaultBgpAdvertisement :: string where "defaultBgpAdvertisement = ''equinix-metal-bgp-adv''"
definition cpemLabelKey :: string where "cpemLabelKey = ''cloud-provider''"
definition cpemLabelValue :: string where "cpemLabelValue = ''equinix-metal''"
definition svcLabelKeyPrefix :: string where "svcLabelKeyPrefix = ''service-''"
definition svcLabelValuePrefix :: string where "svcLabelValuePrefix = ''namespace-''"

definition serviceLabelKey :: "string \<Rightarrow> string" where
  "serviceLabelKey svcName = svcLabelKeyPrefix @ svcName"

definition serviceLabelValue :: "string \<Rightarrow> string" where
  "serviceLabelValue svcNamespace = svcLabelValuePrefix @ svcNamespace"

section \<open>Conversions\<close>

definition convertToMatchExpressions :: "SelectorRequirements list \<Rightarrow> MatchExpression list" where
  "convertToMatchExpressions legacy =
     map (\<lambda>l. \<lparr>me_Key = sr_Key l, me_Operator = sr_Operator l, me_Values = nil_list (sr_Values l)\<rparr>) legacy"

definition convertToNodeSelector :: "NodeSelector \<Rightarrow> metal_NodeSelector" where
  "convertToNodeSelector legacy =
     \<lparr>mns_MatchLabels = ns_MatchLabels legacy,
      mns_MatchExpressions = convertToMatchExpressions (nil_list (ns_MatchExpressions legacy))\<rparr>"

definition convertToNodeSelectors :: "NodeSelector list \<Rightarrow> metal_NodeSelector list" where
  "convertToNodeSelectors legacy = map convertToNodeSelector legacy"

text \<open>\<open>dur\<close> is the value that \<open>time.ParseDuration\<close> returns; its error is dropped.\<close>

definition convertToBGPPeer :: "(string \<Rightarrow> int) \<Rightarrow> Peer \<Rightarrow> string \<Rightarrow> string \<Rightarrow> metal_BGPPeer" where
  "convertToBGPPeer dur peer namespace svc =
     \<lparr>bpo_Name = pe_Name peer, bpo_Namespace = namespace,
      bpo_Labels = Some [cpemLabelKey \<mapsto> cpemLabelValue],
      bpo_Spec =
        \<lparr>bps_MyASN = pe_MyASN peer, bps_ASN = pe_ASN peer, bps_Address = pe_Addr peer,
         bps_SrcAddress = pe_SrcAddr peer, bps_Port = pe_Port peer, bps_HoldTime = dur (pe_HoldTime peer),
         bps_RouterID = '''', bps_NodeSelectors = convertToNodeSelectors (pe_NodeSelectors peer),
         bps_Password = pe_Password peer, bps_EBGPMultiHop = pe_EBGPMultiHop peer\<rparr>\<rparr>"

definition convertToIPAddr :: "AddressPool \<Rightarrow> string \<Rightarrow> string \<Rightarrow> string \<Rightarrow> IPAddressPool" where
  "convertToIPAddr addr namespace svcNamespace svcName =
     \<lparr>iap_Name = ap_Name addr, iap_Namespace = namespace,
      iap_Labels = Some [cpemLabelKey \<mapsto> cpemLabelValue, serviceLabelKey svcName \<mapsto> serviceLabelValue svcNamespace],
      iap_Addresses = ap_Addresses addr, iap_AutoAssign = ap_AutoAssign addr,
      iap_AvoidBuggyIPs = ap_AvoidBuggyIPs addr\<rparr>"

definition peerSpecEqual :: "BGPPeerSpec \<Rightarrow> BGPPeerSpec \<Rightarrow> bool" where
  "peerSpecEqual p q =
     (if bps_MyASN p \<noteq> bps_MyASN q \<or> bps_ASN p \<noteq> bps_ASN q \<or> bps_Address p \<noteq> bps_Address q \<or>
         bps_Port p \<noteq> bps_Port q \<or> bps_HoldTime p \<noteq> bps_HoldTime q \<or>
         bps_Password p \<noteq> bps_Password q \<or> bps_RouterID p \<noteq> bps_RouterID q
      then False else True)"

section \<open>Services of a peer\<close>

definition metal_selector :: "strmap \<Rightarrow> metal_NodeSelector" where
  "metal_selector m = \<lparr>mns_MatchLabels = Some m, mns_MatchExpressions = []\<rparr>"

definition set_selectors :: "metal_NodeSelector list \<Rightarrow> metal_BGPPeer \<Rightarrow> metal_BGPPeer" where
  "set_selectors nss p = p\<lparr>bpo_Spec := (bpo_Spec p)\<lparr>bps_NodeSelectors := nss\<rparr>\<rparr>"

definition peerAddService ::
  "(Resource list \<Rightarrow> Resource list) \<Rightarrow> metal_BGPPeer \<Rightarrow> string \<Rightarrow> string \<Rightarrow> bool \<times> metal_BGPPeer" where
  "peerAddService pdq p svcNamespace svcName =
     (case add_service pdq mns_MatchLabels metal_selector svcNamespace svcName (bps_NodeSelectors (bpo_Spec p)) of
        (changed, nss) \<Rightarrow> (changed, set_selectors nss p))"

definition peerRemoveService ::
  "(Resource list \<Rightarrow> Resource list) \<Rightarrow> metal_BGPPeer \<Rightarrow> string \<Rightarrow> string \<Rightarrow> (bool \<times> nat) \<times> metal_BGPPeer" where
  "peerRemoveService pdq p svcNamespace svcName =
     (case remove_service pdq mns_MatchLabels metal_selector svcNamespace svcName (bps_NodeSelectors (bpo_Spec p)) of
        (r, nss) \<Rightarrow> (r, set_selectors nss p))"

section \<open>Listing\<close>

definition listBGPPeers :: "'w CRDConfigurer \<Rightarrow> 'w \<Rightarrow> (go_error + metal_BGPPeer list) \<times> 'w" where
  "listBGPPeers m w =
     (case api_List (mc_Peers (crd_client m)) [cpemLabelKey \<mapsto> cpemLabelValue] (crd_namespace m) w of
        (Inl e, w') \<Rightarrow> (Inl (Wrapf ''unable to retrieve a list of BGPPeers: '' e), w')
      | (Inr l, w') \<Rightarrow> (Inr l, w'))"

definition listBGPAdvertisements :: "'w CRDConfigurer \<Rightarrow> 'w \<Rightarrow> (go_error + BGPAdvertisement list) \<times> 'w" where
  "listBGPAdvertisements m w =
     (case api_List (mc_Advs (crd_client m)) [cpemLabelKey \<mapsto> cpemLabelValue] (crd_namespace m) w of
        (Inl e, w') \<Rightarrow> (Inl (Wrapf ''unable to retrieve a list of BGPAdvertisements: '' e), w')
      | (Inr l, w') \<Rightarrow> (Inr l, w'))"

definition listIPAddressPools :: "'w CRDConfigurer \<Rightarrow> 'w \<Rightarrow> (go_error + IPAddressPool list) \<times> 'w" where
  "listIPAddressPools m w =
     (case api_List (mc_Pools (crd_client m)) [cpemLabelKey \<mapsto> cpemLabelValue] (crd_namespace m) w of
        (Inl e, w') \<Rightarrow> (Inl (Wrapf ''unable to retrieve a list of IPAddressPools: '' e), w')
      | (Inr l, w') \<Rightarrow> (Inr l, w'))"

section \<open>Peers\<close>

definition updateOrDeletePeerByService ::
  "(Resource list \<Rightarrow> Resource list) \<Rightarrow> 'w CRDConfigurer \<Rightarrow> metal_BGPPeer \<Rightarrow> string \<Rightarrow> string \<Rightarrow> 'w
    \<Rightarrow> (go_error + bool) \<times> 'w" where
  "updateOrDeletePeerByService pdq m p svcNamespace svcName w =
     (case peerRemoveService pdq p svcNamespace svcName of
        ((peerChanged, remaining), p') \<Rightarrow>
          if peerChanged then
            if 0 < remaining then
              (case api_Patch (mc_Peers (crd_client m)) p' p w of
                 (Some e, w') \<Rightarrow> (Inl (Wrapf (''unable to update BGPPeer '' @ bpo_Name p @ '': '') e), w')
               | (None, w') \<Rightarrow> (Inr True, w'))
            else
              (case api_Delete (mc_Peers (crd_client m)) p' w of
                 (Some e, w') \<Rightarrow> (Inl (Wrapf (''unable to delete BGPPeer '' @ bpo_Name p @ '': '') e), w')
               | (None, w') \<Rightarrow> (Inr True, w'))
          else (Inr False, w))"

text \<open>The loop that creates peers, stopping at the first error.\<close>

fun create_peers :: "'w CRDConfigurer \<Rightarrow> metal_BGPPeer list \<Rightarrow> 'w \<Rightarrow> go_error option \<times> 'w" where
  "create_peers m [] w = (None, w)"
| "create_peers m (n # ns) w =
     (case api_Create (mc_Peers (crd_client m)) n w of
        (Some e, w') \<Rightarrow> (Some (Wrapf (''unable to add BGPPeer '' @ bpo_Name n @ '': '') e), w')
      | (None, w') \<Rightarrow> create_peers m ns w')"

text \<open>
  The body of the loop over the peers that exist: what is found among the new ones is brought
  up to date and leaves the map \<open>toAdd\<close>; what is not is unlinked from the service.
\<close>

definition update_old_peer ::
  "(Resource list \<Rightarrow> Resource list) \<Rightarrow> 'w CRDConfigurer \<Rightarrow> metal_BGPPeer list \<Rightarrow> string \<Rightarrow> string
    \<Rightarrow> metal_BGPPeer \<Rightarrow> (string \<times> metal_BGPPeer) list \<Rightarrow> bool \<Rightarrow> 'w
    \<Rightarrow> (go_error + (string \<times> metal_BGPPeer) list \<times> bool) \<times> 'w" where
  "update_old_peer pdq m news svcNamespace svcName old toAdd changed w =
     (case find (\<lambda>n. bpo_Name n = bpo_Name old) news of
        Some n \<Rightarrow>
          let toAdd' = AList.delete (bpo_Name n) toAdd;
              (added, o1) = peerAddService pdq old svcNamespace svcName;
              same = peerSpecEqual (bpo_Spec o1) (bpo_Spec n);
              o2 = (if \<not> same then o1\<lparr>bpo_Spec := bpo_Spec n\<rparr> else o1)
          in if added \<or> \<not> same then
               (case api_Patch (mc_Peers (crd_client m)) o2 old w of
                  (Some e, w') \<Rightarrow> (Inl (Wrapf (''unable to update IPAddressPool '' @ bpo_Name old @ '': '') e), w')
                | (None, w') \<Rightarrow> (Inr (toAdd', True), w'))
             else (Inr (toAdd', changed), w)
      | None \<Rightarrow>
          (case updateOrDeletePeerByService pdq m old svcNamespace svcName w of
             (Inl e, w') \<Rightarrow> (Inl e, w')
           | (Inr updatedOrRemoved, w') \<Rightarrow> (Inr (toAdd, changed \<or> updatedOrRemoved), w')))"

fun update_old_peers ::
  "(Resource list \<Rightarrow> Resource list) \<Rightarrow> 'w CRDConfigurer \<Rightarrow> metal_BGPPeer list \<Rightarrow> string \<Rightarrow> string
    \<Rightarrow> metal_BGPPeer list \<Rightarrow> (string \<times> metal_BGPPeer) list \<Rightarrow> bool \<Rightarrow> 'w
    \<Rightarrow> (go_error + (string \<times> metal_BGPPeer) list \<times> bool) \<times> 'w" where
  "update_old_peers pdq m news svcNamespace svcName [] toAdd changed w = (Inr (toAdd, changed), w)"
| "update_old_peers pdq m news svcNamespace svcName (p # ps) toAdd changed w =
     (case update_old_peer pdq m news svcNamespace svcName p toAdd changed w of
        (Inl e, w') \<Rightarrow> (Inl e, w')
      | (Inr (toAdd', changed'), w') \<Rightarrow> update_old_peers pdq m news svcNamespace svcName ps toAdd' changed' w')"

definition CRD_UpdatePeersByService ::
  "(Resource list \<Rightarrow> Resource list) \<Rightarrow> (metal_BGPPeer list \<Rightarrow> metal_BGPPeer list) \<Rightarrow> (string \<Rightarrow> int)
    \<Rightarrow> 'w CRDConfigurer \<Rightarrow> Peer list \<Rightarrow> string \<Rightarrow> string \<Rightarrow> 'w \<Rightarrow> (go_error + bool) \<times> 'w" where
  "CRD_UpdatePeersByService pdq ord dur m adds svcNamespace svcName w =
     (case listBGPPeers m w of
        (Inl e, w1) \<Rightarrow> (Inl e, w1)
      | (Inr olds, w1) \<Rightarrow>
          let news = map (\<lambda>add. convertToBGPPeer dur add (crd_namespace m) svcName) adds;
              toAdd = fold (\<lambda>peer t. AList.update (bpo_Name peer) peer t) news []
          in if olds = [] then
               (case create_peers m news w1 of
                  (Some e, w2) \<Rightarrow> (Inl e, w2)
                | (None, w2) \<Rightarrow> (Inr True, w2))
             else
               (case update_old_peers pdq m news svcNamespace svcName olds toAdd False w1 of
                  (Inl e, w2) \<Rightarrow> (Inl e, w2)
                | (Inr (toAdd', changed), w2) \<Rightarrow>
                    let rest = map (\<lambda>n. snd (peerAddService pdq n svcNamespace svcName)) (ord (map snd toAdd'))
                    in case create_peers m rest w2 of
                         (Some e, w3) \<Rightarrow> (Inl e, w3)
                       | (None, w3) \<Rightarrow> (Inr (changed \<or> rest \<noteq> []), w3)))"

fun remove_peers_loop ::
  "(Resource list \<Rightarrow> Resource list) \<Rightarrow> 'w CRDConfigurer \<Rightarrow> string \<Rightarrow> string \<Rightarrow> metal_BGPPeer list \<Rightarrow> 'w
    \<Rightarrow> go_error option \<times> 'w" where
  "remove_peers_loop pdq m svcNamespace svcName [] w = (None, w)"
| "remove_peers_loop pdq m svcNamespace svcName (p # ps) w =
     (case updateOrDeletePeerByService pdq m p svcNamespace svcName w of
        (Inl e, w') \<Rightarrow> (Some e, w')
      | (Inr _, w') \<Rightarrow> remove_peers_loop pdq m svcNamespace svcName ps w')"

definition CRD_RemovePeersByService ::
  "(Resource list \<Rightarrow> Resource list) \<Rightarrow> 'w CRDConfigurer \<Rightarrow> string \<Rightarrow> string \<Rightarrow> 'w \<Rightarrow> (go_error + bool) \<times> 'w" where
  "CRD_RemovePeersByService pdq m svcNamespace svcName w =
     (case listBGPPeers m w of
        (Inl e, w1) \<Rightarrow> (Inl e, w1)
      | (Inr olds, w1) \<Rightarrow>
          (case remove_peers_loop pdq m svcNamespace svcName olds w1 of
             (Some e, w2) \<Rightarrow> (Inl e, w2)
           | (None, w2) \<Rightarrow> (Inr True, w2)))"

section \<open>Address pools\<close>

text \<open>
  \<open>slices.Compact\<close> works in the array of the slice it gets: it moves the elements that are
  not repeated to the front and clears the rest. \<open>Compact_array\<close> is that whole array after the
  call, and the slice returned is its front.
\<close>

definition Compact_array :: "string list \<Rightarrow> string list" where
  "Compact_array s = (let c = remdups_adj s in c @ replicate (length s - length c) '''')"

text \<open>
  The address list of a pool after an update: the addresses are sorted and compacted, and then
  the assignment after the one of \<open>Compact\<close>'s result puts the whole array back.
\<close>

definition merged_addresses :: "string list \<Rightarrow> string list \<Rightarrow> string list" where
  "merged_addresses old new = Compact_array (sort (old @ new))"

text \<open>
  One turn of the loop over the pools that exist. A label key with the service prefix whose rest
  is the service name is the key \<open>serviceLabelKey svcName\<close>. Writing a label into a nil map panics.
\<close>

datatype pool_step = Already | NoMatch | UpdatedPool IPAddressPool | NilLabels

definition match_pool :: "IPAddressPool \<Rightarrow> string \<Rightarrow> string \<Rightarrow> IPAddressPool \<Rightarrow> pool_step" where
  "match_pool addIPAddr svcNamespace svcName p =
     (if iap_Name p = iap_Name addIPAddr \<and> nil_map (iap_Labels p) (serviceLabelKey svcName) \<noteq> None then Already
      else
        let updateLabels = (iap_Name p = iap_Name addIPAddr);
            updateAddresses = list_ex (\<lambda>addr. addr \<in> set (iap_Addresses p)) (iap_Addresses addIPAddr)
        in if updateLabels \<or> updateAddresses then
             if updateLabels \<and> iap_Labels p = None then NilLabels
             else
               let p1 = (if updateLabels then
                           p\<lparr>iap_Labels := Some ((nil_map (iap_Labels p))(serviceLabelKey svcName \<mapsto> serviceLabelValue svcNamespace))\<rparr>
                         else p);
                   p2 = (if updateAddresses then
                           p1\<lparr>iap_Addresses := merged_addresses (iap_Addresses p1) (iap_Addresses addIPAddr)\<rparr>
                         else p1)
               in UpdatedPool p2
           else NoMatch)"

text \<open>The loop: \<open>None\<close> when no pool matched, else the result to return.\<close>

fun match_pools ::
  "'w CRDConfigurer \<Rightarrow> IPAddressPool \<Rightarrow> string \<Rightarrow> string \<Rightarrow> IPAddressPool list \<Rightarrow> 'w \<Rightarrow> bool outcome option \<times> 'w" where
  "match_pools m addIPAddr svcNamespace svcName [] w = (None, w)"
| "match_pools m addIPAddr svcNamespace svcName (p # ps) w =
     (case match_pool addIPAddr svcNamespace svcName p of
        Already \<Rightarrow> (Some (Ok False), w)
      | NilLabels \<Rightarrow> (Some Panic, w)
      | NoMatch \<Rightarrow> match_pools m addIPAddr svcNamespace svcName ps w
      | UpdatedPool p' \<Rightarrow>
          (case api_Patch (mc_Pools (crd_client m)) p' p w of
             (Some e, w') \<Rightarrow> (Some (Err (Wrapf (''unable to update IPAddressPool '' @ iap_Name p @ '': '') e)), w')
           | (None, w') \<Rightarrow> (Some (Ok True), w')))"

text \<open>The loop that adds the pool to the default advertisement.\<close>

fun add_pool_to_advs :: "'w CRDConfigurer \<Rightarrow> string \<Rightarrow> BGPAdvertisement list \<Rightarrow> 'w \<Rightarrow> go_error option \<times> 'w" where
  "add_pool_to_advs m pool [] w = (None, w)"
| "add_pool_to_advs m pool (adv # advs) w =
     (if adv_Name adv = defaultBgpAdvertisement then
        (case api_Patch (mc_Advs (crd_client m)) (adv\<lparr>adv_IPAddressPools := adv_IPAddressPools adv @ [pool]\<rparr>) adv w of
           (Some e, w') \<Rightarrow> (Some (Wrapf (''unable to update BGPAdvertisement '' @ adv_Name adv @ '': '') e), w')
         | (None, w') \<Rightarrow> add_pool_to_advs m pool advs w')
      else add_pool_to_advs m pool advs w)"

definition default_adv :: "string \<Rightarrow> string \<Rightarrow> BGPAdvertisement" where
  "default_adv namespace pool =
     \<lparr>adv_Name = defaultBgpAdvertisement, adv_Namespace = namespace,
      adv_Labels = Some [cpemLabelKey \<mapsto> cpemLabelValue], adv_IPAddressPools = [pool]\<rparr>"

text \<open>The advertisement part of \<open>AddAddressPool\<close>, once the pool has been created.\<close>

definition advertise_pool :: "'w CRDConfigurer \<Rightarrow> string \<Rightarrow> 'w \<Rightarrow> bool outcome \<times> 'w" where
  "advertise_pool m pool w =
     (case listBGPAdvertisements m w of
        (Inl e, w1) \<Rightarrow> (Err e, w1)
      | (Inr advs, w1) \<Rightarrow>
          if advs = [] then
            (case api_Create (mc_Advs (crd_client m)) (default_adv (crd_namespace m) pool) w1 of
               (Some e, w2) \<Rightarrow>
                 (Err (Wrapf (''unable to add default BGPAdvertisement '' @ defaultBgpAdvertisement @ '': '') e), w2)
             | (None, w2) \<Rightarrow> (Ok True, w2))
          else
            (case add_pool_to_advs m pool advs w1 of
               (Some e, w2) \<Rightarrow> (Err e, w2)
             | (None, w2) \<Rightarrow> (Ok True, w2)))"

definition CRD_AddAddressPool ::
  "'w CRDConfigurer \<Rightarrow> AddressPool option \<Rightarrow> string \<Rightarrow> string \<Rightarrow> 'w \<Rightarrow> bool outcome \<times> 'w" where
  "CRD_AddAddressPool m add svcNamespace svcName w =
     (case add of
        None \<Rightarrow> (Ok False, w)
      | Some a \<Rightarrow>
          (case listIPAddressPools m w of
             (Inl e, w1) \<Rightarrow> (Err (Wrapf (''retrieve a list of IPAddressPools '' @ crd_namespace m @ '' '') e), w1)
           | (Inr olds, w1) \<Rightarrow>
               let addIPAddr = convertToIPAddr a (crd_namespace m) svcNamespace svcName
               in case match_pools m addIPAddr svcNamespace svcName olds w1 of
                    (Some r, w2) \<Rightarrow> (r, w2)
                  | (None, w2) \<Rightarrow>
                      (case api_Create (mc_Pools (crd_client m)) addIPAddr w2 of
                         (Some e, w3) \<Rightarrow> (Err (Wrapf (''unable to add IPAddressPool '' @ iap_Name addIPAddr @ '': '') e), w3)
                       | (None, w3) \<Rightarrow> advertise_pool m (iap_Name addIPAddr) w3)))"

fun delete_pools :: "'w CRDConfigurer \<Rightarrow> string \<Rightarrow> IPAddressPool list \<Rightarrow> 'w \<Rightarrow> go_error option \<times> 'w" where
  "delete_pools m pool [] w = (None, w)"
| "delete_pools m pool (p # ps) w =
     (if iap_Name p = pool then
        (case api_Delete (mc_Pools (crd_client m)) p w of
           (Some e, w') \<Rightarrow> (Some (Wrapf ''unable to delete pool: '' e), w')
         | (None, w') \<Rightarrow> delete_pools m pool ps w')
      else delete_pools m pool ps w)"

text \<open>
  The loop over the pools of the default advertisement. \<open>range\<close> keeps the slice it started
  with while \<open>slices.Delete\<close> moves the later elements down in its array and clears the last
  place: after a deletion the element that moved into the current place is not looked at.
  \<open>seen\<close> are the elements before the current place, \<open>rest\<close> the ones from it on; the cleared
  places never match, since the pool name is not empty.
\<close>

function remove_pool_from_adv ::
  "'w CRDConfigurer \<Rightarrow> string \<Rightarrow> BGPAdvertisement \<Rightarrow> string list \<Rightarrow> string list \<Rightarrow> 'w \<Rightarrow> go_error option \<times> 'w" where
  "remove_pool_from_adv m pool adv seen [] w = (None, w)"
| "remove_pool_from_adv m pool adv seen (p # rest) w =
     (if p = pool then
        let base = adv\<lparr>adv_IPAddressPools := seen @ p # rest\<rparr>
        in if 1 < length (seen @ p # rest) then
             (case api_Patch (mc_Advs (crd_client m)) (adv\<lparr>adv_IPAddressPools := seen @ rest\<rparr>) base w of
                (Some e, w') \<Rightarrow> (Some (Wrapf (''unable to update BGPAdvertisement '' @ adv_Name adv @ '': '') e), w')
              | (None, w') \<Rightarrow> remove_pool_from_adv m pool adv (seen @ take 1 rest) (drop 1 rest) w')
           else
             (case api_Delete (mc_Advs (crd_client m)) base w of
                (Some e, w') \<Rightarrow> (Some (Wrapf (''unable to delete BGPPeer '' @ adv_Name adv @ '': '') e), w')
              | (None, w') \<Rightarrow> remove_pool_from_adv m pool adv (seen @ [p]) rest w')
      else remove_pool_from_adv m pool adv (seen @ [p]) rest w)"
  by pat_completeness auto
termination by (relation "measure (\<lambda>(m, pool, adv, seen, rest, w). length rest)") auto

definition CRD_RemoveAddressPool :: "'w CRDConfigurer \<Rightarrow> string \<Rightarrow> 'w \<Rightarrow> go_error option \<times> 'w" where
  "CRD_RemoveAddressPool m pool w =
     (if pool = '''' then (None, w) else
      case listIPAddressPools m w of
        (Inl e, w1) \<Rightarrow> (Some e, w1)
      | (Inr olds, w1) \<Rightarrow>
          (case delete_pools m pool olds w1 of
             (Some e, w2) \<Rightarrow> (Some e, w2)
           | (None, w2) \<Rightarrow>
               (case listBGPAdvertisements m w2 of
                  (Inl e, w3) \<Rightarrow> (Some e, w3)
                | (Inr advs, w3) \<Rightarrow>
                    (case find (\<lambda>adv. adv_Name adv = defaultBgpAdvertisement) advs of
                       None \<Rightarrow> (None, w3)
                     | Some adv \<Rightarrow> remove_pool_from_adv m pool adv [] (adv_IPAddressPools adv) w3))))"

definition CRD_RemoveAddressPoolByAddress :: "'w CRDConfigurer \<Rightarrow> string \<Rightarrow> 'w \<Rightarrow> go_error option \<times> 'w" where
  "CRD_RemoveAddressPoolByAddress m addrName w = (None, w)"

definition CRD_Get :: "'w CRDConfigurer \<Rightarrow> 'w \<Rightarrow> go_error option \<times> 'w" where
  "CRD_Get m w = (None, w)"

definition CRD_Update :: "'w CRDConfigurer \<Rightarrow> 'w \<Rightarrow> go_error option \<times> 'w" where
  "CRD_Update m w = (None, w)"

end
