(* ===== verification/MetalLB_CRD_Laws.thy ===== *)
theory MetalLB_CRD_Laws
  imports MetalLB_CRD
begin

text \<open>
  What the operations of \<^verbatim>\<open>crd.go\<close> do to the objects in the cluster. The API server is only
  known by its contract \<open>kind_contract\<close>, over a function \<open>objs\<close> that reads the objects of one
  kind in the configured namespace from the world. Under the contract the operations on peers are
  shown to keep a contract of their own, on maps from names to peers.
\<close>

section \<open>The contract of the API server\<close>

text \<open>
  A successful \<open>List\<close> returns the objects with the labels asked for, each once; it changes no
  object. A successful \<open>Create\<close> finds the name free and stores the object, a successful \<open>Patch\<close>
  of an object that is stored as it was read replaces it, a successful \<open>Delete\<close> removes it.
  Nothing is assumed of a call that fails.
\<close>

definition kind_contract ::
  "('w \<Rightarrow> string \<rightharpoonup> 'o) \<Rightarrow> ('o \<Rightarrow> string) \<Rightarrow> ('o \<Rightarrow> strmap option) \<Rightarrow> string \<Rightarrow> ('w, 'o) kind_client \<Rightarrow> bool" where
  "kind_contract objs name labels ns c \<longleftrightarrow>
     (\<forall>w k x. objs w k = Some x \<longrightarrow> name x = k) \<and>
     (\<forall>w lab r w'. api_List c lab ns w = (r, w') \<longrightarrow> objs w' = objs w \<and>
        (\<forall>l. r = Inr l \<longrightarrow> distinct (map name l) \<and> set l = {x \<in> ran (objs w). lab \<subseteq>\<^sub>m nil_map (labels x)})) \<and>
     (\<forall>x w w'. api_Create c x w = (None, w') \<longrightarrow> objs w (name x) = None \<and> objs w' = (objs w)(name x \<mapsto> x)) \<and>
     (\<forall>x b w w'. api_Patch c x b w = (None, w') \<and> objs w (name b) = Some b \<and> name x = name b
        \<longrightarrow> objs w' = (objs w)(name x \<mapsto> x)) \<and>
     (\<forall>x w w'. api_Delete c x w = (None, w') \<longrightarrow> objs w' = (objs w)(name x := None))"

lemma kind_name: "kind_contract objs name labels ns c \<Longrightarrow> objs w k = Some x \<Longrightarrow> name x = k"
  unfolding kind_contract_def by blast

lemma kind_list_keeps: "kind_contract objs name labels ns c \<Longrightarrow> api_List c lab ns w = (r, w') \<Longrightarrow> objs w' = objs w"
  unfolding kind_contract_def by blast

lemma kind_list:
  "kind_contract objs name labels ns c \<Longrightarrow> api_List c lab ns w = (Inr l, w') \<Longrightarrow>
     distinct (map name l) \<and> set l = {x \<in> ran (objs w). lab \<subseteq>\<^sub>m nil_map (labels x)}"
  unfolding kind_contract_def by blast

lemma kind_create:
  "kind_contract objs name labels ns c \<Longrightarrow> api_Create c x w = (None, w') \<Longrightarrow>
     objs w (name x) = None \<and> objs w' = (objs w)(name x \<mapsto> x)"
  unfolding kind_contract_def by blast

lemma kind_patch:
  "kind_contract objs name labels ns c \<Longrightarrow> api_Patch c x b w = (None, w') \<Longrightarrow> objs w (name b) = Some b
     \<Longrightarrow> name x = name b \<Longrightarrow> objs w' = (objs w)(name x \<mapsto> x)"
  unfolding kind_contract_def by blast

lemma kind_delete:
  "kind_contract objs name labels ns c \<Longrightarrow> api_Delete c x w = (None, w') \<Longrightarrow> objs w' = (objs w)(name x := None)"
  unfolding kind_contract_def by blast

abbreviation cpem_labels :: strmap where
  "cpem_labels \<equiv> [cpemLabelKey \<mapsto> cpemLabelValue]"

abbreviation peers_contract :: "('w \<Rightarrow> string \<rightharpoonup> metal_BGPPeer) \<Rightarrow> 'w CRDConfigurer \<Rightarrow> bool" where
  "peers_contract objs m \<equiv> kind_contract objs bpo_Name bpo_Labels (crd_namespace m) (mc_Peers (crd_client m))"

definition managed :: "metal_BGPPeer \<Rightarrow> bool" where
  "managed p \<longleftrightarrow> cpem_labels \<subseteq>\<^sub>m nil_map (bpo_Labels p)"

text \<open>
  A store in memory that keeps the contract: the objects of a kind are a list in which the first
  object of a name is the one that counts.
\<close>

definition by_name :: "('o \<Rightarrow> string) \<Rightarrow> 'o list \<Rightarrow> string \<rightharpoonup> 'o" where
  "by_name name xs k = find (\<lambda>x. name x = k) xs"

fun first_of_each :: "('o \<Rightarrow> string) \<Rightarrow> 'o list \<Rightarrow> 'o list" where
  "first_of_each name [] = []"
| "first_of_each name (x # xs) = x # filter (\<lambda>y. name y \<noteq> name x) (first_of_each name xs)"

definition mem_kind ::
  "('w \<Rightarrow> 'o list) \<Rightarrow> ('o list \<Rightarrow> 'w \<Rightarrow> 'w) \<Rightarrow> ('o \<Rightarrow> string) \<Rightarrow> ('o \<Rightarrow> strmap option) \<Rightarrow> ('w, 'o) kind_client" where
  "mem_kind get put name labels =
     \<lparr>api_List = (\<lambda>lab ns w. (Inr (filter (\<lambda>x. lab \<subseteq>\<^sub>m nil_map (labels x)) (first_of_each name (get w))), w)),
      api_Create = (\<lambda>x w. if by_name name (get w) (name x) = None then (None, put (x # get w) w)
                          else (Some (External ''already exists''), w)),
      api_Patch = (\<lambda>x b w. (None, put (x # get w) w)),
      api_Delete = (\<lambda>x w. (None, put (filter (\<lambda>y. name y \<noteq> name x) (get w)) w))\<rparr>"

record metal_store =
  ms_peers :: "metal_BGPPeer list"
  ms_pools :: "IPAddressPool list"
  ms_advs :: "BGPAdvertisement list"

definition mem_config :: "metal_store CRDConfigurer" where
  "mem_config = \<lparr>crd_namespace = ''metallb-system'', crd_client =
     \<lparr>mc_Peers = mem_kind ms_peers (\<lambda>x w. w\<lparr>ms_peers := x\<rparr>) bpo_Name bpo_Labels,
      mc_Pools = mem_kind ms_pools (\<lambda>x w. w\<lparr>ms_pools := x\<rparr>) iap_Name iap_Labels,
      mc_Advs = mem_kind ms_advs (\<lambda>x w. w\<lparr>ms_advs := x\<rparr>) adv_Name adv_Labels\<rparr>\<rparr>"

lemma in_first_of_each: "x \<in> set (first_of_each name xs) \<longleftrightarrow> find (\<lambda>y. name y = name x) xs = Some x"
  by (induction xs) auto

lemma distinct_first_of_each: "distinct (map name (first_of_each name xs))"
  by (induction xs) (auto intro: distinct_map_filter)

lemma find_filter_other:
  "find (\<lambda>y. name y = k) (filter (\<lambda>y. name y \<noteq> n) xs) = (if k = n then None else find (\<lambda>y. name y = k) xs)"
  by (induction xs) auto

lemma mem_kind_contract:
  assumes "\<And>xs w. get (put xs w) = xs"
  shows "kind_contract (\<lambda>w. by_name name (get w)) name labels ns (mem_kind get put name labels)"
proof -
  have ran: "ran (by_name name xs) = set (first_of_each name xs)" for xs
    by (auto simp: ran_def by_name_def in_first_of_each find_Some_iff)
  have upd: "by_name name (x # xs) = (by_name name xs)(name x \<mapsto> x)" for x xs
    by (auto simp: by_name_def)
  have del: "by_name name (filter (\<lambda>y. name y \<noteq> n) xs) = (by_name name xs)(n := None)" for n xs
    by (auto simp: by_name_def find_filter_other)
  show ?thesis unfolding kind_contract_def
  proof (intro conjI allI impI; (elim conjE)?)
    fix w k x assume "by_name name (get w) k = Some x"
    then show "name x = k" by (auto simp: by_name_def find_Some_iff)
  qed (auto simp: mem_kind_def ran upd del assms distinct_first_of_each intro: distinct_map_filter split: if_splits)
qed

lemma mem_config_contract:
  "kind_contract (\<lambda>w. by_name bpo_Name (ms_peers w)) bpo_Name bpo_Labels ns (mc_Peers (crd_client mem_config))"
  "kind_contract (\<lambda>w. by_name iap_Name (ms_pools w)) iap_Name iap_Labels ns (mc_Pools (crd_client mem_config))"
  "kind_contract (\<lambda>w. by_name adv_Name (ms_advs w)) adv_Name adv_Labels ns (mc_Advs (crd_client mem_config))"
  by (simp_all add: mem_config_def mem_kind_contract)

section \<open>The peers of the API as peers that services share\<close>

definition peer_services :: "metal_BGPPeer \<Rightarrow> Resource list" where
  "peer_services p = services_of mns_MatchLabels (bps_NodeSelectors (bpo_Spec p))"

definition peer_plain :: "metal_BGPPeer \<Rightarrow> metal_NodeSelector list" where
  "peer_plain p = plain_of mns_MatchLabels (bps_NodeSelectors (bpo_Spec p))"

lemma metal_selector_labels [simp]: "mns_MatchLabels (metal_selector m) = Some m"
  by (simp add: metal_selector_def)

lemma set_selectors_simps [simp]:
  "bpo_Name (set_selectors nss p) = bpo_Name p" "bpo_Namespace (set_selectors nss p) = bpo_Namespace p"
  "bpo_Labels (set_selectors nss p) = bpo_Labels p"
  "bps_NodeSelectors (bpo_Spec (set_selectors nss p)) = nss"
  "set_selectors (bps_NodeSelectors (bpo_Spec p)) p = p"
  by (simp_all add: set_selectors_def)

lemma set_selectors_spec [simp]: "peerSpecEqual (bpo_Spec (set_selectors nss p)) s = peerSpecEqual (bpo_Spec p) s"
  by (simp add: peerSpecEqual_def set_selectors_def)

interpretation crd_links: service_links
  "peerAddService (permute f)" "peerRemoveService (permute f)" peer_services peer_plain for f
proof unfold_locales
  fix p :: metal_BGPPeer and n m :: string
  let ?nss = "bps_NodeSelectors (bpo_Spec p)"
  note [simp] = peerAddService_def peerRemoveService_def peer_services_def peer_plain_def split_beta
  show "snd (peerAddService (permute f) p n m) = p" if "\<not> fst (peerAddService (permute f) p n m)"
    using that by (auto simp: add_service_def split: option.splits)
  assume ne: "n \<noteq> ''''" "m \<noteq> ''''"
  note a = add_service_laws [where labels = mns_MatchLabels and mk = metal_selector, OF iteration_order_permute metal_selector_labels ne, of f ?nss]
    and r = remove_service_laws [where labels = mns_MatchLabels and mk = metal_selector, OF iteration_order_permute metal_selector_labels ne, of f ?nss]
  show "fst (peerAddService (permute f) p n m) \<longleftrightarrow> \<lparr>res_Namespace = n, res_Name = m\<rparr> \<notin> set (peer_services p)"
    and "peer_plain (snd (peerAddService (permute f) p n m)) = peer_plain p"
    and "fst (peerAddService (permute f) p n m) \<Longrightarrow> mset (peer_services (snd (peerAddService (permute f) p n m)))
      = add_mset \<lparr>res_Namespace = n, res_Name = m\<rparr> (mset (peer_services p))"
    using a by simp_all
  show "fst (fst (peerRemoveService (permute f) p n m)) \<longleftrightarrow> \<lparr>res_Namespace = n, res_Name = m\<rparr> \<in> set (peer_services p)"
    and "snd (fst (peerRemoveService (permute f) p n m)) = length (peer_services (snd (peerRemoveService (permute f) p n m)))"
    and "mset (peer_services (snd (peerRemoveService (permute f) p n m)))
      = filter_mset (\<lambda>r. r \<noteq> \<lparr>res_Namespace = n, res_Name = m\<rparr>) (mset (peer_services p))"
    and "peer_plain (snd (peerRemoveService (permute f) p n m)) = peer_plain p"
    using r by simp_all
qed

section \<open>Specification: what becomes of each peer\<close>

text \<open>A peer that is unlinked from a service, a peer brought up to date, and the two together.\<close>

definition unlink :: "slice_permutation \<Rightarrow> string \<Rightarrow> string \<Rightarrow> metal_BGPPeer \<Rightarrow> metal_BGPPeer option" where
  "unlink f n m p =
     (if \<lparr>res_Namespace = n, res_Name = m\<rparr> \<notin> set (peer_services p) then Some p
      else if set (peer_services p) = {\<lparr>res_Namespace = n, res_Name = m\<rparr>} then None
      else Some (snd (peerRemoveService (permute f) p n m)))"

definition refresh :: "slice_permutation \<Rightarrow> string \<Rightarrow> string \<Rightarrow> metal_BGPPeer \<Rightarrow> metal_BGPPeer \<Rightarrow> metal_BGPPeer" where
  "refresh f n m new p =
     (let p' = snd (peerAddService (permute f) p n m)
      in if peerSpecEqual (bpo_Spec p) (bpo_Spec new) then p' else p'\<lparr>bpo_Spec := bpo_Spec new\<rparr>)"

definition renew :: "slice_permutation \<Rightarrow> string \<Rightarrow> string \<Rightarrow> metal_BGPPeer list \<Rightarrow> metal_BGPPeer \<Rightarrow> metal_BGPPeer option" where
  "renew f n m news p =
     (case find (\<lambda>q. bpo_Name q = bpo_Name p) news of
        Some new \<Rightarrow> Some (refresh f n m new p)
      | None \<Rightarrow> unlink f n m p)"

text \<open>
  The specification of \<open>UpdatePeersByService\<close> on the map from names to peers: a managed peer is
  renewed, a wanted one that is missing is created, linked to the service unless there was no
  managed peer at all, and everything else stays.
\<close>

definition updated_peers ::
  "slice_permutation \<Rightarrow> string \<Rightarrow> string \<Rightarrow> metal_BGPPeer list \<Rightarrow> (string \<rightharpoonup> metal_BGPPeer) \<Rightarrow> (string \<rightharpoonup> metal_BGPPeer)" where
  "updated_peers f n m news ps k =
     (case ps k of
        Some p \<Rightarrow> if managed p then renew f n m news p else Some p
      | None \<Rightarrow> map_option (\<lambda>q. if \<exists>p \<in> ran ps. managed p then snd (peerAddService (permute f) q n m) else q)
                  (find (\<lambda>q. bpo_Name q = k) news))"

definition unlinked_peers ::
  "slice_permutation \<Rightarrow> string \<Rightarrow> string \<Rightarrow> (string \<rightharpoonup> metal_BGPPeer) \<Rightarrow> (string \<rightharpoonup> metal_BGPPeer)" where
  "unlinked_peers f n m ps k =
     (case ps k of None \<Rightarrow> None | Some p \<Rightarrow> if managed p then unlink f n m p else Some p)"

section \<open>Lemmas on the operations\<close>

lemma peerAddService_Name [simp]:
  "bpo_Name (snd (peerAddService pdq p n m)) = bpo_Name p"
  "bpo_Labels (snd (peerAddService pdq p n m)) = bpo_Labels p"
  "peerSpecEqual (bpo_Spec (snd (peerAddService pdq p n m))) s = peerSpecEqual (bpo_Spec p) s"
  by (simp_all add: peerAddService_def split_beta)

lemma peerRemoveService_Name [simp]:
  "bpo_Name (snd (peerRemoveService pdq p n m)) = bpo_Name p"
  "bpo_Labels (snd (peerRemoveService pdq p n m)) = bpo_Labels p"
  by (simp_all add: peerRemoveService_def split_beta)

lemma refresh_Name [simp]: "bpo_Name (refresh f n m new p) = bpo_Name p"
  by (simp add: refresh_def Let_def)

lemma no_services_left:
  assumes "n \<noteq> ''''" "m \<noteq> ''''" and "\<lparr>res_Namespace = n, res_Name = m\<rparr> \<in> set (peer_services p)"
  shows "snd (fst (peerRemoveService (permute f) p n m)) = 0 \<longleftrightarrow> set (peer_services p) = {\<lparr>res_Namespace = n, res_Name = m\<rparr>}"
proof -
  let ?r = "\<lparr>res_Namespace = n, res_Name = m\<rparr>"
  have "snd (fst (peerRemoveService (permute f) p n m)) = 0 \<longleftrightarrow> mset (peer_services (snd (peerRemoveService (permute f) p n m))) = {#}"
    by (simp add: crd_links.remove_size assms)
  also have "\<dots> \<longleftrightarrow> (\<forall>r \<in> set (peer_services p). r = ?r)"
    by (simp add: crd_links.remove_services assms Ball_def)
  finally show ?thesis using assms(3) by auto
qed

lemma updateOrDelete_objs:
  assumes ct: "peers_contract objs cfg" and ne: "n \<noteq> ''''" "m \<noteq> ''''" and p: "objs w (bpo_Name p) = Some p"
    and ok: "updateOrDeletePeerByService (permute f) cfg p n m w = (Inr ch, w')"
  shows "objs w' = (objs w)(bpo_Name p := unlink f n m p)"
    and "ch \<longleftrightarrow> \<lparr>res_Namespace = n, res_Name = m\<rparr> \<in> set (peer_services p)"
proof -
  let ?r = "\<lparr>res_Namespace = n, res_Name = m\<rparr>"
  obtain found size p' where rm: "peerRemoveService (permute f) p n m = ((found, size), p')"
    by (metis prod.exhaust)
  have found: "found \<longleftrightarrow> ?r \<in> set (peer_services p)" using crd_links.remove_found [OF ne, of f p] rm by simp
  have p'n: "bpo_Name p' = bpo_Name p" using peerRemoveService_Name(1) [of "permute f" p n m] rm by simp
  show "ch \<longleftrightarrow> ?r \<in> set (peer_services p)"
    using ok by (auto simp: updateOrDeletePeerByService_def rm found split: if_splits prod.splits option.splits)
  show "objs w' = (objs w)(bpo_Name p := unlink f n m p)"
  proof (cases "found")
    case False
    with ok p found show ?thesis by (auto simp: updateOrDeletePeerByService_def rm unlink_def)
  next
    case True
    note size = no_services_left [OF ne found [THEN iffD1, OF True], of f, unfolded rm, simplified]
    show ?thesis
    proof (cases "size = 0")
      case z: True
      with True ok have "api_Delete (mc_Peers (crd_client cfg)) p' w = (None, w')"
        by (auto simp: updateOrDeletePeerByService_def rm split: prod.splits option.splits)
      from kind_delete [OF ct this] have "objs w' = (objs w)(bpo_Name p := None)" by (simp add: p'n)
      with True z found size show ?thesis by (simp add: unlink_def)
    next
      case z: False
      with True ok have "api_Patch (mc_Peers (crd_client cfg)) p' p w = (None, w')"
        by (auto simp: updateOrDeletePeerByService_def rm split: prod.splits option.splits)
      from kind_patch [OF ct this p p'n] have "objs w' = (objs w)(bpo_Name p \<mapsto> p')" by (simp add: p'n)
      with True z found size rm show ?thesis by (simp add: unlink_def)
    qed
  qed
qed

lemma update_old_peer_objs:
  assumes ct: "peers_contract objs cfg" and ne: "n \<noteq> ''''" "m \<noteq> ''''" and p: "objs w (bpo_Name p) = Some p"
    and keys: "fst ` set toAdd \<subseteq> bpo_Name ` set news"
    and ok: "update_old_peer (permute f) cfg news n m p toAdd ch w = (Inr (toAdd', ch'), w')"
  shows "objs w' = (objs w)(bpo_Name p := renew f n m news p)"
    and "toAdd' = AList.delete (bpo_Name p) toAdd"
proof -
  show "toAdd' = AList.delete (bpo_Name p) toAdd"
  proof (cases "find (\<lambda>q. bpo_Name q = bpo_Name p) news")
    case None
    then have "bpo_Name p \<notin> fst ` set toAdd" using keys by (auto simp: find_None_iff)
    then have "AList.delete (bpo_Name p) toAdd = toAdd" by (simp add: delete_notin_dom)
    with None ok show ?thesis by (auto simp: update_old_peer_def split: sum.splits prod.splits)
  next
    case (Some q)
    then have "bpo_Name q = bpo_Name p" by (auto simp: find_Some_iff)
    with Some ok show ?thesis
      by (auto simp: update_old_peer_def Let_def split: sum.splits prod.splits option.splits if_splits)
  qed
  show "objs w' = (objs w)(bpo_Name p := renew f n m news p)"
  proof (cases "find (\<lambda>q. bpo_Name q = bpo_Name p) news")
    case None
    then obtain c where "updateOrDeletePeerByService (permute f) cfg p n m w = (Inr c, w')"
      using ok by (auto simp: update_old_peer_def split: sum.splits prod.splits)
    with None show ?thesis using updateOrDelete_objs(1) [OF ct ne p] by (simp add: renew_def)
  next
    case (Some q)
    obtain a p1 where add: "peerAddService (permute f) p n m = (a, p1)" by fastforce
    have p1: "bpo_Name p1 = bpo_Name p" "peerSpecEqual (bpo_Spec p1) (bpo_Spec q) = peerSpecEqual (bpo_Spec p) (bpo_Spec q)"
      using peerAddService_Name [of "permute f" p n m] add by simp_all
    show ?thesis
    proof (cases "a \<or> \<not> peerSpecEqual (bpo_Spec p) (bpo_Spec q)")
      case True
      with Some ok p1 have "api_Patch (mc_Peers (crd_client cfg)) (refresh f n m q p) p w = (None, w')"
        by (auto simp: update_old_peer_def refresh_def add Let_def split: prod.splits option.splits)
      from kind_patch [OF ct this p refresh_Name] have "objs w' = (objs w)(bpo_Name p \<mapsto> refresh f n m q p)"
        by simp
      with Some show ?thesis by (simp add: renew_def)
    next
      case False
      then have "p1 = p" using crd_links.add_no_change [of f p n m] add by simp
      with False Some ok p p1 show ?thesis
        by (auto simp: update_old_peer_def renew_def refresh_def add Let_def)
    qed
  qed
qed

lemma option_eq_by_Some: "(\<And>x. a = Some x \<longleftrightarrow> b = Some x) \<Longrightarrow> a = b"
  by (cases a; cases b) auto

text \<open>In a list without repeated names, looking for a name finds its element.\<close>

lemma find_key_Some_iff:
  "distinct (map g xs) \<Longrightarrow> find (\<lambda>x. g x = k) xs = Some x \<longleftrightarrow> x \<in> set xs \<and> g x = k"
  by (induction xs) auto

lemma find_key_None_iff: "find (\<lambda>x. g x = k) xs = None \<longleftrightarrow> k \<notin> g ` set xs"
  by (auto simp: find_None_iff)

lemma find_key_perm:
  assumes "distinct (map g xs)" and "set xs = set ys" and "distinct (map g ys)"
  shows "find (\<lambda>x. g x = k) xs = find (\<lambda>x. g x = k) ys"
  using assms find_key_Some_iff [of g xs k] find_key_Some_iff [of g ys k]
  by (metis not_Some_eq)

lemma update_old_peers_objs:
  assumes ct: "peers_contract objs cfg" and ne: "n \<noteq> ''''" "m \<noteq> ''''"
  shows "distinct (map bpo_Name ps) \<Longrightarrow> \<forall>p \<in> set ps. objs w (bpo_Name p) = Some p \<Longrightarrow>
    fst ` set toAdd \<subseteq> bpo_Name ` set news \<Longrightarrow>
    update_old_peers (permute f) cfg news n m ps toAdd ch w = (Inr (toAdd', ch'), w') \<Longrightarrow>
    objs w' = (\<lambda>k. case find (\<lambda>p. bpo_Name p = k) ps of Some p \<Rightarrow> renew f n m news p | None \<Rightarrow> objs w k)
    \<and> toAdd' = filter (\<lambda>(k, _). k \<notin> bpo_Name ` set ps) toAdd"
proof (induction ps arbitrary: toAdd ch w)
  case Nil
  then show ?case by simp
next
  case (Cons p ps)
  obtain t1 c1 w1 where s1: "update_old_peer (permute f) cfg news n m p toAdd ch w = (Inr (t1, c1), w1)"
    and s2: "update_old_peers (permute f) cfg news n m ps t1 c1 w1 = (Inr (toAdd', ch'), w')"
    using Cons.prems(4) by (auto split: prod.splits sum.splits)
  have p: "objs w (bpo_Name p) = Some p" using Cons.prems(2) by simp
  note u = update_old_peer_objs [OF ct ne p Cons.prems(3) s1]
  have "\<forall>q \<in> set ps. objs w1 (bpo_Name q) = Some q"
  proof
    fix q assume q: "q \<in> set ps"
    then have "bpo_Name q \<noteq> bpo_Name p" using Cons.prems(1) by (metis distinct.simps(2) image_eqI list.set_map list.simps(9))
    with q Cons.prems(2) show "objs w1 (bpo_Name q) = Some q" by (simp add: u(1))
  qed
  moreover have "fst ` set t1 \<subseteq> bpo_Name ` set news"
    using Cons.prems(3) unfolding u(2) AList.delete_eq by auto
  moreover have "distinct (map bpo_Name ps)" using Cons.prems(1) by simp
  ultimately have IH: "objs w' = (\<lambda>k. case find (\<lambda>p. bpo_Name p = k) ps of Some p \<Rightarrow> renew f n m news p | None \<Rightarrow> objs w1 k)"
    "toAdd' = filter (\<lambda>(k, _). k \<notin> bpo_Name ` set ps) t1"
    using Cons.IH s2 by blast+
  have "find (\<lambda>q. bpo_Name q = bpo_Name p) ps = None"
    using Cons.prems(1) by (simp add: find_key_None_iff)
  then have "objs w' = (\<lambda>k. case find (\<lambda>p. bpo_Name p = k) (p # ps) of Some p \<Rightarrow> renew f n m news p | None \<Rightarrow> objs w k)"
    unfolding IH(1) u(1) by (intro ext) (auto split: option.split)
  moreover have "toAdd' = filter (\<lambda>(k, _). k \<notin> bpo_Name ` set (p # ps)) toAdd"
    unfolding IH(2) u(2) AList.delete_eq filter_filter
    by (rule filter_cong) auto
  ultimately show ?case by simp
qed

lemma create_peers_objs:
  assumes ct: "peers_contract objs cfg"
  shows "create_peers cfg ns w = (None, w') \<Longrightarrow>
    distinct (map bpo_Name ns) \<and> (\<forall>q \<in> set ns. objs w (bpo_Name q) = None) \<and>
    objs w' = (\<lambda>k. case find (\<lambda>q. bpo_Name q = k) ns of Some q \<Rightarrow> Some q | None \<Rightarrow> objs w k)"
proof (induction ns arbitrary: w)
  case (Cons q ns)
  obtain w1 where c: "api_Create (mc_Peers (crd_client cfg)) q w = (None, w1)"
    and r: "create_peers cfg ns w1 = (None, w')"
    using Cons.prems by (auto split: prod.splits option.splits)
  note k = kind_create [OF ct c] and IH = Cons.IH [OF r]
  have notin: "bpo_Name q \<notin> bpo_Name ` set ns"
  proof
    assume "bpo_Name q \<in> bpo_Name ` set ns"
    then obtain q' where "q' \<in> set ns" "bpo_Name q' = bpo_Name q" by auto
    with IH k show False by force
  qed
  then have "find (\<lambda>q'. bpo_Name q' = bpo_Name q) ns = None" by (simp add: find_key_None_iff)
  then have "objs w' = (\<lambda>k. case find (\<lambda>q. bpo_Name q = k) (q # ns) of Some q \<Rightarrow> Some q | None \<Rightarrow> objs w k)"
    using IH k by (auto intro!: ext split: option.split)
  moreover have "\<forall>q' \<in> set ns. objs w (bpo_Name q') = None"
    using IH k notin by (metis fun_upd_other image_eqI)
  ultimately show ?case using IH k notin by simp
qed simp

lemma listBGPPeers_objs:
  assumes ct: "peers_contract objs cfg" and l: "listBGPPeers cfg w = (Inr olds, w')"
  shows "objs w' = objs w" and "distinct (map bpo_Name olds)" and "set olds = {p \<in> ran (objs w). managed p}"
    and "\<forall>p \<in> set olds. objs w (bpo_Name p) = Some p"
proof -
  from l have a: "api_List (mc_Peers (crd_client cfg)) cpem_labels (crd_namespace cfg) w = (Inr olds, w')"
    by (auto simp: listBGPPeers_def split: prod.splits sum.splits)
  show "objs w' = objs w" by (rule kind_list_keeps [OF ct a])
  show d: "distinct (map bpo_Name olds)" "set olds = {p \<in> ran (objs w). managed p}"
    using kind_list [OF ct a] by (simp_all add: managed_def)
  show "\<forall>p \<in> set olds. objs w (bpo_Name p) = Some p"
    using kind_name [OF ct] by (auto simp: d ran_def)
qed

text \<open>Among the objects listed, the one with a given name is the managed one stored under it.\<close>

lemma find_listed:
  assumes ct: "peers_contract objs cfg" and l: "listBGPPeers cfg w = (Inr olds, w')"
  shows "find (\<lambda>p. bpo_Name p = k) olds = (case objs w k of Some p \<Rightarrow> if managed p then Some p else None | None \<Rightarrow> None)"
proof -
  note o = listBGPPeers_objs [OF assms]
  have "find (\<lambda>p. bpo_Name p = k) olds = Some p \<longleftrightarrow> objs w k = Some p \<and> managed p" for p
    using o kind_name [OF ct] by (auto simp: find_key_Some_iff [OF o(2)] ran_def)
  then show ?thesis by (intro option_eq_by_Some) (auto split: option.split)
qed

lemma fold_update_is_distinct_list:
  assumes "distinct (map g xs)"
  shows "set (map snd (fold (\<lambda>x t. AList.update (g x) x t) xs [])) = set xs"
    and "(k, x) \<in> set (fold (\<lambda>x t. AList.update (g x) x t) xs []) \<longleftrightarrow> x \<in> set xs \<and> g x = k"
    and "distinct (map fst (fold (\<lambda>x t. AList.update (g x) x t) xs []))"
proof -
  let ?t = "fold (\<lambda>x t. AList.update (g x) x t) xs []"
  show d: "distinct (map fst ?t)" by (rule fold_update_distinct) simp
  have e: "(k, x) \<in> set ?t \<longleftrightarrow> x \<in> set xs \<and> g x = k" for k x
  proof -
    have "(k, x) \<in> set ?t \<longleftrightarrow> map_of ?t k = Some x" using d by simp
    also have "\<dots> \<longleftrightarrow> find (\<lambda>x. g x = k) (rev xs) = Some x"
      unfolding fold_update_map_of by (simp split: option.split)
    also have "\<dots> \<longleftrightarrow> x \<in> set xs \<and> g x = k"
      using find_key_Some_iff [of g "rev xs" k x] assms by (simp add: rev_map [symmetric])
    finally show ?thesis .
  qed
  then show "(k, x) \<in> set ?t \<longleftrightarrow> x \<in> set xs \<and> g x = k" .
  from e show "set (map snd ?t) = set xs" by force
qed

text \<open>What is left to create, in whatever order the map is visited.\<close>

lemma rest_to_create:
  assumes ord: "iteration_order ord" and d: "distinct (map bpo_Name news)"
    and t: "t = filter (\<lambda>(k, _). k \<notin> K) (fold (\<lambda>q t. AList.update (bpo_Name q) q t) news [])"
    and g: "\<And>q. bpo_Name (g q) = bpo_Name q"
  shows "find (\<lambda>q. bpo_Name q = k) (map g (ord (map snd t))) =
    (if k \<in> K then None else map_option g (find (\<lambda>q. bpo_Name q = k) news))"
proof -
  let ?r = "ord (map snd t)"
  note e = fold_update_is_distinct_list [OF d]
  have "q \<in> set (map snd t) \<longleftrightarrow> q \<in> set news \<and> bpo_Name q \<notin> K" for q
  proof -
    have "q \<in> set (map snd t) \<longleftrightarrow> (\<exists>k. (k, q) \<in> set t)" by force
    then show ?thesis unfolding t by (simp add: e(2))
  qed
  then have s: "set ?r = {q \<in> set news. bpo_Name q \<notin> K}"
    unfolding iteration_order_set [OF ord] by blast
  have fg: "map bpo_Name (map snd t) = map fst t"
    unfolding map_map by (rule map_cong [OF refl]) (auto simp: t e(2))
  have "distinct (map fst t)"
    unfolding t by (rule distinct_map_filter [OF e(3)])
  moreover have "mset (map bpo_Name ?r) = mset (map bpo_Name (map snd t))"
    unfolding mset_map using ord by (simp add: iteration_order_def)
  ultimately have "distinct (map bpo_Name ?r)" unfolding fg by (metis mset_eq_imp_distinct_iff)
  then have "find (\<lambda>q. bpo_Name q = k) ?r = Some q \<longleftrightarrow> k \<notin> K \<and> find (\<lambda>q. bpo_Name q = k) news = Some q" for q
    unfolding find_key_Some_iff [OF d] by (subst find_key_Some_iff) (auto simp: s)
  then have f: "find (\<lambda>q. bpo_Name q = k) ?r = (if k \<in> K then None else find (\<lambda>q. bpo_Name q = k) news)"
    by (intro option_eq_by_Some) simp
  have "find (\<lambda>q. bpo_Name q = k) (map g xs) = map_option g (find (\<lambda>q. bpo_Name q = k) xs)" for xs
    by (induction xs) (auto simp: g)
  with f show ?thesis by simp
qed

lemma find_map_key: "(\<And>q. g (h q) = g' q) \<Longrightarrow> find (\<lambda>q. g q = k) (map h xs) = map_option h (find (\<lambda>q. g' q = k) xs)"
  by (induction xs) auto

lemma convertToBGPPeer_Name [simp]: "bpo_Name (convertToBGPPeer dur p ns svc) = pe_Name p"
  by (simp add: convertToBGPPeer_def)

text \<open>The two branches of \<open>UpdatePeersByService\<close>, taken apart.\<close>

lemma update_peers_cases:
  assumes "CRD_UpdatePeersByService pdq ord dur cfg adds n m w = (Inr ch, w')"
  obtains (none) w1 where "listBGPPeers cfg w = (Inr [], w1)"
      "create_peers cfg (map (\<lambda>add. convertToBGPPeer dur add (crd_namespace cfg) m) adds) w1 = (None, w')"
  | (some) olds w1 t c w2 where "listBGPPeers cfg w = (Inr olds, w1)" "olds \<noteq> []"
      "update_old_peers pdq cfg (map (\<lambda>add. convertToBGPPeer dur add (crd_namespace cfg) m) adds) n m olds
         (fold (\<lambda>q t. AList.update (bpo_Name q) q t) (map (\<lambda>add. convertToBGPPeer dur add (crd_namespace cfg) m) adds) [])
         False w1 = (Inr (t, c), w2)"
      "create_peers cfg (map (\<lambda>q. snd (peerAddService pdq q n m)) (ord (map snd t))) w2 = (None, w')"
  using assms
  by (auto simp: CRD_UpdatePeersByService_def Let_def split: prod.splits sum.splits if_splits option.splits)

lemma updated_peers_none:
  assumes ct: "peers_contract objs cfg" and l0: "listBGPPeers cfg w = (Inr [], w1)" and c0: "create_peers cfg news w1 = (None, w')"
  shows "objs w' = updated_peers f n m news (objs w)"
proof -
  note l = listBGPPeers_objs [OF ct l0] and c = create_peers_objs [OF ct c0]
  have no: "\<not> (\<exists>p \<in> ran (objs w). managed p)" using l(3) by auto
  have "objs w' k = updated_peers f n m news (objs w) k" for k
  proof (cases "objs w k")
    case None
    then show ?thesis using c no by (auto simp: updated_peers_def l(1) split: option.split)
  next
    case (Some p)
    then have "find (\<lambda>q. bpo_Name q = k) news = None"
      using c l(1) unfolding find_key_None_iff by (metis (no_types, lifting) image_iff not_None_eq)
    moreover have "\<not> managed p" using no Some by (auto simp: ran_def)
    ultimately show ?thesis using c Some by (simp add: updated_peers_def l(1))
  qed
  then show ?thesis by blast
qed

lemma updated_peers_some:
  assumes ct: "peers_contract objs cfg" and ne: "n \<noteq> ''''" "m \<noteq> ''''" and ord: "iteration_order ord" and dn: "distinct (map bpo_Name news)"
    and l0: "listBGPPeers cfg w = (Inr olds, w1)" and olds: "olds \<noteq> []"
    and u0: "update_old_peers (permute f) cfg news n m olds (fold (\<lambda>q t. AList.update (bpo_Name q) q t) news []) False w1 = (Inr (t, c), w2)"
    and c0: "create_peers cfg (map (\<lambda>q. snd (peerAddService (permute f) q n m)) (ord (map snd t))) w2 = (None, w')"
  shows "objs w' = updated_peers f n m news (objs w)"
proof -
  note l = listBGPPeers_objs [OF ct l0] and fl = find_listed [OF ct l0]
  let ?t0 = "fold (\<lambda>q t. AList.update (bpo_Name q) q t) news []"
  have keys: "fst ` set ?t0 \<subseteq> bpo_Name ` set news"
    using fold_update_is_distinct_list(2) [OF dn] by (fastforce simp del: set_map)
  have u: "objs w2 = (\<lambda>k. case find (\<lambda>p. bpo_Name p = k) olds of Some p \<Rightarrow> renew f n m news p | None \<Rightarrow> objs w1 k)"
    "t = filter (\<lambda>(k, _). k \<notin> bpo_Name ` set olds) ?t0"
    using update_old_peers_objs [OF ct ne l(2) _ keys u0] l(1,4) by simp_all
  note r = rest_to_create [OF ord dn u(2) peerAddService_Name(1)] and c = create_peers_objs [OF ct c0]
  have yes: "\<exists>p \<in> ran (objs w). managed p" using l(3) olds by (metis (mono_tags, lifting) mem_Collect_eq list.set_intros(1) neq_Nil_conv)
  have "objs w' k = updated_peers f n m news (objs w) k" for k
  proof (cases "find (\<lambda>p. bpo_Name p = k) olds")
    case (Some p)
    then have p: "objs w k = Some p" "managed p" "k \<in> bpo_Name ` set olds"
      using fl [of k] l(4) by (auto simp: find_Some_iff split: option.splits if_splits)
    then show ?thesis using c u(1) Some by (simp add: r updated_peers_def)
  next
    case None
    then have k: "k \<notin> bpo_Name ` set olds" and nm: "objs w k = Some p \<Longrightarrow> \<not> managed p" for p
      using fl [of k] by (auto simp: find_key_None_iff [symmetric] split: if_splits)
    show ?thesis
    proof (cases "objs w k")
      case n: None
      then show ?thesis using c u(1) None k yes by (auto simp: r updated_peers_def l(1) split: option.split)
    next
      case s: (Some p)
      have "find (\<lambda>q. bpo_Name q = k) (map (\<lambda>q. snd (peerAddService (permute f) q n m)) (ord (map snd t))) = None"
      proof -
        have "objs w2 k = Some p" using s None l(1) by (simp add: u(1))
        then show ?thesis using c unfolding find_key_None_iff by (metis (no_types, lifting) image_iff option.distinct(1))
      qed
      then show ?thesis using c u(1) None s nm by (simp add: updated_peers_def l(1))
    qed
  qed
  then show ?thesis by blast
qed

lemma updated_peers_refinement:
  assumes ct: "peers_contract objs cfg" and ne: "n \<noteq> ''''" "m \<noteq> ''''" and ord: "iteration_order ord"
    and d: "distinct (map pe_Name adds)"
    and ok: "CRD_UpdatePeersByService (permute f) ord dur cfg adds n m w = (Inr ch, w')"
  shows "objs w' = updated_peers f n m (map (\<lambda>add. convertToBGPPeer dur add (crd_namespace cfg) m) adds) (objs w)"
proof -
  let ?news = "map (\<lambda>add. convertToBGPPeer dur add (crd_namespace cfg) m) adds"
  have dn: "distinct (map bpo_Name ?news)" using d by (simp add: comp_def)
  from ok show ?thesis
    by (cases rule: update_peers_cases) (rule updated_peers_none [OF ct] updated_peers_some [OF ct ne ord dn]; assumption)+
qed

text \<open>An update that succeeds has not met an object of a wanted name that is not managed.\<close>

lemma wanted_names_managed:
  assumes ct: "peers_contract objs cfg" and ne: "n \<noteq> ''''" "m \<noteq> ''''" and ord: "iteration_order ord"
    and d: "distinct (map pe_Name adds)"
    and ok: "CRD_UpdatePeersByService (permute f) ord dur cfg adds n m w = (Inr ch, w')"
    and add: "add \<in> set adds" and p: "objs w (pe_Name add) = Some p"
  shows "managed p"
proof -
  let ?news = "map (\<lambda>add. convertToBGPPeer dur add (crd_namespace cfg) m) adds"
  have dn: "distinct (map bpo_Name ?news)" using d by (simp add: comp_def)
  let ?q = "convertToBGPPeer dur add (crd_namespace cfg) m"
  have q: "?q \<in> set ?news" "bpo_Name ?q = pe_Name add" using add by auto
  from ok show ?thesis
  proof (cases rule: update_peers_cases)
    case (none w1)
    have "objs w1 (bpo_Name ?q) = None" using create_peers_objs [OF ct none(2)] q(1) by blast
    with p listBGPPeers_objs(1) [OF ct none(1)] q(2) show ?thesis by simp
  next
    case (some olds w1 t c w2)
    note l = listBGPPeers_objs [OF ct some(1)] and fl = find_listed [OF ct some(1)]
    let ?t0 = "fold (\<lambda>q t. AList.update (bpo_Name q) q t) ?news []"
    have keys: "fst ` set ?t0 \<subseteq> bpo_Name ` set ?news"
      using fold_update_is_distinct_list(2) [OF dn] by (fastforce simp del: set_map)
    have u: "objs w2 = (\<lambda>k. case find (\<lambda>p. bpo_Name p = k) olds of Some p \<Rightarrow> renew f n m ?news p | None \<Rightarrow> objs w1 k)"
      "t = filter (\<lambda>(k, _). k \<notin> bpo_Name ` set olds) ?t0"
      using update_old_peers_objs [OF ct ne l(2) _ keys some(3)] l(1,4) by simp_all
    note r = rest_to_create [OF ord dn u(2) peerAddService_Name(1)] and c = create_peers_objs [OF ct some(4)]
    show ?thesis
    proof (rule ccontr)
      assume nm: "\<not> managed p"
      then have none: "find (\<lambda>p. bpo_Name p = pe_Name add) olds = None" using fl [of "pe_Name add"] p by simp
      then have k: "pe_Name add \<notin> bpo_Name ` set olds" by (simp add: find_key_None_iff)
      have w2: "objs w2 (pe_Name add) = Some p" using none p l(1) by (simp add: u(1))
      have "find (\<lambda>q. bpo_Name q = pe_Name add) ?news = Some ?q" using find_key_Some_iff [OF dn] q by blast
      then have "find (\<lambda>q. bpo_Name q = pe_Name add) (map (\<lambda>q. snd (peerAddService (permute f) q n m)) (ord (map snd t))) \<noteq> None"
        using k by (simp add: r)
      then show False using c w2 unfolding find_key_None_iff by (metis (no_types, lifting) image_iff option.distinct(1))
    qed
  qed
qed

lemma unlink_result:
  assumes ne: "n \<noteq> ''''" "m \<noteq> ''''" and u: "unlink f n m p = Some p'"
  shows "\<lparr>res_Namespace = n, res_Name = m\<rparr> \<notin> set (peer_services p')"
    and "mset (peer_services p') = filter_mset (\<lambda>r. r \<noteq> \<lparr>res_Namespace = n, res_Name = m\<rparr>) (mset (peer_services p))"
    and "peer_plain p' = peer_plain p" and "managed p' = managed p" and "bpo_Name p' = bpo_Name p"
proof -
  let ?r = "\<lparr>res_Namespace = n, res_Name = m\<rparr>"
  have "?r \<notin> set (peer_services p') \<and> mset (peer_services p') = filter_mset (\<lambda>r. r \<noteq> ?r) (mset (peer_services p))
    \<and> peer_plain p' = peer_plain p \<and> managed p' = managed p \<and> bpo_Name p' = bpo_Name p"
  proof (cases "?r \<in> set (peer_services p)")
    case True
    with u have "p' = snd (peerRemoveService (permute f) p n m)" by (auto simp: unlink_def split: if_splits)
    then show ?thesis
      by (simp add: crd_links.remove_gone ne crd_links.remove_services crd_links.remove_plain managed_def)
  next
    case False
    with u have "p' = p" by (simp add: unlink_def)
    moreover have "filter_mset (\<lambda>r. r \<noteq> ?r) (mset (peer_services p)) = mset (peer_services p)"
      using False by (auto simp: filter_mset_eq_conv)
    ultimately show ?thesis using False by simp
  qed
  then show "?r \<notin> set (peer_services p')"
    "mset (peer_services p') = filter_mset (\<lambda>r. r \<noteq> ?r) (mset (peer_services p))"
    "peer_plain p' = peer_plain p" "managed p' = managed p" "bpo_Name p' = bpo_Name p" by blast+
qed

lemma remove_peers_loop_objs:
  assumes ct: "peers_contract objs cfg" and ne: "n \<noteq> ''''" "m \<noteq> ''''"
  shows "distinct (map bpo_Name ps) \<Longrightarrow> \<forall>p \<in> set ps. objs w (bpo_Name p) = Some p \<Longrightarrow>
    remove_peers_loop (permute f) cfg n m ps w = (None, w') \<Longrightarrow>
    objs w' = (\<lambda>k. case find (\<lambda>p. bpo_Name p = k) ps of Some p \<Rightarrow> unlink f n m p | None \<Rightarrow> objs w k)"
proof (induction ps arbitrary: w)
  case (Cons p ps)
  obtain c w1 where s1: "updateOrDeletePeerByService (permute f) cfg p n m w = (Inr c, w1)"
    and s2: "remove_peers_loop (permute f) cfg n m ps w1 = (None, w')"
    using Cons.prems(3) by (auto split: prod.splits sum.splits)
  have p: "objs w (bpo_Name p) = Some p" using Cons.prems(2) by simp
  note u = updateOrDelete_objs(1) [OF ct ne p s1]
  have notin: "bpo_Name p \<notin> bpo_Name ` set ps" using Cons.prems(1) by simp
  have "\<forall>q \<in> set ps. objs w1 (bpo_Name q) = Some q"
  proof
    fix q assume q: "q \<in> set ps"
    with notin have "bpo_Name q \<noteq> bpo_Name p" by (metis image_eqI)
    with q Cons.prems(2) show "objs w1 (bpo_Name q) = Some q" by (simp add: u)
  qed
  then have IH: "objs w' = (\<lambda>k. case find (\<lambda>p. bpo_Name p = k) ps of Some p \<Rightarrow> unlink f n m p | None \<Rightarrow> objs w1 k)"
    using Cons.IH [OF _ _ s2] Cons.prems(1) by simp
  have "find (\<lambda>q. bpo_Name q = bpo_Name p) ps = None" using notin by (simp add: find_key_None_iff)
  then show ?case unfolding IH u by (intro ext) (auto split: option.split)
qed simp

lemma removed_peers_refinement:
  assumes ct: "peers_contract objs cfg" and ne: "n \<noteq> ''''" "m \<noteq> ''''"
    and ok: "CRD_RemovePeersByService (permute f) cfg n m w = (Inr ch, w')"
  shows "objs w' = unlinked_peers f n m (objs w)"
proof -
  obtain olds w1 where l: "listBGPPeers cfg w = (Inr olds, w1)"
    and r: "remove_peers_loop (permute f) cfg n m olds w1 = (None, w')"
    using ok by (auto simp: CRD_RemovePeersByService_def split: prod.splits sum.splits option.splits)
  note o = listBGPPeers_objs [OF ct l]
  have "objs w' = (\<lambda>k. case find (\<lambda>p. bpo_Name p = k) olds of Some p \<Rightarrow> unlink f n m p | None \<Rightarrow> objs w1 k)"
    using remove_peers_loop_objs [OF ct ne o(2) _ r] o by simp
  then show ?thesis
    by (auto simp: find_listed [OF ct l] unlinked_peers_def o(1) split: option.split)
qed

lemma no_peer_linked_after_removal:
  assumes ct: "peers_contract objs cfg" and ne: "n \<noteq> ''''" "m \<noteq> ''''"
    and ok: "CRD_RemovePeersByService (permute f) cfg n m w = (Inr ch, w')"
    and p: "objs w' k = Some p" "managed p"
  shows "\<lparr>res_Namespace = n, res_Name = m\<rparr> \<notin> set (peer_services p)"
  using p unlink_result(1) [OF ne]
  by (auto simp: removed_peers_refinement [OF ct ne ok] unlinked_peers_def split: option.splits if_splits)

section \<open>The contract of updating peers\<close>

text \<open>
  What the interface asks for, stated without the functions of the code: the fields of a peer apart
  from its node selectors, those a wanted peer has, and the ones that make up its session.
\<close>

definition peer_fields :: "BGPPeerSpec \<Rightarrow> BGPPeerSpec" where
  "peer_fields s = s\<lparr>bps_NodeSelectors := []\<rparr>"

definition wanted_fields :: "(string \<Rightarrow> int) \<Rightarrow> Peer \<Rightarrow> BGPPeerSpec" where
  "wanted_fields dur a = \<lparr>bps_MyASN = pe_MyASN a, bps_ASN = pe_ASN a, bps_Address = pe_Addr a, bps_SrcAddress = pe_SrcAddr a,
     bps_Port = pe_Port a, bps_HoldTime = dur (pe_HoldTime a), bps_RouterID = '''', bps_NodeSelectors = [],
     bps_Password = pe_Password a, bps_EBGPMultiHop = pe_EBGPMultiHop a\<rparr>"

definition session :: "BGPPeerSpec \<Rightarrow> uint32 \<times> uint32 \<times> string \<times> uint16 \<times> int \<times> string" where
  "session s = (bps_MyASN s, bps_ASN s, bps_Address s, bps_Port s, bps_HoldTime s, bps_Password s)"

definition same_but_selectors :: "metal_BGPPeer \<Rightarrow> metal_BGPPeer \<Rightarrow> bool" where
  "same_but_selectors p q \<longleftrightarrow> set_selectors (bps_NodeSelectors (bpo_Spec p)) q = p"

text \<open>The peers before and after the peers of the service \<open>r\<close> were updated to \<open>adds\<close>.\<close>

definition service_peers_updated ::
  "(string \<Rightarrow> int) \<Rightarrow> Resource \<Rightarrow> Peer list \<Rightarrow> (string \<rightharpoonup> metal_BGPPeer) \<Rightarrow> (string \<rightharpoonup> metal_BGPPeer) \<Rightarrow> bool" where
  "service_peers_updated dur r adds before after \<longleftrightarrow>
     (\<forall>k p. before k = Some p \<and> \<not> managed p \<longrightarrow> after k = Some p)
   \<and> (\<forall>k. before k = None \<and> k \<notin> pe_Name ` set adds \<longrightarrow> after k = None)
   \<and> (\<forall>k p. before k = Some p \<and> managed p \<and> k \<notin> pe_Name ` set adds \<longrightarrow>
        (if set (peer_services p) = {r} then after k = None
         else \<exists>p'. after k = Some p' \<and> same_but_selectors p p' \<and> peer_plain p' = peer_plain p
           \<and> mset (peer_services p') = filter_mset (\<lambda>s. s \<noteq> r) (mset (peer_services p))))
   \<and> (\<forall>a \<in> set adds. \<forall>p. before (pe_Name a) = Some p \<and> peer_fields (bpo_Spec p) = wanted_fields dur a \<longrightarrow>
        (if r \<in> set (peer_services p) then after (pe_Name a) = Some p
         else \<exists>p'. after (pe_Name a) = Some p' \<and> same_but_selectors p p' \<and> peer_plain p' = peer_plain p
           \<and> mset (peer_services p') = add_mset r (mset (peer_services p))))
   \<and> (\<forall>a \<in> set adds. \<exists>p'. after (pe_Name a) = Some p' \<and> managed p' \<and> session (bpo_Spec p') = session (wanted_fields dur a)
        \<and> (before (pe_Name a) = None \<and> (\<exists>q \<in> ran before. managed q) \<longrightarrow> r \<in> set (peer_services p')))"

lemma peerSpecEqual_iff:
  "peerSpecEqual s t \<longleftrightarrow> session s = session t \<and> bps_RouterID s = bps_RouterID t"
  by (auto simp: peerSpecEqual_def session_def)

lemma converted_fields: "peer_fields (bpo_Spec (convertToBGPPeer dur a ns svc)) = wanted_fields dur a"
  by (simp add: convertToBGPPeer_def peer_fields_def wanted_fields_def)

lemma converted_session:
  "session (bpo_Spec (convertToBGPPeer dur a ns svc)) = session (wanted_fields dur a)"
  "managed (convertToBGPPeer dur a ns svc)"
  by (simp_all add: convertToBGPPeer_def session_def wanted_fields_def managed_def nil_map_def)

lemma fields_equal:
  assumes "peer_fields (bpo_Spec p) = wanted_fields dur a"
  shows "peerSpecEqual (bpo_Spec p) (bpo_Spec (convertToBGPPeer dur a ns svc))"
proof -
  have "session s = session (peer_fields s)" "bps_RouterID s = bps_RouterID (peer_fields s)" for s
    by (simp_all add: session_def peer_fields_def)
  with assms show ?thesis unfolding peerSpecEqual_iff by (metis converted_fields)
qed

lemma same_but_selectors_links [simp]:
  "same_but_selectors p (snd (peerAddService pdq p n m))" "same_but_selectors p (snd (peerRemoveService pdq p n m))"
  "managed (snd (peerAddService pdq p n m)) = managed p" "session (bpo_Spec (snd (peerAddService pdq p n m))) = session (bpo_Spec p)"
  by (simp_all add: same_but_selectors_def peerAddService_def peerRemoveService_def split_beta set_selectors_def managed_def session_def)

text \<open>A managed peer that is not wanted, and one that is.\<close>

lemma unlink_spec:
  assumes ne: "n \<noteq> ''''" "m \<noteq> ''''"
  shows "if set (peer_services p) = {\<lparr>res_Namespace = n, res_Name = m\<rparr>} then unlink f n m p = None
    else \<exists>p'. unlink f n m p = Some p' \<and> same_but_selectors p p' \<and> peer_plain p' = peer_plain p
      \<and> mset (peer_services p') = filter_mset (\<lambda>s. s \<noteq> \<lparr>res_Namespace = n, res_Name = m\<rparr>) (mset (peer_services p))"
proof (cases "set (peer_services p) = {\<lparr>res_Namespace = n, res_Name = m\<rparr>}")
  case False
  then have "unlink f n m p \<noteq> None" by (simp add: unlink_def)
  then obtain p' where u: "unlink f n m p = Some p'" by blast
  moreover have "same_but_selectors p p" by (simp add: same_but_selectors_def set_selectors_def)
  ultimately have "same_but_selectors p p'" by (auto simp: unlink_def split: if_splits)
  with u False unlink_result(2,3) [OF ne u] show ?thesis by simp
qed (simp add: unlink_def)

lemma refresh_spec:
  fixes f :: slice_permutation and ns :: string
  assumes ne: "n \<noteq> ''''" "m \<noteq> ''''" and "peer_fields (bpo_Spec p) = wanted_fields dur a"
  defines "q \<equiv> refresh f n m (convertToBGPPeer dur a ns m) p" and "r \<equiv> \<lparr>res_Namespace = n, res_Name = m\<rparr>"
  shows "if r \<in> set (peer_services p) then q = p
    else same_but_selectors p q \<and> peer_plain q = peer_plain p \<and> mset (peer_services q) = add_mset r (mset (peer_services p))"
proof -
  have q: "q = snd (peerAddService (permute f) p n m)" using fields_equal [OF assms(3)] by (simp add: q_def refresh_def)
  show ?thesis
  proof (cases "r \<in> set (peer_services p)")
    case True
    then show ?thesis using crd_links.add_fst [OF ne, of f p] crd_links.add_no_change [of f p n m] by (simp add: q r_def)
  next
    case False
    then show ?thesis using crd_links.add_fst [OF ne, of f p] crd_links.add_services [OF ne, of f p] crd_links.add_plain [OF ne, of f p]
      by (simp add: q r_def)
  qed
qed

lemma refresh_session:
  "session (bpo_Spec (refresh f n m new p)) = session (bpo_Spec new)" "managed (refresh f n m new p) = managed p"
  by (simp_all add: refresh_def Let_def peerSpecEqual_iff) (simp add: managed_def)

section \<open>Properties of peers\<close>

text \<open>
  C3: \<open>UpdatePeersByService\<close> keeps its contract on the peers in the cluster. Peers that are not
  managed by this controller are never touched, and no peer appears that was not asked for. A
  managed peer that is not wanted is unlinked from the service, and deleted if that was its only
  one; its fields, its other services and its other node selectors stay. A wanted peer that is
  there with all the fields it should have (the selectors apart) is left alone if it is linked to
  the service, and is linked to it, keeping everything else, if it is not. In any case each wanted
  peer is there in the end, managed, with the AS numbers, address, port, hold time and password it
  should have; and a new one is linked to the service if there were managed peers before.
\<close>

theorem update_peers_by_service_refines:
  assumes ct: "peers_contract objs cfg" and ne: "svcNamespace \<noteq> ''''" "svcName \<noteq> ''''" and ord: "iteration_order ord"
    and d: "distinct (map pe_Name adds)"
    and ok: "CRD_UpdatePeersByService (permute f) ord dur cfg adds svcNamespace svcName w = (Inr ch, w')"
  shows "service_peers_updated dur \<lparr>res_Namespace = svcNamespace, res_Name = svcName\<rparr> adds (objs w) (objs w')"
proof -
  let ?r = "\<lparr>res_Namespace = svcNamespace, res_Name = svcName\<rparr>" and ?c = "\<lambda>a. convertToBGPPeer dur a (crd_namespace cfg) svcName"
  note ref = updated_peers_refinement [OF ct ne ord d ok, THEN fun_cong]
  have dn: "distinct (map bpo_Name (map ?c adds))" using d by (simp add: comp_def)
  have wanted: "find (\<lambda>q. bpo_Name q = pe_Name a) (map ?c adds) = Some (?c a)" if "a \<in> set adds" for a
    unfolding find_key_Some_iff [OF dn] using that by simp
  have unwanted: "find (\<lambda>q. bpo_Name q = k) (map ?c adds) = None" if "k \<notin> pe_Name ` set adds" for k
    using that by (auto simp: find_key_None_iff)
  have name: "bpo_Name p = k" if "objs w k = Some p" for k p using kind_name [OF ct that] .
  have was: "objs w' (pe_Name a) = Some (refresh f svcNamespace svcName (?c a) p) \<and> managed p"
    if "a \<in> set adds" "objs w (pe_Name a) = Some p" for a p
    using that wanted wanted_names_managed [OF ct ne ord d ok that] name [OF that(2)] by (simp add: ref updated_peers_def renew_def)
  have new: "objs w' (pe_Name a) = Some (if \<exists>p \<in> ran (objs w). managed p then snd (peerAddService (permute f) (?c a) svcNamespace svcName) else ?c a)"
    if "a \<in> set adds" "objs w (pe_Name a) = None" for a
    using that wanted by (simp add: ref updated_peers_def)
  show ?thesis unfolding service_peers_updated_def
  proof (intro conjI allI ballI impI; (elim conjE)?)
    fix k p assume "objs w k = Some p" "\<not> managed p"
    then show "objs w' k = Some p" by (simp add: ref updated_peers_def)
  next
    fix k assume "objs w k = None" "k \<notin> pe_Name ` set adds"
    then show "objs w' k = None" using unwanted by (simp add: ref updated_peers_def)
  next
    fix k p assume p: "objs w k = Some p" "managed p" "k \<notin> pe_Name ` set adds"
    then have "objs w' k = unlink f svcNamespace svcName p" using unwanted name by (simp add: ref updated_peers_def renew_def)
    then show "if set (peer_services p) = {?r} then objs w' k = None
      else \<exists>p'. objs w' k = Some p' \<and> same_but_selectors p p' \<and> peer_plain p' = peer_plain p
        \<and> mset (peer_services p') = filter_mset (\<lambda>s. s \<noteq> ?r) (mset (peer_services p))"
      using unlink_spec [OF ne, of p f] by simp
  next
    fix a p assume a: "a \<in> set adds" "objs w (pe_Name a) = Some p" "peer_fields (bpo_Spec p) = wanted_fields dur a"
    then show "if ?r \<in> set (peer_services p) then objs w' (pe_Name a) = Some p
      else \<exists>p'. objs w' (pe_Name a) = Some p' \<and> same_but_selectors p p' \<and> peer_plain p' = peer_plain p
        \<and> mset (peer_services p') = add_mset ?r (mset (peer_services p))"
      using was [OF a(1,2)] refresh_spec [OF ne a(3), of f "crd_namespace cfg"] by (simp split: if_splits)
  next
    fix a assume a: "a \<in> set adds"
    show "\<exists>p'. objs w' (pe_Name a) = Some p' \<and> managed p' \<and> session (bpo_Spec p') = session (wanted_fields dur a)
        \<and> (objs w (pe_Name a) = None \<and> (\<exists>q \<in> ran (objs w). managed q) \<longrightarrow> ?r \<in> set (peer_services p'))"
    proof (cases "objs w (pe_Name a)")
      case None
      then show ?thesis using new [OF a] converted_session crd_links.add_linked [OF ne] by simp
    next
      case (Some p)
      then show ?thesis using was [OF a Some] refresh_session converted_session by simp
    qed
  qed
qed

definition sample_peer :: "string \<Rightarrow> Peer" where
  "sample_peer name = \<lparr>pe_MyASN = 65000, pe_ASN = 65010, pe_Addr = ''10.0.0.1'', pe_Port = 179, pe_SrcAddr = '''',
     pe_HoldTime = ''30s'', pe_RouterID = '''', pe_NodeSelectors = [], pe_Password = '''', pe_EBGPMultiHop = False,
     pe_Name = name\<rparr>"

abbreviation id_order :: slice_permutation where
  "id_order \<equiv> Slice_Permutation (\<lambda>xs. xs)"

abbreviation empty_store :: metal_store where
  "empty_store \<equiv> \<lparr>ms_peers = [], ms_pools = [], ms_advs = []\<rparr>"

lemma sample_update:
  "\<exists>w'. CRD_UpdatePeersByService (permute f) (\<lambda>xs. xs) (\<lambda>_. 30) mem_config [sample_peer ''a''] ''ns'' ''svc'' empty_store
     = (Inr True, w')"
  by (simp add: CRD_UpdatePeersByService_def listBGPPeers_def mem_config_def mem_kind_def by_name_def Let_def)

theorem update_peers_by_service_refines_witness:
  "\<exists>w'. CRD_UpdatePeersByService (permute id_order) (\<lambda>xs. xs) (\<lambda>_. 30) mem_config [sample_peer ''a''] ''ns'' ''svc'' empty_store
     = (Inr True, w')
   \<and> service_peers_updated (\<lambda>_. 30) \<lparr>res_Namespace = ''ns'', res_Name = ''svc''\<rparr> [sample_peer ''a''] Map.empty (by_name bpo_Name (ms_peers w'))"
proof -
  from sample_update obtain w' where u: "CRD_UpdatePeersByService (permute id_order) (\<lambda>xs. xs) (\<lambda>_. 30) mem_config
      [sample_peer ''a''] ''ns'' ''svc'' empty_store = (Inr True, w')" by blast
  have "by_name bpo_Name (ms_peers empty_store) = Map.empty" by (simp add: by_name_def fun_eq_iff)
  with update_peers_by_service_refines [OF mem_config_contract(1) _ _ iteration_order_id _ u] u show ?thesis by simp
qed






text \<open>C10: Removing a service unlinks it everywhere: no managed peer is linked to it afterwards, a
  managed peer stays unless this was its only service, keeping its other services and its other
  node selectors, and peers that are not managed stay as they are.\<close>

theorem remove_peers_unlinks:
  assumes ct: "peers_contract objs cfg" and ne: "svcNamespace \<noteq> ''''" "svcName \<noteq> ''''"
    and ok: "CRD_RemovePeersByService (permute f) cfg svcNamespace svcName w = (Inr ch, w')"
  shows "(\<forall>k p. objs w' k = Some p \<and> managed p \<longrightarrow> \<lparr>res_Namespace = svcNamespace, res_Name = svcName\<rparr> \<notin> set (peer_services p))
    \<and> (\<forall>k p. objs w k = Some p \<and> managed p \<longrightarrow>
         (if set (peer_services p) = {\<lparr>res_Namespace = svcNamespace, res_Name = svcName\<rparr>} then objs w' k = None
          else \<exists>p'. objs w' k = Some p' \<and> peer_plain p' = peer_plain p \<and> mset (peer_services p') =
            filter_mset (\<lambda>r. r \<noteq> \<lparr>res_Namespace = svcNamespace, res_Name = svcName\<rparr>) (mset (peer_services p))))
    \<and> (\<forall>k p. objs w k = Some p \<and> \<not> managed p \<longrightarrow> objs w' k = Some p)"
proof (intro conjI allI impI; elim conjE)
  let ?r = "\<lparr>res_Namespace = svcNamespace, res_Name = svcName\<rparr>"
  note ref = removed_peers_refinement [OF assms]
  show "?r \<notin> set (peer_services p)" if "objs w' k = Some p" "managed p" for k p
    using that by (rule no_peer_linked_after_removal [OF assms])
  show "if set (peer_services p) = {?r} then objs w' k = None
    else \<exists>p'. objs w' k = Some p' \<and> peer_plain p' = peer_plain p \<and>
      mset (peer_services p') = filter_mset (\<lambda>r. r \<noteq> ?r) (mset (peer_services p))"
    if p: "objs w k = Some p" "managed p" for k p
  proof -
    have "objs w' k = unlink f svcNamespace svcName p" using p by (simp add: ref unlinked_peers_def)
    moreover have "unlink f svcNamespace svcName p = None \<longleftrightarrow> set (peer_services p) = {?r}"
      by (auto simp: unlink_def)
    ultimately show ?thesis using unlink_result(2,3) [OF ne, of f p] by (auto split: if_splits)
  qed
  show "objs w' k = Some p" if "objs w k = Some p" "\<not> managed p" for k p
    using that by (simp add: ref unlinked_peers_def)
qed

definition linked_peer :: "string \<Rightarrow> metal_BGPPeer" where
  "linked_peer name = snd (peerAddService (permute id_order)
     (convertToBGPPeer (\<lambda>_. 30) (sample_peer name) ''metallb-system'' ''svc'') ''ns'' ''svc'')"


theorem remove_peers_unlinks_witness:
  "\<exists>ch w'. CRD_RemovePeersByService (permute id_order) mem_config ''ns'' ''svc'' (empty_store\<lparr>ms_peers := [linked_peer ''a'']\<rparr>)
     = (Inr ch, w') \<and> by_name bpo_Name (ms_peers w') ''a'' = None"
proof -
  let ?w = "empty_store\<lparr>ms_peers := [linked_peer ''a'']\<rparr>" and ?p = "linked_peer ''a''"
  have lab: "bpo_Labels ?p = Some cpem_labels" "bpo_Name ?p = ''a''"
    by (simp_all add: linked_peer_def convertToBGPPeer_def sample_peer_def)
  let ?raw = "convertToBGPPeer (\<lambda>_. 30) (sample_peer ''a'') ''metallb-system'' ''svc''"
  have p0: "peer_services ?raw = []"
    by (simp add: peer_services_def services_of_def convertToBGPPeer_def convertToNodeSelectors_def sample_peer_def)
  then have "fst (peerAddService (permute id_order) ?raw ''ns'' ''svc'')" by (simp add: crd_links.add_fst)
  then have "mset (peer_services ?p) = add_mset \<lparr>res_Namespace = ''ns'', res_Name = ''svc''\<rparr> (mset (peer_services ?raw))"
    unfolding linked_peer_def by (intro crd_links.add_services) simp_all
  then have "mset (peer_services ?p) = {#\<lparr>res_Namespace = ''ns'', res_Name = ''svc''\<rparr>#}"
    unfolding p0 by (simp only: mset.simps)
  then have sv: "set (peer_services ?p) = {\<lparr>res_Namespace = ''ns'', res_Name = ''svc''\<rparr>}"
    by (metis set_mset_add_mset_insert set_mset_empty set_mset_mset)
  have "\<exists>ch w'. CRD_RemovePeersByService (permute id_order) mem_config ''ns'' ''svc'' ?w = (Inr ch, w')"
    by (auto simp: CRD_RemovePeersByService_def listBGPPeers_def updateOrDeletePeerByService_def mem_config_def mem_kind_def
        lab split: prod.splits)
  then obtain ch w' where ok: "CRD_RemovePeersByService (permute id_order) mem_config ''ns'' ''svc'' ?w = (Inr ch, w')" by blast
  have st: "by_name bpo_Name (ms_peers ?w) ''a'' = Some ?p" "managed ?p"
    by (simp_all add: by_name_def lab managed_def)
  from remove_peers_unlinks [OF mem_config_contract(1) _ _ ok] st sv ok show ?thesis by (auto split: if_splits)
qed

text \<open>Linking a service to a peer and unlinking it again leaves the peer's services and its
  other node selectors as they were, and the second call reports how many services are left.\<close>

theorem peer_service_link_round_trip:
  assumes "svcNamespace \<noteq> ''''" and "svcName \<noteq> ''''"
    and "\<lparr>res_Namespace = svcNamespace, res_Name = svcName\<rparr> \<notin> set (peer_services p)"
  shows "\<exists>p1 p2. peerAddService (permute f) p svcNamespace svcName = (True, p1)
    \<and> peerAddService (permute f) p1 svcNamespace svcName = (False, p1)
    \<and> peerRemoveService (permute f) p1 svcNamespace svcName = ((True, length (peer_services p)), p2)
    \<and> mset (peer_services p2) = mset (peer_services p) \<and> peer_plain p2 = peer_plain p"
proof -
  let ?p1 = "snd (peerAddService (permute f) p svcNamespace svcName)"
  let ?p2 = "snd (peerRemoveService (permute f) ?p1 svcNamespace svcName)"
  have "peerAddService (permute f) p svcNamespace svcName = (True, ?p1)"
    using crd_links.add_fst [OF assms(1,2), of f p] assms(3) by (simp add: prod_eq_iff)
  moreover have "peerRemoveService (permute f) ?p1 svcNamespace svcName = ((True, length (peer_services p)), ?p2)"
    using crd_links.remove_add(3) [OF assms, of f] by (metis prod.collapse)
  ultimately show ?thesis
    using crd_links.add_twice [OF assms(1,2), of f p] crd_links.remove_add(1,2) [OF assms, of f] by blast
qed

theorem peer_service_link_round_trip_witness:
  "\<exists>p1 p2. peerAddService (permute id_order) (convertToBGPPeer (\<lambda>_. 30) (sample_peer ''a'') ''x'' ''svc'') ''ns'' ''svc'' = (True, p1)
     \<and> peerRemoveService (permute id_order) p1 ''ns'' ''svc'' = ((True, 0), p2)"
  using peer_service_link_round_trip [of "''ns''" "''svc''" "convertToBGPPeer (\<lambda>_. 30) (sample_peer ''a'') ''x'' ''svc''" id_order]
  by (auto simp: peer_services_def services_of_def convertToBGPPeer_def convertToNodeSelectors_def sample_peer_def)

lemma native_peer_no_services: "p \<in> set (PeersFromNodesNative nodes) \<Longrightarrow> peer_services (convertToBGPPeer dur p ns svc) = []"
  by (auto simp: in_PeersFromNodesNative native_peer_def peer_services_def services_of_def convertToBGPPeer_def
      convertToNodeSelectors_def convertToNodeSelector_def selector_service_def hostnameKey_def
      serviceNameKey_def serviceNameSpaceKey_def)

text \<open>The peers created when the cluster had no managed peer are not linked to the service they
  were created for: removing that service afterwards leaves every peer in the cluster, although
  the documentation of \<open>RemovePeersByService\<close> has a peer without services removed.\<close>

theorem first_peers_outlive_service:
  assumes ct: "peers_contract objs cfg" and ne: "svcNamespace \<noteq> ''''" "svcName \<noteq> ''''" and ord: "iteration_order ord"
    and nodes: "distinct (map lbn_Name nodes)" and fresh: "\<forall>p \<in> ran (objs w). \<not> managed p"
    and up: "CRD_UpdatePeersByService (permute f) ord dur cfg (PeersFromNodesNative nodes) svcNamespace svcName w = (Inr ch, w1)"
    and rm: "CRD_RemovePeersByService (permute f) cfg svcNamespace svcName w1 = (Inr ch', w2)"
  shows "objs w2 = objs w1"
proof
  fix k
  let ?news = "map (\<lambda>add. convertToBGPPeer dur add (crd_namespace cfg) svcName) (PeersFromNodesNative nodes)"
  have d: "distinct (map pe_Name (PeersFromNodesNative nodes))" by (rule native_names_distinct [OF nodes])
  have w1: "objs w1 = updated_peers f svcNamespace svcName ?news (objs w)"
    by (rule updated_peers_refinement [OF ct ne ord d up])
  have "unlink f svcNamespace svcName p = Some p" if "objs w1 k = Some p" "managed p" for p
  proof -
    from that fresh have "find (\<lambda>q. bpo_Name q = k) ?news = Some p"
      by (auto simp: w1 updated_peers_def ran_def split: option.splits)
    then have "p \<in> set ?news" by (auto simp: find_Some_iff)
    then have "peer_services p = []" using native_peer_no_services by auto
    then show ?thesis by (simp add: unlink_def)
  qed
  then show "objs w2 k = objs w1 k"
    by (simp add: removed_peers_refinement [OF ct ne rm] unlinked_peers_def split: option.split)
qed

definition sample_lb_node :: "string \<Rightarrow> LB_Node" where
  "sample_lb_node name = \<lparr>lbn_Name = name, lbn_SourceIP = ''1.2.3.4'', lbn_LocalASN = 65000, lbn_PeerASN = 65010,
     lbn_Password = '''', lbn_Peers = [\<lparr>lbp_Address = ''10.0.0.1'', lbp_Port = 179\<rparr>], lbn_Region = ''LT''\<rparr>"

theorem first_peers_outlive_service_witness:
  "\<exists>w1 w2. CRD_UpdatePeersByService (permute id_order) (\<lambda>xs. xs) (\<lambda>_. 30) mem_config
       (PeersFromNodesNative [sample_lb_node ''a'']) ''ns'' ''svc'' empty_store = (Inr True, w1)
     \<and> CRD_RemovePeersByService (permute id_order) mem_config ''ns'' ''svc'' w1 = (Inr True, w2)
     \<and> ms_peers w1 \<noteq> [] \<and> by_name bpo_Name (ms_peers w2) = by_name bpo_Name (ms_peers w1)"
proof -
  let ?p = "convertToBGPPeer (\<lambda>_. 30) (native_peer (sample_lb_node ''a'') (0, \<lparr>lbp_Address = ''10.0.0.1'', lbp_Port = 179\<rparr>)) ''metallb-system'' ''svc''"
  let ?w = "empty_store\<lparr>ms_peers := [?p]\<rparr>"
  have n: "PeersFromNodesNative [sample_lb_node ''a''] = [native_peer (sample_lb_node ''a'') (0, \<lparr>lbp_Address = ''10.0.0.1'', lbp_Port = 179\<rparr>)]"
    by (simp add: PeersFromNodesNative_def sample_lb_node_def)
  have up: "CRD_UpdatePeersByService (permute id_order) (\<lambda>xs. xs) (\<lambda>_. 30) mem_config
       (PeersFromNodesNative [sample_lb_node ''a'']) ''ns'' ''svc'' empty_store = (Inr True, ?w)"
    unfolding n by (simp add: CRD_UpdatePeersByService_def listBGPPeers_def mem_config_def mem_kind_def by_name_def Let_def)
  have "\<exists>w2. CRD_RemovePeersByService (permute id_order) mem_config ''ns'' ''svc'' ?w = (Inr True, w2)"
    by (auto simp: CRD_RemovePeersByService_def listBGPPeers_def updateOrDeletePeerByService_def mem_config_def mem_kind_def
        convertToBGPPeer_def split: prod.splits)
  then obtain w2 where rm: "CRD_RemovePeersByService (permute id_order) mem_config ''ns'' ''svc'' ?w = (Inr True, w2)" by blast
  have "by_name bpo_Name (ms_peers empty_store) = Map.empty" by (simp add: by_name_def fun_eq_iff)
  then have "by_name bpo_Name (ms_peers w2) = by_name bpo_Name (ms_peers ?w)"
    using first_peers_outlive_service [OF mem_config_contract(1) _ _ iteration_order_id _ _ up rm] by simp
  with up rm show ?thesis by (intro exI [of _ ?w] exI [of _ w2]) simp
qed

end
