(* ===== verification/MetalLB_Pool_Laws.thy ===== *)
theory MetalLB_Pool_Laws
  imports MetalLB_CRD_Laws
begin

text \<open>
  What \<open>AddAddressPool\<close> and \<open>RemoveAddressPool\<close> of \<^verbatim>\<open>crd.go\<close> do to the address pools and the
  advertisements in the cluster, under the contract of the API server.
\<close>

section \<open>Two kinds in one world\<close>

text \<open>A call for one kind of object leaves the objects of another kind alone.\<close>

definition kind_frame :: "('w \<Rightarrow> 'x) \<Rightarrow> ('w, 'o) kind_client \<Rightarrow> bool" where
  "kind_frame other c \<longleftrightarrow>
     (\<forall>lab ns w r w'. api_List c lab ns w = (r, w') \<longrightarrow> other w' = other w) \<and>
     (\<forall>x w r w'. api_Create c x w = (r, w') \<longrightarrow> other w' = other w) \<and>
     (\<forall>x b w r w'. api_Patch c x b w = (r, w') \<longrightarrow> other w' = other w) \<and>
     (\<forall>x w r w'. api_Delete c x w = (r, w') \<longrightarrow> other w' = other w)"

text \<open>The contract for pools and advertisements together.\<close>

definition pools_contract ::
  "('w \<Rightarrow> string \<rightharpoonup> IPAddressPool) \<Rightarrow> ('w \<Rightarrow> string \<rightharpoonup> BGPAdvertisement) \<Rightarrow> 'w CRDConfigurer \<Rightarrow> bool" where
  "pools_contract pools advs m \<longleftrightarrow>
     kind_contract pools iap_Name iap_Labels (crd_namespace m) (mc_Pools (crd_client m)) \<and>
     kind_contract advs adv_Name adv_Labels (crd_namespace m) (mc_Advs (crd_client m)) \<and>
     kind_frame pools (mc_Advs (crd_client m)) \<and> kind_frame advs (mc_Pools (crd_client m))"

lemma mem_config_pools_contract:
  "pools_contract (\<lambda>w. by_name iap_Name (ms_pools w)) (\<lambda>w. by_name adv_Name (ms_advs w)) mem_config"
  by (simp add: pools_contract_def mem_config_contract kind_frame_def)
    (auto simp: mem_config_def mem_kind_def split: if_splits)

definition managed_pool :: "IPAddressPool \<Rightarrow> bool" where
  "managed_pool p \<longleftrightarrow> cpem_labels \<subseteq>\<^sub>m nil_map (iap_Labels p)"

definition managed_adv :: "BGPAdvertisement \<Rightarrow> bool" where
  "managed_adv a \<longleftrightarrow> cpem_labels \<subseteq>\<^sub>m nil_map (adv_Labels a)"

section \<open>Lemmas on listing\<close>

lemma listIPAddressPools_objs:
  assumes ct: "pools_contract pools advs cfg" and l: "listIPAddressPools cfg w = (Inr olds, w')"
  shows "pools w' = pools w" and "advs w' = advs w" and "distinct (map iap_Name olds)"
    and "set olds = {p \<in> ran (pools w). managed_pool p}"
proof -
  from l have a: "api_List (mc_Pools (crd_client cfg)) cpem_labels (crd_namespace cfg) w = (Inr olds, w')"
    by (auto simp: listIPAddressPools_def split: prod.splits sum.splits)
  from ct have k: "kind_contract pools iap_Name iap_Labels (crd_namespace cfg) (mc_Pools (crd_client cfg))"
    and fr: "kind_frame advs (mc_Pools (crd_client cfg))" by (simp_all add: pools_contract_def)
  show "pools w' = pools w" by (rule kind_list_keeps [OF k a])
  show "advs w' = advs w" using fr a unfolding kind_frame_def by blast
  show "distinct (map iap_Name olds)" "set olds = {p \<in> ran (pools w). managed_pool p}"
    using kind_list [OF k a] by (simp_all add: managed_pool_def)
qed

lemma listBGPAdvertisements_objs:
  assumes ct: "pools_contract pools advs cfg" and l: "listBGPAdvertisements cfg w = (Inr olds, w')"
  shows "pools w' = pools w" and "advs w' = advs w" and "distinct (map adv_Name olds)"
    and "set olds = {p \<in> ran (advs w). managed_adv p}"
proof -
  from l have a: "api_List (mc_Advs (crd_client cfg)) cpem_labels (crd_namespace cfg) w = (Inr olds, w')"
    by (auto simp: listBGPAdvertisements_def split: prod.splits sum.splits)
  from ct have k: "kind_contract advs adv_Name adv_Labels (crd_namespace cfg) (mc_Advs (crd_client cfg))"
    and fr: "kind_frame pools (mc_Advs (crd_client cfg))" by (simp_all add: pools_contract_def)
  show "advs w' = advs w" by (rule kind_list_keeps [OF k a])
  show "pools w' = pools w" using fr a unfolding kind_frame_def by blast
  show "distinct (map adv_Name olds)" "set olds = {p \<in> ran (advs w). managed_adv p}"
    using kind_list [OF k a] by (simp_all add: managed_adv_def)
qed

lemma pools_named:
  assumes "pools_contract pools advs cfg"
  shows "pools w k = Some p \<Longrightarrow> iap_Name p = k" and "advs w k = Some a \<Longrightarrow> adv_Name a = k"
  using assms kind_name unfolding pools_contract_def by metis+

section \<open>Lemmas on merging addresses\<close>

lemma distinct_remdups_adj_sorted: "sorted s \<Longrightarrow> distinct (remdups_adj s)" for s :: "string list"
  by (induction s rule: remdups_adj.induct) (auto simp: less_le_not_le)

lemma merged_addresses_shape:
  "merged_addresses old new =
     sorted_list_of_set (set old \<union> set new) @ replicate (length old + length new - card (set old \<union> set new)) ''''"
proof -
  let ?s = "sort (old @ new)"
  have d: "distinct (remdups_adj ?s)" by (simp add: distinct_remdups_adj_sorted)
  moreover have "sorted (remdups_adj ?s)" by (simp add: sorted_remdups_adj)
  ultimately have "remdups_adj ?s = sorted_list_of_set (set (remdups_adj ?s))"
    by (metis sorted_list_of_set.idem_if_sorted_distinct)
  then have "remdups_adj ?s = sorted_list_of_set (set old \<union> set new)" by simp
  moreover have "length (remdups_adj ?s) = card (set old \<union> set new)"
    using distinct_card [OF d] by simp
  ultimately show ?thesis by (simp add: merged_addresses_def Compact_array_def)
qed

section \<open>Lemmas on adding a pool\<close>

abbreviation addresses_meet :: "IPAddressPool \<Rightarrow> AddressPool \<Rightarrow> bool" where
  "addresses_meet p a \<equiv> set (iap_Addresses p) \<inter> set (ap_Addresses a) \<noteq> {}"

lemma match_pool_NoMatch:
  "match_pool (convertToIPAddr a ns n m) n m p = NoMatch \<longleftrightarrow> iap_Name p \<noteq> ap_Name a \<and> \<not> addresses_meet p a"
  by (auto simp: match_pool_def convertToIPAddr_def Let_def list_ex_iff)

lemma match_pool_Already:
  "match_pool (convertToIPAddr a ns n m) n m p = Already \<longleftrightarrow>
     iap_Name p = ap_Name a \<and> nil_map (iap_Labels p) (serviceLabelKey m) \<noteq> None"
  by (auto simp: match_pool_def convertToIPAddr_def Let_def)

text \<open>When no pool of another name has the address, only the pool of the name itself can match.\<close>

lemma match_pools_eq:
  assumes "distinct (map iap_Name ps)" and "\<forall>p \<in> set ps. iap_Name p \<noteq> ap_Name a \<longrightarrow> \<not> addresses_meet p a"
  shows "match_pools cfg (convertToIPAddr a ns n m) n m ps w =
    (case find (\<lambda>p. iap_Name p = ap_Name a) ps of
       None \<Rightarrow> (None, w)
     | Some p \<Rightarrow> match_pools cfg (convertToIPAddr a ns n m) n m [p] w)"
  using assms
proof (induction ps)
  case (Cons p ps)
  show ?case
  proof (cases "iap_Name p = ap_Name a")
    case True
    then have "match_pool (convertToIPAddr a ns n m) n m p \<noteq> NoMatch" by (simp add: match_pool_NoMatch)
    with True show ?thesis by (auto split: pool_step.splits)
  next
    case False
    then have "match_pool (convertToIPAddr a ns n m) n m p = NoMatch" using Cons.prems by (simp add: match_pool_NoMatch)
    with False Cons show ?thesis by simp
  qed
qed simp

lemma add_pool_to_advs_objs:
  assumes ct: "pools_contract pools advs cfg"
  shows "distinct (map adv_Name as) \<Longrightarrow> \<forall>a \<in> set as. advs w (adv_Name a) = Some a \<Longrightarrow>
    add_pool_to_advs cfg pool as w = (None, w') \<Longrightarrow> pools w' = pools w \<and>
    advs w' = (case find (\<lambda>a. adv_Name a = defaultBgpAdvertisement) as of None \<Rightarrow> advs w
      | Some a \<Rightarrow> (advs w)(defaultBgpAdvertisement \<mapsto> a\<lparr>adv_IPAddressPools := adv_IPAddressPools a @ [pool]\<rparr>))"
proof (induction as arbitrary: w)
  case (Cons a as)
  show ?case
  proof (cases "adv_Name a = defaultBgpAdvertisement")
    case False
    with Cons show ?thesis by simp
  next
    case True
    let ?a = "a\<lparr>adv_IPAddressPools := adv_IPAddressPools a @ [pool]\<rparr>"
    obtain w1 where p: "api_Patch (mc_Advs (crd_client cfg)) ?a a w = (None, w1)"
      and r: "add_pool_to_advs cfg pool as w1 = (None, w')"
      using True Cons.prems(3) by (auto split: prod.splits option.splits)
    from ct have k: "kind_contract advs adv_Name adv_Labels (crd_namespace cfg) (mc_Advs (crd_client cfg))"
      and fr: "kind_frame pools (mc_Advs (crd_client cfg))" by (simp_all add: pools_contract_def)
    have "advs w (adv_Name a) = Some a" using Cons.prems(2) by simp
    from kind_patch [OF k p this] True have w1: "advs w1 = (advs w)(defaultBgpAdvertisement \<mapsto> ?a)" by simp
    have pw: "pools w1 = pools w" using fr p unfolding kind_frame_def by blast
    have notin: "adv_Name b \<noteq> defaultBgpAdvertisement" if "b \<in> set as" for b
      using Cons.prems(1) True that by (metis distinct.simps(2) image_eqI list.set_map list.simps(9))
    then have "\<forall>b \<in> set as. advs w1 (adv_Name b) = Some b" using Cons.prems(2) by (simp add: w1)
    from Cons.IH [OF _ this r] Cons.prems(1)
    have "pools w' = pools w1 \<and> advs w' = (case find (\<lambda>a. adv_Name a = defaultBgpAdvertisement) as of None \<Rightarrow> advs w1
      | Some a \<Rightarrow> (advs w1)(defaultBgpAdvertisement \<mapsto> a\<lparr>adv_IPAddressPools := adv_IPAddressPools a @ [pool]\<rparr>))" by simp
    moreover have "find (\<lambda>a. adv_Name a = defaultBgpAdvertisement) as = None"
      using notin by (simp add: find_None_iff)
    ultimately show ?thesis using True w1 pw by simp
  qed
qed simp

text \<open>Looking for the default advertisement among those listed.\<close>

lemma find_default_listed:
  assumes ct: "pools_contract pools advs cfg" and l: "listBGPAdvertisements cfg w = (Inr olds, w')"
  shows "find (\<lambda>a. adv_Name a = defaultBgpAdvertisement) olds =
    (case advs w defaultBgpAdvertisement of Some a \<Rightarrow> if managed_adv a then Some a else None | None \<Rightarrow> None)"
proof -
  note o = listBGPAdvertisements_objs [OF assms]
  have "find (\<lambda>a. adv_Name a = defaultBgpAdvertisement) olds = Some a \<longleftrightarrow>
      advs w defaultBgpAdvertisement = Some a \<and> managed_adv a" for a
    using pools_named(2) [OF ct] by (auto simp: find_key_Some_iff [OF o(3)] o(4) ran_def)
  then show ?thesis by (intro option_eq_by_Some) (auto split: option.split)
qed

text \<open>The advertisements after a pool has been advertised.\<close>

definition advertised :: "string \<Rightarrow> string \<Rightarrow> (string \<rightharpoonup> BGPAdvertisement) \<Rightarrow> (string \<rightharpoonup> BGPAdvertisement)" where
  "advertised ns pool as =
     (if \<forall>a \<in> ran as. \<not> managed_adv a then as(defaultBgpAdvertisement \<mapsto> default_adv ns pool)
      else case as defaultBgpAdvertisement of
             Some a \<Rightarrow> if managed_adv a then as(defaultBgpAdvertisement \<mapsto> a\<lparr>adv_IPAddressPools := adv_IPAddressPools a @ [pool]\<rparr>) else as
           | None \<Rightarrow> as)"

lemma advertise_pool_objs:
  assumes ct: "pools_contract pools advs cfg" and ok: "advertise_pool cfg pool w = (Ok r, w')"
  shows "r \<and> pools w' = pools w \<and> advs w' = advertised (crd_namespace cfg) pool (advs w)
    \<and> ((\<forall>a \<in> ran (advs w). \<not> managed_adv a) \<longrightarrow> advs w defaultBgpAdvertisement = None)"
proof -
  obtain as w1 where l: "listBGPAdvertisements cfg w = (Inr as, w1)"
    using ok by (auto simp: advertise_pool_def split: prod.splits sum.splits)
  note o = listBGPAdvertisements_objs [OF ct l]
  from ct have k: "kind_contract advs adv_Name adv_Labels (crd_namespace cfg) (mc_Advs (crd_client cfg))"
    and fr: "kind_frame pools (mc_Advs (crd_client cfg))" by (simp_all add: pools_contract_def)
  show ?thesis
  proof (cases "as = []")
    case True
    then have c: "api_Create (mc_Advs (crd_client cfg)) (default_adv (crd_namespace cfg) pool) w1 = (None, w')" and r
      using ok l by (auto simp: advertise_pool_def split: prod.splits option.splits)
    have "pools w' = pools w" using fr c o(1) unfolding kind_frame_def by metis
    moreover have "\<forall>a \<in> ran (advs w). \<not> managed_adv a" using o(4) True by auto
    ultimately show ?thesis using kind_create [OF k c] o(2) \<open>r\<close> by (simp add: advertised_def default_adv_def)
  next
    case False
    then have a: "add_pool_to_advs cfg pool as w1 = (None, w')" and r
      using ok l by (auto simp: advertise_pool_def split: prod.splits option.splits)
    have "\<forall>a \<in> set as. advs w1 (adv_Name a) = Some a"
      using pools_named(2) [OF ct] by (auto simp: o ran_def)
    note adv = add_pool_to_advs_objs [OF ct o(3) this a]
    have "\<not> (\<forall>a \<in> ran (advs w). \<not> managed_adv a)" using o(4) False by (metis (mono_tags, lifting) list.set_intros(1) mem_Collect_eq neq_Nil_conv)
    with adv o(1,2) \<open>r\<close> show ?thesis
      unfolding advertised_def find_default_listed [OF ct l] by (cases "advs w defaultBgpAdvertisement") auto
  qed
qed

text \<open>No managed pool of another name has one of the addresses.\<close>

abbreviation addresses_free :: "AddressPool \<Rightarrow> (string \<rightharpoonup> IPAddressPool) \<Rightarrow> bool" where
  "addresses_free a ps \<equiv> \<forall>p \<in> ran ps. managed_pool p \<and> iap_Name p \<noteq> ap_Name a \<longrightarrow> \<not> addresses_meet p a"

text \<open>The pool that carries the name, once it is linked to the service.\<close>

definition linked_pool :: "AddressPool \<Rightarrow> string \<Rightarrow> (string \<rightharpoonup> IPAddressPool) \<Rightarrow> bool" where
  "linked_pool a m ps \<longleftrightarrow> (\<exists>p. ps (ap_Name a) = Some p \<and> managed_pool p \<and> nil_map (iap_Labels p) (serviceLabelKey m) \<noteq> None)"

lemma service_label_not_cpem [simp]: "serviceLabelKey m \<noteq> cpemLabelKey" "cpemLabelKey \<noteq> serviceLabelKey m"
  by (simp_all add: serviceLabelKey_def svcLabelKeyPrefix_def cpemLabelKey_def)

lemma convertToIPAddr_simps [simp]:
  "iap_Name (convertToIPAddr a ns n m) = ap_Name a" "managed_pool (convertToIPAddr a ns n m)"
  "nil_map (iap_Labels (convertToIPAddr a ns n m)) (serviceLabelKey m) = Some (serviceLabelValue n)"
  by (simp_all add: convertToIPAddr_def managed_pool_def map_le_def)

lemma find_pool_listed:
  assumes ct: "pools_contract pools advs cfg" and l: "listIPAddressPools cfg w = (Inr olds, w')"
  shows "find (\<lambda>p. iap_Name p = k) olds =
    (case pools w k of Some p \<Rightarrow> if managed_pool p then Some p else None | None \<Rightarrow> None)"
proof -
  note o = listIPAddressPools_objs [OF assms]
  have "find (\<lambda>p. iap_Name p = k) olds = Some p \<longleftrightarrow> pools w k = Some p \<and> managed_pool p" for p
    using pools_named(1) [OF ct] by (auto simp: find_key_Some_iff [OF o(3)] o(4) ran_def)
  then show ?thesis by (intro option_eq_by_Some) (auto split: option.split)
qed

text \<open>\<open>AddAddressPool\<close> when the addresses are free: a new pool, an old one linked, or nothing to do.\<close>

lemma add_pool_cases:
  assumes ct: "pools_contract pools advs cfg" and free: "addresses_free a (pools w)"
    and ok: "CRD_AddAddressPool cfg (Some a) n m w = (Ok r, w')"
  obtains (same) "linked_pool a m (pools w)" "\<not> r" "pools w' = pools w" "advs w' = advs w"
  | (link) p p' where "pools w (ap_Name a) = Some p" "managed_pool p" "\<not> linked_pool a m (pools w)" "pools w' = (pools w)(ap_Name a \<mapsto> p')"
      "iap_Name p' = ap_Name a" "managed_pool p'" "nil_map (iap_Labels p') (serviceLabelKey m) \<noteq> None"
  | (create) "pools w (ap_Name a) = None" r "pools w' = (pools w)(ap_Name a \<mapsto> convertToIPAddr a (crd_namespace cfg) n m)"
      "advs w' = advertised (crd_namespace cfg) (ap_Name a) (advs w)"
      "(\<forall>x \<in> ran (advs w). \<not> managed_adv x) \<longrightarrow> advs w defaultBgpAdvertisement = None"
proof -
  let ?q = "convertToIPAddr a (crd_namespace cfg) n m"
  obtain olds w1 where l: "listIPAddressPools cfg w = (Inr olds, w1)"
    using ok by (auto simp: CRD_AddAddressPool_def split: prod.splits sum.splits)
  note o = listIPAddressPools_objs [OF ct l]
  from ct have k: "kind_contract pools iap_Name iap_Labels (crd_namespace cfg) (mc_Pools (crd_client cfg))"
    and fr: "kind_frame advs (mc_Pools (crd_client cfg))" by (simp_all add: pools_contract_def)
  have "\<forall>p \<in> set olds. iap_Name p \<noteq> ap_Name a \<longrightarrow> \<not> addresses_meet p a" using free by (simp add: o(4))
  note mp = match_pools_eq [OF o(3) this, of cfg "crd_namespace cfg" n m w1, unfolded find_pool_listed [OF ct l]]
  show thesis
  proof (cases "find (\<lambda>p. iap_Name p = ap_Name a) olds")
    case None
    then have "match_pools cfg ?q n m olds w1 = (None, w1)" using mp by (simp add: find_pool_listed [OF ct l])
    with ok l obtain w3 where c: "api_Create (mc_Pools (crd_client cfg)) ?q w1 = (None, w3)"
      and ad: "advertise_pool cfg (ap_Name a) w3 = (Ok r, w')"
      by (auto simp: CRD_AddAddressPool_def Let_def split: prod.splits option.splits)
    have "advs w3 = advs w" using fr c o(2) unfolding kind_frame_def by metis
    with create kind_create [OF k c] advertise_pool_objs [OF ct ad] o(1) show thesis by simp
  next
    case (Some p)
    then have p: "pools w (ap_Name a) = Some p" "managed_pool p" "iap_Name p = ap_Name a"
      using find_pool_listed [OF ct l, of "ap_Name a"] pools_named(1) [OF ct] by (auto split: option.splits if_splits)
    then have m1: "match_pools cfg ?q n m olds w1 = match_pools cfg ?q n m [p] w1" using mp by simp
    have res: "match_pools cfg ?q n m olds w1 = (Some (Ok r), w')"
      using ok l m1 p(3) match_pool_NoMatch [of a "crd_namespace cfg" n m p]
      by (auto simp: CRD_AddAddressPool_def Let_def split: prod.splits option.splits pool_step.splits)
    show thesis
    proof (cases "match_pool ?q n m p")
      case Already
      then have "linked_pool a m (pools w)" using p by (auto simp: match_pool_Already linked_pool_def)
      with same res m1 Already o(1,2) show thesis by simp
    next
      case (UpdatedPool p')
      then have "api_Patch (mc_Pools (crd_client cfg)) p' p w1 = (None, w')"
        using res m1 by (auto split: prod.splits option.splits)
      moreover have p': "iap_Name p' = ap_Name a" "managed_pool p'" "nil_map (iap_Labels p') (serviceLabelKey m) \<noteq> None"
        using UpdatedPool p by (auto simp: match_pool_def Let_def managed_pool_def map_le_def split: if_splits)
      ultimately have "pools w' = (pools w)(ap_Name a \<mapsto> p')"
        using kind_patch [OF k, of p' p w1 w'] p o(1) by simp
      moreover have "\<not> linked_pool a m (pools w)"
        using UpdatedPool p match_pool_Already [of a "crd_namespace cfg" n m p] by (auto simp: linked_pool_def)
      ultimately show thesis using link p p' by blast
    qed (use res m1 in auto)
  qed
qed

lemma remove_pool_from_adv_skip:
  "pool \<notin> set xs \<Longrightarrow> remove_pool_from_adv cfg pool adv seen (xs @ rest) w = remove_pool_from_adv cfg pool adv (seen @ xs) rest w"
  by (induction xs arbitrary: seen) auto

lemma delete_pools_objs:
  assumes ct: "pools_contract pools advs cfg"
  shows "delete_pools cfg pool ps w = (None, w') \<Longrightarrow>
    advs w' = advs w \<and> pools w' = (if pool \<in> iap_Name ` set ps then (pools w)(pool := None) else pools w)"
proof (induction ps arbitrary: w)
  case (Cons p ps)
  show ?case
  proof (cases "iap_Name p = pool")
    case False
    with Cons show ?thesis by auto
  next
    case True
    obtain w1 where d: "api_Delete (mc_Pools (crd_client cfg)) p w = (None, w1)" and r: "delete_pools cfg pool ps w1 = (None, w')"
      using True Cons.prems by (auto split: prod.splits option.splits)
    from ct have "pools w1 = (pools w)(pool := None)" "advs w1 = advs w"
      using kind_delete d True unfolding pools_contract_def kind_frame_def by metis+
    with Cons.IH [OF r] True show ?thesis by (auto simp: fun_eq_iff)
  qed
qed simp

lemma remove_pool_from_adv_frame:
  assumes "kind_frame other (mc_Advs (crd_client cfg))"
  shows "remove_pool_from_adv cfg pool adv seen rest w = (e, w') \<Longrightarrow> other w' = other w"
  using assms
proof (induction cfg pool adv seen rest w rule: remove_pool_from_adv.induct)
  case (2 m pool adv seen p rest w)
  have p: "other v' = other v" if "api_Patch (mc_Advs (crd_client m)) x b v = (r, v')" for x b v r v'
    using "2.prems"(2) that unfolding kind_frame_def by blast
  have d: "other v' = other v" if "api_Delete (mc_Advs (crd_client m)) x v = (r, v')" for x v r v'
    using "2.prems"(2) that unfolding kind_frame_def by blast
  show ?case
  proof (cases "p = pool")
    case False
    with 2 show ?thesis by simp
  next
    case True
    show ?thesis
    proof (cases "1 < length (seen @ p # rest)")
      case t: True
      obtain r v where c: "api_Patch (mc_Advs (crd_client m)) (adv\<lparr>adv_IPAddressPools := seen @ rest\<rparr>)
          (adv\<lparr>adv_IPAddressPools := seen @ p # rest\<rparr>) w = (r, v)" by fastforce
      with True t "2.prems"(1) p [OF c] "2.IH"(1) [OF True refl t c [symmetric]] "2.prems"(2)
      show ?thesis by (cases r) auto
    next
      case f: False
      obtain r v where c: "api_Delete (mc_Advs (crd_client m)) (adv\<lparr>adv_IPAddressPools := seen @ p # rest\<rparr>) w = (r, v)"
        by fastforce
      with True f "2.prems"(1) d [OF c] "2.IH"(2) [OF True refl f c [symmetric]] "2.prems"(2)
      show ?thesis by (cases r) auto
    qed
  qed
qed simp

lemma remove_last_from_adv:
  assumes k: "kind_contract advs adv_Name adv_Labels ns (mc_Advs (crd_client cfg))"
    and a: "advs w (adv_Name a) = Some a" "adv_IPAddressPools a = xs @ [pool]" "pool \<notin> set xs"
    and ok: "remove_pool_from_adv cfg pool a [] (adv_IPAddressPools a) w = (None, w')"
  shows "advs w' = (advs w)(adv_Name a := (if xs = [] then None else Some (a\<lparr>adv_IPAddressPools := xs\<rparr>)))"
proof -
  have self: "a\<lparr>adv_IPAddressPools := xs @ [pool]\<rparr> = a" using a(2) by simp
  have "remove_pool_from_adv cfg pool a xs [pool] w = (None, w')"
    using ok a by (simp add: remove_pool_from_adv_skip)
  then show ?thesis
    using kind_patch [OF k, of "a\<lparr>adv_IPAddressPools := xs\<rparr>" a w w'] kind_delete [OF k, of a w w'] a(1) self
    by (auto simp: Let_def split: prod.splits option.splits if_splits)
qed

text \<open>The pools and the default advertisement after a pool has been removed.\<close>

lemma remove_pool_steps:
  assumes ct: "pools_contract pools advs cfg" and ne: "pool \<noteq> ''''"
    and ok: "CRD_RemoveAddressPool cfg pool w = (None, w')"
  obtains w3 where "pools w' = (case pools w pool of Some p \<Rightarrow> if managed_pool p then (pools w)(pool := None) else pools w | None \<Rightarrow> pools w)"
    "advs w3 = advs w"
    "(case advs w defaultBgpAdvertisement of None \<Rightarrow> (None, w3)
      | Some a \<Rightarrow> if managed_adv a then remove_pool_from_adv cfg pool a [] (adv_IPAddressPools a) w3 else (None, w3)) = (None, w')"
proof -
  obtain olds w1 w2 as w3 where l: "listIPAddressPools cfg w = (Inr olds, w1)" and d: "delete_pools cfg pool olds w1 = (None, w2)"
    and la: "listBGPAdvertisements cfg w2 = (Inr as, w3)"
    and fin: "(case find (\<lambda>adv. adv_Name adv = defaultBgpAdvertisement) as of None \<Rightarrow> (None, w3)
      | Some adv \<Rightarrow> remove_pool_from_adv cfg pool adv [] (adv_IPAddressPools adv) w3) = (None, w')"
    using ok ne by (auto simp: CRD_RemoveAddressPool_def split: prod.splits sum.splits option.splits)
  note o = listIPAddressPools_objs [OF ct l] and oa = listBGPAdvertisements_objs [OF ct la] and dp = delete_pools_objs [OF ct d]
  have "pool \<notin> iap_Name ` set olds \<longleftrightarrow> \<not> (\<exists>p. pools w pool = Some p \<and> managed_pool p)"
    unfolding find_key_None_iff [where g = iap_Name, symmetric] find_pool_listed [OF ct l] by (simp split: option.split)
  then have pools3: "pools w3 = (case pools w pool of Some p \<Rightarrow> if managed_pool p then (pools w)(pool := None) else pools w | None \<Rightarrow> pools w)"
    using dp oa(1) o(1) by (auto split: option.split)
  have advs3: "advs w3 = advs w" using dp oa(2) o(2) by simp
  have fin': "(case advs w defaultBgpAdvertisement of None \<Rightarrow> (None, w3)
      | Some a \<Rightarrow> if managed_adv a then remove_pool_from_adv cfg pool a [] (adv_IPAddressPools a) w3 else (None, w3)) = (None, w')"
    using fin dp o(2) unfolding find_default_listed [OF ct la] by (auto split: option.splits if_splits)
  have "kind_frame pools (mc_Advs (crd_client cfg))" using ct by (simp add: pools_contract_def)
  then have "pools w' = pools w3"
    using fin' remove_pool_from_adv_frame by (auto split: option.splits if_splits)
  with that pools3 advs3 fin' show thesis by simp
qed

section \<open>Properties of pools\<close>

text \<open>C12: Adding an address pool twice is adding it once: after a successful call the pool is there
  and linked to the service, and a second successful call reports that nothing changed and
  changes nothing, unless a pool of another name has the address.\<close>

theorem add_address_pool_idempotent:
  assumes ct: "pools_contract pools advs cfg" and free: "addresses_free a (pools w)"
    and first: "CRD_AddAddressPool cfg (Some a) svcNamespace svcName w = (Ok r, w1)"
    and second: "CRD_AddAddressPool cfg (Some a) svcNamespace svcName w1 = (Ok r', w2)"
  shows "linked_pool a svcName (pools w1) \<and> \<not> r' \<and> pools w2 = pools w1 \<and> advs w2 = advs w1"
proof -
  have w1: "linked_pool a svcName (pools w1) \<and> addresses_free a (pools w1)"
    using ct free first
  proof (cases rule: add_pool_cases)
    case same
    with free show ?thesis by simp
  next
    case (link p p')
    with free show ?thesis by (auto simp: linked_pool_def ran_def)
  next
    case create
    with free show ?thesis by (auto simp: linked_pool_def ran_def)
  qed
  from ct w1 [THEN conjunct2] second have "\<not> r' \<and> pools w2 = pools w1 \<and> advs w2 = advs w1"
  proof (cases rule: add_pool_cases)
    case same
    then show ?thesis by simp
  next
    case (link p p')
    with w1 show ?thesis by (simp add: linked_pool_def)
  next
    case create
    with w1 show ?thesis by (simp add: linked_pool_def)
  qed
  with w1 show ?thesis by simp
qed

definition sample_pool :: AddressPool where
  "sample_pool = \<lparr>ap_Protocol = ''bgp'', ap_Name = ''ns.svc'', ap_Addresses = [''5.199.1.2''],
     ap_AvoidBuggyIPs = False, ap_AutoAssign = Some False, ap_BGPAdvertisements = []\<rparr>"

abbreviation sample_pool_store :: metal_store where
  "sample_pool_store \<equiv> \<lparr>ms_peers = [], ms_pools = [convertToIPAddr sample_pool ''metallb-system'' ''ns'' ''svc''],
     ms_advs = [default_adv ''metallb-system'' ''ns.svc'']\<rparr>"

lemma sample_pool_run:
  "CRD_AddAddressPool mem_config (Some sample_pool) ''ns'' ''svc'' empty_store = (Ok True, sample_pool_store)"
  "CRD_AddAddressPool mem_config (Some sample_pool) ''ns'' ''svc'' sample_pool_store = (Ok False, sample_pool_store)"
  "CRD_RemoveAddressPool mem_config ''ns.svc'' sample_pool_store = (None, empty_store)"
proof -
  have le: "cpem_labels \<subseteq>\<^sub>m nil_map (iap_Labels (convertToIPAddr sample_pool ''metallb-system'' ''ns'' ''svc''))"
    using convertToIPAddr_simps(2) unfolding managed_pool_def .
  have le': "cpem_labels \<subseteq>\<^sub>m nil_map (adv_Labels (default_adv ns p))" for ns p by (simp add: default_adv_def)
  note d = CRD_AddAddressPool_def CRD_RemoveAddressPool_def listIPAddressPools_def listBGPAdvertisements_def
    advertise_pool_def mem_config_def mem_kind_def by_name_def Let_def le le'
  show "CRD_AddAddressPool mem_config (Some sample_pool) ''ns'' ''svc'' empty_store = (Ok True, sample_pool_store)"
    by (simp add: d) (simp add: sample_pool_def)
  show "CRD_AddAddressPool mem_config (Some sample_pool) ''ns'' ''svc'' sample_pool_store = (Ok False, sample_pool_store)"
    by (simp add: d match_pool_def)
  show "CRD_RemoveAddressPool mem_config ''ns.svc'' sample_pool_store = (None, empty_store)"
    by (simp add: d) (simp add: sample_pool_def default_adv_def)
qed

theorem add_address_pool_idempotent_witness:
  "CRD_AddAddressPool mem_config (Some sample_pool) ''ns'' ''svc'' empty_store = (Ok True, sample_pool_store)
   \<and> linked_pool sample_pool ''svc'' (by_name iap_Name (ms_pools sample_pool_store))"
  using add_address_pool_idempotent [OF mem_config_pools_contract _ sample_pool_run(1) sample_pool_run(2)] sample_pool_run(1)
  by (simp add: by_name_def ran_def)

text \<open>Taking a pool out of the advertisements undoes \<open>advertised\<close>.\<close>

lemma remove_advertised:
  assumes ct: "pools_contract pools advs cfg"
    and adv: "\<forall>d. advs w defaultBgpAdvertisement = Some d \<longrightarrow> adv_IPAddressPools d \<noteq> [] \<and> ap_Name a \<notin> set (adv_IPAddressPools d)"
    and eq: "advs w1 = advertised (crd_namespace cfg) (ap_Name a) (advs w)" and w3: "advs w3 = advs w1"
    and new: "(\<forall>x \<in> ran (advs w). \<not> managed_adv x) \<longrightarrow> advs w defaultBgpAdvertisement = None"
    and fin: "(case advs w1 defaultBgpAdvertisement of None \<Rightarrow> (None, w3)
      | Some d \<Rightarrow> if managed_adv d then remove_pool_from_adv cfg (ap_Name a) d [] (adv_IPAddressPools d) w3 else (None, w3)) = (None, w2)"
  shows "advs w2 = advs w"
proof -
  let ?d = "defaultBgpAdvertisement"
  from ct have k: "kind_contract advs adv_Name adv_Labels (crd_namespace cfg) (mc_Advs (crd_client cfg))"
    by (simp add: pools_contract_def)
  show ?thesis
  proof (cases "advs w1 ?d")
    case None
    then show ?thesis using fin w3 eq by (auto simp: advertised_def split: if_splits option.splits)
  next
    case (Some d)
    have named: "adv_Name d = ?d" using pools_named(2) [OF ct] Some by blast
    show ?thesis
    proof (cases "\<forall>x \<in> ran (advs w). \<not> managed_adv x")
      case True
      then have d: "d = default_adv (crd_namespace cfg) (ap_Name a)" using eq Some by (simp add: advertised_def)
      have m: "managed_adv d" by (simp add: d managed_adv_def default_adv_def)
      have "advs w ?d = None" using new True by blast
      moreover have "advs w2 = (advs w1)(?d := None)"
        using remove_last_from_adv [OF k, of w3 d "[]" "ap_Name a" w2] fin Some m w3 named
        by (simp add: d [THEN arg_cong [of _ _ adv_IPAddressPools]] default_adv_def [THEN arg_cong [of _ _ adv_IPAddressPools]])
      ultimately show ?thesis using eq True by (auto simp: advertised_def fun_eq_iff)
    next
      case False
      then obtain d0 where d0: "advs w ?d = Some d0"
        using eq Some by (auto simp: advertised_def split: option.splits if_splits)
      show ?thesis
      proof (cases "managed_adv d0")
        case m: True
        have a0: "advs w1 = (advs w)(?d \<mapsto> d0\<lparr>adv_IPAddressPools := adv_IPAddressPools d0 @ [ap_Name a]\<rparr>)"
          unfolding eq advertised_def if_not_P [OF False] d0 by (simp add: m)
        with Some have d: "d = d0\<lparr>adv_IPAddressPools := adv_IPAddressPools d0 @ [ap_Name a]\<rparr>" by simp
        with a0 have a1: "advs w1 = (advs w)(?d \<mapsto> d)" by simp
        have "managed_adv d" using m by (simp add: d managed_adv_def)
        with remove_last_from_adv [OF k, of w3 d "adv_IPAddressPools d0" "ap_Name a" w2] fin Some w3 named adv d0 a1
        show ?thesis by (auto simp: d fun_upd_idem)
      next
        case nm: False
        have "advs w1 = advs w"
          unfolding eq advertised_def if_not_P [OF False] d0 by (simp add: nm)
        with fin w3 d0 nm show ?thesis by simp
      qed
    qed
  qed
qed

text \<open>C6: Adding a fresh address pool and removing it again leaves the pools and the advertisements
  of the cluster as they were: the default advertisement goes away with the last pool in it.\<close>

theorem address_pool_round_trip:
  assumes ct: "pools_contract pools advs cfg" and ne: "ap_Name a \<noteq> ''''"
    and free: "addresses_free a (pools w)" and fresh: "pools w (ap_Name a) = None"
    and adv: "\<forall>d. advs w defaultBgpAdvertisement = Some d \<longrightarrow> adv_IPAddressPools d \<noteq> [] \<and> ap_Name a \<notin> set (adv_IPAddressPools d)"
    and add: "CRD_AddAddressPool cfg (Some a) svcNamespace svcName w = (Ok r, w1)"
    and rem: "CRD_RemoveAddressPool cfg (ap_Name a) w1 = (None, w2)"
  shows "pools w2 = pools w \<and> advs w2 = advs w"
  using ct free add
proof (cases rule: add_pool_cases)
  case create
  obtain w3 where p2: "pools w2 = (case pools w1 (ap_Name a) of Some p \<Rightarrow> if managed_pool p then (pools w1)(ap_Name a := None) else pools w1 | None \<Rightarrow> pools w1)"
    and w3: "advs w3 = advs w1"
    and fin: "(case advs w1 defaultBgpAdvertisement of None \<Rightarrow> (None, w3)
      | Some d \<Rightarrow> if managed_adv d then remove_pool_from_adv cfg (ap_Name a) d [] (adv_IPAddressPools d) w3 else (None, w3)) = (None, w2)"
    by (rule remove_pool_steps [OF ct ne rem])
  have "pools w2 = pools w" using p2 create(3) fresh by (auto simp: fun_eq_iff)
  moreover have "advs w2 = advs w" by (rule remove_advertised [OF ct adv create(4) w3 create(5) fin])
  ultimately show ?thesis ..
qed (use fresh in \<open>auto simp: linked_pool_def\<close>)

theorem address_pool_round_trip_witness:
  "\<exists>w1 w2. CRD_AddAddressPool mem_config (Some sample_pool) ''ns'' ''svc'' empty_store = (Ok True, w1)
   \<and> CRD_RemoveAddressPool mem_config (ap_Name sample_pool) w1 = (None, w2) \<and> ms_pools w1 \<noteq> []
   \<and> by_name iap_Name (ms_pools w2) = by_name iap_Name (ms_pools empty_store)
   \<and> by_name adv_Name (ms_advs w2) = by_name adv_Name (ms_advs empty_store)"
proof -
  have n: "ap_Name sample_pool = ''ns.svc''" by (simp add: sample_pool_def)
  have rem: "CRD_RemoveAddressPool mem_config (ap_Name sample_pool) sample_pool_store = (None, empty_store)"
    unfolding n by (rule sample_pool_run(3))
  have ne: "ap_Name sample_pool \<noteq> ''''" by (simp add: n)
  show ?thesis
    using address_pool_round_trip [OF mem_config_pools_contract ne _ _ _ sample_pool_run(1) rem] sample_pool_run(1) rem
    by (intro exI [of _ sample_pool_store] exI [of _ empty_store]) (simp add: by_name_def ran_def)
qed

text \<open>When a pool of another name has the address, its new address list is the sorted list of
  all addresses followed by at least one empty address: the assignment after \<open>slices.Compact\<close>
  puts the cleared places back.\<close>

theorem shared_address_leaves_empty_entries:
  assumes other: "iap_Name p \<noteq> ap_Name a" and shared: "addresses_meet p a"
  shows "\<exists>k > 0. match_pool (convertToIPAddr a ns svcNamespace svcName) svcNamespace svcName p =
    UpdatedPool (p\<lparr>iap_Addresses := sorted_list_of_set (set (iap_Addresses p) \<union> set (ap_Addresses a)) @ replicate k ''''\<rparr>)"
proof -
  let ?x = "set (iap_Addresses p)" and ?y = "set (ap_Addresses a)"
  have "card ?x + card ?y = card (?x \<union> ?y) + card (?x \<inter> ?y)" by (rule card_Un_Int) simp_all
  moreover have "0 < card (?x \<inter> ?y)" using shared by (simp add: card_gt_0_iff)
  moreover have "card ?x \<le> length (iap_Addresses p)" "card ?y \<le> length (ap_Addresses a)" by (rule card_length)+
  ultimately have "0 < length (iap_Addresses p) + length (ap_Addresses a) - card (?x \<union> ?y)" by linarith
  moreover have "list_ex (\<lambda>addr. addr \<in> ?x) (ap_Addresses a)" using shared by (auto simp: list_ex_iff)
  ultimately show ?thesis using other
    by (intro exI [of _ "length (iap_Addresses p) + length (ap_Addresses a) - card (?x \<union> ?y)"] conjI)
      (simp_all add: match_pool_def convertToIPAddr_def merged_addresses_shape)
qed

theorem shared_address_leaves_empty_entries_witness:
  "\<exists>k > 0. match_pool (convertToIPAddr sample_pool ''x'' ''ns'' ''svc'') ''ns'' ''svc''
     \<lparr>iap_Name = ''other'', iap_Namespace = ''x'', iap_Labels = None, iap_Addresses = [''5.199.1.2''],
      iap_AutoAssign = None, iap_AvoidBuggyIPs = False\<rparr>
   = UpdatedPool \<lparr>iap_Name = ''other'', iap_Namespace = ''x'', iap_Labels = None,
      iap_Addresses = ''5.199.1.2'' # replicate k '''', iap_AutoAssign = None, iap_AvoidBuggyIPs = False\<rparr>"
  using shared_address_leaves_empty_entries [of "\<lparr>iap_Name = ''other'', iap_Namespace = ''x'', iap_Labels = None,
      iap_Addresses = [''5.199.1.2''], iap_AutoAssign = None, iap_AvoidBuggyIPs = False\<rparr>" sample_pool "''x''" "''ns''" "''svc''"]
  by (simp add: sample_pool_def)

end
