(* ===== verification/MetalLB_LB.thy ===== *)
theory MetalLB_LB
  imports MetalLB_Pool_Laws
begin

text \<open>
  \<^verbatim>\<open>cherry/loadbalancers/metallb/metallb.go\<close>: the implementation of the load balancer
  interface for MetalLB. The interface \<open>Configurer\<close> it works on is a record of operations; the
  configurer of \<^verbatim>\<open>crd.go\<close> is one value of it, and \<open>metallb_NewLB\<close> builds the load balancer
  on that one, as the code does.
\<close>

section \<open>The interface Configurer\<close>

record 'w Configurer =
  cf_UpdatePeersByService :: "Peer list \<Rightarrow> string \<Rightarrow> string \<Rightarrow> 'w \<Rightarrow> bool outcome \<times> 'w"
  cf_RemovePeersByService :: "string \<Rightarrow> string \<Rightarrow> 'w \<Rightarrow> bool outcome \<times> 'w"
  cf_AddAddressPool :: "AddressPool option \<Rightarrow> string \<Rightarrow> string \<Rightarrow> 'w \<Rightarrow> bool outcome \<times> 'w"
  cf_RemoveAddressPool :: "string \<Rightarrow> 'w \<Rightarrow> unit outcome \<times> 'w"
  cf_RemoveAddressPoolByAddress :: "string \<Rightarrow> 'w \<Rightarrow> unit outcome \<times> 'w"
  cf_Get :: "'w \<Rightarrow> unit outcome \<times> 'w"
  cf_Update :: "'w \<Rightarrow> unit outcome \<times> 'w"

text \<open>Results of the configurer's methods as outcomes.\<close>

definition res_outcome :: "(go_error + 'a) \<times> 'w \<Rightarrow> 'a outcome \<times> 'w" where
  "res_outcome r = (case r of (Inl e, w) \<Rightarrow> (Err e, w) | (Inr a, w) \<Rightarrow> (Ok a, w))"

definition err_outcome :: "go_error option \<times> 'w \<Rightarrow> unit outcome \<times> 'w" where
  "err_outcome r = (case r of (Some e, w) \<Rightarrow> (Err e, w) | (None, w) \<Rightarrow> (Ok (), w))"

definition CRD_as_Configurer ::
  "(Resource list \<Rightarrow> Resource list) \<Rightarrow> (metal_BGPPeer list \<Rightarrow> metal_BGPPeer list) \<Rightarrow> (string \<Rightarrow> int)
    \<Rightarrow> 'w CRDConfigurer \<Rightarrow> 'w Configurer" where
  "CRD_as_Configurer pdq ord dur m =
     \<lparr>cf_UpdatePeersByService = (\<lambda>adds n s w. res_outcome (CRD_UpdatePeersByService pdq ord dur m adds n s w)),
      cf_RemovePeersByService = (\<lambda>n s w. res_outcome (CRD_RemovePeersByService pdq m n s w)),
      cf_AddAddressPool = CRD_AddAddressPool m,
      cf_RemoveAddressPool = (\<lambda>p w. err_outcome (CRD_RemoveAddressPool m p w)),
      cf_RemoveAddressPoolByAddress = (\<lambda>a w. err_outcome (CRD_RemoveAddressPoolByAddress m a w)),
      cf_Get = (\<lambda>w. err_outcome (CRD_Get m w)),
      cf_Update = (\<lambda>w. err_outcome (CRD_Update m w))\<rparr>"

section \<open>The load balancer\<close>

record 'w metallb_LB =
  ml_configurer :: "'w Configurer"
  ml_peersFromNodes :: PeersFromNodesFunc

definition defaultNamespace :: string where "defaultNamespace = ''metallb-system''"
definition oldLoadBalancerIPsAnnotation :: string where
  "oldLoadBalancerIPsAnnotation = ''metallb.universe.tf/loadBalancerIPs''"
definition metallb_loadBalancerIPsAnnotation :: string where
  "metallb_loadBalancerIPsAnnotation = ''metallb.io/loadBalancerIPs''"

text \<open>
  The API client is made from the cluster configuration the process runs with; when that fails
  \<open>NewLB\<close> panics. \<open>cl\<close> is what making it gives.
\<close>

definition metallb_NewLB ::
  "(Resource list \<Rightarrow> Resource list) \<Rightarrow> (metal_BGPPeer list \<Rightarrow> metal_BGPPeer list) \<Rightarrow> (string \<Rightarrow> int)
    \<Rightarrow> (go_error + 'w metal_client) \<Rightarrow> string \<Rightarrow> PeersFromNodesFunc \<Rightarrow> 'w metallb_LB outcome" where
  "metallb_NewLB pdq ord dur cl namespace peersFromNodes =
     (let namespace' = (if namespace = '''' then defaultNamespace else namespace)
      in case cl of
           Inl e \<Rightarrow> Panic
         | Inr c \<Rightarrow> Ok \<lparr>ml_configurer = CRD_as_Configurer pdq ord dur \<lparr>crd_namespace = namespace', crd_client = c\<rparr>,
                       ml_peersFromNodes = peersFromNodes\<rparr>)"

definition metallb_ServiceIP :: "service option \<Rightarrow> string \<times> bool" where
  "metallb_ServiceIP svc =
     (case svc of None \<Rightarrow> ('''', False)
      | Some s \<Rightarrow>
          if annotation s metallb_loadBalancerIPsAnnotation \<noteq> ''''
          then (annotation s metallb_loadBalancerIPsAnnotation, True)
          else if annotation s oldLoadBalancerIPsAnnotation \<noteq> ''''
          then (annotation s oldLoadBalancerIPsAnnotation, True)
          else if svc_LoadBalancerIP s \<noteq> '''' then (svc_LoadBalancerIP s, True)
          else ('''', False))"

definition metallb_SetServiceIP :: "service option \<Rightarrow> string \<Rightarrow> go_error option \<times> service option" where
  "metallb_SetServiceIP svc ip =
     (case svc of
        None \<Rightarrow> (Some (Errorf ''failed to set ip, service is nil''), None)
      | Some s \<Rightarrow> (None, Some (set_annotation metallb_loadBalancerIPsAnnotation ip s)))"

text \<open>The characters that the regular expression \<^verbatim>\<open>[^a-zA-Z0-9-]+\<close> leaves in place.\<close>

definition char_class :: "(char \<times> char) list \<Rightarrow> char \<Rightarrow> bool" where
  "char_class ranges c = list_ex (\<lambda>(first, last). first \<le> c \<and> c \<le> last) ranges"

definition pool_name_char :: "char \<Rightarrow> bool" where
  "pool_name_char = char_class [(CHR ''a'', CHR ''z''), (CHR ''A'', CHR ''Z''), (CHR ''0'', CHR ''9''), (CHR ''-'', CHR ''-'')]"

definition poolName :: "string \<Rightarrow> string \<Rightarrow> string" where
  "poolName svcNamespace svcName = filter pool_name_char svcNamespace @ ''.'' @ filter pool_name_char svcName"

definition updateMapIP ::
  "'w Configurer option \<Rightarrow> string \<Rightarrow> string \<Rightarrow> string \<Rightarrow> bool \<Rightarrow> 'w \<Rightarrow> unit outcome \<times> 'w" where
  "updateMapIP config addr svcNamespace svcName add w =
     (case config of
        None \<Rightarrow> (Ok (), w)
      | Some c \<Rightarrow>
          let name = poolName svcNamespace svcName;
              update = (\<lambda>w. case cf_Update c w of
                  (Err e, w') \<Rightarrow> (Err (Wrapf ''error updating: '' e), w')
                | (Panic, w') \<Rightarrow> (Panic, w')
                | (Ok _, w') \<Rightarrow> (Ok (), w'))
          in if add then
               (case cf_AddAddressPool c (Some \<lparr>ap_Protocol = ''bgp'', ap_Name = name, ap_Addresses = [addr],
                        ap_AvoidBuggyIPs = False, ap_AutoAssign = Some False, ap_BGPAdvertisements = []\<rparr>) svcNamespace svcName w of
                  (Err e, w') \<Rightarrow> (Err (Wrapf ''failed to add IP: '' e), w')
                | (Panic, w') \<Rightarrow> (Panic, w')
                | (Ok added, w') \<Rightarrow> if \<not> added then (Ok (), w') else update w')
             else
               (case cf_RemoveAddressPool c name w of
                  (Err e, w') \<Rightarrow> (Err (Wrapf ''error removing IPAddressPool: '' e), w')
                | (Panic, w') \<Rightarrow> (Panic, w')
                | (Ok _, w') \<Rightarrow> update w'))"

definition mapIP :: "'w Configurer option \<Rightarrow> string \<Rightarrow> string \<Rightarrow> string \<Rightarrow> 'w \<Rightarrow> unit outcome \<times> 'w" where
  "mapIP config addr svcNamespace svcName w = updateMapIP config addr svcNamespace svcName True w"

definition unmapIP :: "'w Configurer option \<Rightarrow> string \<Rightarrow> string \<Rightarrow> string \<Rightarrow> 'w \<Rightarrow> unit outcome \<times> 'w" where
  "unmapIP config addr svcNamespace svcName w = updateMapIP config addr svcNamespace svcName False w"

definition addNodes :: "'w metallb_LB \<Rightarrow> string \<Rightarrow> string \<Rightarrow> LB_Node list \<Rightarrow> 'w \<Rightarrow> unit outcome \<times> 'w" where
  "addNodes l svcNamespace svcName nodes w =
     (let config = ml_configurer l
      in case cf_Get config w of
           (Err e, w1) \<Rightarrow> (Err (Wrapf ''unable to get metallb config: '' e), w1)
         | (Panic, w1) \<Rightarrow> (Panic, w1)
         | (Ok _, w1) \<Rightarrow>
             (case cf_UpdatePeersByService config (ml_peersFromNodes l nodes) svcNamespace svcName w1 of
                (Err e, w2) \<Rightarrow> (Err (Wrapf ''unable to update nodes: '' e), w2)
              | (Panic, w2) \<Rightarrow> (Panic, w2)
              | (Ok changed, w2) \<Rightarrow> if changed then cf_Update config w2 else (Ok (), w2)))"

definition metallb_AddService ::
  "'w metallb_LB \<Rightarrow> string \<Rightarrow> string \<Rightarrow> string \<Rightarrow> LB_Node list \<Rightarrow> 'w \<Rightarrow> unit outcome \<times> 'w" where
  "metallb_AddService l svcNamespace svcName ip nodes w =
     (let config = ml_configurer l
      in case cf_Get config w of
           (Err e, w1) \<Rightarrow> (Err (Wrapf ''unable to add retrieve metallb config: '' e), w1)
         | (Panic, w1) \<Rightarrow> (Panic, w1)
         | (Ok _, w1) \<Rightarrow>
             (case mapIP (Some config) ip svcNamespace svcName w1 of
                (Err e, w2) \<Rightarrow> (Err (Wrapf ''unable to map IP to service: '' e), w2)
              | (Panic, w2) \<Rightarrow> (Panic, w2)
              | (Ok _, w2) \<Rightarrow>
                  (case addNodes l svcNamespace svcName nodes w2 of
                     (Err e, w3) \<Rightarrow> (Err (Wrapf ''failed to add nodes: '' e), w3)
                   | (Panic, w3) \<Rightarrow> (Panic, w3)
                   | (Ok _, w3) \<Rightarrow> (Ok (), w3))))"

definition metallb_RemoveService ::
  "'w metallb_LB \<Rightarrow> string \<Rightarrow> string \<Rightarrow> string \<Rightarrow> 'w \<Rightarrow> unit outcome \<times> 'w" where
  "metallb_RemoveService l svcNamespace svcName ip w =
     (let config = ml_configurer l
      in case cf_Get config w of
           (Err e, w1) \<Rightarrow> (Err (Wrapf ''unable to retrieve metallb config: '' e), w1)
         | (Panic, w1) \<Rightarrow> (Panic, w1)
         | (Ok _, w1) \<Rightarrow>
             (case unmapIP (Some config) ip svcNamespace svcName w1 of
                (Err e, w2) \<Rightarrow> (Err (Wrapf ''failed to remove IP: '' e), w2)
              | (Panic, w2) \<Rightarrow> (Panic, w2)
              | (Ok _, w2) \<Rightarrow>
                  (case cf_RemovePeersByService config svcNamespace svcName w2 of
                     (Err e, w3) \<Rightarrow> (Err (Wrapf ''unable to remove service: '' e), w3)
                   | (Panic, w3) \<Rightarrow> (Panic, w3)
                   | (Ok removed, w3) \<Rightarrow>
                       if removed then
                         (case cf_Update config w3 of
                            (Err e, w4) \<Rightarrow> (Err (Wrapf ''unable to remove service: '' e), w4)
                          | (Panic, w4) \<Rightarrow> (Panic, w4)
                          | (Ok _, w4) \<Rightarrow> (Ok (), w4))
                       else (Ok (), w3))))"

definition metallb_UpdateService ::
  "'w metallb_LB \<Rightarrow> string \<Rightarrow> string \<Rightarrow> LB_Node list \<Rightarrow> 'w \<Rightarrow> unit outcome \<times> 'w" where
  "metallb_UpdateService l svcNamespace svcName nodes w =
     (case addNodes l svcNamespace svcName nodes w of
        (Err e, w1) \<Rightarrow> (Err (Wrapf ''failed to add nodes: '' e), w1)
      | (Panic, w1) \<Rightarrow> (Panic, w1)
      | (Ok _, w1) \<Rightarrow> (Ok (), w1))"

definition metallb_as_LB :: "'w metallb_LB \<Rightarrow> 'w LB" where
  "metallb_as_LB l =
     \<lparr>lb_AddService = metallb_AddService l, lb_RemoveService = metallb_RemoveService l,
      lb_UpdateService = metallb_UpdateService l, lb_ServiceIP = metallb_ServiceIP,
      lb_SetServiceIP = metallb_SetServiceIP\<rparr>"

section \<open>The annotations of the service\<close>

interpretation metallb_ip:
  service_ip_annotations metallb_ServiceIP metallb_SetServiceIP metallb_loadBalancerIPsAnnotation
  by unfold_locales (auto simp: metallb_ServiceIP_def metallb_SetServiceIP_def split: option.splits)

section \<open>Lemmas\<close>

lemma dot_no_pool_name_char [simp]: "\<not> pool_name_char (CHR ''.'')"
  by code_simp

text \<open>The contract of the API server for all three kinds.\<close>

definition metal_contract ::
  "('w \<Rightarrow> string \<rightharpoonup> metal_BGPPeer) \<Rightarrow> ('w \<Rightarrow> string \<rightharpoonup> IPAddressPool) \<Rightarrow> ('w \<Rightarrow> string \<rightharpoonup> BGPAdvertisement)
    \<Rightarrow> 'w CRDConfigurer \<Rightarrow> bool" where
  "metal_contract peers pools advs m \<longleftrightarrow>
     peers_contract peers m \<and> pools_contract pools advs m \<and> kind_frame pools (mc_Peers (crd_client m))"

lemma mem_config_metal_contract:
  "metal_contract (\<lambda>w. by_name bpo_Name (ms_peers w)) (\<lambda>w. by_name iap_Name (ms_pools w))
     (\<lambda>w. by_name adv_Name (ms_advs w)) mem_config"
  by (simp add: metal_contract_def mem_config_contract mem_config_pools_contract kind_frame_def)
    (auto simp: mem_config_def mem_kind_def split: if_splits)

lemma CRD_as_Configurer_simps [simp]:
  "cf_Get (CRD_as_Configurer pdq ord dur m) w = (Ok (), w)"
  "cf_Update (CRD_as_Configurer pdq ord dur m) w = (Ok (), w)"
  "cf_AddAddressPool (CRD_as_Configurer pdq ord dur m) = CRD_AddAddressPool m"
  "cf_RemoveAddressPool (CRD_as_Configurer pdq ord dur m) p w = err_outcome (CRD_RemoveAddressPool m p w)"
  "cf_RemovePeersByService (CRD_as_Configurer pdq ord dur m) n s w = res_outcome (CRD_RemovePeersByService pdq m n s w)"
  "cf_UpdatePeersByService (CRD_as_Configurer pdq ord dur m) a n s w = res_outcome (CRD_UpdatePeersByService pdq ord dur m a n s w)"
  by (simp_all add: CRD_as_Configurer_def CRD_Get_def CRD_Update_def err_outcome_def)

lemma updateOrDelete_frame:
  assumes "kind_frame other (mc_Peers (crd_client m))" and "updateOrDeletePeerByService pdq m p n s w = (r, w')"
  shows "other w' = other w"
  using assms unfolding updateOrDeletePeerByService_def kind_frame_def
  by (auto split: prod.splits if_splits option.splits)

lemma remove_peers_loop_frame:
  assumes "kind_frame other (mc_Peers (crd_client m))"
  shows "remove_peers_loop pdq m n s ps w = (r, w') \<Longrightarrow> other w' = other w"
proof (induction ps arbitrary: w)
  case (Cons p ps)
  obtain c w1 where s1: "updateOrDeletePeerByService pdq m p n s w = (c, w1)" by fastforce
  note fr = updateOrDelete_frame [OF assms s1]
  show ?case
  proof (cases c)
    case (Inl e)
    with s1 fr Cons.prems show ?thesis by simp
  next
    case (Inr b)
    with s1 fr Cons.prems Cons.IH [of w1] show ?thesis by simp
  qed
qed simp

lemma remove_peers_frame:
  assumes "kind_frame other (mc_Peers (crd_client m))" and "CRD_RemovePeersByService pdq m n s w = (r, w')"
  shows "other w' = other w"
proof -
  obtain l w1 where l: "listBGPPeers m w = (l, w1)" by fastforce
  then have w1: "other w1 = other w"
    using assms(1) unfolding listBGPPeers_def kind_frame_def by (auto split: prod.splits sum.splits)
  show ?thesis
  proof (cases l)
    case (Inl e)
    with l w1 assms(2) show ?thesis by (simp add: CRD_RemovePeersByService_def)
  next
    case (Inr olds)
    obtain e w2 where r: "remove_peers_loop pdq m n s olds w1 = (e, w2)" by fastforce
    from remove_peers_loop_frame [OF assms(1) r] w1 l Inr r assms(2) show ?thesis
      by (cases e) (simp_all add: CRD_RemovePeersByService_def)
  qed
qed

section \<open>Properties\<close>

text \<open>C26: The name of an address pool determines its service: services whose namespace and name
  consist of letters, digits and dashes, as Kubernetes has them, share no pool name.\<close>

theorem pool_name_injective:
  assumes "list_all pool_name_char (n @ m)" and "list_all pool_name_char (n' @ m')"
  shows "poolName n m = poolName n' m' \<longleftrightarrow> n = n' \<and> m = m'"
proof -
  have "poolName x y = x @ CHR ''.'' # y" if "list_all pool_name_char (x @ y)" for x y
    using that by (auto simp: poolName_def list_all_iff)
  moreover have "CHR ''.'' \<notin> set m" "CHR ''.'' \<notin> set m'"
    using assms dot_no_pool_name_char unfolding list_all_iff set_append by blast+
  ultimately show ?thesis using assms append_last_sep_inject by metis
qed

theorem pool_name_injective_witness:
  "poolName ''a-b'' ''c'' \<noteq> poolName ''a'' ''b-c''"
proof -
  have "list_all pool_name_char (''a-b'' @ ''c'')" and "list_all pool_name_char (''a'' @ ''b-c'')" by code_simp+
  from pool_name_injective [OF this] show ?thesis by simp
qed

text \<open>C9: After MetalLB's \<open>RemoveService\<close> succeeded, no managed address pool has the name of the
  service's pool, and no managed peer is linked to the service.\<close>

theorem metallb_remove_service_cleans_up:
  assumes ct: "metal_contract peers pools advs cfg" and ne: "svcNamespace \<noteq> ''''" "svcName \<noteq> ''''"
    and ok: "metallb_RemoveService \<lparr>ml_configurer = CRD_as_Configurer (permute f) ord dur cfg, ml_peersFromNodes = g\<rparr>
      svcNamespace svcName ip w = (Ok (), w')"
  shows "(\<forall>p. pools w' (poolName svcNamespace svcName) = Some p \<longrightarrow> \<not> managed_pool p)
    \<and> (\<forall>k p. peers w' k = Some p \<and> managed p \<longrightarrow> \<lparr>res_Namespace = svcNamespace, res_Name = svcName\<rparr> \<notin> set (peer_services p))"
proof -
  let ?pool = "poolName svcNamespace svcName"
  obtain w1 ch where rp: "CRD_RemoveAddressPool cfg ?pool w = (None, w1)"
    and rs: "CRD_RemovePeersByService (permute f) cfg svcNamespace svcName w1 = (Inr ch, w')"
    using ok by (auto simp: metallb_RemoveService_def unmapIP_def updateMapIP_def err_outcome_def res_outcome_def Let_def
        split: prod.splits option.splits sum.splits if_splits)
  from ct have pc: "peers_contract peers cfg" "pools_contract pools advs cfg" "kind_frame pools (mc_Peers (crd_client cfg))"
    by (simp_all add: metal_contract_def)
  have "?pool \<noteq> ''''" by (simp add: poolName_def)
  from remove_pool_steps [OF pc(2) this rp]
  have "pools w1 = (case pools w ?pool of Some p \<Rightarrow> if managed_pool p then (pools w)(?pool := None) else pools w | None \<Rightarrow> pools w)"
    by blast
  then have "\<forall>p. pools w1 ?pool = Some p \<longrightarrow> \<not> managed_pool p" by (auto split: option.splits)
  moreover have "pools w' = pools w1" by (rule remove_peers_frame [OF pc(3) rs])
  ultimately show ?thesis using no_peer_linked_after_removal [OF pc(1) ne rs] by auto
qed

theorem metallb_remove_service_cleans_up_witness:
  "\<exists>w'. metallb_RemoveService \<lparr>ml_configurer = CRD_as_Configurer (permute id_order) (\<lambda>xs. xs) (\<lambda>_. 30) mem_config,
       ml_peersFromNodes = PeersFromNodesNative\<rparr> ''ns'' ''svc'' ''5.199.1.2'' sample_pool_store = (Ok (), w')
     \<and> (\<forall>p. by_name iap_Name (ms_pools w') ''ns.svc'' = Some p \<longrightarrow> \<not> managed_pool p)"
proof -
  have n: "poolName ''ns'' ''svc'' = ''ns.svc''" by code_simp
  have "CRD_RemovePeersByService (permute id_order) mem_config ''ns'' ''svc'' empty_store = (Inr True, empty_store)"
    by (simp add: CRD_RemovePeersByService_def listBGPPeers_def mem_config_def mem_kind_def)
  then have ok: "metallb_RemoveService \<lparr>ml_configurer = CRD_as_Configurer (permute id_order) (\<lambda>xs. xs) (\<lambda>_. 30) mem_config,
       ml_peersFromNodes = PeersFromNodesNative\<rparr> ''ns'' ''svc'' ''5.199.1.2'' sample_pool_store = (Ok (), empty_store)"
    by (simp add: metallb_RemoveService_def unmapIP_def updateMapIP_def n sample_pool_run(3) err_outcome_def res_outcome_def)
  from metallb_remove_service_cleans_up [OF mem_config_metal_contract _ _ ok] ok n show ?thesis by auto
qed

end
