(* ===== verification/Load_Balancers.thy ===== *)
theory Load_Balancers
  imports Provider_Config IP_Reservations BGP Kubevip_LB Empty_LB MetalLB_LB
begin

text \<open>
  \<^verbatim>\<open>cherry/loadbalancers.go\<close>: the load balancer controller. It gives a service a floating IP,
  found by its tags or newly requested, enables BGP on the nodes and annotates them, and hands
  the service to the implementation that the configuration names. The digest of a service name
  (base64 of SHA-256), what \<open>url.Parse\<close> and the Kubernetes label parsers return, and the client for
  MetalLB are arguments. A nil implementation is \<open>None\<close>; a call on it panics.
\<close>

section \<open>State\<close>

definition cherryIdentifier :: string where "cherryIdentifier = ''cloud-provider-cherry-auto''"
definition cherryTag :: string where "cherryTag = ''usage''"
definition cherryValue :: string where "cherryValue = cherryIdentifier"
definition AnnotationLoadBalancerManaged :: string where
  "AnnotationLoadBalancerManaged = ''cherryservers.com/loadbalancer-managed''"

record 'w loadBalancers =
  lbs_client :: "'w cherry_client"
  lbs_k8sclient :: "'w k8s_client"
  lbs_project :: int
  lbs_region :: string
  lbs_clusterID :: string
  lbs_implementor :: "'w LB option"
  lbs_implementorConfig :: string
  lbs_annotationLocalASN :: string
  lbs_annotationPeerASN :: string
  lbs_annotationPeerIP :: string
  lbs_annotationSrcIP :: string
  lbs_annotationMultiHop :: string
  lbs_fipRegionAnnotation :: string
  lbs_nodeSelector :: "(strmap option \<Rightarrow> bool) option"
  lbs_bgpEnabler :: "string \<Rightarrow> 'w \<Rightarrow> (go_error + NodeBGPInfo) \<times> 'w"

section \<open>Utility functions\<close>

definition nodeLabel :: "node option \<Rightarrow> string \<Rightarrow> string" where
  "nodeLabel n label =
     (case n of None \<Rightarrow> '''' | Some nd \<Rightarrow>
        (case nd_Labels nd of None \<Rightarrow> '''' | Some m \<Rightarrow> map_get m label))"

definition nodeRegion :: "node option \<Rightarrow> string" where
  "nodeRegion n = nodeLabel n ''topology.kubernetes.io/region''"

definition serviceRep :: "service option \<Rightarrow> string" where
  "serviceRep svc = (case svc of None \<Rightarrow> '''' | Some s \<Rightarrow> svc_Namespace s @ ''/'' @ svc_Name s)"

definition serviceAnnotation :: "service option \<Rightarrow> string \<Rightarrow> string" where
  "serviceAnnotation svc a =
     (case svc of None \<Rightarrow> '''' | Some s \<Rightarrow>
        (case svc_Annotations s of None \<Rightarrow> '''' | Some m \<Rightarrow> map_get m a))"

definition serviceTag :: "(string \<Rightarrow> string) \<Rightarrow> service option \<Rightarrow> string \<times> string" where
  "serviceTag digest svc = (case svc of None \<Rightarrow> ('''', '''') | Some s \<Rightarrow> (''service'', digest (serviceRep svc)))"

definition clusterTag :: "string \<Rightarrow> string \<times> string" where
  "clusterTag clusterID = (''cluster'', clusterID)"

text \<open>A selector that is nil panics (\<open>None\<close>) at the first node that is asked about.\<close>

fun filterNodes :: "node list \<Rightarrow> (strmap option \<Rightarrow> bool) option \<Rightarrow> node list option" where
  "filterNodes [] nodeSelector = Some []"
| "filterNodes (node # nodes) None = None"
| "filterNodes (node # nodes) (Some matches) =
     (case filterNodes nodes (Some matches) of
        None \<Rightarrow> None
      | Some filteredNodes \<Rightarrow> Some (if matches (nd_Labels node) then node # filteredNodes else filteredNodes))"

definition isServiceManaged :: "service option \<Rightarrow> bool" where
  "isServiceManaged svc = (serviceAnnotation svc AnnotationLoadBalancerManaged \<noteq> ''false'')"

text \<open>The entries of the map of tags that the code writes out at each use.\<close>

definition reservation_tags :: "(string \<Rightarrow> string) \<Rightarrow> 'w loadBalancers \<Rightarrow> service \<Rightarrow> (string \<times> string) list" where
  "reservation_tags digest l svc =
     [serviceTag digest (Some svc), clusterTag (lbs_clusterID l), (cherryTag, cherryValue)]"

section \<open>Construction\<close>

record parsed_url =
  u_Scheme :: string
  u_Path :: string
  u_Query :: "string \<Rightarrow> string"

type_synonym annotation_name = string

definition newLoadBalancers ::
  "(string \<Rightarrow> go_error + parsed_url) \<Rightarrow> (string \<Rightarrow> go_error + (strmap option \<Rightarrow> bool)) \<Rightarrow> (string \<Rightarrow> go_error + LabelSelector)
    \<Rightarrow> (string \<Rightarrow> PeersFromNodesFunc \<Rightarrow> 'w metallb_LB outcome) \<Rightarrow> (Peer list \<Rightarrow> Peer list)
    \<Rightarrow> 'w cherry_client \<Rightarrow> 'w k8s_client \<Rightarrow> int \<Rightarrow> string \<Rightarrow> string \<Rightarrow> annotation_name \<Rightarrow> annotation_name \<Rightarrow> annotation_name
    \<Rightarrow> annotation_name \<Rightarrow> annotation_name \<Rightarrow> annotation_name \<Rightarrow> string \<Rightarrow> (string \<Rightarrow> 'w \<Rightarrow> (go_error + NodeBGPInfo) \<times> 'w) \<Rightarrow> 'w \<Rightarrow> 'w loadBalancers option outcome \<times> 'w" where
  "newLoadBalancers url_Parse labels_Parse ParseToLabelSelector NewLB ord client k8sclient projectID region config
     annotationLocalASN annotationPeerASN annotationPeerIP annotationSrcIP fipRegionAnnotation annotationMultiHop
     nodeSelector bgpEnabler w =
     (let selector = (if nodeSelector \<noteq> '''' then (case labels_Parse nodeSelector of Inl _ \<Rightarrow> None | Inr s \<Rightarrow> Some s)
            else Some (\<lambda>_. True));
          l = \<lparr>lbs_client = client, lbs_k8sclient = k8sclient, lbs_project = projectID, lbs_region = region,
               lbs_clusterID = '''', lbs_implementor = None, lbs_implementorConfig = config,
               lbs_annotationLocalASN = annotationLocalASN, lbs_annotationPeerASN = annotationPeerASN,
               lbs_annotationPeerIP = annotationPeerIP, lbs_annotationSrcIP = annotationSrcIP,
               lbs_annotationMultiHop = annotationMultiHop, lbs_fipRegionAnnotation = fipRegionAnnotation,
               lbs_nodeSelector = selector, lbs_bgpEnabler = bgpEnabler\<rparr>
      in if lbs_implementorConfig l = '''' then (Ok None, w)
      else case Namespaces_Get k8sclient ''kube-system'' w of
        ((_, Some e), w1) \<Rightarrow> (Err (Wrapf ''failed to get kube-system namespace: '' e), w1)
      | ((None, None), w1) \<Rightarrow> (Err (Errorf ''kube-system namespace is missing unexplainably''), w1)
      | ((Some uid, None), w1) \<Rightarrow>
          (case url_Parse (lbs_implementorConfig l) of
             Inl e \<Rightarrow> (Err (Wrapf ''invalid config: '' e), w1)
           | Inr u \<Rightarrow>
               let done = (\<lambda>impl. Ok (Some (l\<lparr>lbs_clusterID := uid, lbs_implementor := impl\<rparr>)))
               in if u_Scheme u = ''kube-vip'' then (done (Some (kubevip_NewLB (u_Path u))), w1)
               else if u_Scheme u = ''metallb'' then
                 (case ParseConfigURL (u_Path u) (u_Query u) of
                    (_, _, Some e) \<Rightarrow> (Err (Wrapf ''invalid metallb config: '' e), w1)
                  | (namespace, bgpPeerMode, None) \<Rightarrow>
                      (case ParseToLabelSelector nodeSelector of
                         Inl e \<Rightarrow> (Err (Wrapf (''failed to parse node selector '' @ nodeSelector @ '': '') e), w1)
                       | Inr apiNodeSelector \<Rightarrow>
                           (case NewLB namespace (NewPeersFromNodesFunc ord bgpPeerMode apiNodeSelector) of
                              Panic \<Rightarrow> (Panic, w1)
                            | Err e \<Rightarrow> (Err e, w1)
                            | Ok lb \<Rightarrow> (done (Some (metallb_as_LB lb)), w1))))
               else if u_Scheme u = ''empty'' then
                 (done (Some (empty_as_LB (empty_NewLB (u_Query u ''ip-annotation'')))), w1)
               else (done None, w1)))"

section \<open>Annotating nodes\<close>

text \<open>
  \<open>annotations\<close> is the node's own map when the node has one: writing into it changes the node
  that the caller passed. The result has the node after the call. Peers with the same address
  are equal (they have the same port), so any order that sorts them by address is this one.
\<close>

definition annotate_peer :: "'w loadBalancers \<Rightarrow> NodeBGPInfo \<Rightarrow> nat \<times> BGPPeer \<Rightarrow> strmap \<Rightarrow> strmap" where
  "annotate_peer l bgpConfig ip annotations =
     (case ip of (i, peer) \<Rightarrow>
       let key = (\<lambda>template. replace1 template ''{{n}}'' (itoa (int i)))
       in annotations
            (key (lbs_annotationLocalASN l) \<mapsto> itoa (bi_LocalASN bgpConfig),
             key (lbs_annotationPeerASN l) \<mapsto> itoa (bi_RemoteASN bgpConfig),
             key (lbs_annotationPeerIP l) \<mapsto> bp_Address peer,
             key (lbs_annotationSrcIP l) \<mapsto> bi_SourceIP bgpConfig,
             key (lbs_annotationMultiHop l) \<mapsto> ''true''))"

definition peer_annotations :: "'w loadBalancers \<Rightarrow> NodeBGPInfo \<Rightarrow> strmap \<Rightarrow> strmap" where
  "peer_annotations l bgpConfig annotations =
     (if bi_Peers bgpConfig = [] then annotations
      else fold (annotate_peer l bgpConfig) (enumerate 0 (sort_key bp_Address (bi_Peers bgpConfig))) annotations)"

definition annotateNode :: "'w loadBalancers \<Rightarrow> node \<Rightarrow> 'w \<Rightarrow> go_error option \<times> node \<times> 'w" where
  "annotateNode l node w =
     (let annotations = nil_map (nd_Annotations node)
      in case lbs_bgpEnabler l (nd_ProviderID node) w of
           (Inl e, w1) \<Rightarrow> (Some (Wrapf (''could not get BGP info for node '' @ nd_Name node @ '': '') e), node, w1)
         | (Inr bgpConfig, w1) \<Rightarrow>
             let annotations' = peer_annotations l bgpConfig annotations;
                 node' = (if nd_Annotations node = None then node else node\<lparr>nd_Annotations := Some annotations'\<rparr>)
             in case Nodes_Patch (lbs_k8sclient l) (nd_Name node) annotations' w1 of
                  (Some e, w2) \<Rightarrow>
                    (Some (Wrapf (''failed to patch node with annotations '' @ nd_Name node @ '': '') e), node', w2)
                | (None, w2) \<Rightarrow> (None, node', w2))"

definition lb_node_of :: "node \<Rightarrow> NodeBGPInfo \<Rightarrow> LB_Node" where
  "lb_node_of node bgpConfig =
     \<lparr>lbn_Name = nd_Name node, lbn_SourceIP = bi_SourceIP bgpConfig, lbn_LocalASN = bi_LocalASN bgpConfig,
      lbn_PeerASN = bi_RemoteASN bgpConfig, lbn_Password = '''',
      lbn_Peers = map (\<lambda>p. \<lparr>lbp_Address = bp_Address p, lbp_Port = bp_Port p\<rparr>) (bi_Peers bgpConfig),
      lbn_Region = nodeRegion (Some node)\<rparr>"

section \<open>Adding a service\<close>

text \<open>The loop of \<open>addService\<close> over the nodes: a node with a problem is skipped.\<close>

fun add_nodes_loop :: "'w loadBalancers \<Rightarrow> node list \<Rightarrow> 'w \<Rightarrow> LB_Node list \<times> node list \<times> 'w" where
  "add_nodes_loop l [] w = ([], [], w)"
| "add_nodes_loop l (node # nodes) w =
     (let skip = (\<lambda>node' w'. case add_nodes_loop l nodes w' of (ns, after, w'') \<Rightarrow> (ns, node' # after, w''))
      in if nd_ProviderID node = '''' then skip node w
      else case lbs_bgpEnabler l (nd_ProviderID node) w of
        (Inl _, w1) \<Rightarrow> skip node w1
      | (Inr bgpConfig, w1) \<Rightarrow>
          (case annotateNode l node w1 of
             (Some _, node', w2) \<Rightarrow> skip node' w2
           | (None, node', w2) \<Rightarrow>
               (case add_nodes_loop l nodes w2 of
                  (ns, after, w3) \<Rightarrow> (lb_node_of node' bgpConfig # ns, node' # after, w3))))"

text \<open>Requesting a new floating IP for the service.\<close>

definition request_ip ::
  "(string \<Rightarrow> string) \<Rightarrow> 'w loadBalancers \<Rightarrow> service \<Rightarrow> 'w \<Rightarrow> (go_error + ip_address) \<times> 'w" where
  "request_ip digest l svc w =
     (let svcRegion = serviceAnnotation (Some svc) (lbs_fipRegionAnnotation l);
          create = (\<lambda>region. case IPs_Create (lbs_client l) (lbs_project l) region (map_of (reservation_tags digest l svc)) w of
              (Inl e, w') \<Rightarrow> (Inl (Wrapf ''failed to request an IP for the load balancer: '' e), w')
            | (Inr ip, w') \<Rightarrow> (Inr ip, w'))
      in if svcRegion \<noteq> '''' then create svcRegion
      else if lbs_region l \<noteq> '''' then create (lbs_region l)
      else (Inl (Errorf ''unable to create load balancer when no IP or region specified, either globally or on service''), w))"

text \<open>Writing the address into the service as the cluster has it now.\<close>

definition store_ip :: "'w loadBalancers \<Rightarrow> 'w LB \<Rightarrow> service \<Rightarrow> string \<Rightarrow> 'w \<Rightarrow> unit outcome \<times> 'w" where
  "store_ip l impl svc svcIP w =
     (case Services_Get (lbs_k8sclient l) (svc_Namespace svc) (svc_Name svc) w of
        ((_, Some e), w1) \<Rightarrow> (Err (Wrapf (''failed to get latest for service '' @ serviceRep (Some svc) @ '': '') e), w1)
      | ((None, None), w1) \<Rightarrow> (Err (Errorf (''failed to get latest for service '' @ serviceRep (Some svc) @ '': '')), w1)
      | ((Some existing, None), w1) \<Rightarrow>
          (case lb_SetServiceIP impl (Some existing) svcIP of
             (Some e, _) \<Rightarrow> (Err (Wrapf ''failed to set service IP: '' e), w1)
           | (None, None) \<Rightarrow> (Panic, w1)
           | (None, Some existing') \<Rightarrow>
               (case Services_Update (lbs_k8sclient l) existing' w1 of
                  (Some e, w2) \<Rightarrow> (Err (Wrapf (''failed to update service '' @ serviceRep (Some svc) @ '': '') e), w2)
                | (None, w2) \<Rightarrow> (Ok (), w2))))"

text \<open>The address of the service and the reservation it comes from, if any.\<close>

definition assign_ip ::
  "(string \<Rightarrow> string) \<Rightarrow> 'w loadBalancers \<Rightarrow> 'w LB \<Rightarrow> service \<Rightarrow> ip_address list \<Rightarrow> 'w
    \<Rightarrow> (string \<times> ip_address option) outcome \<times> 'w" where
  "assign_ip digest l impl svc ips w =
     (let (svcIP, hasIP) = lb_ServiceIP impl (Some svc);
          ipReservation = ipReservationByAllTags (reservation_tags digest l svc) ips
      in if hasIP then (Ok (svcIP, ipReservation), w)
      else case (case ipReservation of Some r \<Rightarrow> (Inr r, w) | None \<Rightarrow> request_ip digest l svc w) of
        (Inl e, w1) \<Rightarrow> (Err e, w1)
      | (Inr r, w1) \<Rightarrow>
          (case store_ip l impl svc (ip_Address r) w1 of
             (Err e, w2) \<Rightarrow> (Err e, w2)
           | (Panic, w2) \<Rightarrow> (Panic, w2)
           | (Ok _, w2) \<Rightarrow> (Ok (ip_Address r, Some r), w2)))"

definition addService ::
  "(string \<Rightarrow> string) \<Rightarrow> 'w loadBalancers \<Rightarrow> service \<Rightarrow> ip_address list \<Rightarrow> node list \<Rightarrow> 'w
    \<Rightarrow> string outcome \<times> node list \<times> 'w" where
  "addService digest l svc ips nodes w =
     (case lbs_implementor l of
        None \<Rightarrow> (Panic, nodes, w)
      | Some impl \<Rightarrow>
          (case assign_ip digest l impl svc ips w of
             (Err e, w1) \<Rightarrow> (Err e, nodes, w1)
           | (Panic, w1) \<Rightarrow> (Panic, nodes, w1)
           | (Ok (svcIP, ipReservation), w1) \<Rightarrow>
               let svcIPCidr = (case ipReservation of Some r \<Rightarrow> ip_Cidr r | None \<Rightarrow> svcIP @ ''/'' @ ''32'')
               in case add_nodes_loop l nodes w1 of
                    (ns, after, w2) \<Rightarrow>
                      (case lb_AddService impl (svc_Namespace svc) (svc_Name svc) svcIPCidr ns w2 of
                         (Err e, w3) \<Rightarrow> (Err e, after, w3)
                       | (Panic, w3) \<Rightarrow> (Panic, after, w3)
                       | (Ok _, w3) \<Rightarrow> (Ok svcIPCidr, after, w3))))"

section \<open>The cloud provider's interface\<close>

text \<open>A status is the list of its ingress addresses, and \<open>None\<close> the nil pointer.\<close>

definition GetLoadBalancer ::
  "(string \<Rightarrow> string) \<Rightarrow> 'w loadBalancers \<Rightarrow> service \<Rightarrow> 'w \<Rightarrow> (string list option \<times> bool) outcome \<times> 'w" where
  "GetLoadBalancer digest l service w =
     (if \<not> isServiceManaged (Some service) then (Ok (None, False), w)
      else case lbs_implementor l of
        None \<Rightarrow> (Panic, w)
      | Some impl \<Rightarrow>
          (case IPs_List (lbs_client l) (lbs_project l) w of
             (Inl e, w1) \<Rightarrow>
               (Err (Wrapf (''unable to retrieve IP reservations for project '' @ itoa (lbs_project l) @ '': '') e), w1)
           | (Inr ips, w1) \<Rightarrow>
               (case ipReservationByAllTags (reservation_tags digest l service) ips of
                  None \<Rightarrow> (Ok (None, False), w1)
                | Some r \<Rightarrow> (Ok (Some [ip_Cidr r], True), w1))))"

definition GetLoadBalancerName :: "(string \<Rightarrow> string) \<Rightarrow> 'w loadBalancers \<Rightarrow> service \<Rightarrow> string" where
  "GetLoadBalancerName digest l service =
     (let (svcTag, svcValue) = serviceTag digest (Some service);
          (clsTag, clsValue) = clusterTag (lbs_clusterID l)
      in cherryTag @ ''='' @ cherryValue @ '':'' @ svcTag @ ''='' @ svcValue @ '':'' @ clsTag @ ''='' @ clsValue)"

definition EnsureLoadBalancer ::
  "(string \<Rightarrow> string) \<Rightarrow> 'w loadBalancers \<Rightarrow> service \<Rightarrow> node list \<Rightarrow> 'w \<Rightarrow> string list outcome \<times> node list \<times> 'w" where
  "EnsureLoadBalancer digest l service nodes w =
     (if \<not> isServiceManaged (Some service) then (Err ImplementedElsewhere, nodes, w)
      else case IPs_List (lbs_client l) (lbs_project l) w of
        (Inl e, w1) \<Rightarrow>
          (Err (Wrapf (''unable to retrieve IP reservations for project '' @ itoa (lbs_project l) @ '': '') e), nodes, w1)
      | (Inr ips, w1) \<Rightarrow>
          (case filterNodes nodes (lbs_nodeSelector l) of
             None \<Rightarrow> (Panic, nodes, w1)
           | Some filtered \<Rightarrow>
               (case addService digest l service ips filtered w1 of
                  (Err e, after, w2) \<Rightarrow> (Err (Wrapf (''failed to add service '' @ svc_Name service @ '': '') e), after, w2)
                | (Panic, after, w2) \<Rightarrow> (Panic, after, w2)
                | (Ok ipCidr, after, w2) \<Rightarrow> (Ok [hd (split_n2 ''/'' ipCidr)], after, w2))))"

text \<open>The loop of \<open>UpdateLoadBalancer\<close>: here a missing provider ID or a failed annotation ends it.\<close>

fun update_nodes_loop :: "'w loadBalancers \<Rightarrow> node list \<Rightarrow> 'w \<Rightarrow> (go_error + LB_Node list) \<times> node list \<times> 'w" where
  "update_nodes_loop l [] w = (Inr [], [], w)"
| "update_nodes_loop l (node # nodes) w =
     (if nd_ProviderID node = '''' then
        (Inl (Errorf (''no provider ID given for node '' @ nd_Name node @ '', skipping'')), node # nodes, w)
      else case lbs_bgpEnabler l (nd_ProviderID node) w of
        (Inl _, w1) \<Rightarrow>
          (case update_nodes_loop l nodes w1 of (r, after, w2) \<Rightarrow> (r, node # after, w2))
      | (Inr bgpConfig, w1) \<Rightarrow>
          (case annotateNode l node w1 of
             (Some e, node', w2) \<Rightarrow>
               (Inl (Wrapf (''failed to annotate node '' @ nd_Name node @ '': '') e), node' # nodes, w2)
           | (None, node', w2) \<Rightarrow>
               (case update_nodes_loop l nodes w2 of
                  (Inl e, after, w3) \<Rightarrow> (Inl e, node' # after, w3)
                | (Inr ns, after, w3) \<Rightarrow> (Inr (lb_node_of node' bgpConfig # ns), node' # after, w3))))"

definition UpdateLoadBalancer ::
  "'w loadBalancers \<Rightarrow> service \<Rightarrow> node list \<Rightarrow> 'w \<Rightarrow> unit outcome \<times> node list \<times> 'w" where
  "UpdateLoadBalancer l service nodes w =
     (if \<not> isServiceManaged (Some service) then (Err ImplementedElsewhere, nodes, w)
      else case filterNodes nodes (lbs_nodeSelector l) of
        None \<Rightarrow> (Panic, nodes, w)
      | Some filtered \<Rightarrow>
          (case update_nodes_loop l filtered w of
             (Inl e, after, w1) \<Rightarrow> (Err e, after, w1)
           | (Inr n, after, w1) \<Rightarrow>
               (case lbs_implementor l of
                  None \<Rightarrow> (Panic, after, w1)
                | Some impl \<Rightarrow>
                    (case lb_UpdateService impl (svc_Namespace service) (svc_Name service) n w1 of
                       (r, w2) \<Rightarrow> (r, after, w2)))))"

definition EnsureLoadBalancerDeleted ::
  "(string \<Rightarrow> string) \<Rightarrow> 'w loadBalancers \<Rightarrow> service \<Rightarrow> 'w \<Rightarrow> unit outcome \<times> 'w" where
  "EnsureLoadBalancerDeleted digest l service w =
     (if \<not> isServiceManaged (Some service) then (Ok (), w)
      else case lbs_implementor l of
        None \<Rightarrow> (Panic, w)
      | Some impl \<Rightarrow>
          (case IPs_List (lbs_client l) (lbs_project l) w of
             (Inl e, w1) \<Rightarrow>
               (Err (Wrapf (''unable to retrieve IP reservations for project '' @ itoa (lbs_project l) @ '': '') e), w1)
           | (Inr ips, w1) \<Rightarrow>
               (case ipReservationByAllTags (reservation_tags digest l service) ips of
                  None \<Rightarrow> (Ok (), w1)
                | Some r \<Rightarrow>
                    (case IPs_Remove (lbs_client l) (ip_ID r) w1 of
                       (Some e, w2) \<Rightarrow>
                         (Err (Wrapf (''failed to remove IP address reservation '' @ ip_ID r @ '' from project: '') e), w2)
                     | (None, w2) \<Rightarrow>
                         (case lb_RemoveService impl (svc_Namespace service) (svc_Name service) (ip_Cidr r) w2 of
                            (Err e, w3) \<Rightarrow>
                              (Err (Wrapf (''error removing IP from configmap for '' @ serviceRep (Some service) @ '': '') e), w3)
                          | (Panic, w3) \<Rightarrow> (Panic, w3)
                          | (Ok _, w3) \<Rightarrow> (Ok (), w3))))))"

end
