(* ===== verification/Load_Balancer_Laws.thy ===== *)
theory Load_Balancer_Laws
  imports Load_Balancers
begin

text \<open>
  Properties of the load balancer controller of \<^verbatim>\<open>cherry/loadbalancers.go\<close>: when it reserves an
  address and when it gives one back, whose reservations it finds, what it tells the cluster, and
  what it writes on the nodes.
\<close>

section \<open>Lemmas on names and tags\<close>

lemma serviceRep_inject:
  assumes "CHR ''/'' \<notin> set (svc_Name s)" "CHR ''/'' \<notin> set (svc_Name t)"
  shows "serviceRep (Some s) = serviceRep (Some t) \<longleftrightarrow> svc_Namespace s = svc_Namespace t \<and> svc_Name s = svc_Name t"
  using append_last_sep_inject [OF assms] by (simp add: serviceRep_def)

lemma carries_service_tag:
  "carries_tags (reservation_tags digest l svc) ip \<Longrightarrow> \<exists>tags. ip_Tags ip = Some tags \<and> tags ''service'' = Some (digest (serviceRep (Some svc)))"
  by (auto simp: carries_tags_def reservation_tags_def serviceTag_def split: option.splits)

lemma reservation_tags_carried:
  "ip_Tags ip = Some (map_of (reservation_tags digest l svc)) \<Longrightarrow> carries_tags (reservation_tags digest l svc) ip"
  by (simp add: carries_tags_def reservation_tags_def serviceTag_def clusterTag_def cherryTag_def)

section \<open>Lemmas on annotations\<close>

definition peer_key :: "nat \<Rightarrow> string \<Rightarrow> string" where
  "peer_key i s = ''cherryservers.com/bgp-peers-'' @ dec_nat i @ CHR ''-'' # s"

lemma dash_not_digit: "CHR ''-'' \<notin> set (dec_nat i)"
  by (simp add: not_digit_notin_dec_nat)

lemma peer_key_inject [simp]: "peer_key i s = peer_key j t \<longleftrightarrow> i = j \<and> s = t"
proof
  assume "peer_key i s = peer_key j t"
  then have e: "dec_nat i @ CHR ''-'' # s = dec_nat j @ CHR ''-'' # t" by (simp add: peer_key_def)
  have "takeWhile (\<lambda>c. c \<noteq> CHR ''-'') (dec_nat k @ CHR ''-'' # u) = dec_nat k" for k u
    using dash_not_digit [of k] by (subst takeWhile_append2) auto
  then have "dec_nat i = dec_nat j" using e by metis
  with e show "i = j \<and> s = t" by (simp add: dec_nat_inj)
qed simp

text \<open>A controller with the default annotation names.\<close>

definition default_annotations :: "'w loadBalancers \<Rightarrow> bool" where
  "default_annotations l \<longleftrightarrow>
     lbs_annotationLocalASN l = DefaultAnnotationNodeASN \<and> lbs_annotationPeerASN l = DefaultAnnotationPeerASN \<and>
     lbs_annotationPeerIP l = DefaultAnnotationPeerIP \<and> lbs_annotationSrcIP l = DefaultAnnotationSrcIP \<and>
     lbs_annotationMultiHop l = DefaultAnnotationMultiHop"

lemma default_keys:
  "replace1 DefaultAnnotationNodeASN ''{{n}}'' (dec_nat i) = peer_key i ''node-asn''"
  "replace1 DefaultAnnotationPeerASN ''{{n}}'' (dec_nat i) = peer_key i ''peer-asn''"
  "replace1 DefaultAnnotationPeerIP ''{{n}}'' (dec_nat i) = peer_key i ''peer-ip''"
  "replace1 DefaultAnnotationSrcIP ''{{n}}'' (dec_nat i) = peer_key i ''src-ip''"
  "replace1 DefaultAnnotationMultiHop ''{{n}}'' (dec_nat i) = peer_key i ''peer-multi-hop''"
  by (simp_all add: peer_key_def replace1_def DefaultAnnotationNodeASN_def DefaultAnnotationPeerASN_def
      DefaultAnnotationPeerIP_def DefaultAnnotationSrcIP_def DefaultAnnotationMultiHop_def)

definition peer_annotation :: "NodeBGPInfo \<Rightarrow> BGPPeer \<Rightarrow> strmap" where
  "peer_annotation info p =
     [''node-asn'' \<mapsto> itoa (bi_LocalASN info), ''peer-asn'' \<mapsto> itoa (bi_RemoteASN info), ''peer-ip'' \<mapsto> bp_Address p,
      ''src-ip'' \<mapsto> bi_SourceIP info, ''peer-multi-hop'' \<mapsto> ''true'']"

lemma annotate_peer_default:
  assumes "default_annotations l"
  shows "annotate_peer l info (i, p) a (peer_key j s) =
      (if j = i \<and> peer_annotation info p s \<noteq> None then peer_annotation info p s else a (peer_key j s))"
    and "(\<And>s. k \<noteq> peer_key i s) \<Longrightarrow> annotate_peer l info (i, p) a k = a k"
  using assms
  by (simp_all add: annotate_peer_def default_annotations_def default_keys peer_annotation_def Let_def)

lemma annotate_fold:
  assumes l: "default_annotations l"
  shows "fold (annotate_peer l info) (enumerate k ps) a (peer_key j s) =
      (if k \<le> j \<and> j < k + length ps \<and> peer_annotation info (ps ! (j - k)) s \<noteq> None
       then peer_annotation info (ps ! (j - k)) s else a (peer_key j s))"
    and "(\<And>i s. key \<noteq> peer_key i s) \<Longrightarrow> fold (annotate_peer l info) (enumerate k ps) a key = a key"
proof -
  show "fold (annotate_peer l info) (enumerate k ps) a (peer_key j s) =
      (if k \<le> j \<and> j < k + length ps \<and> peer_annotation info (ps ! (j - k)) s \<noteq> None
       then peer_annotation info (ps ! (j - k)) s else a (peer_key j s))"
  proof (induction ps arbitrary: k a)
    case (Cons p ps)
    have "j = k \<or> j < k \<or> (\<exists>d. j = Suc (k + d))" by (metis less_iff_Suc_add linorder_neqE_nat)
    then show ?case
      using Cons.IH [of "Suc k" "annotate_peer l info (k, p) a"]
      by (auto simp: annotate_peer_default(1) [OF l])
  qed auto
  show "fold (annotate_peer l info) (enumerate k ps) a key = a key" if "\<And>i s. key \<noteq> peer_key i s"
    by (induction ps arbitrary: k a) (simp_all add: annotate_peer_default(2) [OF l that])
qed

section \<open>Counting reservations\<close>

text \<open>
  \<open>cnt\<close> reads from the world how many floating IPs have been requested: a request that succeeds
  adds one, and no other call the controller makes while it adds a service adds any.
\<close>

definition counts_requests :: "('w \<Rightarrow> nat) \<Rightarrow> 'w loadBalancers \<Rightarrow> bool" where
  "counts_requests cnt l \<longleftrightarrow>
     (\<forall>p w. cnt (snd (IPs_List (lbs_client l) p w)) = cnt w) \<and>
     (\<forall>p r t w. cnt (snd (IPs_Create (lbs_client l) p r t w)) =
        (case fst (IPs_Create (lbs_client l) p r t w) of Inl _ \<Rightarrow> cnt w | Inr _ \<Rightarrow> Suc (cnt w))) \<and>
     (\<forall>n s w. cnt (snd (Services_Get (lbs_k8sclient l) n s w)) = cnt w) \<and>
     (\<forall>s w. cnt (snd (Services_Update (lbs_k8sclient l) s w)) = cnt w) \<and>
     (\<forall>n m w. cnt (snd (Nodes_Patch (lbs_k8sclient l) n m w)) = cnt w) \<and>
     (\<forall>i w. cnt (snd (lbs_bgpEnabler l i w)) = cnt w) \<and>
     (\<forall>impl n s ip ns w. lbs_implementor l = Some impl \<longrightarrow> cnt (snd (lb_AddService impl n s ip ns w)) = cnt w)"

lemma counts_requestsD:
  assumes "counts_requests cnt l"
  shows "IPs_List (lbs_client l) p w = (r1, w') \<Longrightarrow> cnt w' = cnt w"
    and "IPs_Create (lbs_client l) p g t w = (r2, w') \<Longrightarrow> cnt w' = (case r2 of Inl _ \<Rightarrow> cnt w | Inr _ \<Rightarrow> Suc (cnt w))"
    and "Services_Get (lbs_k8sclient l) n s w = (r3, w') \<Longrightarrow> cnt w' = cnt w"
    and "Services_Update (lbs_k8sclient l) sv w = (r4, w') \<Longrightarrow> cnt w' = cnt w"
    and "Nodes_Patch (lbs_k8sclient l) n m w = (r5, w') \<Longrightarrow> cnt w' = cnt w"
    and "lbs_bgpEnabler l i w = (r6, w') \<Longrightarrow> cnt w' = cnt w"
    and "lbs_implementor l = Some impl \<Longrightarrow> lb_AddService impl n s ip ns w = (r7, w') \<Longrightarrow> cnt w' = cnt w"
  using assms unfolding counts_requests_def by (metis fst_conv snd_conv)+

lemma annotateNode_count:
  assumes "counts_requests cnt l" and "annotateNode l node w = (e, node', w')"
  shows "cnt w' = cnt w"
proof -
  note c = counts_requestsD [OF assms(1)]
  obtain b w1 where b: "lbs_bgpEnabler l (nd_ProviderID node) w = (b, w1)" by fastforce
  show ?thesis
  proof (cases b)
    case (Inl e)
    with assms(2) b c(6) [OF b] show ?thesis by (simp add: annotateNode_def)
  next
    case (Inr info)
    let ?a = "peer_annotations l info (nil_map (nd_Annotations node))"
    obtain q w2 where q: "Nodes_Patch (lbs_k8sclient l) (nd_Name node) ?a w1 = (q, w2)" by fastforce
    from c(5) [OF q] c(6) [OF b] assms(2) b Inr q show ?thesis by (cases q) (simp_all add: annotateNode_def Let_def)
  qed
qed

lemma add_nodes_loop_count:
  assumes l: "counts_requests cnt l"
  shows "add_nodes_loop l nodes w = (ns, after, w') \<Longrightarrow> cnt w' = cnt w"
proof (induction nodes arbitrary: w ns after)
  case (Cons node nodes)
  have IH: "cnt v' = cnt v" if "add_nodes_loop l nodes v = (x, y, v')" "w' = v'" for v x y v'
    using Cons.IH that by blast
  obtain b w1 where b: "lbs_bgpEnabler l (nd_ProviderID node) w = (b, w1)" by fastforce
  note cb = counts_requestsD(6) [OF l b]
  obtain e node' w2 where a: "annotateNode l node w1 = (e, node', w2)" by (metis prod.exhaust)
  note ca = annotateNode_count [OF l a]
  show ?case
    using Cons.prems b a cb ca
    by (auto simp: Let_def split: prod.splits sum.splits if_splits option.splits dest!: IH)
qed simp

lemma request_ip_count:
  assumes l: "counts_requests cnt l" and r: "request_ip digest l svc w = (r, w')"
  shows "cnt w' = (case r of Inl _ \<Rightarrow> cnt w | Inr _ \<Rightarrow> Suc (cnt w))"
  using r counts_requestsD(2) [OF l]
  by (auto simp: request_ip_def Let_def split: if_splits prod.splits sum.splits)

lemma store_ip_count:
  assumes l: "counts_requests cnt l" and r: "store_ip l impl svc ip w = (r, w')"
  shows "cnt w' = cnt w"
proof -
  obtain g e w1 where g: "Services_Get (lbs_k8sclient l) (svc_Namespace svc) (svc_Name svc) w = ((g, e), w1)"
    by (metis prod.exhaust)
  have c1: "cnt w1 = cnt w" by (rule counts_requestsD(3) [OF l g])
  have c2: "cnt v' = cnt v" if "Services_Update (lbs_k8sclient l) s v = (q, v')" for s v q v'
    using that by (rule counts_requestsD(4) [OF l])
  show ?thesis using r c1
    by (auto simp: store_ip_def g split: option.splits prod.splits dest!: c2)
qed

lemma assign_ip_count:
  assumes l: "counts_requests cnt l" and r: "assign_ip digest l impl svc ips w = (r, w')"
  shows "cnt w \<le> cnt w' \<and> cnt w' \<le> cnt w + (if snd (lb_ServiceIP impl (Some svc)) \<or> (\<exists>ip \<in> set ips. carries_tags (reservation_tags digest l svc) ip) then 0 else 1)"
    and "r = Ok x \<Longrightarrow> cnt w' = cnt w + (if snd (lb_ServiceIP impl (Some svc)) \<or> (\<exists>ip \<in> set ips. carries_tags (reservation_tags digest l svc) ip) then 0 else 1)"
proof -
  let ?res = "ipReservationByAllTags (reservation_tags digest l svc) ips"
  let ?need = "if snd (lb_ServiceIP impl (Some svc)) \<or> (\<exists>ip \<in> set ips. carries_tags (reservation_tags digest l svc) ip) then 0 else (1::nat)"
  have none: "?res = None \<longleftrightarrow> \<not> (\<exists>ip \<in> set ips. carries_tags (reservation_tags digest l svc) ip)"
    by (simp add: ipReservationByAllTags_None)
  obtain svcIP hasIP where ip: "lb_ServiceIP impl (Some svc) = (svcIP, hasIP)" by fastforce
  have st: "cnt v' = cnt v" if "store_ip l impl svc a v = (q, v')" for a v q v' by (rule store_ip_count [OF l that])
  have rq: "cnt v' = (case q of Inl _ \<Rightarrow> cnt v | Inr _ \<Rightarrow> Suc (cnt v))" if "request_ip digest l svc v = (q, v')" for v q v'
    by (rule request_ip_count [OF l that])
  have "(cnt w \<le> cnt w' \<and> cnt w' \<le> cnt w + ?need) \<and> (r = Ok x \<longrightarrow> cnt w' = cnt w + ?need)"
  proof (cases "hasIP")
    case True
    with r ip show ?thesis by (simp add: assign_ip_def)
  next
    case False
    show ?thesis
    proof (cases ?res)
      case (Some i)
      then have "\<exists>ip \<in> set ips. carries_tags (reservation_tags digest l svc) ip" using none by (metis option.distinct(1))
      with False Some r ip show ?thesis by (auto simp: assign_ip_def split: prod.splits outcome.splits dest!: st)
    next
      case None
      then have "\<not> (\<exists>ip \<in> set ips. carries_tags (reservation_tags digest l svc) ip)" using none by blast
      with False None r ip show ?thesis
        by (auto simp: assign_ip_def split: prod.splits outcome.splits sum.splits dest!: st rq)
    qed
  qed
  then show "cnt w \<le> cnt w' \<and> cnt w' \<le> cnt w + ?need" "r = Ok x \<Longrightarrow> cnt w' = cnt w + ?need" by blast+
qed

section \<open>A sample controller\<close>

text \<open>
  A controller whose world counts the requests for addresses. Every request is granted with the
  tags it asked for, every service exists, and nodes get BGP at once.
\<close>

definition sample_k8s :: "nat k8s_client" where
  "sample_k8s =
     \<lparr>Namespaces_Get = (\<lambda>_ w. ((Some ''uid'', None), w)),
      Services_Get = (\<lambda>n s w. ((Some \<lparr>svc_Namespace = n, svc_Name = s, svc_Annotations = None, svc_LoadBalancerIP = '''',
        svc_TargetPorts = []\<rparr>, None), w)),
      Services_Update = (\<lambda>_ w. (None, w)), Nodes_Patch = (\<lambda>_ _ w. (None, w))\<rparr>"

definition sample_api :: "nat cherry_client" where
  "sample_api =
     \<lparr>Projects_Get = (\<lambda>_ w. (Inl (External ''none''), w)), Projects_Update = (\<lambda>_ _ _ w. (Inl (External ''none''), w)),
      Servers_Get = (\<lambda>i w. ((sample_server i, Some 200, None), w)), Servers_List = (\<lambda>_ w. (Inr [], w)),
      Servers_Update = (\<lambda>_ _ _ w. (Inl (External ''none''), w)), IPs_List = (\<lambda>_ w. (Inr [], w)),
      IPs_Create = (\<lambda>_ _ t w. (Inr \<lparr>ip_ID = ''i'', ip_Address = ''5.199.1.2'', ip_Cidr = ''5.199.1.2/32'',
        ip_Type = ''floating-ip'', ip_Tags = Some t, ip_TargetedTo = 0\<rparr>, Suc w)),
      IPs_Remove = (\<lambda>_ w. (None, w)), IPs_Update = (\<lambda>_ _ w. (None, w))\<rparr>"

definition sample_lbs :: "nat LB option \<Rightarrow> nat loadBalancers" where
  "sample_lbs impl =
     \<lparr>lbs_client = sample_api, lbs_k8sclient = sample_k8s, lbs_project = 7, lbs_region = ''LT-Siauliai'', lbs_clusterID = ''uid'',
      lbs_implementor = impl, lbs_implementorConfig = ''kube-vip://'',
      lbs_annotationLocalASN = DefaultAnnotationNodeASN, lbs_annotationPeerASN = DefaultAnnotationPeerASN,
      lbs_annotationPeerIP = DefaultAnnotationPeerIP, lbs_annotationSrcIP = DefaultAnnotationSrcIP,
      lbs_annotationMultiHop = DefaultAnnotationMultiHop, lbs_fipRegionAnnotation = DefaultAnnotationFIPRegion,
      lbs_nodeSelector = Some (\<lambda>_. True),
      lbs_bgpEnabler = (\<lambda>_ w. (Inr \<lparr>bi_SourceIP = ''5.6.7.8'', bi_LocalASN = 65010, bi_RemoteASN = 65000,
        bi_Peers = [\<lparr>bp_Address = ''10.0.0.1'', bp_Port = 179\<rparr>]\<rparr>, w))\<rparr>"

definition sample_service :: "string \<Rightarrow> service" where
  "sample_service name = \<lparr>svc_Namespace = ''default'', svc_Name = name, svc_Annotations = None, svc_LoadBalancerIP = '''',
     svc_TargetPorts = [80]\<rparr>"

abbreviation kubevip_lbs :: "nat loadBalancers" where
  "kubevip_lbs \<equiv> sample_lbs (Some (kubevip_NewLB ''''))"

lemma sample_counts: "counts_requests (\<lambda>w. w) kubevip_lbs"
  by (auto simp: counts_requests_def sample_lbs_def sample_api_def sample_k8s_def kubevip_NewLB_def kubevip_AddService_def)

lemma sample_ensure:
  "EnsureLoadBalancer (\<lambda>s. s) kubevip_lbs (sample_service ''web'') [] 0 = (Ok [''5.199.1.2''], [], 1)"
proof -
  have "hd (split_n2 ''/'' ''5.199.1.2/32'') = ''5.199.1.2''" by (simp add: split_n2_def)
  then show ?thesis
    by (simp add: EnsureLoadBalancer_def isServiceManaged_def serviceAnnotation_def sample_service_def sample_lbs_def
        sample_api_def sample_k8s_def addService_def assign_ip_def request_ip_def store_ip_def kubevip_NewLB_def
        kubevip_ServiceIP_def kubevip_SetServiceIP_def kubevip_AddService_def annotation_def ipReservationByAllTags_def
        Let_def)
qed

section \<open>Properties\<close>



text \<open>C2: A floating IP is requested only when it is needed: when the service has no address and no
  reservation in the project carries its tags, \<open>EnsureLoadBalancer\<close> requests at most one, and
  exactly one if it succeeds; otherwise it requests none, whatever the outcome.\<close>

theorem ensure_requests_ip_only_when_needed:
  assumes cnt: "counts_requests cnt l" and impl: "lbs_implementor l = Some impl" and managed: "isServiceManaged (Some svc)"
    and ips: "IPs_List (lbs_client l) (lbs_project l) w = (Inr ips, w1)"
    and run: "EnsureLoadBalancer digest l svc nodes w = (r, after, w')"
  shows "(if snd (lb_ServiceIP impl (Some svc)) \<or> (\<exists>ip \<in> set ips. carries_tags (reservation_tags digest l svc) ip)
          then cnt w' = cnt w
          else cnt w' \<le> cnt w + 1 \<and> ((\<exists>st. r = Ok st) \<longrightarrow> cnt w' = cnt w + 1))"
proof (cases "filterNodes nodes (lbs_nodeSelector l)")
  case None
  with run managed ips have "r = Panic" "w' = w1" by (simp_all add: EnsureLoadBalancer_def)
  then show ?thesis using counts_requestsD(1) [OF cnt ips] by simp
next
  case (Some filtered)
  have c1: "cnt w1 = cnt w" by (rule counts_requestsD(1) [OF cnt ips])
  obtain x w2 where a: "assign_ip digest l impl svc ips w1 = (x, w2)" by fastforce
  note ca = assign_ip_count [OF cnt a]
  have nodes: "cnt v' = cnt v" if "add_nodes_loop l ns v = (y, z, v')" for ns v y z v'
    by (rule add_nodes_loop_count [OF cnt that])
  have adds: "cnt v' = cnt v" if "lb_AddService impl n s i ns v = (y, v')" for n s i ns v y v'
    by (rule counts_requestsD(7) [OF cnt impl that])
  have fin: "cnt w' = cnt w2 \<and> ((\<exists>st. r = Ok st) \<longrightarrow> (\<exists>y. x = Ok y))"
  proof (cases x)
    case (Ok y)
    with run managed ips impl a Some show ?thesis
      by (auto simp: EnsureLoadBalancer_def addService_def Let_def split: prod.splits outcome.splits dest!: nodes adds)
  qed (use run managed ips impl a Some in \<open>auto simp: EnsureLoadBalancer_def addService_def split: prod.splits outcome.splits\<close>)
  show ?thesis using ca c1 fin by (auto split: if_splits)
qed

theorem ensure_requests_ip_only_when_needed_witness:
  "EnsureLoadBalancer (\<lambda>s. s) kubevip_lbs (sample_service ''web'') [] 0 = (Ok [''5.199.1.2''], [], 1)
   \<and> \<not> snd (kubevip_ServiceIP (Some (sample_service ''web'')))"
proof -
  have "\<not> snd (kubevip_ServiceIP (Some (sample_service ''web'')))"
    by (simp add: kubevip_ServiceIP_def sample_service_def annotation_def)
  moreover have "lbs_implementor kubevip_lbs = Some (kubevip_NewLB '''')" "isServiceManaged (Some (sample_service ''web''))"
    "IPs_List (lbs_client kubevip_lbs) (lbs_project kubevip_lbs) 0 = (Inr [], 0)"
    by (simp_all add: sample_lbs_def isServiceManaged_def serviceAnnotation_def sample_service_def sample_api_def)
  ultimately show ?thesis
    using ensure_requests_ip_only_when_needed [OF sample_counts _ _ _ sample_ensure] sample_ensure
    by (simp add: kubevip_NewLB_def)
qed

text \<open>C8: The address that \<open>EnsureLoadBalancer\<close> reports: the one the service asks for, or the
  address part of the reservation that carries the service's tags, which wins when there is one.\<close>

theorem ensure_reports_address:
  assumes impl: "lbs_implementor l = Some impl" and managed: "isServiceManaged (Some svc)"
    and ips: "IPs_List (lbs_client l) (lbs_project l) w = (Inr ips, w1)"
    and run: "EnsureLoadBalancer digest l svc nodes w = (Ok st, after, w')"
  shows "(\<forall>r addr bits. ipReservationByAllTags (reservation_tags digest l svc) ips = Some r
        \<and> ip_Cidr r = addr @ ''/'' @ bits \<and> CHR ''/'' \<notin> set addr \<longrightarrow> st = [addr])
    \<and> (\<forall>ip. ipReservationByAllTags (reservation_tags digest l svc) ips = None
        \<and> lb_ServiceIP impl (Some svc) = (ip, True) \<and> CHR ''/'' \<notin> set ip \<longrightarrow> st = [ip])"
proof -
  have cutb: "hd (split_n2 ''/'' (a @ ''/'' @ b)) = a" if "CHR ''/'' \<notin> set a" for a b
  proof -
    have "cut ''/'' (a @ ''/'' @ b) = (a, Some b)" using that by (induction a) auto
    then show ?thesis by (simp add: split_n2_def)
  qed
  obtain ip res w2 where a: "assign_ip digest l impl svc ips w1 = (Ok (ip, res), w2)"
    and st: "st = [hd (split_n2 ''/'' (case res of Some r \<Rightarrow> ip_Cidr r | None \<Rightarrow> ip @ ''/'' @ ''32''))]"
    using run managed ips impl
    by (auto simp: EnsureLoadBalancer_def addService_def Let_def split: prod.splits outcome.splits option.splits)
  show ?thesis
  proof (intro conjI allI impI; elim conjE)
    fix r addr bits
    assume r: "ipReservationByAllTags (reservation_tags digest l svc) ips = Some r"
      and c: "ip_Cidr r = addr @ ''/'' @ bits" "CHR ''/'' \<notin> set addr"
    from a r have "res = Some r"
      by (auto simp: assign_ip_def Let_def split: prod.splits if_splits outcome.splits)
    with st c cutb [OF c(2)] show "st = [addr]" by simp
  next
    fix i
    assume "ipReservationByAllTags (reservation_tags digest l svc) ips = None"
      and h: "lb_ServiceIP impl (Some svc) = (i, True)" "CHR ''/'' \<notin> set i"
    with a have "res = None" "ip = i" by (auto simp: assign_ip_def)
    with st cutb [OF h(2), of "''32''"] show "st = [i]" by simp
  qed
qed

theorem ensure_reports_address_witness:
  "fst (EnsureLoadBalancer (\<lambda>s. s) kubevip_lbs (sample_service ''web''\<lparr>svc_LoadBalancerIP := ''9.9.9.9''\<rparr>) [] 0) = Ok [''9.9.9.9'']"
proof -
  let ?s = "sample_service ''web''\<lparr>svc_LoadBalancerIP := ''9.9.9.9''\<rparr>"
  have ip: "kubevip_ServiceIP (Some ?s) = (''9.9.9.9'', True)"
    by (simp add: kubevip_ServiceIP_def sample_service_def annotation_def)
  have "\<exists>st after w'. EnsureLoadBalancer (\<lambda>s. s) kubevip_lbs ?s [] 0 = (Ok st, after, w')"
    by (simp add: EnsureLoadBalancer_def isServiceManaged_def serviceAnnotation_def sample_service_def sample_lbs_def
        sample_api_def addService_def assign_ip_def kubevip_NewLB_def
        kubevip_ServiceIP_def kubevip_AddService_def annotation_def ipReservationByAllTags_def Let_def)
  then obtain st after w' where run: "EnsureLoadBalancer (\<lambda>s. s) kubevip_lbs ?s [] 0 = (Ok st, after, w')" by blast
  have pre: "lbs_implementor kubevip_lbs = Some (kubevip_NewLB '''')" "isServiceManaged (Some ?s)"
    "IPs_List (lbs_client kubevip_lbs) (lbs_project kubevip_lbs) 0 = (Inr [], 0)"
    by (simp_all add: sample_lbs_def isServiceManaged_def serviceAnnotation_def sample_service_def sample_api_def)
  have "st = [''9.9.9.9'']"
    using ensure_reports_address [OF pre run, THEN conjunct2] ip
    by (simp add: ipReservationByAllTags_def kubevip_NewLB_def)
  with run show ?thesis by simp
qed

text \<open>Deleting a load balancer that succeeds gives back the first reservation that carries the
  service's tags and removes the service, with that reservation's CIDR, from the implementation;
  when no reservation carries them the implementation is not told at all, so what it keeps for
  a service that brought its own address stays.\<close>

theorem ensure_deleted_needs_reservation:
  assumes impl: "lbs_implementor l = Some impl" and managed: "isServiceManaged (Some svc)"
    and ips: "IPs_List (lbs_client l) (lbs_project l) w = (Inr ips, w1)"
  shows "case ipReservationByAllTags (reservation_tags digest l svc) ips of
      None \<Rightarrow> EnsureLoadBalancerDeleted digest l svc w = (Ok (), w1)
    | Some r \<Rightarrow> EnsureLoadBalancerDeleted digest l svc w = (Ok (), w') \<longleftrightarrow>
        (\<exists>w2. IPs_Remove (lbs_client l) (ip_ID r) w1 = (None, w2)
          \<and> lb_RemoveService impl (svc_Namespace svc) (svc_Name svc) (ip_Cidr r) w2 = (Ok (), w'))"
  using assms
  by (auto simp: EnsureLoadBalancerDeleted_def split: option.splits prod.splits outcome.splits)

theorem ensure_deleted_needs_reservation_witness:
  "EnsureLoadBalancerDeleted (\<lambda>s. s) kubevip_lbs (sample_service ''web'') 0 = (Ok (), 0)"
proof -
  have pre: "lbs_implementor kubevip_lbs = Some (kubevip_NewLB '''')" "isServiceManaged (Some (sample_service ''web''))"
    "IPs_List (lbs_client kubevip_lbs) (lbs_project kubevip_lbs) 0 = (Inr [], 0)"
    by (simp_all add: sample_lbs_def isServiceManaged_def serviceAnnotation_def sample_service_def sample_api_def)
  show ?thesis using ensure_deleted_needs_reservation [OF pre] by (simp add: ipReservationByAllTags_def)
qed

text \<open>C21: Two services of a cluster never get the same reservation, and their load balancers have
  different names, as long as the digest of \<open>namespace/name\<close> does not collide on the two.\<close>

theorem reservations_not_shared:
  assumes digest: "svc_Namespace s @ ''/'' @ svc_Name s \<noteq> svc_Namespace t @ ''/'' @ svc_Name t
      \<longrightarrow> digest (svc_Namespace s @ ''/'' @ svc_Name s) \<noteq> digest (svc_Namespace t @ ''/'' @ svc_Name t)"
    and names: "CHR ''/'' \<notin> set (svc_Name s)" "CHR ''/'' \<notin> set (svc_Name t)"
    and other: "(svc_Namespace s, svc_Name s) \<noteq> (svc_Namespace t, svc_Name t)"
  shows "GetLoadBalancerName digest l s \<noteq> GetLoadBalancerName digest l t
    \<and> \<not> (ipReservationByAllTags (reservation_tags digest l s) ips = Some r
       \<and> ipReservationByAllTags (reservation_tags digest l t) ips' = Some r)"
proof -
  have rep: "digest (serviceRep (Some s)) \<noteq> digest (serviceRep (Some t))"
    using serviceRep_inject [OF names] other digest by (simp add: serviceRep_def)
  then have "GetLoadBalancerName digest l s \<noteq> GetLoadBalancerName digest l t"
    by (simp add: GetLoadBalancerName_def serviceTag_def clusterTag_def)
  moreover have "\<not> (carries_tags (reservation_tags digest l s) r \<and> carries_tags (reservation_tags digest l t) r)"
    using rep carries_service_tag by (metis option.inject)
  ultimately show ?thesis using ipReservationByAllTags_Some by blast
qed

text \<open>The digest of the sample has 44 characters, as many as the base64 text of a SHA-256 sum, so it
  is not injective.\<close>

theorem reservations_not_shared_witness:
  "GetLoadBalancerName (take 44) kubevip_lbs (sample_service ''a'') \<noteq> GetLoadBalancerName (take 44) kubevip_lbs (sample_service ''b'')"
  by (rule reservations_not_shared [THEN conjunct1]) (simp_all add: sample_service_def)

text \<open>C22: With the default annotation names the annotations sent for a node have, for each of its BGP
  peers in ascending order of the addresses, the AS numbers, the peer's address, the source
  address and the multi-hop flag under that peer's index, and every annotation of another form
  as the node had it.\<close>

theorem annotate_node_writes_peers:
  assumes l: "default_annotations l" and info: "lbs_bgpEnabler l (nd_ProviderID node) w = (Inr info, w1)"
    and ok: "annotateNode l node w = (None, node', w')"
  shows "\<exists>ann. Nodes_Patch (lbs_k8sclient l) (nd_Name node) ann w1 = (None, w')
    \<and> (\<forall>i < length (bi_Peers info). \<forall>s. peer_annotation info (sort_key bp_Address (bi_Peers info) ! i) s \<noteq> None
         \<longrightarrow> ann (peer_key i s) = peer_annotation info (sort_key bp_Address (bi_Peers info) ! i) s)
    \<and> (\<forall>k. (\<forall>i s. k \<noteq> peer_key i s) \<longrightarrow> ann k = nil_map (nd_Annotations node) k)"
proof -
  let ?ps = "sort_key bp_Address (bi_Peers info)" and ?a = "nil_map (nd_Annotations node)"
  let ?ann = "peer_annotations l info ?a"
  have patch: "Nodes_Patch (lbs_k8sclient l) (nd_Name node) ?ann w1 = (None, w')"
    using ok info by (auto simp: annotateNode_def Let_def split: prod.splits option.splits)
  have ann: "?ann = fold (annotate_peer l info) (enumerate 0 ?ps) ?a"
    by (simp add: peer_annotations_def)
  have "?ann (peer_key i s) = peer_annotation info (?ps ! i) s"
    if "i < length (bi_Peers info)" "peer_annotation info (?ps ! i) s \<noteq> None" for i s
    using that by (simp add: ann annotate_fold(1) [OF l])
  moreover have "?ann k = ?a k" if "\<forall>i s. k \<noteq> peer_key i s" for k
    unfolding ann by (rule annotate_fold(2) [OF l]) (use that in blast)
  ultimately show ?thesis using patch by blast
qed

theorem annotate_node_writes_peers_witness:
  "\<exists>ann. peer_key 0 ''peer-ip'' = ''cherryservers.com/bgp-peers-0-peer-ip''
     \<and> ann (peer_key 0 ''peer-ip'') = Some ''10.0.0.1''
     \<and> Nodes_Patch (lbs_k8sclient kubevip_lbs) ''n'' ann 0 = (None, 0)"
proof -
  let ?n = "sample_node ''n'' ''42''"
  let ?info = "\<lparr>bi_SourceIP = ''5.6.7.8'', bi_LocalASN = 65010, bi_RemoteASN = 65000,
        bi_Peers = [\<lparr>bp_Address = ''10.0.0.1'', bp_Port = 179\<rparr>]\<rparr>"
  have l: "default_annotations kubevip_lbs" by (simp add: default_annotations_def sample_lbs_def)
  have i: "lbs_bgpEnabler kubevip_lbs (nd_ProviderID ?n) 0 = (Inr ?info, 0)" by (simp add: sample_lbs_def)
  have ok: "annotateNode kubevip_lbs ?n 0 = (None, ?n, 0)"
    by (simp add: annotateNode_def sample_lbs_def sample_k8s_def sample_node_def)
  from annotate_node_writes_peers [OF l i ok] obtain ann
    where "Nodes_Patch (lbs_k8sclient kubevip_lbs) (nd_Name ?n) ann 0 = (None, 0)"
      and "\<forall>j < length (bi_Peers ?info). \<forall>s. peer_annotation ?info (sort_key bp_Address (bi_Peers ?info) ! j) s \<noteq> None
         \<longrightarrow> ann (peer_key j s) = peer_annotation ?info (sort_key bp_Address (bi_Peers ?info) ! j) s" by blast
  then show ?thesis
    by (intro exI [of _ ann]) (auto simp: peer_annotation_def sample_node_def peer_key_def print_eval split: if_splits)
qed

text \<open>When the node has annotations, the node object that the caller passed is changed as well.\<close>

lemma annotate_node_changes_node:
  assumes "nd_Annotations node = Some a" "lbs_bgpEnabler l (nd_ProviderID node) w = (Inr info, w1)" "annotateNode l node w = (None, node', w')"
  shows "nd_Annotations node' = Some (peer_annotations l info a)"
  using assms by (auto simp: annotateNode_def Let_def split: prod.splits option.splits)

text \<open>A configuration with a scheme that is not known builds a load balancer without an
  implementation, and the first managed service it is asked about panics.\<close>

theorem unknown_scheme_panics:
  assumes cfg: "config \<noteq> ''''" and ns: "Namespaces_Get k8s ''kube-system'' w = ((Some uid, None), w1)"
    and u: "url_Parse config = Inr u" "u_Scheme u \<notin> {''kube-vip'', ''metallb'', ''empty''}"
    and svc: "isServiceManaged (Some svc)"
  shows "\<exists>l. newLoadBalancers url_Parse labels_Parse parse_sel NewLB ord client k8s project region config a1 a2 a3 a4 a5 a6 sel bgp w
      = (Ok (Some l), w1) \<and> GetLoadBalancer digest l svc w' = (Panic, w') \<and> EnsureLoadBalancerDeleted digest l svc w' = (Panic, w')"
  using assms
  by (auto simp: newLoadBalancers_def GetLoadBalancer_def EnsureLoadBalancerDeleted_def Let_def)

theorem unknown_scheme_panics_witness:
  "\<exists>l. newLoadBalancers (\<lambda>_. Inr \<lparr>u_Scheme = ''kubevip'', u_Path = '''', u_Query = (\<lambda>_. '''')\<rparr>) (\<lambda>_. Inr (\<lambda>_. True))
       (\<lambda>_. Inr \<lparr>ls_MatchLabels = None, ls_MatchExpressions = []\<rparr>) (\<lambda>_ _. Panic) (\<lambda>xs. xs) sample_api sample_k8s 7 '''' ''kubevip://''
       '''' '''' '''' '''' '''' '''' '''' (\<lambda>_ w. (Inl (External ''none''), w)) 0 = (Ok (Some l), 0)
     \<and> GetLoadBalancer (\<lambda>s. s) l (sample_service ''web'') 0 = (Panic, 0)"
  using unknown_scheme_panics [of "''kubevip://''" sample_k8s 0 "''uid''" 0
      "\<lambda>_. Inr \<lparr>u_Scheme = ''kubevip'', u_Path = '''', u_Query = (\<lambda>_. '''')\<rparr>"
      "\<lparr>u_Scheme = ''kubevip'', u_Path = '''', u_Query = (\<lambda>_. '''')\<rparr>" "sample_service ''web''"]
  by (simp add: sample_k8s_def isServiceManaged_def serviceAnnotation_def sample_service_def) blast

end
