(* ===== verification/SSA_Helpers.thy ===== *)
theory SSA_Helpers
  imports Go_Prelude
begin

text \<open>
  \<^verbatim>\<open>cherry/ssa-helpers.go\<close>: the endpoints of the cluster written as apply configurations of
  client-go, in which every field may be absent. Reading an apply configuration back, with the
  zero value for an absent field, gives the endpoints it was built from.
\<close>

section \<open>Endpoints of the Kubernetes API\<close>

record ObjectReference =
  or_Kind :: string
  or_Namespace :: string
  or_Name :: string
  or_UID :: string
  or_APIVersion :: string
  or_ResourceVersion :: string
  or_FieldPath :: string

record EndpointAddress =
  ea_IP :: string
  ea_Hostname :: string
  ea_NodeName :: "string option"
  ea_TargetRef :: "ObjectReference option"

record EndpointPort =
  ep_Name :: string
  ep_Port :: int
  ep_Protocol :: string
  ep_AppProtocol :: "string option"

record EndpointSubset =
  es_Addresses :: "EndpointAddress list"
  es_NotReadyAddresses :: "EndpointAddress list"
  es_Ports :: "EndpointPort list"

section \<open>Apply configurations\<close>

record ObjectReferenceApply =
  ora_Kind :: "string option"
  ora_Namespace :: "string option"
  ora_Name :: "string option"
  ora_UID :: "string option"
  ora_APIVersion :: "string option"
  ora_ResourceVersion :: "string option"
  ora_FieldPath :: "string option"

record EndpointAddressApply =
  eaa_IP :: "string option"
  eaa_Hostname :: "string option"
  eaa_NodeName :: "string option"
  eaa_TargetRef :: "ObjectReferenceApply option"

record EndpointPortApply =
  epa_Name :: "string option"
  epa_Port :: "int option"
  epa_Protocol :: "string option"
  epa_AppProtocol :: "string option"

record EndpointSubsetApply =
  esa_Addresses :: "EndpointAddressApply list"
  esa_NotReadyAddresses :: "EndpointAddressApply list"
  esa_Ports :: "EndpointPortApply list"

section \<open>The helpers\<close>

definition ObjectReferenceApplyConfiguration :: "ObjectReference option \<Rightarrow> ObjectReferenceApply option" where
  "ObjectReferenceApplyConfiguration ref =
     (case ref of None \<Rightarrow> None
      | Some r \<Rightarrow> Some \<lparr>ora_Kind = Some (or_Kind r), ora_Namespace = Some (or_Namespace r), ora_Name = Some (or_Name r),
          ora_UID = Some (or_UID r), ora_APIVersion = Some (or_APIVersion r),
          ora_ResourceVersion = Some (or_ResourceVersion r), ora_FieldPath = Some (or_FieldPath r)\<rparr>)"

definition EndpointAddressApplyConfig :: "EndpointAddress \<Rightarrow> EndpointAddressApply" where
  "EndpointAddressApplyConfig addr =
     (let applyConfig = \<lparr>eaa_IP = Some (ea_IP addr), eaa_Hostname = Some (ea_Hostname addr), eaa_NodeName = None,
            eaa_TargetRef = ObjectReferenceApplyConfiguration (ea_TargetRef addr)\<rparr>
      in case ea_NodeName addr of None \<Rightarrow> applyConfig | Some n \<Rightarrow> applyConfig\<lparr>eaa_NodeName := Some n\<rparr>)"

text \<open>\<open>WithAppProtocol\<close> changes the configuration it is called on, so its dropped result does not matter.\<close>

definition EndpointPortApplyConfig :: "EndpointPort \<Rightarrow> EndpointPortApply" where
  "EndpointPortApplyConfig port =
     (let applyConfig = \<lparr>epa_Name = Some (ep_Name port), epa_Port = Some (ep_Port port),
            epa_Protocol = Some (ep_Protocol port), epa_AppProtocol = None\<rparr>
      in case ep_AppProtocol port of None \<Rightarrow> applyConfig | Some a \<Rightarrow> applyConfig\<lparr>epa_AppProtocol := Some a\<rparr>)"

definition EndpointSubsetApplyConfig :: "EndpointSubset \<Rightarrow> EndpointSubsetApply" where
  "EndpointSubsetApplyConfig sub =
     (let c0 = \<lparr>esa_Addresses = [], esa_NotReadyAddresses = [], esa_Ports = []\<rparr>;
          c1 = foldl (\<lambda>c addr. c\<lparr>esa_Addresses := esa_Addresses c @ [EndpointAddressApplyConfig addr]\<rparr>) c0 (es_Addresses sub);
          c2 = foldl (\<lambda>c addr. c\<lparr>esa_NotReadyAddresses := esa_NotReadyAddresses c @ [EndpointAddressApplyConfig addr]\<rparr>) c1
                 (es_NotReadyAddresses sub)
      in foldl (\<lambda>c port. c\<lparr>esa_Ports := esa_Ports c @ [EndpointPortApplyConfig port]\<rparr>) c2 (es_Ports sub))"

section \<open>Reading back\<close>

abbreviation or_zero :: "string option \<Rightarrow> string" where
  "or_zero x \<equiv> (case x of None \<Rightarrow> '''' | Some s \<Rightarrow> s)"

definition read_reference :: "ObjectReferenceApply \<Rightarrow> ObjectReference" where
  "read_reference c = \<lparr>or_Kind = or_zero (ora_Kind c), or_Namespace = or_zero (ora_Namespace c), or_Name = or_zero (ora_Name c),
     or_UID = or_zero (ora_UID c), or_APIVersion = or_zero (ora_APIVersion c),
     or_ResourceVersion = or_zero (ora_ResourceVersion c), or_FieldPath = or_zero (ora_FieldPath c)\<rparr>"

definition read_address :: "EndpointAddressApply \<Rightarrow> EndpointAddress" where
  "read_address c = \<lparr>ea_IP = or_zero (eaa_IP c), ea_Hostname = or_zero (eaa_Hostname c), ea_NodeName = eaa_NodeName c,
     ea_TargetRef = map_option read_reference (eaa_TargetRef c)\<rparr>"

definition read_port :: "EndpointPortApply \<Rightarrow> EndpointPort" where
  "read_port c = \<lparr>ep_Name = or_zero (epa_Name c), ep_Port = (case epa_Port c of None \<Rightarrow> 0 | Some p \<Rightarrow> p),
     ep_Protocol = or_zero (epa_Protocol c), ep_AppProtocol = epa_AppProtocol c\<rparr>"

definition read_subset :: "EndpointSubsetApply \<Rightarrow> EndpointSubset" where
  "read_subset c = \<lparr>es_Addresses = map read_address (esa_Addresses c),
     es_NotReadyAddresses = map read_address (esa_NotReadyAddresses c), es_Ports = map read_port (esa_Ports c)\<rparr>"

lemma read_address_config [simp]: "read_address (EndpointAddressApplyConfig a) = a"
  by (cases "ea_TargetRef a"; cases "ea_NodeName a")
    (simp_all add: read_address_def EndpointAddressApplyConfig_def ObjectReferenceApplyConfiguration_def read_reference_def)

lemma read_port_config [simp]: "read_port (EndpointPortApplyConfig p) = p"
  by (cases "ep_AppProtocol p") (simp_all add: read_port_def EndpointPortApplyConfig_def)

lemma subset_loops:
  "foldl (\<lambda>c a. c\<lparr>esa_Addresses := esa_Addresses c @ [f a]\<rparr>) c as = c\<lparr>esa_Addresses := esa_Addresses c @ map f as\<rparr>"
  "foldl (\<lambda>c a. c\<lparr>esa_NotReadyAddresses := esa_NotReadyAddresses c @ [f a]\<rparr>) c as
     = c\<lparr>esa_NotReadyAddresses := esa_NotReadyAddresses c @ map f as\<rparr>"
  "foldl (\<lambda>c p. c\<lparr>esa_Ports := esa_Ports c @ [g p]\<rparr>) c ps = c\<lparr>esa_Ports := esa_Ports c @ map g ps\<rparr>"
  by (induction as arbitrary: c) (simp_all, induction ps arbitrary: c, simp_all)

lemma read_subset_config: "read_subset (EndpointSubsetApplyConfig s) = s"
  by (simp add: EndpointSubsetApplyConfig_def Let_def subset_loops read_subset_def comp_def)

end
