(* ===== verification/Control_Plane.thy ===== *)
theory Control_Plane
  imports Instances IP_Reservations SSA_Helpers
begin

text \<open>
  \<^verbatim>\<open>cherry/fip_controlplane_reconciliation.go\<close>: the manager that keeps the floating IP of the
  control plane on a healthy node. Its mutable state is the two ports; the rest is fixed when
  it is made. Kubernetes and HTTP clients are arguments over the world \<open>'w\<close>. The order in which
  Go visits the map of nodes is an argument as well, once for each time the set is listed. The
  mutexes serialise the handlers of one kind; a handler is one step here.
\<close>

section \<open>Constants and clients\<close>

definition externalServiceName :: string where "externalServiceName = ''cloud-provider-cherry-kubernetes-external''"
definition externalServiceNamespace :: string where "externalServiceNamespace = ''kube-system''"
definition metallbAnnotation :: string where "metallbAnnotation = ''metallb.universe.tf/address-pool''"
definition metallbDisabledtag :: string where "metallbDisabledtag = ''disabled-metallb-do-not-use-any-address-pool''"

definition controlPlaneLabels :: "string list" where
  "controlPlaneLabels = [''node-role.kubernetes.io/master'', ''node-role.kubernetes.io/control-plane'']"

record Endpoints =
  eps_Namespace :: string
  eps_Name :: string
  eps_Subsets :: "EndpointSubset list"

text \<open>The apply configurations of the external service: its spec, and its status.\<close>

record service_apply =
  sa_Name :: string
  sa_Namespace :: string
  sa_Annotations :: "(string \<times> string) list"
  sa_Type :: string
  sa_LoadBalancerIP :: string
  sa_PortName :: string
  sa_Port :: int
  sa_Protocol :: string
  sa_TargetPort :: int

record status_apply =
  st_Name :: string
  st_Namespace :: string
  st_IngressIP :: string
  st_IPMode :: string

text \<open>
  \<open>Nodes_List\<close> lists the nodes that have a label; \<open>HTTP_Get\<close> returns an error or the status code;
  \<open>NewRequest\<close> says whether \<open>http.NewRequest\<close> refuses a URL.
\<close>

record 'w cp_client =
  Nodes_List :: "string \<Rightarrow> 'w \<Rightarrow> (go_error + node list) \<times> 'w"
  Endpoints_Apply :: "string \<Rightarrow> string \<Rightarrow> EndpointSubsetApply list \<Rightarrow> 'w \<Rightarrow> go_error option \<times> 'w"
  Services_Apply :: "service_apply \<Rightarrow> 'w \<Rightarrow> go_error option \<times> 'w"
  Services_ApplyStatus :: "status_apply \<Rightarrow> 'w \<Rightarrow> go_error option \<times> 'w"
  NewRequest :: "string \<Rightarrow> go_error option"
  HTTP_Get :: "string \<Rightarrow> 'w \<Rightarrow> (go_error + int) \<times> 'w"

record 'w controlPlaneEndpointManager =
  apiServerPort :: int
  nodeAPIServerPort :: int
  fipTagKey :: string
  fipTagValue :: string
  cherryClient :: "'w cherry_client"
  cp_projectID :: int
  cpClient :: "'w cp_client"
  controlPlaneSelectors :: "string list"
  useHostIP :: bool

section \<open>Sets of nodes\<close>

text \<open>\<open>nodeSet\<close>: a map from names to nodes, as an association list; the first node of a name stays.\<close>

type_synonym nodeSet = "(string \<times> node) list"

definition nodeSet_add :: "node option \<Rightarrow> nodeSet \<Rightarrow> nodeSet" where
  "nodeSet_add n ns =
     (case n of None \<Rightarrow> ns
      | Some node \<Rightarrow> if map_of ns (nd_Name node) = None then AList.update (nd_Name node) node ns else ns)"

definition newNodeSet :: "node list \<Rightarrow> nodeSet" where
  "newNodeSet nodes = foldl (\<lambda>ns n. nodeSet_add (Some n) ns) [] nodes"

definition nodeSet_addNodeList :: "node list option \<Rightarrow> nodeSet \<Rightarrow> nodeSet" where
  "nodeSet_addNodeList nodes ns =
     (case nodes of None \<Rightarrow> ns | Some items \<Rightarrow> foldl (\<lambda>ns n. nodeSet_add (Some n) ns) ns items)"

definition nodeSet_toList :: "(node list \<Rightarrow> node list) \<Rightarrow> nodeSet \<Rightarrow> node list" where
  "nodeSet_toList ord ns = ord (map snd ns)"

type_synonym nodeFilter = "node list \<Rightarrow> node list"

definition nodeSet_filter :: "(node list \<Rightarrow> node list) \<Rightarrow> nodeFilter list \<Rightarrow> nodeSet \<Rightarrow> nodeSet" where
  "nodeSet_filter ord filters ns = newNodeSet (foldl (\<lambda>nodes f. f nodes) (nodeSet_toList ord ns) filters)"

section \<open>Node filters\<close>

definition tryFilterSelf :: "node \<Rightarrow> nodeFilter" where
  "tryFilterSelf self nodes =
     (let remainingNodes = filter (\<lambda>n. nd_Name n \<noteq> nd_Name self) nodes
      in if length remainingNodes > 0 then remainingNodes else nodes)"

definition filterDeletingNodes :: nodeFilter where
  "filterDeletingNodes nodes = filter (\<lambda>n. \<not> nd_Deleting n) nodes"

definition tryFilterUnschedulableNodes :: nodeFilter where
  "tryFilterUnschedulableNodes nodes =
     (let schedulableNodes = filter (\<lambda>n. \<not> nd_Unschedulable n) nodes
      in if length schedulableNodes > 0 then schedulableNodes else nodes)"

definition isControlPlaneNode :: "node \<Rightarrow> bool" where
  "isControlPlaneNode node = list_ex (\<lambda>label. nil_map (nd_Labels node) label \<noteq> None) controlPlaneLabels"

section \<open>Health checks and reassignment\<close>

definition health_url :: "string \<Rightarrow> int \<Rightarrow> string" where
  "health_url address port = ''https://'' @ address @ '':'' @ itoa port @ ''/healthz''"

definition healthURLFromControlPlaneEndpoint :: "'w controlPlaneEndpointManager \<Rightarrow> ip_address \<Rightarrow> string" where
  "healthURLFromControlPlaneEndpoint m controlPlaneEndpoint = health_url (ip_Address controlPlaneEndpoint) (apiServerPort m)"

definition getControlPlaneEndpointReservation ::
  "'w controlPlaneEndpointManager \<Rightarrow> 'w \<Rightarrow> (go_error + ip_address) \<times> 'w" where
  "getControlPlaneEndpointReservation m w =
     (case IPs_List (cherryClient m) (cp_projectID m) w of
        (Inl e, w1) \<Rightarrow> (Inl e, w1)
      | (Inr ipList, w1) \<Rightarrow>
          (case ipReservationByAllTags [(fipTagKey m, fipTagValue m)] ipList of
             None \<Rightarrow> (Inl (Errorf (''floating IP not found. Please verify you have one with the expected tag: ''
                        @ fipTagKey m @ ''='' @ fipTagValue m)), w1)
           | Some ip \<Rightarrow> (Inr ip, w1)))"

definition nodeIsAssigned :: "node \<Rightarrow> ip_address \<Rightarrow> bool" where
  "nodeIsAssigned node ipReservation = list_ex (\<lambda>na. na_Address na = ip_Address ipReservation) (nd_Addresses node)"

text \<open>
  The inner loop of \<open>reassign\<close>: \<open>None\<close> when it goes on with the next node, else what \<open>reassign\<close>
  returns (a nil error is \<open>Some None\<close>).
\<close>

fun reassign_addresses ::
  "'w controlPlaneEndpointManager \<Rightarrow> ip_address \<Rightarrow> string \<Rightarrow> node \<Rightarrow> node_address list \<Rightarrow> 'w
    \<Rightarrow> go_error option option \<times> 'w" where
  "reassign_addresses m ip fipURL node [] w = (None, w)"
| "reassign_addresses m ip fipURL node (a # as) w =
     (let healthCheckAddress = health_url (na_Address a) (nodeAPIServerPort m)
      in if na_Type a = ''Hostname'' then reassign_addresses m ip fipURL node as w
      else if healthCheckAddress = fipURL then reassign_addresses m ip fipURL node as w
      else if NewRequest (cpClient m) healthCheckAddress \<noteq> None then reassign_addresses m ip fipURL node as w
      else case HTTP_Get (cpClient m) healthCheckAddress w of
        (Inl _, w1) \<Rightarrow> reassign_addresses m ip fipURL node as w1
      | (Inr code, w1) \<Rightarrow>
          if code = 200 then
            (case serverIDFromProviderID (nd_ProviderID node) of
               Inl e \<Rightarrow> (Some (Some e), w1)
             | Inr serverID \<Rightarrow>
                 (case IPs_Update (cherryClient m) (ip_ID ip) (itoa serverID) w1 of
                    (Some e, w2) \<Rightarrow> (Some (Some e), w2)
                  | (None, w2) \<Rightarrow> (Some None, w2)))
          else reassign_addresses m ip fipURL node as w1)"

fun reassign_nodes ::
  "'w controlPlaneEndpointManager \<Rightarrow> ip_address \<Rightarrow> string \<Rightarrow> node list \<Rightarrow> 'w \<Rightarrow> go_error option \<times> 'w" where
  "reassign_nodes m ip fipURL [] w =
     (Some (Errorf ''ccm didn't find a good candidate for IP allocation. Cluster is unhealthy''), w)"
| "reassign_nodes m ip fipURL (node # nodes) w =
     (case reassign_addresses m ip fipURL node (nd_Addresses node) w of
        (Some r, w1) \<Rightarrow> (r, w1)
      | (None, w1) \<Rightarrow> reassign_nodes m ip fipURL nodes w1)"

definition reassign ::
  "'w controlPlaneEndpointManager \<Rightarrow> node list \<Rightarrow> ip_address \<Rightarrow> string \<Rightarrow> 'w \<Rightarrow> go_error option \<times> 'w" where
  "reassign m nodes ip fipURL w =
     (if nodeAPIServerPort m = 0
      then (Some (Errorf (''control plane node apiserver port not yet determined, cannot reassign, '' @
              ''will try again on next loop'')), w)
      else reassign_nodes m ip fipURL nodes w)"

text \<open>The loop of \<open>tryReassign\<close> that lists the control plane nodes, selector by selector.\<close>

fun list_control_plane ::
  "'w controlPlaneEndpointManager \<Rightarrow> string list \<Rightarrow> nodeSet \<Rightarrow> 'w \<Rightarrow> (go_error + nodeSet) \<times> 'w" where
  "list_control_plane m [] ns w = (Inr ns, w)"
| "list_control_plane m (s # ss) ns w =
     (case Nodes_List (cpClient m) s w of
        (Inl e, w1) \<Rightarrow> (Inl (Wrapf (''failed to list control plane nodes with labelselector '' @ s @ '': '') e), w1)
      | (Inr nodes, w1) \<Rightarrow> list_control_plane m ss (nodeSet_addNodeList (Some nodes) ns) w1)"

definition tryReassign ::
  "(node list \<Rightarrow> node list) \<Rightarrow> (node list \<Rightarrow> node list) \<Rightarrow> 'w controlPlaneEndpointManager \<Rightarrow> ip_address
    \<Rightarrow> nodeFilter list \<Rightarrow> 'w \<Rightarrow> go_error option \<times> 'w" where
  "tryReassign ord1 ord2 m controlPlaneEndpoint filters w =
     (let controlPlaneHealthURL = healthURLFromControlPlaneEndpoint m controlPlaneEndpoint
      in case list_control_plane m (controlPlaneSelectors m) (newNodeSet []) w of
           (Inl e, w1) \<Rightarrow> (Some e, w1)
         | (Inr ns, w1) \<Rightarrow>
             let potentialNodes = nodeSet_toList ord2 (nodeSet_filter ord1 filters ns)
             in case reassign m potentialNodes controlPlaneEndpoint controlPlaneHealthURL w1 of
                  (Some e, w2) \<Rightarrow> (Some (Wrapf ''failed to assign the control plane endpoint: '' e), w2)
                | (None, w2) \<Rightarrow> (None, w2))"

definition tryReassignAwayFromSelf ::
  "(node list \<Rightarrow> node list) \<Rightarrow> (node list \<Rightarrow> node list) \<Rightarrow> 'w controlPlaneEndpointManager \<Rightarrow> node \<Rightarrow> 'w
    \<Rightarrow> go_error option \<times> 'w" where
  "tryReassignAwayFromSelf ord1 ord2 m self w =
     (case getControlPlaneEndpointReservation m w of
        (Inl e, w1) \<Rightarrow> (Some (Wrapf ''failed to get the control plane endpoint for the cluster: '' e), w1)
      | (Inr controlPlaneEndpoint, w1) \<Rightarrow>
          if nodeIsAssigned self controlPlaneEndpoint \<or> ip_TargetedTo controlPlaneEndpoint = 0 then
            tryReassign ord1 ord2 m controlPlaneEndpoint
              [filterDeletingNodes, tryFilterUnschedulableNodes, tryFilterSelf self] w1
          else (None, w1))"

text \<open>The loop over the addresses with \<open>useHostIP\<close>: the last external address that is not the floating IP.\<close>

definition host_health_url :: "'w controlPlaneEndpointManager \<Rightarrow> ip_address \<Rightarrow> node \<Rightarrow> string" where
  "host_health_url m controlPlaneEndpoint node =
     foldl (\<lambda>url a. if na_Type a = ''ExternalIP'' \<and> na_Address a \<noteq> ip_Address controlPlaneEndpoint
                    then health_url (na_Address a) (nodeAPIServerPort m) else url)
       (healthURLFromControlPlaneEndpoint m controlPlaneEndpoint) (nd_Addresses node)"

definition doHealthCheck ::
  "(node list \<Rightarrow> node list) \<Rightarrow> (node list \<Rightarrow> node list) \<Rightarrow> 'w controlPlaneEndpointManager \<Rightarrow> node \<Rightarrow> 'w
    \<Rightarrow> go_error option \<times> 'w" where
  "doHealthCheck ord1 ord2 m node w =
     (case getControlPlaneEndpointReservation m w of
        (Inl e, w1) \<Rightarrow> (Some (Wrapf ''failed to get the control plane endpoint for the cluster: '' e), w1)
      | (Inr controlPlaneEndpoint, w1) \<Rightarrow>
          if ip_TargetedTo controlPlaneEndpoint = 0 then
            tryReassign ord1 ord2 m controlPlaneEndpoint [filterDeletingNodes, tryFilterUnschedulableNodes] w1
          else if nodeIsAssigned node controlPlaneEndpoint then
            let url = (if useHostIP m then host_health_url m controlPlaneEndpoint node
                       else healthURLFromControlPlaneEndpoint m controlPlaneEndpoint)
            in case NewRequest (cpClient m) url of
                 Some e \<Rightarrow> (Some (Wrapf (''error constructing GET request for '' @ url @ '': '') e), w1)
               | None \<Rightarrow>
                   (case HTTP_Get (cpClient m) url w1 of
                      (Inr code, w2) \<Rightarrow>
                        if code \<noteq> 200
                        then tryReassign ord1 ord2 m controlPlaneEndpoint [filterDeletingNodes, tryFilterUnschedulableNodes] w2
                        else (None, w2)
                    | (Inl _, w2) \<Rightarrow>
                        tryReassign ord1 ord2 m controlPlaneEndpoint [filterDeletingNodes, tryFilterUnschedulableNodes] w2)
          else (None, w1))"

section \<open>Syncing the external service and its endpoints\<close>

definition syncEndpoints :: "'w controlPlaneEndpointManager \<Rightarrow> Endpoints \<Rightarrow> 'w \<Rightarrow> go_error option \<times> 'w" where
  "syncEndpoints m k8sEndpoints w =
     (let subsets = foldl (\<lambda>c sub. c @ [EndpointSubsetApplyConfig sub]) [] (eps_Subsets k8sEndpoints)
      in case Endpoints_Apply (cpClient m) externalServiceNamespace externalServiceName subsets w of
           (Some e, w1) \<Rightarrow>
             (Some (Wrapf (''failed to apply endpoint '' @ externalServiceNamespace @ ''/'' @ externalServiceName @ '': '') e), w1)
         | (None, w1) \<Rightarrow> (None, w1))"

text \<open>
  \<open>syncService\<close> keeps the ports before it looks for the floating IP: they stay when a later
  call fails. Taking the first port of a service that has none would panic.
\<close>

definition syncService ::
  "'w controlPlaneEndpointManager \<Rightarrow> service \<Rightarrow> 'w \<Rightarrow> unit outcome \<times> 'w controlPlaneEndpointManager \<times> 'w" where
  "syncService m k8sService w =
     (let existingPorts = svc_TargetPorts k8sService
      in if length existingPorts < 1
         then (Err (Errorf ''default/kubernetes service does not have any ports defined''), m, w)
      else case slice_index existingPorts 0 of
        None \<Rightarrow> (Panic, m, w)
      | Some port \<Rightarrow>
          let m1 = m\<lparr>nodeAPIServerPort := port\<rparr>;
              m2 = (if apiServerPort m1 = 0 then m1\<lparr>apiServerPort := nodeAPIServerPort m1\<rparr> else m1)
          in case getControlPlaneEndpointReservation m2 w of
               (Inl e, w1) \<Rightarrow> (Err (Wrapf ''failed to get the control plane endpoint for the cluster: '' e), m2, w1)
             | (Inr controlPlaneEndpoint, w1) \<Rightarrow>
                 let fip = ip_Address controlPlaneEndpoint;
                     applyConfig = \<lparr>sa_Name = externalServiceName, sa_Namespace = externalServiceNamespace,
                       sa_Annotations = [(metallbAnnotation, metallbDisabledtag)], sa_Type = ''LoadBalancer'',
                       sa_LoadBalancerIP = fip, sa_PortName = ''https'', sa_Port = apiServerPort m2,
                       sa_Protocol = ''TCP'', sa_TargetPort = nodeAPIServerPort m2\<rparr>
                 in case Services_Apply (cpClient m) applyConfig w1 of
                      (Some e, w2) \<Rightarrow>
                        (Err (Wrapf (''failed to apply service '' @ externalServiceNamespace @ ''/'' @ externalServiceName @ '': '') e), m2, w2)
                    | (None, w2) \<Rightarrow>
                        (case Services_ApplyStatus (cpClient m) \<lparr>st_Name = externalServiceName,
                              st_Namespace = externalServiceNamespace, st_IngressIP = fip, st_IPMode = ''Proxy''\<rparr> w2 of
                           (Some e, w3) \<Rightarrow>
                             (Err (Wrapf (''failed to apply service status '' @ externalServiceNamespace @ ''/'' @ externalServiceName @ '': '') e), m2, w3)
                         | (None, w3) \<Rightarrow> (Ok (), m2, w3)))"

section \<open>Construction\<close>

text \<open>
  \<open>url_parts\<close> is what \<open>url.Parse\<close> gives of a host (its scheme and host name), \<open>SplitHostPort\<close>
  the host part that \<open>net.SplitHostPort\<close> returns; \<open>None\<close> is an error of either.
\<close>

definition serverNameFromConfig :: "(string \<Rightarrow> (string \<times> string) option) \<Rightarrow> (string \<Rightarrow> string option) \<Rightarrow> string \<Rightarrow> string" where
  "serverNameFromConfig url_parts SplitHostPort cfg_Host =
     (let host = (case url_parts cfg_Host of
                    Some (scheme, hostname) \<Rightarrow> if scheme = ''http'' \<or> scheme = ''https'' then hostname else cfg_Host
                  | None \<Rightarrow> cfg_Host)
      in case SplitHostPort host of Some h \<Rightarrow> h | None \<Rightarrow> host)"

text \<open>
  \<open>client\<close> is what building the HTTP client for a server name gives. The informers that the
  function starts are the events below; the requirements for the two constant labels are valid.
\<close>

definition newControlPlaneEndpointManager ::
  "(string \<Rightarrow> go_error + 'w cp_client) \<Rightarrow> (string \<Rightarrow> (string \<times> string) option) \<Rightarrow> (string \<Rightarrow> string option) \<Rightarrow> string
    \<Rightarrow> string \<Rightarrow> int \<Rightarrow> 'w cherry_client \<Rightarrow> int \<Rightarrow> bool \<Rightarrow> go_error + 'w controlPlaneEndpointManager option" where
  "newControlPlaneEndpointManager client url_parts SplitHostPort cfg_Host fipTag projectID cherry port hostIP =
     (if fipTag = '''' then Inr None
      else case client (serverNameFromConfig url_parts SplitHostPort cfg_Host) of
        Inl e \<Rightarrow> Inl (Wrapf ''failed to build http client from rest config: '' e)
      | Inr c \<Rightarrow>
          let parts = split_n2 ''='' fipTag;
              key = (if length parts \<ge> 1 then parts ! 0 else '''');
              val = (if length parts \<ge> 2 then parts ! 1 else '''')
          in Inr (Some \<lparr>apiServerPort = port, nodeAPIServerPort = 0, fipTagKey = key, fipTagValue = val,
               cherryClient = cherry, cp_projectID = projectID, cpClient = c,
               controlPlaneSelectors = controlPlaneLabels, useHostIP = hostIP\<rparr>))"

section \<open>Event handlers\<close>

text \<open>
  An informer hands its filters and handlers an untyped object. A type assertion that fails gives a
  nil pointer: for a delete that the informer has missed the object is a tombstone and not a node,
  \<open>None\<close> here. Using the nil pointer panics. A handler logs its error and returns nothing.
\<close>

definition node_FilterFunc :: "'w controlPlaneEndpointManager \<Rightarrow> node option \<Rightarrow> bool outcome" where
  "node_FilterFunc m obj =
     (case obj of
        None \<Rightarrow> Panic
      | Some n \<Rightarrow>
          if apiServerPort m = 0 \<or> nodeAPIServerPort m = 0 then Ok False
          else Ok (isControlPlaneNode n))"

definition node_UpdateFunc ::
  "(node list \<Rightarrow> node list) \<Rightarrow> (node list \<Rightarrow> node list) \<Rightarrow> 'w controlPlaneEndpointManager \<Rightarrow> node option \<Rightarrow> node option
    \<Rightarrow> 'w \<Rightarrow> unit outcome \<times> 'w" where
  "node_UpdateFunc ord1 ord2 m oldN newN w =
     (case newN of
        None \<Rightarrow> (Panic, w)
      | Some newNode \<Rightarrow>
          (case oldN of
             None \<Rightarrow> (Panic, w)
           | Some oldNode \<Rightarrow>
               if nd_Unschedulable oldNode \<noteq> nd_Unschedulable newNode \<and> nd_Unschedulable newNode
               then (Ok (), snd (tryReassignAwayFromSelf ord1 ord2 m newNode w))
               else (Ok (), snd (doHealthCheck ord1 ord2 m newNode w))))"

definition node_DeleteFunc ::
  "(node list \<Rightarrow> node list) \<Rightarrow> (node list \<Rightarrow> node list) \<Rightarrow> 'w controlPlaneEndpointManager \<Rightarrow> node option \<Rightarrow> 'w
    \<Rightarrow> unit outcome \<times> 'w" where
  "node_DeleteFunc ord1 ord2 m obj w =
     (case obj of None \<Rightarrow> (Panic, w) | Some n \<Rightarrow> (Ok (), snd (tryReassignAwayFromSelf ord1 ord2 m n w)))"

text \<open>The filter and the handler of the endpoints, and of the services, compare the same two names.\<close>

definition endpoints_FilterFunc :: "Endpoints option \<Rightarrow> bool outcome" where
  "endpoints_FilterFunc obj =
     (case obj of
        None \<Rightarrow> Panic
      | Some e \<Rightarrow> Ok (\<not> (eps_Namespace e \<noteq> ''default'' \<and> eps_Name e \<noteq> ''kubernetes'')))"

definition endpoints_Func :: "'w controlPlaneEndpointManager \<Rightarrow> Endpoints option \<Rightarrow> 'w \<Rightarrow> unit outcome \<times> 'w" where
  "endpoints_Func m obj w =
     (case obj of
        None \<Rightarrow> (Panic, w)
      | Some e \<Rightarrow>
          if eps_Namespace e \<noteq> ''default'' \<or> eps_Name e \<noteq> ''kubernetes'' then (Ok (), w)
          else (Ok (), snd (syncEndpoints m e w)))"

definition service_FilterFunc :: "service option \<Rightarrow> bool outcome" where
  "service_FilterFunc obj =
     (case obj of
        None \<Rightarrow> Panic
      | Some s \<Rightarrow> Ok (\<not> (svc_Namespace s \<noteq> ''default'' \<and> svc_Name s \<noteq> ''kubernetes'')))"

definition service_Func ::
  "'w controlPlaneEndpointManager \<Rightarrow> service option \<Rightarrow> 'w \<Rightarrow> 'w controlPlaneEndpointManager outcome \<times> 'w" where
  "service_Func m obj w =
     (case obj of
        None \<Rightarrow> (Panic, w)
      | Some s \<Rightarrow>
          if svc_Namespace s \<noteq> ''default'' \<or> svc_Name s \<noteq> ''kubernetes'' then (Ok m, w)
          else (case syncService m s w of
              (Panic, m', w') \<Rightarrow> (Panic, w')
            | (_, m', w') \<Rightarrow> (Ok m', w')))"

text \<open>
  The events an informer sends and what \<open>FilteringResourceEventHandler\<close> does with them: an update
  from a filtered object to one that is not counts as a delete of the old one, and the other
  way round as an add. The nodes have no handler for adds, the others none for deletes; their
  filters run all the same.
\<close>

datatype cp_event =
    NodeAdd node
  | NodeUpdate node node
  | NodeDelete "node option"
  | EndpointsAdd Endpoints
  | EndpointsUpdate Endpoints Endpoints
  | EndpointsDelete "Endpoints option"
  | ServiceAdd service
  | ServiceUpdate service service
  | ServiceDelete "service option"

text \<open>What becomes of the manager, which none of these handlers changes.\<close>

definition keep_manager :: "'m \<Rightarrow> unit outcome \<times> 'w \<Rightarrow> 'm outcome \<times> 'w" where
  "keep_manager m r = (case r of (Panic, w) \<Rightarrow> (Panic, w) | (_, w) \<Rightarrow> (Ok m, w))"

fun handle_event ::
  "(node list \<Rightarrow> node list) \<Rightarrow> (node list \<Rightarrow> node list) \<Rightarrow> cp_event \<Rightarrow> 'w controlPlaneEndpointManager \<Rightarrow> 'w
    \<Rightarrow> 'w controlPlaneEndpointManager outcome \<times> 'w" where
  "handle_event ord1 ord2 (NodeAdd n) m w =
     (case node_FilterFunc m (Some n) of Panic \<Rightarrow> (Panic, w) | _ \<Rightarrow> (Ok m, w))"
| "handle_event ord1 ord2 (NodeUpdate oldN newN) m w =
     (case (node_FilterFunc m (Some newN), node_FilterFunc m (Some oldN)) of
        (Ok True, Ok True) \<Rightarrow> keep_manager m (node_UpdateFunc ord1 ord2 m (Some oldN) (Some newN) w)
      | (Ok False, Ok True) \<Rightarrow> keep_manager m (node_DeleteFunc ord1 ord2 m (Some oldN) w)
      | (Ok _, Ok _) \<Rightarrow> (Ok m, w)
      | _ \<Rightarrow> (Panic, w))"
| "handle_event ord1 ord2 (NodeDelete obj) m w =
     (case node_FilterFunc m obj of
        Ok True \<Rightarrow> keep_manager m (node_DeleteFunc ord1 ord2 m obj w)
      | Ok False \<Rightarrow> (Ok m, w)
      | _ \<Rightarrow> (Panic, w))"
| "handle_event ord1 ord2 (EndpointsAdd e) m w =
     (case endpoints_FilterFunc (Some e) of
        Ok True \<Rightarrow> keep_manager m (endpoints_Func m (Some e) w)
      | Ok False \<Rightarrow> (Ok m, w)
      | _ \<Rightarrow> (Panic, w))"
| "handle_event ord1 ord2 (EndpointsUpdate e0 e) m w =
     (case (endpoints_FilterFunc (Some e), endpoints_FilterFunc (Some e0)) of
        (Ok True, Ok _) \<Rightarrow> keep_manager m (endpoints_Func m (Some e) w)
      | (Ok False, Ok _) \<Rightarrow> (Ok m, w)
      | _ \<Rightarrow> (Panic, w))"
| "handle_event ord1 ord2 (EndpointsDelete obj) m w =
     (case endpoints_FilterFunc obj of Panic \<Rightarrow> (Panic, w) | _ \<Rightarrow> (Ok m, w))"
| "handle_event ord1 ord2 (ServiceAdd s) m w =
     (case service_FilterFunc (Some s) of
        Ok True \<Rightarrow> service_Func m (Some s) w
      | Ok False \<Rightarrow> (Ok m, w)
      | _ \<Rightarrow> (Panic, w))"
| "handle_event ord1 ord2 (ServiceUpdate s0 s) m w =
     (case (service_FilterFunc (Some s), service_FilterFunc (Some s0)) of
        (Ok True, Ok _) \<Rightarrow> service_Func m (Some s) w
      | (Ok False, Ok _) \<Rightarrow> (Ok m, w)
      | _ \<Rightarrow> (Panic, w))"
| "handle_event ord1 ord2 (ServiceDelete obj) m w =
     (case service_FilterFunc obj of Panic \<Rightarrow> (Panic, w) | _ \<Rightarrow> (Ok m, w))"

text \<open>The states the manager can get into, by any events in any order.\<close>

inductive cp_reachable ::
  "'w controlPlaneEndpointManager \<Rightarrow> 'w \<Rightarrow> 'w controlPlaneEndpointManager \<Rightarrow> 'w \<Rightarrow> bool" for m0 w0 where
  start: "cp_reachable m0 w0 m0 w0"
| event: "cp_reachable m0 w0 m w \<Longrightarrow> handle_event ord1 ord2 ev m w = (Ok m', w') \<Longrightarrow> cp_reachable m0 w0 m' w'"
| other: "cp_reachable m0 w0 m w \<Longrightarrow> cp_reachable m0 w0 m w'"

end
