(* ===== verification/Control_Plane_Laws.thy ===== *)
theory Control_Plane_Laws
  imports Control_Plane Samples
begin

text \<open>
  Properties of the control plane manager of \<^verbatim>\<open>cherry/fip_controlplane_reconciliation.go\<close>: which
  nodes are candidates for the floating IP, that it only moves to a node whose API server
  answered and does so when there is one, when it is left alone, and what the events do to the
  ports. The contract of the
  node filters is the locale \<open>node_filter\<close>, and \<open>try_filter\<close> for those that never leave nothing.
\<close>

section \<open>A cluster to run the manager on\<close>

text \<open>The world is the ID of the server that the floating IP 1.1.1.1 points to.\<close>

definition cp_node :: "string \<Rightarrow> string \<Rightarrow> string list \<Rightarrow> node" where
  "cp_node name pid addresses = (sample_node name pid)
     \<lparr>nd_Labels := Some [''node-role.kubernetes.io/control-plane'' \<mapsto> ''''],
      nd_Addresses := map (\<lambda>a. \<lparr>na_Type = ''InternalIP'', na_Address = a\<rparr>) addresses\<rparr>"

definition cp_node1 :: node where "cp_node1 = cp_node ''n1'' ''cherryservers://1'' [''10.0.0.1'', ''1.1.1.1'']"
definition cp_node2 :: node where "cp_node2 = cp_node ''n2'' ''cherryservers://2'' [''10.0.0.2'']"

definition cp_fip :: "int \<Rightarrow> ip_address" where
  "cp_fip i = \<lparr>ip_ID = ''fip'', ip_Address = ''1.1.1.1'', ip_Cidr = ''1.1.1.1/32'', ip_Type = ''floating-ip'',
     ip_Tags = Some [''use'' \<mapsto> ''cp''], ip_TargetedTo = i\<rparr>"

definition cp_api :: "int cherry_client" where
  "cp_api = \<lparr>Projects_Get = (\<lambda>_ w. (Inl (External ''none''), w)),
     Projects_Update = (\<lambda>_ _ _ w. (Inl (External ''none''), w)),
     Servers_Get = (\<lambda>i w. ((sample_server i, Some 200, None), w)),
     Servers_List = (\<lambda>_ w. (Inr [], w)),
     Servers_Update = (\<lambda>_ _ _ w. (Inl (External ''none''), w)),
     IPs_List = (\<lambda>_ w. (Inr [cp_fip w], w)), IPs_Create = (\<lambda>_ _ _ w. (Inl (External ''none''), w)),
     IPs_Remove = (\<lambda>_ w. (None, w)),
     IPs_Update = (\<lambda>_ t w. case Atoi t of Inr i \<Rightarrow> (None, i) | Inl _ \<Rightarrow> (Some (External ''target''), w))\<rparr>"

text \<open>Only the second node answers.\<close>

definition cp_cluster :: "int cp_client" where
  "cp_cluster = \<lparr>Nodes_List = (\<lambda>s w. (Inr (if s = ''node-role.kubernetes.io/master'' then [] else [cp_node1, cp_node2]), w)),
     Endpoints_Apply = (\<lambda>_ _ _ w. (None, w)), Services_Apply = (\<lambda>_ w. (None, w)), Services_ApplyStatus = (\<lambda>_ w. (None, w)),
     NewRequest = (\<lambda>_. None),
     HTTP_Get = (\<lambda>u w. (if u = health_url ''10.0.0.2'' 6443 then Inr 200 else Inl (External ''refused''), w))\<rparr>"

definition cp_manager :: "int controlPlaneEndpointManager" where
  "cp_manager = \<lparr>apiServerPort = 6443, nodeAPIServerPort = 6443, fipTagKey = ''use'', fipTagValue = ''cp'',
     cherryClient = cp_api, cp_projectID = 7, cpClient = cp_cluster, controlPlaneSelectors = controlPlaneLabels,
     useHostIP = False\<rparr>"

lemma health_url_eq [simp]: "health_url a p = health_url b p \<longleftrightarrow> a = b"
  by (simp add: health_url_def)

lemma cp_node_ids:
  "serverIDFromProviderID ''cherryservers://1'' = Inr 1" "serverIDFromProviderID ''cherryservers://2'' = Inr 2"
proof -
  have "Atoi (itoa 1) = Inr 1" "Atoi (itoa 2) = Inr 2" by (rule Atoi_itoa, simp)+
  moreover have "itoa 1 = ''1''" "itoa 2 = ''2''" by code_simp+
  ultimately have "Atoi ''1'' = Inr 1" "Atoi ''2'' = Inr 2" by simp_all
  from this [THEN serverIDFromProviderID_accepts(2)] show "serverIDFromProviderID ''cherryservers://1'' = Inr 1"
    "serverIDFromProviderID ''cherryservers://2'' = Inr 2" by (simp_all add: ProviderName_def)
qed

lemmas cp_samples = cp_node_def cp_node1_def cp_node2_def cp_fip_def cp_api_def cp_cluster_def cp_manager_def sample_node_def

section \<open>Sets of nodes\<close>

text \<open>A set of nodes is well formed when every node stands under its name, once.\<close>

definition nodeSet_ok :: "nodeSet \<Rightarrow> bool" where
  "nodeSet_ok ns \<longleftrightarrow> distinct (map fst ns) \<and> (\<forall>(k, n) \<in> set ns. nd_Name n = k)"

lemma nodeSet_ok_Nil [simp]: "nodeSet_ok []"
  by (simp add: nodeSet_ok_def)

lemma nodeSet_add_eq:
  "nodeSet_add (Some n) ns = (if nd_Name n \<in> fst ` set ns then ns else ns @ [(nd_Name n, n)])"
proof -
  have "AList.update k v ns = ns @ [(k, v)]" if "k \<notin> fst ` set ns" for k and v :: node
    using that by (induction ns) auto
  then show ?thesis by (simp add: nodeSet_add_def map_of_eq_None_iff)
qed

lemma nodeSet_add_ok [simp]: "nodeSet_ok ns \<Longrightarrow> nodeSet_ok (nodeSet_add (Some n) ns)"
  by (auto simp: nodeSet_add_eq nodeSet_ok_def)

lemma nodeSet_adds_ok: "nodeSet_ok ns \<Longrightarrow> nodeSet_ok (foldl (\<lambda>ns n. nodeSet_add (Some n) ns) ns nodes)"
  by (induction nodes arbitrary: ns) auto

lemma nodeSet_adds_subset:
  "snd ` set (foldl (\<lambda>ns n. nodeSet_add (Some n) ns) ns nodes) \<subseteq> snd ` set ns \<union> set nodes"
proof (induction nodes arbitrary: ns)
  case (Cons n nodes)
  have "snd ` set (nodeSet_add (Some n) ns) \<subseteq> snd ` set ns \<union> {n}" by (auto simp: nodeSet_add_eq)
  with Cons.IH [of "nodeSet_add (Some n) ns"] show ?case by auto
qed simp

lemma nodeSet_adds_names:
  "fst ` set (foldl (\<lambda>ns n. nodeSet_add (Some n) ns) ns nodes) = fst ` set ns \<union> nd_Name ` set nodes"
  by (induction nodes arbitrary: ns) (auto simp: nodeSet_add_eq)

lemma nodeSet_names: "nodeSet_ok ns \<Longrightarrow> map nd_Name (map snd ns) = map fst ns"
  by (auto simp: nodeSet_ok_def)

text \<open>Listing a well-formed set and making a set of it again gives the same nodes.\<close>

lemma newNodeSet_distinct:
  assumes "distinct (map nd_Name nodes)"
  shows "map snd (newNodeSet nodes) = nodes"
proof -
  have "foldl (\<lambda>ns n. nodeSet_add (Some n) ns) ns nodes = ns @ map (\<lambda>n. (nd_Name n, n)) nodes"
    if "distinct (map nd_Name nodes)" "nd_Name ` set nodes \<inter> fst ` set ns = {}" for ns
    using that
  proof (induction nodes arbitrary: ns)
    case (Cons n nodes)
    then have "nodeSet_add (Some n) ns = ns @ [(nd_Name n, n)]" by (auto simp: nodeSet_add_eq)
    moreover have "nd_Name ` set nodes \<inter> fst ` set (ns @ [(nd_Name n, n)]) = {}" using Cons.prems by auto
    ultimately show ?case using Cons.IH [of "ns @ [(nd_Name n, n)]"] Cons.prems(1) by simp
  qed simp
  from this [of "[]"] assms show ?thesis by (simp add: newNodeSet_def comp_def)
qed

section \<open>The contract of a node filter\<close>

lemma subseq_distinct: "subseq ys xs \<Longrightarrow> distinct xs \<Longrightarrow> distinct ys"
  by (metis subseq_conv_nths distinct_nthsI)

locale node_filter =
  fixes f :: nodeFilter
  assumes sublist: "subseq (f nodes) nodes"
begin

lemma subset: "set (f nodes) \<subseteq> set nodes"
  using sublist [of nodes] set_nths_subset by (metis subseq_conv_nths)

lemma keeps_distinct: "distinct (map nd_Name nodes) \<Longrightarrow> distinct (map nd_Name (f nodes))"
  using sublist [of nodes] by (metis subseq_map subseq_distinct)

end

locale try_filter = node_filter +
  fixes good :: "node \<Rightarrow> bool"
  assumes good_if_any: "\<exists>n \<in> set nodes. good n \<Longrightarrow> set (f nodes) = {n \<in> set nodes. good n}"
    and all_if_none: "\<not> (\<exists>n \<in> set nodes. good n) \<Longrightarrow> f nodes = nodes"
begin

lemma nonempty: "nodes \<noteq> [] \<Longrightarrow> f nodes \<noteq> []"
  using good_if_any [of nodes] all_if_none [of nodes]
  by (cases "\<exists>n \<in> set nodes. good n") (auto simp: set_empty [symmetric] simp del: set_empty)

end

interpretation deleting: node_filter filterDeletingNodes
  by unfold_locales (simp add: filterDeletingNodes_def)

interpretation unschedulable: try_filter tryFilterUnschedulableNodes "\<lambda>n. \<not> nd_Unschedulable n"
  by unfold_locales (auto simp: tryFilterUnschedulableNodes_def Let_def filter_empty_conv)

interpretation self: try_filter "tryFilterSelf s" "\<lambda>n. nd_Name n \<noteq> nd_Name s" for s
  by unfold_locales (auto simp: tryFilterSelf_def Let_def filter_empty_conv)

lemma subseq_filters:
  assumes "\<forall>f \<in> set fs. node_filter f"
  shows "subseq (foldl (\<lambda>nodes f. f nodes) nodes fs) nodes"
  using assms
proof (induction fs arbitrary: nodes)
  case (Cons f fs)
  have "subseq (foldl (\<lambda>nodes f. f nodes) (f nodes) fs) (f nodes)" using Cons by simp
  moreover have "subseq (f nodes) nodes" using Cons.prems by (simp add: node_filter.sublist)
  ultimately show ?case by (simp add: subseq_order.trans)
qed simp

text \<open>The candidates, up to order, are what the filters leave of the listed nodes.\<close>

lemma candidates:
  assumes ns: "nodeSet_ok ns" and o: "iteration_order ord1" "iteration_order ord2" and fs: "\<forall>f \<in> set fs. node_filter f"
  shows "mset (nodeSet_toList ord2 (nodeSet_filter ord1 fs ns)) = mset (foldl (\<lambda>nodes f. f nodes) (ord1 (map snd ns)) fs)"
    and "distinct (map nd_Name (nodeSet_toList ord2 (nodeSet_filter ord1 fs ns)))"
proof -
  let ?l = "foldl (\<lambda>nodes f. f nodes) (ord1 (map snd ns)) fs"
  have "mset (map nd_Name (ord1 (map snd ns))) = mset (map nd_Name (map snd ns))"
    using o(1) unfolding mset_map by (simp add: iteration_order_def)
  moreover have "distinct (map nd_Name (map snd ns))"
    unfolding nodeSet_names [OF ns] using ns by (simp add: nodeSet_ok_def)
  ultimately have d: "distinct (map nd_Name (ord1 (map snd ns)))" by (metis mset_eq_imp_distinct_iff)
  have "distinct (map nd_Name ?l)"
    using subseq_map [OF subseq_filters [OF fs]] d by (metis subseq_distinct)
  then have l: "map snd (newNodeSet ?l) = ?l" by (rule newNodeSet_distinct)
  show m: "mset (nodeSet_toList ord2 (nodeSet_filter ord1 fs ns)) = mset ?l"
    using o(2) by (simp add: nodeSet_toList_def nodeSet_filter_def l iteration_order_def)
  then have "mset (map nd_Name (nodeSet_toList ord2 (nodeSet_filter ord1 fs ns))) = mset (map nd_Name ?l)"
    unfolding mset_map by simp
  then show "distinct (map nd_Name (nodeSet_toList ord2 (nodeSet_filter ord1 fs ns)))"
    using \<open>distinct (map nd_Name ?l)\<close> by (metis mset_eq_imp_distinct_iff)
qed

section \<open>What reassigning does\<close>

text \<open>
  \<open>f\<close> observes the world, say which server the floating IP points to: it does not change with
  calls that only read.
\<close>

definition unaffected_by_reads :: "('w \<Rightarrow> 'x) \<Rightarrow> 'w controlPlaneEndpointManager \<Rightarrow> bool" where
  "unaffected_by_reads f m \<longleftrightarrow>
     (\<forall>p w. f (snd (IPs_List (cherryClient m) p w)) = f w) \<and>
     (\<forall>s w. f (snd (Nodes_List (cpClient m) s w)) = f w) \<and>
     (\<forall>u w. f (snd (HTTP_Get (cpClient m) u w)) = f w)"

lemma unaffectedD:
  assumes "unaffected_by_reads f m"
  shows "IPs_List (cherryClient m) p w = (r1, w') \<Longrightarrow> f w' = f w"
    and "Nodes_List (cpClient m) s w = (r2, w') \<Longrightarrow> f w' = f w"
    and "HTTP_Get (cpClient m) u w = (r3, w') \<Longrightarrow> f w' = f w"
  using assms unfolding unaffected_by_reads_def by (metis snd_conv)+

text \<open>The API server of a node answered: some address of it, no host name and not the floating IP.\<close>

definition answered :: "'w controlPlaneEndpointManager \<Rightarrow> string \<Rightarrow> node_address list \<Rightarrow> 'w \<Rightarrow> 'w \<Rightarrow> bool" where
  "answered m fipURL as w1 w2 \<longleftrightarrow>
     (\<exists>a \<in> set as. na_Type a \<noteq> ''Hostname'' \<and> health_url (na_Address a) (nodeAPIServerPort m) \<noteq> fipURL
        \<and> HTTP_Get (cpClient m) (health_url (na_Address a) (nodeAPIServerPort m)) w1 = (Inr 200, w2))"

text \<open>What the code does once a node has answered.\<close>

definition retarget ::
  "'w controlPlaneEndpointManager \<Rightarrow> ip_address \<Rightarrow> node \<Rightarrow> 'w \<Rightarrow> go_error option \<times> 'w" where
  "retarget m ip node w =
     (case serverIDFromProviderID (nd_ProviderID node) of
        Inl e \<Rightarrow> (Some e, w)
      | Inr serverID \<Rightarrow> IPs_Update (cherryClient m) (ip_ID ip) (itoa serverID) w)"

lemma answered_mono: "answered m u as w1 w2 \<Longrightarrow> set as \<subseteq> set bs \<Longrightarrow> answered m u bs w1 w2"
  unfolding answered_def by blast

lemma reassign_addresses_outcome:
  assumes f: "unaffected_by_reads f m"
  shows "reassign_addresses m ip u node as w = (r, w') \<Longrightarrow>
    (case r of None \<Rightarrow> f w' = f w
     | Some e \<Rightarrow> \<exists>w1 w2. f w2 = f w \<and> answered m u as w1 w2 \<and> retarget m ip node w2 = (e, w'))"
proof (induction as arbitrary: w)
  case (Cons a as)
  let ?u = "health_url (na_Address a) (nodeAPIServerPort m)"
  have go_on: ?case if r: "reassign_addresses m ip u node as v = (r, w')" and v: "f v = f w" for v
  proof (cases r)
    case None
    with Cons.IH [OF r] v show ?thesis by simp
  next
    case (Some e)
    with Cons.IH [OF r] v obtain w1 w2 where "f w2 = f w" "answered m u as w1 w2" "retarget m ip node w2 = (e, w')"
      by auto
    moreover from this have "answered m u (a # as) w1 w2" by (auto intro: answered_mono)
    ultimately show ?thesis using Some by auto
  qed
  show ?case
  proof (cases "na_Type a = ''Hostname'' \<or> ?u = u \<or> NewRequest (cpClient m) ?u \<noteq> None")
    case True
    with Cons.prems have "reassign_addresses m ip u node as w = (r, w')" by (auto simp: Let_def split: if_splits)
    then show ?thesis by (rule go_on) simp
  next
    case False
    obtain h v where h: "HTTP_Get (cpClient m) ?u w = (h, v)" by fastforce
    have v: "f v = f w" by (rule unaffectedD(3) [OF f h])
    show ?thesis
    proof (cases "h = Inr 200")
      case True
      then have "answered m u (a # as) w v" using False h by (auto simp: answered_def)
      moreover have "\<exists>e. r = Some e \<and> retarget m ip node v = (e, w')"
        using Cons.prems False h True by (auto simp: Let_def retarget_def split: sum.splits prod.splits option.splits)
      ultimately obtain e where e: "r = Some e" and "answered m u (a # as) w v \<and> retarget m ip node v = (e, w')" by blast
      then show ?thesis unfolding e option.simps using v by blast
    next
      case n: False
      with Cons.prems False h have "reassign_addresses m ip u node as v = (r, w')"
        by (auto simp: Let_def split: sum.splits)
      then show ?thesis by (rule go_on) (rule v)
    qed
  qed
qed simp

text \<open>Either nothing that \<open>f\<close> sees has changed, or a node answered and the IP was sent to it.\<close>

definition moved_to ::
  "('w \<Rightarrow> 'x) \<Rightarrow> 'w controlPlaneEndpointManager \<Rightarrow> string \<Rightarrow> ip_address \<Rightarrow> node \<Rightarrow> 'w \<Rightarrow> go_error option \<Rightarrow> 'w \<Rightarrow> bool" where
  "moved_to f m u ip node w e w' \<longleftrightarrow>
     (\<exists>w1 w2. f w2 = f w \<and> answered m u (nd_Addresses node) w1 w2 \<and> retarget m ip node w2 = (e, w'))"

lemma reassign_nodes_outcome:
  assumes f: "unaffected_by_reads f m"
  shows "reassign_nodes m ip u nodes w = (r, w') \<Longrightarrow>
    (f w' = f w \<and> r \<noteq> None) \<or> (\<exists>node \<in> set nodes. moved_to f m u ip node w r w')"
proof (induction nodes arbitrary: w)
  case (Cons node nodes)
  obtain q v where a: "reassign_addresses m ip u node (nd_Addresses node) w = (q, v)" by fastforce
  note o = reassign_addresses_outcome [OF f a]
  show ?case
  proof (cases q)
    case None
    with Cons.prems a have "reassign_nodes m ip u nodes v = (r, w')" by simp
    from Cons.IH [OF this] o None show ?thesis by (auto simp: moved_to_def)
  next
    case (Some e)
    with Cons.prems a o show ?thesis by (auto simp: moved_to_def)
  qed
qed auto

text \<open>The nodes that the API server lists as control plane nodes.\<close>

definition listed :: "'w controlPlaneEndpointManager \<Rightarrow> node \<Rightarrow> bool" where
  "listed m n \<longleftrightarrow>
     (\<exists>s \<in> set (controlPlaneSelectors m). \<exists>v v' nodes. Nodes_List (cpClient m) s v = (Inr nodes, v') \<and> n \<in> set nodes)"

lemma list_control_plane_outcome:
  assumes f: "unaffected_by_reads f m"
  shows "set ss \<subseteq> set (controlPlaneSelectors m) \<Longrightarrow> nodeSet_ok ns \<Longrightarrow> \<forall>n \<in> snd ` set ns. listed m n \<Longrightarrow>
    list_control_plane m ss ns w = (r, w') \<Longrightarrow>
    f w' = f w \<and> (\<forall>ns'. r = Inr ns' \<longrightarrow> nodeSet_ok ns' \<and> (\<forall>n \<in> snd ` set ns'. listed m n))"
proof (induction ss arbitrary: ns w)
  case (Cons s ss)
  obtain q v where q: "Nodes_List (cpClient m) s w = (q, v)" by fastforce
  have v: "f v = f w" by (rule unaffectedD(2) [OF f q])
  show ?case
  proof (cases q)
    case (Inl e)
    with Cons.prems(4) q v show ?thesis by auto
  next
    case (Inr nodes)
    let ?ns = "nodeSet_addNodeList (Some nodes) ns"
    have "nodeSet_ok ?ns" using Cons.prems(2) by (simp add: nodeSet_addNodeList_def nodeSet_adds_ok)
    moreover have "\<forall>n \<in> set nodes. listed m n" using Cons.prems(1) q Inr by (auto simp: listed_def)
    then have "\<forall>n \<in> snd ` set ?ns. listed m n"
      using Cons.prems(3) nodeSet_adds_subset [of ns nodes] unfolding nodeSet_addNodeList_def option.simps by blast
    moreover have "list_control_plane m ss ?ns v = (r, w')" using Cons.prems(4) q Inr by simp
    ultimately show ?thesis using Cons.IH [of ?ns v] Cons.prems(1) v by simp
  qed
qed auto

lemma tryReassign_outcome:
  assumes f: "unaffected_by_reads f m" and o: "iteration_order ord1" "iteration_order ord2" and fs: "\<forall>g \<in> set fs. node_filter g"
    and run: "tryReassign ord1 ord2 m ip (filterDeletingNodes # fs) w = (r, w')"
  shows "(f w' = f w \<and> r \<noteq> None) \<or>
    (\<exists>node e. listed m node \<and> \<not> nd_Deleting node \<and> moved_to f m (healthURLFromControlPlaneEndpoint m ip) ip node w e w'
       \<and> (r = None \<longleftrightarrow> e = None))"
proof -
  let ?u = "healthURLFromControlPlaneEndpoint m ip" and ?fs = "filterDeletingNodes # fs"
  obtain q w1 where l: "list_control_plane m (controlPlaneSelectors m) [] w = (q, w1)" by fastforce
  note lo = list_control_plane_outcome [OF f subset_refl nodeSet_ok_Nil _ l]
  show ?thesis
  proof (cases q)
    case (Inl e)
    with run l lo show ?thesis by (auto simp: tryReassign_def newNodeSet_def)
  next
    case (Inr ns)
    let ?cs = "nodeSet_toList ord2 (nodeSet_filter ord1 ?fs ns)"
    have ns: "nodeSet_ok ns" "\<forall>n \<in> snd ` set ns. listed m n" and w1: "f w1 = f w" using lo Inr by auto
    have nf: "\<forall>g \<in> set ?fs. node_filter g" using fs deleting.node_filter_axioms by simp
    have "set ?cs = set (foldl (\<lambda>nodes f. f nodes) (ord1 (map snd ns)) ?fs)"
      by (rule mset_eq_setD [OF candidates(1) [OF ns(1) o nf]])
    also have "\<dots> = set (foldl (\<lambda>nodes f. f nodes) (filterDeletingNodes (ord1 (map snd ns))) fs)" by simp
    also have "\<dots> \<subseteq> set (filterDeletingNodes (ord1 (map snd ns)))"
      using subseq_filters [OF fs] by (metis subseq_conv_nths set_nths_subset)
    finally have cs: "listed m n \<and> \<not> nd_Deleting n" if "n \<in> set ?cs" for n
      using that ns(2) by (auto simp: filterDeletingNodes_def iteration_order_set [OF o(1)])
    obtain e w2 where re: "reassign m ?cs ip ?u w1 = (e, w2)" by fastforce
    then have w2: "w' = w2" and r: "r = None \<longleftrightarrow> e = None"
      using run l Inr by (auto simp: tryReassign_def newNodeSet_def Let_def split: option.splits)
    show ?thesis
    proof (cases "nodeAPIServerPort m = 0")
      case True
      with re w1 w2 r show ?thesis by (auto simp: reassign_def)
    next
      case False
      then have "reassign_nodes m ip ?u ?cs w1 = (e, w2)" using re by (simp add: reassign_def)
      from reassign_nodes_outcome [OF f this]
      consider "f w2 = f w1" "e \<noteq> None" | node where "node \<in> set ?cs" "moved_to f m ?u ip node w1 e w2" by blast
      then show ?thesis
      proof cases
        case 1
        with w1 w2 r show ?thesis by simp
      next
        case (2 node)
        then have "moved_to f m ?u ip node w e w'" using w1 w2 by (simp add: moved_to_def)
        with cs [OF 2(1)] r show ?thesis by blast
      qed
    qed
  qed
qed

text \<open>The outcome of the two handlers that may move the floating IP.\<close>

definition quiet_or_moved :: "('w \<Rightarrow> 'x) \<Rightarrow> 'w controlPlaneEndpointManager \<Rightarrow> 'w \<Rightarrow> 'w \<Rightarrow> bool" where
  "quiet_or_moved f m w w' \<longleftrightarrow> f w' = f w \<or>
     (\<exists>ip node e. listed m node \<and> \<not> nd_Deleting node \<and>
        moved_to f m (healthURLFromControlPlaneEndpoint m ip) ip node w e w')"

lemma quiet_or_moved_after: "f v = f w \<Longrightarrow> quiet_or_moved f m v w' = quiet_or_moved f m w w'"
  by (simp add: quiet_or_moved_def moved_to_def)

lemma tryReassign_quiet_or_moved:
  assumes "unaffected_by_reads f m" "iteration_order ord1" "iteration_order ord2" "\<forall>g \<in> set fs. node_filter g"
  shows "quiet_or_moved f m w (snd (tryReassign ord1 ord2 m ip (filterDeletingNodes # fs) w))"
proof -
  obtain r w' where t: "tryReassign ord1 ord2 m ip (filterDeletingNodes # fs) w = (r, w')" by fastforce
  from tryReassign_outcome [OF assms t] show ?thesis unfolding t snd_conv quiet_or_moved_def by blast
qed

lemma reservation_unaffected:
  assumes f: "unaffected_by_reads f m" and g: "getControlPlaneEndpointReservation m w = (r, w')"
  shows "f w' = f w"
  using g unaffectedD(1) [OF f] by (auto simp: getControlPlaneEndpointReservation_def split: prod.splits sum.splits option.splits)

lemmas used_filters =
  unschedulable.node_filter_axioms self.node_filter_axioms deleting.node_filter_axioms

lemma awayFromSelf_quiet_or_moved:
  assumes f: "unaffected_by_reads f m" and o: "iteration_order ord1" "iteration_order ord2"
  shows "quiet_or_moved f m w (snd (tryReassignAwayFromSelf ord1 ord2 m s w))"
proof -
  obtain r v where g: "getControlPlaneEndpointReservation m w = (r, v)" by fastforce
  have v: "f v = f w" by (rule reservation_unaffected [OF f g])
  show ?thesis
    using tryReassign_quiet_or_moved [OF f o, of "[tryFilterUnschedulableNodes, tryFilterSelf s]" v] used_filters
    by (auto simp: tryReassignAwayFromSelf_def g quiet_or_moved_after [of f v w, OF v] split: sum.splits)
      (simp_all add: quiet_or_moved_def v)
qed

lemma healthCheck_quiet_or_moved:
  assumes f: "unaffected_by_reads f m" and o: "iteration_order ord1" "iteration_order ord2"
  shows "quiet_or_moved f m w (snd (doHealthCheck ord1 ord2 m node w))"
proof -
  obtain r v where g: "getControlPlaneEndpointReservation m w = (r, v)" by fastforce
  have v: "f v = f w" by (rule reservation_unaffected [OF f g])
  have t: "quiet_or_moved f m w (snd (tryReassign ord1 ord2 m ip [filterDeletingNodes, tryFilterUnschedulableNodes] x))"
    if "f x = f w" for ip x
    using tryReassign_quiet_or_moved [OF f o, of "[tryFilterUnschedulableNodes]" x ip] used_filters
    by (simp add: quiet_or_moved_after [of f x w, OF that])
  have q: "quiet_or_moved f m w x" if "f x = f w" for x using that by (simp add: quiet_or_moved_def)
  show ?thesis
  proof (cases r)
    case (Inl e)
    then show ?thesis using q [OF v] by (simp add: doHealthCheck_def g)
  next
    case (Inr ip)
    define url where "url = (if useHostIP m then host_health_url m ip node else healthURLFromControlPlaneEndpoint m ip)"
    obtain h x where h: "HTTP_Get (cpClient m) url v = (h, x)" by fastforce
    have x: "f x = f w" using unaffectedD(3) [OF f h] v by simp
    have d: "doHealthCheck ord1 ord2 m node w =
      (if ip_TargetedTo ip = 0 then tryReassign ord1 ord2 m ip [filterDeletingNodes, tryFilterUnschedulableNodes] v
       else if nodeIsAssigned node ip then
         (case NewRequest (cpClient m) url of
            Some e \<Rightarrow> (Some (Wrapf (''error constructing GET request for '' @ url @ '': '') e), v)
          | None \<Rightarrow> if h = Inr 200 then (None, x)
              else tryReassign ord1 ord2 m ip [filterDeletingNodes, tryFilterUnschedulableNodes] x)
       else (None, v))"
      unfolding doHealthCheck_def g Inr Let_def prod.case sum.case url_def [symmetric] h
      by (cases h) (auto split: option.split)
    show ?thesis using t [OF v, of ip] t [OF x, of ip] q [OF v] q [OF x] unfolding d
      by (cases "NewRequest (cpClient m) url") auto
  qed
qed

section \<open>Events\<close>

text \<open>What the sync handlers write, too, is not seen by \<open>f\<close>.\<close>

definition unaffected_by_syncs :: "('w \<Rightarrow> 'x) \<Rightarrow> 'w controlPlaneEndpointManager \<Rightarrow> bool" where
  "unaffected_by_syncs f m \<longleftrightarrow>
     (\<forall>n1 n2 c w. f (snd (Endpoints_Apply (cpClient m) n1 n2 c w)) = f w) \<and>
     (\<forall>c w. f (snd (Services_Apply (cpClient m) c w)) = f w) \<and>
     (\<forall>c w. f (snd (Services_ApplyStatus (cpClient m) c w)) = f w)"

lemma unaffected_syncD:
  assumes "unaffected_by_syncs f m"
  shows "Endpoints_Apply (cpClient m) n1 n2 c w = (r1, w') \<Longrightarrow> f w' = f w"
    and "Services_Apply (cpClient m) c2 w = (r2, w') \<Longrightarrow> f w' = f w"
    and "Services_ApplyStatus (cpClient m) c3 w = (r3, w') \<Longrightarrow> f w' = f w"
  using assms unfolding unaffected_by_syncs_def by (metis snd_conv)+

lemma endpoints_unaffected:
  assumes "unaffected_by_syncs f m"
  shows "f (snd (endpoints_Func m (Some e) w)) = f w"
  using unaffected_syncD(1) [OF assms]
  by (auto simp: endpoints_Func_def syncEndpoints_def Let_def split: prod.splits option.splits)

text \<open>The ports after a sync, and what it leaves of the rest of the manager.\<close>

definition ports_from :: "int \<Rightarrow> 'w controlPlaneEndpointManager \<Rightarrow> 'w controlPlaneEndpointManager" where
  "ports_from p m = m\<lparr>nodeAPIServerPort := p, apiServerPort := if apiServerPort m = 0 then p else apiServerPort m\<rparr>"

lemma ports_from_same [simp]:
  "cherryClient (ports_from p m) = cherryClient m" "cpClient (ports_from p m) = cpClient m"
  "controlPlaneSelectors (ports_from p m) = controlPlaneSelectors m" "cp_projectID (ports_from p m) = cp_projectID m"
  by (simp_all add: ports_from_def)

lemma set_ports:
  "(if apiServerPort (m\<lparr>nodeAPIServerPort := p\<rparr>) = 0
    then m\<lparr>nodeAPIServerPort := p\<rparr>\<lparr>apiServerPort := nodeAPIServerPort (m\<lparr>nodeAPIServerPort := p\<rparr>)\<rparr>
    else m\<lparr>nodeAPIServerPort := p\<rparr>) = ports_from p m"
  by (simp add: ports_from_def)

lemma first_port: "slice_index (p # ps) 0 = Some p" "\<not> length (p # ps) < 1"
  by (simp_all add: slice_index_def)

lemma syncService_state:
  "fst (snd (syncService m s w)) = (case svc_TargetPorts s of [] \<Rightarrow> m | p # _ \<Rightarrow> ports_from p m)"
  "fst (syncService m s w) \<noteq> Panic"
proof (atomize (full), cases "svc_TargetPorts s")
  case (Cons p ps)
  show "fst (snd (syncService m s w)) = (case svc_TargetPorts s of [] \<Rightarrow> m | p # _ \<Rightarrow> ports_from p m) \<and> fst (syncService m s w) \<noteq> Panic"
    unfolding syncService_def Cons list.case Let_def first_port if_not_P [OF first_port(2)] option.case set_ports
    by (auto split: prod.splits sum.splits option.splits)
qed (simp add: syncService_def)

lemma syncService_unaffected:
  assumes f: "unaffected_by_reads f m" and s: "unaffected_by_syncs f m"
  shows "f (snd (snd (syncService m svc w))) = f w"
proof (cases "svc_TargetPorts svc")
  case (Cons p ps)
  have f': "unaffected_by_reads f (ports_from p m)" using f by (simp add: unaffected_by_reads_def)
  show ?thesis
    unfolding syncService_def Cons list.case Let_def first_port if_not_P [OF first_port(2)] option.case set_ports
    by (auto split: prod.splits sum.splits option.splits
        dest!: reservation_unaffected [OF f'] unaffected_syncD(2,3) [OF s])
qed (simp add: syncService_def)

lemma service_Func_eq:
  "service_Func m (Some s) w =
     (if svc_Namespace s \<noteq> ''default'' \<or> svc_Name s \<noteq> ''kubernetes'' then (Ok m, w)
      else (Ok (case svc_TargetPorts s of [] \<Rightarrow> m | p # _ \<Rightarrow> ports_from p m), snd (snd (syncService m s w))))"
  using syncService_state [of m s w] by (auto simp: service_Func_def split: prod.splits outcome.splits)

lemma service_Func_unaffected:
  assumes "unaffected_by_reads f m" "unaffected_by_syncs f m" "service_Func m (Some s) w = (r, w')"
  shows "f w' = f w"
  using assms(3) syncService_unaffected [OF assms(1,2)] by (auto simp: service_Func_eq split: if_splits)

lemma node_UpdateFunc_quiet_or_moved:
  assumes "unaffected_by_reads f m" "iteration_order ord1" "iteration_order ord2"
  shows "quiet_or_moved f m w (snd (node_UpdateFunc ord1 ord2 m (Some old) (Some new) w))"
  using awayFromSelf_quiet_or_moved [OF assms] healthCheck_quiet_or_moved [OF assms]
  by (simp add: node_UpdateFunc_def)

text \<open>The handlers do not panic on objects, and the filters answer.\<close>

lemma keep_manager_Ok:
  "keep_manager m (node_UpdateFunc ord1 ord2 m (Some old) (Some new) w) = (Ok m, snd (node_UpdateFunc ord1 ord2 m (Some old) (Some new) w))"
  "keep_manager m (node_DeleteFunc ord1 ord2 m (Some n) w) = (Ok m, snd (node_DeleteFunc ord1 ord2 m (Some n) w))"
  "keep_manager m (endpoints_Func m (Some e) w) = (Ok m, snd (endpoints_Func m (Some e) w))"
  by (simp_all add: keep_manager_def node_UpdateFunc_def node_DeleteFunc_def endpoints_Func_def)

lemma handle_Endpoints:
  "handle_event ord1 ord2 (EndpointsUpdate e0 e) m w = handle_event ord1 ord2 (EndpointsAdd e) m w"
  "handle_event ord1 ord2 (EndpointsAdd e) m w =
     (Ok m, if endpoints_FilterFunc (Some e) = Ok True then snd (endpoints_Func m (Some e) w) else w)"
  by (auto simp: endpoints_FilterFunc_def keep_manager_Ok split: bool.split)

lemma handle_Service:
  "handle_event ord1 ord2 (ServiceUpdate s0 s) m w = handle_event ord1 ord2 (ServiceAdd s) m w"
  "handle_event ord1 ord2 (ServiceAdd s) m w =
     (if service_FilterFunc (Some s) = Ok True then service_Func m (Some s) w else (Ok m, w))"
  by (auto simp: service_FilterFunc_def split: bool.split)

lemma node_FilterFunc_Some:
  "node_FilterFunc m (Some n) = Ok (apiServerPort m \<noteq> 0 \<and> nodeAPIServerPort m \<noteq> 0 \<and> isControlPlaneNode n)"
  by (simp add: node_FilterFunc_def)

lemma handle_NodeUpdate:
  "handle_event ord1 ord2 (NodeUpdate old new) m w =
     (Ok m, if apiServerPort m \<noteq> 0 \<and> nodeAPIServerPort m \<noteq> 0 \<and> isControlPlaneNode old
            then if isControlPlaneNode new then snd (node_UpdateFunc ord1 ord2 m (Some old) (Some new) w)
              else snd (node_DeleteFunc ord1 ord2 m (Some old) w)
            else w)"
  by (cases "apiServerPort m \<noteq> 0 \<and> nodeAPIServerPort m \<noteq> 0"; cases "isControlPlaneNode old"; cases "isControlPlaneNode new")
    (auto simp: node_FilterFunc_Some keep_manager_Ok)

lemma handle_NodeDelete:
  "handle_event ord1 ord2 (NodeDelete (Some n)) m w =
     (Ok m, if apiServerPort m \<noteq> 0 \<and> nodeAPIServerPort m \<noteq> 0 \<and> isControlPlaneNode n
            then snd (node_DeleteFunc ord1 ord2 m (Some n) w) else w)"
  by (cases "apiServerPort m \<noteq> 0 \<and> nodeAPIServerPort m \<noteq> 0"; cases "isControlPlaneNode n")
    (auto simp: node_FilterFunc_Some keep_manager_Ok)

lemma handle_tombstone: "handle_event ord1 ord2 (NodeDelete None) m w = (Panic, w)"
  by (simp add: node_FilterFunc_def)

text \<open>What an event does to the manager: at most a service event changes it, by its first port.\<close>

lemma handle_event_manager:
  assumes "handle_event ord1 ord2 ev m w = (Ok m', w')"
  shows "m' = m \<or> (\<exists>p. m' = ports_from p m)"
proof -
  have s: "fst (service_Func m (Some s) w) = Ok m \<or> (\<exists>p. fst (service_Func m (Some s) w) = Ok (ports_from p m))" for s
    by (cases "svc_TargetPorts s") (auto simp: service_Func_eq)
  show ?thesis
  proof (cases ev)
    case (ServiceAdd v)
    with assms s [of v] show ?thesis by (auto simp: handle_Service simp del: handle_event.simps split: if_splits)
  next
    case (ServiceUpdate u v)
    with assms s [of v] show ?thesis by (auto simp: handle_Service simp del: handle_event.simps split: if_splits)
  next
    case (EndpointsAdd e)
    with assms show ?thesis by (simp add: handle_Endpoints del: handle_event.simps)
  next
    case (EndpointsUpdate e0 e)
    with assms show ?thesis by (simp add: handle_Endpoints del: handle_event.simps)
  next
    case (NodeDelete obj)
    with assms show ?thesis
      by (cases obj) (simp_all add: handle_NodeDelete handle_tombstone del: handle_event.simps)
  next
    case (NodeUpdate old new)
    with assms show ?thesis by (simp add: handle_NodeUpdate del: handle_event.simps)
  qed (use assms in \<open>auto simp: node_FilterFunc_Some split: outcome.splits if_splits bool.splits option.splits\<close>)
qed

lemma cp_listed:
  "list_control_plane cp_manager (controlPlaneSelectors cp_manager) [] w = (Inr [(''n1'', cp_node1), (''n2'', cp_node2)], w)"
  by (simp add: cp_manager_def cp_cluster_def controlPlaneLabels_def nodeSet_addNodeList_def nodeSet_add_def)
    (simp add: cp_samples)

lemma cp_run: "handle_event rev (\<lambda>ns. ns) (NodeDelete (Some cp_node1)) cp_manager 1 = (Ok cp_manager, 2)"
proof -
  have cp: "isControlPlaneNode cp_node1" by (simp add: isControlPlaneNode_def controlPlaneLabels_def cp_samples nil_map_def)
  have g: "getControlPlaneEndpointReservation cp_manager 1 = (Inr (cp_fip 1), 1)"
    by (simp add: getControlPlaneEndpointReservation_def ipReservationByAllTags_def cp_samples)

  have n: "nodeSet_toList (\<lambda>ns. ns) (nodeSet_filter rev
      [filterDeletingNodes, tryFilterUnschedulableNodes, tryFilterSelf cp_node1] [(''n1'', cp_node1), (''n2'', cp_node2)]) = [cp_node2]"
    by (simp add: nodeSet_filter_def nodeSet_toList_def filterDeletingNodes_def tryFilterUnschedulableNodes_def
        tryFilterSelf_def newNodeSet_def nodeSet_add_def cp_samples)
  have "reassign cp_manager [cp_node2] (cp_fip 1) (healthURLFromControlPlaneEndpoint cp_manager (cp_fip 1)) 1 = (None, 2)"
    by (simp add: reassign_def healthURLFromControlPlaneEndpoint_def cp_samples cp_node_ids Atoi_itoa)
  moreover have "nodeIsAssigned cp_node1 (cp_fip 1)" by (simp add: nodeIsAssigned_def cp_samples)
  ultimately have "snd (node_DeleteFunc rev (\<lambda>ns. ns) cp_manager (Some cp_node1) 1) = 2"
    unfolding node_DeleteFunc_def tryReassignAwayFromSelf_def tryReassign_def g
    by (simp add: newNodeSet_def cp_listed n)
  with cp show ?thesis by (simp add: handle_NodeDelete cp_manager_def del: handle_event.simps)
qed

text \<open>
  C1: An observation that reads and the syncs of service and endpoints leave alone (such as the
  server the floating IP points to) changes on an event only by sending a floating IP to a
  control plane node that the API server listed, that is not being deleted, and one of whose own
  addresses has just answered the health check with 200.
\<close>

theorem floating_ip_moves_only_to_answering_node:
  assumes "unaffected_by_reads f m" "unaffected_by_syncs f m" "iteration_order ord1" "iteration_order ord2"
    and "handle_event ord1 ord2 ev m w = (Ok m', w')"
  shows "quiet_or_moved f m w w'"
proof -
  have q: "quiet_or_moved f m w x" if "f x = f w" for x using that by (simp add: quiet_or_moved_def)
  note u = node_UpdateFunc_quiet_or_moved [OF assms(1,3,4)] and d = awayFromSelf_quiet_or_moved [OF assms(1,3,4)]
  note n = q [OF refl]
  show ?thesis
  proof (cases ev)
    case (NodeUpdate old new)
    with assms(5) u d n show ?thesis by (auto simp: handle_NodeUpdate node_DeleteFunc_def simp del: handle_event.simps)
  next
    case (NodeDelete obj)
    with assms(5) d n show ?thesis
      by (cases obj) (auto simp: handle_NodeDelete handle_tombstone node_DeleteFunc_def simp del: handle_event.simps)
  next
    case (ServiceAdd s)
    with assms(5) n q [OF service_Func_unaffected [OF assms(1,2)]] show ?thesis
      by (auto simp: handle_Service simp del: handle_event.simps split: if_splits)
  next
    case (ServiceUpdate s0 s)
    with assms(5) n q [OF service_Func_unaffected [OF assms(1,2)]] show ?thesis
      by (auto simp: handle_Service simp del: handle_event.simps split: if_splits)
  next
    case (EndpointsAdd e)
    with assms(5) n q [OF endpoints_unaffected [OF assms(2)]] show ?thesis
      by (auto simp: handle_Endpoints simp del: handle_event.simps split: if_splits)
  next
    case (EndpointsUpdate e0 e)
    with assms(5) n q [OF endpoints_unaffected [OF assms(2)]] show ?thesis
      by (auto simp: handle_Endpoints simp del: handle_event.simps split: if_splits)
  qed (use assms(5) n in \<open>auto split: outcome.splits\<close>)
qed


theorem floating_ip_moves_only_to_answering_node_witness:
  "handle_event rev (\<lambda>ns. ns) (NodeDelete (Some cp_node1)) cp_manager 1 = (Ok cp_manager, 2)
   \<and> quiet_or_moved (\<lambda>i. i) cp_manager 1 2"
proof -
  note e = cp_run
  have "unaffected_by_reads (\<lambda>i. i) cp_manager" "unaffected_by_syncs (\<lambda>i. i) cp_manager"
    by (simp_all add: unaffected_by_reads_def unaffected_by_syncs_def cp_samples)
  from e floating_ip_moves_only_to_answering_node [OF this iteration_order_rev iteration_order_id e] show ?thesis ..
qed


section \<open>When the floating IP moves\<close>

lemma awayFromSelf_moves:
  assumes f: "unaffected_by_reads f m" and moved: "f (snd (tryReassignAwayFromSelf ord1 ord2 m s w)) \<noteq> f w"
  shows "\<exists>ip v. getControlPlaneEndpointReservation m w = (Inr ip, v) \<and> (ip_TargetedTo ip = 0 \<or> nodeIsAssigned s ip)"
proof -
  obtain r v where g: "getControlPlaneEndpointReservation m w = (r, v)" by fastforce
  with moved reservation_unaffected [OF f g] show ?thesis
    by (cases r) (auto simp: tryReassignAwayFromSelf_def split: if_splits)
qed

text \<open>Where the health check of a node looks.\<close>

definition check_url :: "'w controlPlaneEndpointManager \<Rightarrow> ip_address \<Rightarrow> node \<Rightarrow> string" where
  "check_url m ip node = (if useHostIP m then host_health_url m ip node else healthURLFromControlPlaneEndpoint m ip)"

lemma healthCheck_moves:
  assumes f: "unaffected_by_reads f m" and moved: "f (snd (doHealthCheck ord1 ord2 m node w)) \<noteq> f w"
  shows "\<exists>ip v. getControlPlaneEndpointReservation m w = (Inr ip, v) \<and>
    (ip_TargetedTo ip = 0 \<or> nodeIsAssigned node ip \<and> fst (HTTP_Get (cpClient m) (check_url m ip node) v) \<noteq> Inr 200)"
proof -
  obtain r v where g: "getControlPlaneEndpointReservation m w = (r, v)" by fastforce
  have v: "f v = f w" by (rule reservation_unaffected [OF f g])
  show ?thesis
  proof (cases r)
    case (Inl e)
    then show ?thesis using moved v by (simp add: doHealthCheck_def g)
  next
    case (Inr ip)
    obtain h x where h: "HTTP_Get (cpClient m) (check_url m ip node) v = (h, x)" by fastforce
    have "f x = f w" using unaffectedD(3) [OF f h] v by simp
    then have "ip_TargetedTo ip = 0 \<or> nodeIsAssigned node ip \<and> h \<noteq> Inr 200"
      using moved v h unfolding doHealthCheck_def g Inr Let_def prod.case sum.case check_url_def [symmetric] h
      by (auto split: if_splits option.splits)
    then show ?thesis using g Inr h by simp
  qed
qed

lemma node_update_moves:
  assumes f: "unaffected_by_reads f m" and "f (snd (handle_event ord1 ord2 (NodeUpdate old new) m w)) \<noteq> f w"
  shows "apiServerPort m \<noteq> 0 \<and> nodeAPIServerPort m \<noteq> 0 \<and>
      (\<exists>ip v. getControlPlaneEndpointReservation m w = (Inr ip, v) \<and>
         (ip_TargetedTo ip = 0
          \<or> nodeIsAssigned old ip \<and> isControlPlaneNode old \<and> \<not> isControlPlaneNode new
          \<or> nodeIsAssigned new ip \<and> isControlPlaneNode new \<and>
              (nd_Unschedulable new \<and> \<not> nd_Unschedulable old
               \<or> fst (HTTP_Get (cpClient m) (check_url m ip new) v) \<noteq> Inr 200)))"
proof -
  from assms(2) consider
    (lost) "apiServerPort m \<noteq> 0" "nodeAPIServerPort m \<noteq> 0" "isControlPlaneNode old" "\<not> isControlPlaneNode new"
      "f (snd (tryReassignAwayFromSelf ord1 ord2 m old w)) \<noteq> f w"
  | (cordoned) "apiServerPort m \<noteq> 0" "nodeAPIServerPort m \<noteq> 0" "isControlPlaneNode new"
      "nd_Unschedulable new" "\<not> nd_Unschedulable old" "f (snd (tryReassignAwayFromSelf ord1 ord2 m new w)) \<noteq> f w"
  | (checked) "apiServerPort m \<noteq> 0" "nodeAPIServerPort m \<noteq> 0" "isControlPlaneNode new"
      "f (snd (doHealthCheck ord1 ord2 m new w)) \<noteq> f w"
    unfolding handle_NodeUpdate node_DeleteFunc_def node_UpdateFunc_def by (auto split: if_splits)
  then show ?thesis
  proof cases
    case lost
    with awayFromSelf_moves [OF f lost(5)] show ?thesis by blast
  next
    case cordoned
    with awayFromSelf_moves [OF f cordoned(6)] show ?thesis by blast
  next
    case checked
    with healthCheck_moves [OF f checked(4)] show ?thesis by blast
  qed
qed

lemma node_delete_moves:
  assumes f: "unaffected_by_reads f m" and "f (snd (handle_event ord1 ord2 (NodeDelete (Some n)) m w)) \<noteq> f w"
  shows "apiServerPort m \<noteq> 0 \<and> nodeAPIServerPort m \<noteq> 0 \<and> isControlPlaneNode n \<and>
      (\<exists>ip v. getControlPlaneEndpointReservation m w = (Inr ip, v) \<and> (ip_TargetedTo ip = 0 \<or> nodeIsAssigned n ip))"
proof -
  from assms(2) have "apiServerPort m \<noteq> 0" "nodeAPIServerPort m \<noteq> 0" "isControlPlaneNode n"
    and "f (snd (tryReassignAwayFromSelf ord1 ord2 m n w)) \<noteq> f w"
    unfolding handle_NodeDelete node_DeleteFunc_def by (auto split: if_splits)
  with awayFromSelf_moves [OF f this(4)] show ?thesis by simp
qed

text \<open>
  C4: A node event moves the floating IP only with cause. The ports are known, and either the
  floating IP points nowhere or a control plane node of the event holds it, and that node was
  deleted, lost its control plane label, has just become unschedulable, or did not answer the
  health check.
\<close>

theorem node_event_moves_with_cause:
  assumes f: "unaffected_by_reads f m"
  shows "(f (snd (handle_event ord1 ord2 (NodeUpdate old new) m w)) \<noteq> f w \<longrightarrow>
      apiServerPort m \<noteq> 0 \<and> nodeAPIServerPort m \<noteq> 0 \<and>
      (\<exists>ip v. getControlPlaneEndpointReservation m w = (Inr ip, v) \<and>
         (ip_TargetedTo ip = 0
          \<or> nodeIsAssigned old ip \<and> isControlPlaneNode old \<and> \<not> isControlPlaneNode new
          \<or> nodeIsAssigned new ip \<and> isControlPlaneNode new \<and>
              (nd_Unschedulable new \<and> \<not> nd_Unschedulable old
               \<or> fst (HTTP_Get (cpClient m) (check_url m ip new) v) \<noteq> Inr 200))))
    \<and> (f (snd (handle_event ord1 ord2 (NodeDelete (Some n)) m w)) \<noteq> f w \<longrightarrow>
      apiServerPort m \<noteq> 0 \<and> nodeAPIServerPort m \<noteq> 0 \<and> isControlPlaneNode n \<and>
      (\<exists>ip v. getControlPlaneEndpointReservation m w = (Inr ip, v) \<and> (ip_TargetedTo ip = 0 \<or> nodeIsAssigned n ip)))
    \<and> snd (handle_event ord1 ord2 (NodeAdd n) m w) = w"
proof (intro conjI impI)
  show "snd (handle_event ord1 ord2 (NodeAdd n) m w) = w" by (simp split: outcome.split)
qed (use node_update_moves [OF f] node_delete_moves [OF f] in blast)+

theorem node_event_moves_with_cause_witness:
  "snd (handle_event rev (\<lambda>ns. ns) (NodeDelete (Some cp_node1)) cp_manager 1) \<noteq> 1 \<and>
   (\<exists>ip v. getControlPlaneEndpointReservation cp_manager 1 = (Inr ip, v) \<and> (ip_TargetedTo ip = 0 \<or> nodeIsAssigned cp_node1 ip))"
proof -
  have "unaffected_by_reads (\<lambda>i. i) cp_manager" by (simp add: unaffected_by_reads_def cp_samples)
  moreover have m: "snd (handle_event rev (\<lambda>ns. ns) (NodeDelete (Some cp_node1)) cp_manager 1) \<noteq> 1"
    unfolding cp_run by simp
  ultimately show ?thesis using node_event_moves_with_cause [of "\<lambda>i. i" cp_manager rev "\<lambda>ns. ns" _ _ 1 cp_node1] by blast
qed


section \<open>Which nodes are candidates\<close>

text \<open>Keeping the nodes with a property, or all of them if none has it.\<close>

definition prefer_set :: "('a \<Rightarrow> bool) \<Rightarrow> 'a set \<Rightarrow> 'a set" where
  "prefer_set good A = (if \<exists>n \<in> A. good n then {n \<in> A. good n} else A)"

lemma set_try_filter: "try_filter f good \<Longrightarrow> set (f nodes) = prefer_set good (set nodes)"
  using try_filter.good_if_any [of f good nodes] try_filter.all_if_none [of f good nodes]
  by (auto simp: prefer_set_def)

lemma candidates_health_check:
  assumes "nodeSet_ok ns" "iteration_order ord1" "iteration_order ord2"
  shows "set (nodeSet_toList ord2 (nodeSet_filter ord1 [filterDeletingNodes, tryFilterUnschedulableNodes] ns)) =
    prefer_set (\<lambda>n. \<not> nd_Unschedulable n) {n \<in> snd ` set ns. \<not> nd_Deleting n}"
  using mset_eq_setD [OF candidates(1) [OF assms, of "[filterDeletingNodes, tryFilterUnschedulableNodes]"]] used_filters
  by (simp add: set_try_filter [OF unschedulable.try_filter_axioms] filterDeletingNodes_def iteration_order_set [OF assms(2)])

lemma candidates_away_from_self:
  assumes "nodeSet_ok ns" "iteration_order ord1" "iteration_order ord2"
  shows "set (nodeSet_toList ord2 (nodeSet_filter ord1 [filterDeletingNodes, tryFilterUnschedulableNodes, tryFilterSelf s] ns)) =
    prefer_set (\<lambda>n. nd_Name n \<noteq> nd_Name s) (prefer_set (\<lambda>n. \<not> nd_Unschedulable n) {n \<in> snd ` set ns. \<not> nd_Deleting n})"
  using mset_eq_setD [OF candidates(1) [OF assms, of "[filterDeletingNodes, tryFilterUnschedulableNodes, tryFilterSelf s]"]]
    used_filters
  by (simp add: set_try_filter [OF unschedulable.try_filter_axioms] set_try_filter [OF self.try_filter_axioms]
      filterDeletingNodes_def iteration_order_set [OF assms(2)])

section \<open>A healthy node gets the floating IP\<close>

definition healthy :: "'w controlPlaneEndpointManager \<Rightarrow> (string \<Rightarrow> go_error + int) \<Rightarrow> string \<Rightarrow> node \<Rightarrow> bool" where
  "healthy m code u node \<longleftrightarrow>
     (\<exists>a \<in> set (nd_Addresses node). na_Type a \<noteq> ''Hostname''
        \<and> (let h = health_url (na_Address a) (nodeAPIServerPort m) in h \<noteq> u \<and> NewRequest (cpClient m) h = None \<and> code h = Inr 200))"

lemma reassign_addresses_healthy:
  assumes c: "\<And>u w. HTTP_Get (cpClient m) u w = (code u, w)"
  shows "reassign_addresses m ip u node as w =
    (if healthy m code u (node\<lparr>nd_Addresses := as\<rparr>) then (case retarget m ip node w of (e, w') \<Rightarrow> (Some e, w')) else (None, w))"
proof (induction as)
  case (Cons a as)
  let ?h = "health_url (na_Address a) (nodeAPIServerPort m)"
  let ?a = "na_Type a \<noteq> ''Hostname'' \<and> ?h \<noteq> u \<and> NewRequest (cpClient m) ?h = None \<and> code ?h = Inr 200"
  have "healthy m code u (node\<lparr>nd_Addresses := a # as\<rparr>) \<longleftrightarrow> ?a \<or> healthy m code u (node\<lparr>nd_Addresses := as\<rparr>)"
    by (auto simp: healthy_def Let_def)
  moreover have "reassign_addresses m ip u node (a # as) w =
      (if ?a then (case retarget m ip node w of (e, w') \<Rightarrow> (Some e, w')) else reassign_addresses m ip u node as w)"
    by (auto simp: Let_def c retarget_def split: sum.split option.split prod.split)
  ultimately show ?case using Cons.IH by auto
qed (simp add: healthy_def)

lemma reassign_nodes_healthy:
  assumes c: "\<And>u w. HTTP_Get (cpClient m) u w = (code u, w)"
  shows "reassign_nodes m ip u nodes w =
    (case find (healthy m code u) nodes of
       None \<Rightarrow> (Some (Errorf ''ccm didn't find a good candidate for IP allocation. Cluster is unhealthy''), w)
     | Some node \<Rightarrow> retarget m ip node w)"
proof (induction nodes)
  case (Cons n nodes)
  have "n\<lparr>nd_Addresses := nd_Addresses n\<rparr> = n" by simp
  then show ?case using reassign_addresses_healthy [OF c, of ip u n "nd_Addresses n" w] Cons.IH
    by (auto split: prod.splits)
qed simp

text \<open>
  The outcome when the floating IP has to go to one of the nodes \<open>cs\<close>: to one that is healthy if
  there is one, else an error and no change.
\<close>

definition sent_to_healthy ::
  "'w controlPlaneEndpointManager \<Rightarrow> (string \<Rightarrow> go_error + int) \<Rightarrow> ip_address \<Rightarrow> node set \<Rightarrow> 'w \<Rightarrow> go_error option \<times> 'w \<Rightarrow> bool" where
  "sent_to_healthy m code ip cs w r \<longleftrightarrow>
     (if \<exists>n \<in> cs. healthy m code (healthURLFromControlPlaneEndpoint m ip) n then
        \<exists>n i w'. n \<in> cs \<and> healthy m code (healthURLFromControlPlaneEndpoint m ip) n
          \<and> serverIDFromProviderID (nd_ProviderID n) = Inr i
          \<and> IPs_Update (cherryClient m) (ip_ID ip) (itoa i) w = (None, w') \<and> r = (None, w')
      else fst r \<noteq> None \<and> snd r = w)"

text \<open>The cloud takes an update to every one of the nodes.\<close>

definition assignable :: "'w controlPlaneEndpointManager \<Rightarrow> ip_address \<Rightarrow> node set \<Rightarrow> 'w \<Rightarrow> bool" where
  "assignable m ip cs w \<longleftrightarrow> (\<forall>n \<in> cs. \<exists>i. serverIDFromProviderID (nd_ProviderID n) = Inr i
     \<and> fst (IPs_Update (cherryClient m) (ip_ID ip) (itoa i) w) = None)"

lemma tryReassign_sent:
  assumes c: "\<And>u w. HTTP_Get (cpClient m) u w = (code u, w)" and port: "nodeAPIServerPort m \<noteq> 0"
    and ns: "list_control_plane m (controlPlaneSelectors m) [] w = (Inr ns, w1)"
    and cs: "set (nodeSet_toList ord2 (nodeSet_filter ord1 fs ns)) = cs" and ids: "assignable m ip cs w1"
  shows "sent_to_healthy m code ip cs w1 (tryReassign ord1 ord2 m ip fs w)"
proof -
  let ?u = "healthURLFromControlPlaneEndpoint m ip" and ?l = "nodeSet_toList ord2 (nodeSet_filter ord1 fs ns)"
  have t: "tryReassign ord1 ord2 m ip fs w =
    (case reassign_nodes m ip ?u ?l w1 of
       (Some e, w2) \<Rightarrow> (Some (Wrapf ''failed to assign the control plane endpoint: '' e), w2) | (None, w2) \<Rightarrow> (None, w2))"
    using ns port by (simp add: tryReassign_def newNodeSet_def Let_def reassign_def)
  note r = reassign_nodes_healthy [OF c, of ip ?u ?l w1]
  show ?thesis
  proof (cases "\<exists>n \<in> cs. healthy m code ?u n")
    case True
    then obtain n where f: "find (healthy m code ?u) ?l = Some n"
      using cs by (metis find_None_iff2 not_None_eq)
    then have n: "n \<in> cs" "healthy m code ?u n" using cs by (auto simp: find_Some_iff)
    from n(1) ids obtain i w' where i: "serverIDFromProviderID (nd_ProviderID n) = Inr i"
      and w': "IPs_Update (cherryClient m) (ip_ID ip) (itoa i) w1 = (None, w')"
      unfolding assignable_def by (metis prod.collapse)
    then have "tryReassign ord1 ord2 m ip fs w = (None, w')" unfolding t r f by (simp add: retarget_def i)
    with n i w' True show ?thesis unfolding sent_to_healthy_def by auto
  next
    case False
    then have f: "find (healthy m code ?u) ?l = None" using cs by (auto simp: find_None_iff)
    show ?thesis unfolding sent_to_healthy_def if_not_P [OF False] t r f by simp
  qed
qed

lemma listed_ok:
  assumes "list_control_plane m (controlPlaneSelectors m) [] w = (Inr ns, w1)"
  shows "nodeSet_ok ns"
proof -
  have "unaffected_by_reads (\<lambda>_. ()) m" by (simp add: unaffected_by_reads_def)
  from list_control_plane_outcome [OF this subset_refl nodeSet_ok_Nil _ assms] show ?thesis by simp
qed

lemma healthCheck_reassigns:
  assumes c: "\<And>u w. HTTP_Get (cpClient m) u w = (code u, w)" and g: "getControlPlaneEndpointReservation m w = (Inr ip, w0)"
    and t: "ip_TargetedTo ip = 0 \<or> nodeIsAssigned node ip \<and> NewRequest (cpClient m) (check_url m ip node) = None
      \<and> code (check_url m ip node) \<noteq> Inr 200"
  shows "doHealthCheck ord1 ord2 m node w = tryReassign ord1 ord2 m ip [filterDeletingNodes, tryFilterUnschedulableNodes] w0"
  using t unfolding doHealthCheck_def g Let_def prod.case sum.case check_url_def [symmetric] c
  by (auto split: sum.split)

text \<open>
  C5: A health check of a node, and with it an update event of a control plane node that has not
  just become unschedulable, that finds the floating IP unassigned, or assigned to the node and
  not answering with 200, sends the floating IP to a healthy node of those that are not being
  deleted, the schedulable ones if there are any; it succeeds as soon as one of them is healthy,
  and fails and changes nothing otherwise. Health checks are taken to have no effect of their own,
  and the cloud to accept the update.
\<close>

theorem health_check_finds_healthy_node:
  assumes c: "\<And>u w. HTTP_Get (cpClient m) u w = (code u, w)"
    and port: "nodeAPIServerPort m \<noteq> 0" and o: "iteration_order ord1" "iteration_order ord2"
    and g: "getControlPlaneEndpointReservation m w = (Inr ip, w0)"
    and t: "ip_TargetedTo ip = 0 \<or> nodeIsAssigned node ip \<and> NewRequest (cpClient m) (check_url m ip node) = None
      \<and> code (check_url m ip node) \<noteq> Inr 200"
    and ns: "list_control_plane m (controlPlaneSelectors m) [] w0 = (Inr ns, w1)"
    and cs: "cs = prefer_set (\<lambda>n. \<not> nd_Unschedulable n) {n \<in> snd ` set ns. \<not> nd_Deleting n}"
    and ids: "assignable m ip cs w1"
  shows "sent_to_healthy m code ip cs w1 (doHealthCheck ord1 ord2 m node w)
    \<and> (apiServerPort m \<noteq> 0 \<and> isControlPlaneNode old \<and> isControlPlaneNode node \<and> \<not> (nd_Unschedulable node \<and> \<not> nd_Unschedulable old)
       \<longrightarrow> handle_event ord1 ord2 (NodeUpdate old node) m w = (Ok m, snd (doHealthCheck ord1 ord2 m node w)))"
proof
  show "sent_to_healthy m code ip cs w1 (doHealthCheck ord1 ord2 m node w)"
    unfolding healthCheck_reassigns [OF c g t] cs
    by (rule tryReassign_sent [OF c port ns candidates_health_check [OF listed_ok [OF ns] o]]) (use ids cs in simp)
qed (use port in \<open>auto simp: handle_NodeUpdate node_UpdateFunc_def simp del: handle_event.simps\<close>)

lemma cp_reservation: "getControlPlaneEndpointReservation cp_manager i = (Inr (cp_fip i), i)"
  by (simp add: getControlPlaneEndpointReservation_def ipReservationByAllTags_def cp_samples)

definition cp_code :: "string \<Rightarrow> go_error + int" where
  "cp_code u = (if u = health_url ''10.0.0.2'' 6443 then Inr 200 else Inl (External ''refused''))"

lemma cp_checks: "HTTP_Get (cpClient cp_manager) u w = (cp_code u, w)"
  by (simp add: cp_manager_def cp_cluster_def cp_code_def)

lemma cp_assignable: "cs \<subseteq> {cp_node1, cp_node2} \<Longrightarrow> assignable cp_manager (cp_fip i) cs 1"
proof -
  have "nd_ProviderID cp_node1 = ''cherryservers://1''" "nd_ProviderID cp_node2 = ''cherryservers://2''"
    by (simp_all add: cp_samples)
  moreover have "fst (IPs_Update (cherryClient cp_manager) (ip_ID (cp_fip i)) (itoa k) 1) = None" if "int64_range k" for k
    using Atoi_itoa [OF that] by (simp add: cp_manager_def cp_api_def)
  ultimately have "\<exists>k. serverIDFromProviderID (nd_ProviderID n) = Inr k \<and> fst (IPs_Update (cherryClient cp_manager) (ip_ID (cp_fip i)) (itoa k) 1) = None"
    if "n = cp_node1 \<or> n = cp_node2" for n
    using that by (elim disjE) (simp_all add: cp_node_ids)
  then show "cs \<subseteq> {cp_node1, cp_node2} \<Longrightarrow> assignable cp_manager (cp_fip i) cs 1"
    unfolding assignable_def by blast
qed

lemma cp_healthy: "healthy cp_manager cp_code (healthURLFromControlPlaneEndpoint cp_manager (cp_fip i)) cp_node2"
  by (simp add: healthy_def healthURLFromControlPlaneEndpoint_def cp_code_def cp_samples)

lemma cp_candidates:
  "prefer_set (\<lambda>n. \<not> nd_Unschedulable n) {n \<in> snd ` set [(''n1'', cp_node1), (''n2'', cp_node2)]. \<not> nd_Deleting n} = {cp_node1, cp_node2}"
proof -
  have "\<not> nd_Deleting cp_node1" "\<not> nd_Deleting cp_node2" "\<not> nd_Unschedulable cp_node1" "\<not> nd_Unschedulable cp_node2"
    by (simp_all add: cp_samples)
  then show ?thesis by (auto simp: prefer_set_def)
qed

theorem health_check_finds_healthy_node_witness:
  "\<exists>w'. doHealthCheck rev (\<lambda>ns. ns) cp_manager cp_node1 1 = (None, w')"
proof -
  have "nodeIsAssigned cp_node1 (cp_fip 1)" "NewRequest (cpClient cp_manager) (check_url cp_manager (cp_fip 1) cp_node1) = None"
    "cp_code (check_url cp_manager (cp_fip 1) cp_node1) \<noteq> Inr 200" "nodeAPIServerPort cp_manager \<noteq> 0"
    by (simp_all add: nodeIsAssigned_def check_url_def cp_code_def healthURLFromControlPlaneEndpoint_def cp_samples)
  then have "sent_to_healthy cp_manager cp_code (cp_fip 1) {cp_node1, cp_node2} 1 (doHealthCheck rev (\<lambda>ns. ns) cp_manager cp_node1 1)"
    using health_check_finds_healthy_node [OF cp_checks _ iteration_order_rev iteration_order_id cp_reservation _ cp_listed
        cp_candidates [symmetric] cp_assignable [OF subset_refl], where node = cp_node1] by blast
  then show ?thesis using cp_healthy [of 1] unfolding sent_to_healthy_def by (auto split: if_splits)
qed

text \<open>
  C7: Moving the floating IP away from a node that it is assigned to (or that is looked at while
  it is unassigned), as the deletion of a control plane node does, and its becoming unschedulable,
  sends it to a healthy node of those that are not being deleted, of these the schedulable ones if
  there are any, and of these the ones other than the node itself if there are any, whatever order
  the nodes are visited in. It succeeds as soon as one of them is healthy, and fails and changes
  nothing otherwise.
\<close>

theorem move_away_finds_other_node:
  assumes c: "\<And>u w. HTTP_Get (cpClient m) u w = (code u, w)"
    and port: "nodeAPIServerPort m \<noteq> 0" and o: "iteration_order ord1" "iteration_order ord2"
    and g: "getControlPlaneEndpointReservation m w = (Inr ip, w0)" and t: "nodeIsAssigned s ip \<or> ip_TargetedTo ip = 0"
    and ns: "list_control_plane m (controlPlaneSelectors m) [] w0 = (Inr ns, w1)"
    and cs: "cs = prefer_set (\<lambda>n. nd_Name n \<noteq> nd_Name s)
      (prefer_set (\<lambda>n. \<not> nd_Unschedulable n) {n \<in> snd ` set ns. \<not> nd_Deleting n})"
    and ids: "assignable m ip cs w1"
  shows "sent_to_healthy m code ip cs w1 (tryReassignAwayFromSelf ord1 ord2 m s w)
    \<and> (apiServerPort m \<noteq> 0 \<and> isControlPlaneNode s
       \<longrightarrow> handle_event ord1 ord2 (NodeDelete (Some s)) m w = (Ok m, snd (tryReassignAwayFromSelf ord1 ord2 m s w)))
    \<and> (apiServerPort m \<noteq> 0 \<and> isControlPlaneNode old \<and> isControlPlaneNode s \<and> nd_Unschedulable s \<and> \<not> nd_Unschedulable old
       \<longrightarrow> handle_event ord1 ord2 (NodeUpdate old s) m w = (Ok m, snd (tryReassignAwayFromSelf ord1 ord2 m s w)))"
proof (intro conjI)
  have "tryReassignAwayFromSelf ord1 ord2 m s w =
      tryReassign ord1 ord2 m ip [filterDeletingNodes, tryFilterUnschedulableNodes, tryFilterSelf s] w0"
    using t by (auto simp: tryReassignAwayFromSelf_def g)
  then show "sent_to_healthy m code ip cs w1 (tryReassignAwayFromSelf ord1 ord2 m s w)"
    using tryReassign_sent [OF c port ns candidates_away_from_self [OF listed_ok [OF ns] o]] ids cs by simp
qed (use port in \<open>auto simp: handle_NodeDelete handle_NodeUpdate node_DeleteFunc_def node_UpdateFunc_def simp del: handle_event.simps\<close>)

theorem move_away_finds_other_node_witness:
  "\<exists>w'. tryReassignAwayFromSelf rev (\<lambda>ns. ns) cp_manager cp_node1 1 = (None, w')"
proof -
  have "prefer_set (\<lambda>n. nd_Name n \<noteq> nd_Name cp_node1) {cp_node1, cp_node2} = {cp_node2}"
    by (auto simp: prefer_set_def cp_samples)
  moreover have "nodeIsAssigned cp_node1 (cp_fip 1)" "nodeAPIServerPort cp_manager \<noteq> 0"
    by (simp_all add: nodeIsAssigned_def cp_samples)
  moreover have "assignable cp_manager (cp_fip 1) {cp_node2} 1" by (rule cp_assignable) simp
  ultimately have "sent_to_healthy cp_manager cp_code (cp_fip 1) {cp_node2} 1 (tryReassignAwayFromSelf rev (\<lambda>ns. ns) cp_manager cp_node1 1)"
    using move_away_finds_other_node [OF cp_checks _ iteration_order_rev iteration_order_id cp_reservation _ cp_listed,
        where s = cp_node1 and cs = "{cp_node2}"] unfolding cp_candidates by simp
  then show ?thesis using cp_healthy [of 1] unfolding sent_to_healthy_def by (auto split: if_splits)
qed

section \<open>Ports\<close>

definition ports_ok :: "'w controlPlaneEndpointManager \<Rightarrow> 'w controlPlaneEndpointManager \<Rightarrow> bool" where
  "ports_ok m0 m \<longleftrightarrow> (apiServerPort m0 \<noteq> 0 \<longrightarrow> apiServerPort m = apiServerPort m0)
     \<and> (apiServerPort m = 0 \<longrightarrow> nodeAPIServerPort m = 0)
     \<and> m = m0\<lparr>apiServerPort := apiServerPort m, nodeAPIServerPort := nodeAPIServerPort m\<rparr>"

lemma ports_ok_step: "ports_ok m0 m \<Longrightarrow> ports_ok m0 (ports_from p m)"
  by (cases m0; cases m) (auto simp: ports_ok_def ports_from_def)

lemma ports_ok_reachable: "cp_reachable m0 w0 m w \<Longrightarrow> nodeAPIServerPort m0 = 0 \<Longrightarrow> ports_ok m0 m"
proof (induction rule: cp_reachable.induct)
  case (event m w ord1 ord2 ev m' w')
  then show ?case using handle_event_manager [OF event(2)] ports_ok_step by blast
qed (simp_all add: ports_ok_def)

text \<open>
  C14: Whatever events arrive, in whatever order, and whatever else happens in the world: a
  configured API server port never changes; the API server port is unknown only as long as the
  port of the nodes is; and nothing else of the manager changes.
\<close>

theorem control_plane_ports_invariant:
  assumes "cp_reachable m0 w0 m w" and "nodeAPIServerPort m0 = 0"
  shows "(apiServerPort m0 \<noteq> 0 \<longrightarrow> apiServerPort m = apiServerPort m0)
    \<and> (apiServerPort m = 0 \<longrightarrow> nodeAPIServerPort m = 0)
    \<and> m = m0\<lparr>apiServerPort := apiServerPort m, nodeAPIServerPort := nodeAPIServerPort m\<rparr>"
  using ports_ok_reachable [OF assms] unfolding ports_ok_def .

theorem control_plane_ports_invariant_witness:
  "\<exists>w. cp_reachable (cp_manager\<lparr>nodeAPIServerPort := 0\<rparr>) 1 cp_manager w
     \<and> apiServerPort cp_manager = apiServerPort (cp_manager\<lparr>nodeAPIServerPort := 0\<rparr>)"
proof -
  let ?m = "cp_manager\<lparr>nodeAPIServerPort := 0\<rparr>"
  let ?s = "\<lparr>svc_Namespace = ''default'', svc_Name = ''kubernetes'', svc_Annotations = None, svc_LoadBalancerIP = '''',
    svc_TargetPorts = [6443]\<rparr>"
  have "service_Func ?m (Some ?s) 1 = (Ok cp_manager, snd (snd (syncService ?m ?s 1)))"
    by (simp add: service_Func_eq ports_from_def cp_manager_def)
  then have "handle_event rev rev (ServiceAdd ?s) ?m 1 = (Ok cp_manager, snd (snd (syncService ?m ?s 1)))"
    by (simp add: handle_Service service_FilterFunc_def del: handle_event.simps)
  from event [OF start this] have r: "cp_reachable ?m 1 cp_manager (snd (snd (syncService ?m ?s 1)))" .
  with control_plane_ports_invariant [OF r] show ?thesis by (auto simp: cp_manager_def)
qed

text \<open>
  C28: The manager panics on exactly those events that hand a tombstone instead of an object to a
  filter. In particular no handler panics: none is called with a nil object, and a service without
  ports is refused before its first port is taken.
\<close>

theorem events_panic_iff_tombstone:
  "fst (handle_event ord1 ord2 ev m w) = Panic \<longleftrightarrow>
     ev \<in> {NodeDelete None, EndpointsDelete None, ServiceDelete None}"
proof (cases ev)
  case (NodeDelete obj)
  then show ?thesis by (cases obj) (simp_all add: handle_NodeDelete handle_tombstone del: handle_event.simps)
next
  case (NodeUpdate old new)
  then show ?thesis by (simp add: handle_NodeUpdate del: handle_event.simps)
next
  case (ServiceUpdate s0 s)
  then show ?thesis by (simp add: handle_Service service_Func_eq del: handle_event.simps)
next
  case (ServiceAdd s)
  then show ?thesis by (simp add: handle_Service service_Func_eq del: handle_event.simps)
next
  case (EndpointsUpdate e0 e)
  then show ?thesis by (simp add: handle_Endpoints del: handle_event.simps)
next
  case (EndpointsAdd e)
  then show ?thesis by (simp add: handle_Endpoints del: handle_event.simps)
qed (auto simp: node_FilterFunc_Some endpoints_FilterFunc_def service_FilterFunc_def split: prod.split option.splits)

section \<open>The external service\<close>

text \<open>
  C25: When the endpoints of default/kubernetes are synced, the subsets applied to the external
  service, read with the zero value for every field left out, are those of default/kubernetes:
  no address, port or reference is lost, and the call fails exactly when applying them does.
\<close>

theorem sync_endpoints_round_trip:
  "\<exists>subsets. map read_subset subsets = eps_Subsets e
     \<and> snd (syncEndpoints m e w) = snd (Endpoints_Apply (cpClient m) ''kube-system'' ''cloud-provider-cherry-kubernetes-external'' subsets w)
     \<and> (fst (syncEndpoints m e w) = None \<longleftrightarrow>
         fst (Endpoints_Apply (cpClient m) ''kube-system'' ''cloud-provider-cherry-kubernetes-external'' subsets w) = None)"
proof -
  have f: "foldl (\<lambda>c sub. c @ [EndpointSubsetApplyConfig sub]) acc subs = acc @ map EndpointSubsetApplyConfig subs" for acc subs
    by (induction subs arbitrary: acc) auto
  have "map read_subset (map EndpointSubsetApplyConfig (eps_Subsets e)) = eps_Subsets e"
    by (simp add: comp_def read_subset_config)
  then show ?thesis
    by (intro exI [of _ "map EndpointSubsetApplyConfig (eps_Subsets e)"])
      (auto simp: syncEndpoints_def f externalServiceName_def externalServiceNamespace_def split: prod.split option.split)
qed

end
