(* ===== verification/Cloud.thy ===== *)
theory Cloud
  imports Provider_Config Load_Balancers Control_Plane
begin

text \<open>
  \<^verbatim>\<open>cherry/cloud.go\<close> and \<^verbatim>\<open>main.go\<close>: the provider that the framework sees, how it is made from the
  configuration and how \<open>Initialize\<close> builds the components and gives them to each other. The
  libraries that the components need are gathered in a record. \<open>klog.Fatalf\<close> ends the process;
  it is the outcome \<open>Err\<close> here, with its message.
\<close>

section \<open>Data\<close>

record 'w instances =
  in_client :: "'w cherry_client"
  in_project :: int

record 'w cloud =
  cl_client :: "'w cherry_client"
  cl_config :: Config
  cl_instances :: "'w instances option"
  cl_loadBalancer :: "'w loadBalancers option"
  cl_controlPlaneEndpointManager :: "'w controlPlaneEndpointManager option"
  cl_bgp :: "bgp option"

text \<open>
  The Kubernetes client and the configuration of its connection, which the client builder
  gives, and the library functions that the constructors take as arguments.
\<close>

record 'w libraries =
  lib_clientset :: "'w k8s_client"
  lib_restCfg_Host :: string
  lib_HTTPClientFor :: "string \<Rightarrow> go_error + 'w cp_client"
  lib_url_parts :: "string \<Rightarrow> (string \<times> string) option"
  lib_SplitHostPort :: "string \<Rightarrow> string option"
  lib_url_Parse :: "string \<Rightarrow> go_error + parsed_url"
  lib_labels_Parse :: "string \<Rightarrow> go_error + (strmap option \<Rightarrow> bool)"
  lib_ParseToLabelSelector :: "string \<Rightarrow> go_error + LabelSelector"
  lib_NewLB :: "string \<Rightarrow> PeersFromNodesFunc \<Rightarrow> 'w metallb_LB outcome"
  lib_peer_order :: "Peer list \<Rightarrow> Peer list"
  lib_is_IPv6 :: "string \<Rightarrow> bool"

section \<open>Construction\<close>

definition newInstances :: "'w cherry_client \<Rightarrow> int \<Rightarrow> 'w instances" where
  "newInstances client projectID = \<lparr>in_client = client, in_project = projectID\<rparr>"

definition newCloud :: "Config \<Rightarrow> 'w cherry_client \<Rightarrow> go_error + 'w cloud" where
  "newCloud cherryConfig client =
     Inr \<lparr>cl_client = client, cl_config = cherryConfig, cl_instances = None, cl_loadBalancer = None,
       cl_controlPlaneEndpointManager = None, cl_bgp = None\<rparr>"

text \<open>
  The function that \<open>init\<close> registers under the name of the provider. \<open>NewClient\<close> takes the token
  and \<open>set_UserAgent\<close> writes the field of the client; \<open>version\<close> is the version of the program.
\<close>

definition provider_factory ::
  "(string \<Rightarrow> go_error + 'w cherry_client) \<Rightarrow> (string \<Rightarrow> 'w cherry_client \<Rightarrow> 'w cherry_client) \<Rightarrow> string
   \<Rightarrow> (string \<Rightarrow> go_error option) \<Rightarrow> (string \<Rightarrow> go_error + Config) \<Rightarrow> (string \<Rightarrow> string) \<Rightarrow> go_error + string
   \<Rightarrow> go_error + 'w cloud" where
  "provider_factory NewClient set_UserAgent version labels_Parse unmarshal getenv config =
     (case getConfig labels_Parse unmarshal getenv config of
        Inl e \<Rightarrow> Inl (Wrapf ''provider config error: '' e)
      | Inr cherryConfig \<Rightarrow>
          (case NewClient (AuthToken cherryConfig) of
             Inl e \<Rightarrow> Inl (Errorf (''unable to initialize cherrygo client: '' @ error_text e))
           | Inr client \<Rightarrow>
               (case newCloud cherryConfig (set_UserAgent (''cloud-provider-cherry/'' @ version) client) of
                  Inl e \<Rightarrow> Inl (Wrapf ''failed to create new cloud handler: '' e)
                | Inr c \<Rightarrow> Inr c)))"

definition Initialize :: "'w libraries \<Rightarrow> 'w cloud \<Rightarrow> 'w \<Rightarrow> unit outcome \<times> 'w cloud \<times> 'w" where
  "Initialize L c w =
     (let clientset = lib_clientset L; config = cl_config c; projectID = ProjectID config
      in case newControlPlaneEndpointManager (lib_HTTPClientFor L) (lib_url_parts L) (lib_SplitHostPort L) (lib_restCfg_Host L)
           (FIPTag config) projectID (cl_client c) (APIServerPort config) (FIPHealthCheckUseHostIP config) of
        Inl e \<Rightarrow> (Err (Errorf (''could not initialize ControlPlaneEndpointManager: '' @ error_text e)), c, w)
      | Inr epm \<Rightarrow>
     (case newBGP (cl_client c) projectID w of
        (Inl e, w1) \<Rightarrow> (Err (Errorf (''could not initialize BGP: '' @ error_text e)), c, w1)
      | (Inr b, w1) \<Rightarrow>
     (case newLoadBalancers (lib_url_Parse L) (lib_labels_Parse L)
           (lib_ParseToLabelSelector L) (lib_NewLB L) (lib_peer_order L)
           (cl_client c) clientset projectID (Region config) (LoadBalancerSetting config)
           (AnnotationLocalASN config) (AnnotationPeerASN config) (AnnotationPeerIP config) (AnnotationSrcIP config)
           (AnnotationFIPRegion config) (AnnotationMultiHop config) (BGPNodeSelector config)
           (ensureNodeBGPEnabled (lib_is_IPv6 L) (cl_client c) b) w1 of
        (Err e, w2) \<Rightarrow> (Err (Errorf (''could not initialize LoadBalancers: '' @ error_text e)), c, w2)
      | (Panic, w2) \<Rightarrow> (Panic, c, w2)
      | (Ok lb, w2) \<Rightarrow>
          (Ok (), c\<lparr>cl_loadBalancer := lb, cl_bgp := Some b, cl_instances := Some (newInstances (cl_client c) projectID),
             cl_controlPlaneEndpointManager := epm\<rparr>, w2))))"

section \<open>The interface of the framework\<close>

text \<open>Each returns what the provider has, a nil pointer being \<open>None\<close>, and whether it is supported.\<close>

definition cloud_LoadBalancer :: "'w cloud \<Rightarrow> 'w loadBalancers option \<times> bool" where
  "cloud_LoadBalancer c = (cl_loadBalancer c, cl_loadBalancer c \<noteq> None)"

definition cloud_Instances :: "'w cloud \<Rightarrow> unit option \<times> bool" where
  "cloud_Instances c = (None, False)"

definition cloud_InstancesV2 :: "'w cloud \<Rightarrow> 'w instances option \<times> bool" where
  "cloud_InstancesV2 c = (cl_instances c, True)"

definition cloud_Zones :: "'w cloud \<Rightarrow> unit option \<times> bool" where
  "cloud_Zones c = (None, False)"

definition cloud_Clusters :: "'w cloud \<Rightarrow> unit option \<times> bool" where
  "cloud_Clusters c = (None, False)"

definition cloud_Routes :: "'w cloud \<Rightarrow> unit option \<times> bool" where
  "cloud_Routes c = (None, False)"

definition cloud_ProviderName :: "'w cloud \<Rightarrow> string" where
  "cloud_ProviderName c = ProviderName"

definition cloud_HasClusterID :: "'w cloud \<Rightarrow> bool" where
  "cloud_HasClusterID c = True"

section \<open>The command\<close>

text \<open>
  \<^verbatim>\<open>main.go\<close>. \<open>InitCloudProvider\<close> is the framework's: it calls the registered function of the
  name with the file. The process ends with an exit code or goes on, which is \<open>Ok\<close>.
\<close>

definition cloudInitializer ::
  "(string \<Rightarrow> string \<Rightarrow> go_error + 'w cloud option) \<Rightarrow> string \<Rightarrow> string \<Rightarrow> bool \<Rightarrow> 'w cloud outcome" where
  "cloudInitializer InitCloudProvider name configFile allowUntaggedCloud =
     (case InitCloudProvider name configFile of
        Inl e \<Rightarrow> Err (Errorf (''Cloud provider could not be initialized: '' @ error_text e))
      | Inr None \<Rightarrow> Err (Errorf ''Cloud provider is nil'')
      | Inr (Some c) \<Rightarrow>
          if \<not> cloud_HasClusterID c \<and> \<not> allowUntaggedCloud
          then Err (Errorf ''no ClusterID found.  A ClusterID is required for the cloud provider to function properly.  This check can be bypassed by setting the allow-untagged-cloud option'')
          else Ok c)"

text \<open>
  \<open>NewOptions\<close> gives the options, a pointer that may be nil, and an error; \<open>set_name\<close> writes the name
  of the provider into them. \<open>run\<close> builds the command from the options, the initializer and the
  controllers and executes it.
\<close>

definition main_command ::
  "('o option \<times> go_error option) \<Rightarrow> (string \<Rightarrow> 'o \<Rightarrow> 'o) \<Rightarrow> (string \<times> 'c) list
   \<Rightarrow> ('o \<Rightarrow> (string \<times> 'c) list \<Rightarrow> go_error option) \<Rightarrow> int outcome" where
  "main_command NewOptions set_name DefaultInitFuncConstructors run =
     (case NewOptions of
        (None, _) \<Rightarrow> Panic
      | (Some _, Some e) \<Rightarrow> Err (Errorf (''unable to initialize command options: '' @ error_text e))
      | (Some opts, None) \<Rightarrow>
          let opts' = set_name ProviderName opts;
              controllerInitializers = AList.delete ''route'' DefaultInitFuncConstructors
          in case run opts' controllerInitializers of Some e \<Rightarrow> Ok 1 | None \<Rightarrow> Ok 0)"

section \<open>Lemmas\<close>

lemma newLoadBalancers_fields:
  assumes "newLoadBalancers up lp ps NewLB ord client k8s project region config a1 a2 a3 a4 a5 a6 sel bgp w = (Ok r, w')"
  shows "(r = None \<longleftrightarrow> config = '''') \<and>
    (\<forall>l. r = Some l \<longrightarrow> lbs_client l = client \<and> lbs_k8sclient l = k8s \<and> lbs_project l = project \<and> lbs_region l = region
      \<and> lbs_implementorConfig l = config \<and> lbs_bgpEnabler l = bgp
      \<and> (lbs_nodeSelector l = None \<longleftrightarrow> sel \<noteq> '''' \<and> (\<exists>e. lp sel = Inl e)))
    \<and> (config = '''' \<longrightarrow> w' = w) \<and> (config \<noteq> '''' \<longrightarrow> w' = snd (Namespaces_Get k8s ''kube-system'' w))"
  using assms
  by (auto simp: newLoadBalancers_def Let_def split: if_splits prod.splits option.splits sum.splits outcome.splits)

lemma newControlPlaneEndpointManager_fields:
  assumes "newControlPlaneEndpointManager hc up shp host tag project client port useIP = Inr r"
  shows "(r = None \<longleftrightarrow> tag = '''') \<and>
    (\<forall>m. r = Some m \<longrightarrow> cherryClient m = client \<and> cp_projectID m = project \<and> apiServerPort m = port \<and> useHostIP m = useIP
      \<and> nodeAPIServerPort m = 0)"
  using assms by (auto simp: newControlPlaneEndpointManager_def Let_def split: if_splits sum.splits)

lemma ensureNodeBGPEnabled_ASN:
  "ensureNodeBGPEnabled v6 c b pid w = (Inr info, w') \<Longrightarrow> bi_LocalASN info = bgp_localASN b"
  by (auto simp: ensureNodeBGPEnabled_def nodeBGPInfoFromServer_def Let_def split: sum.splits prod.splits option.splits if_splits)

text \<open>Every provider has a cluster ID, so the check for one never ends the process.\<close>

lemma cloudInitializer_Ok: "cloudInitializer init name file untagged = Ok c \<longleftrightarrow> init name file = Inr (Some c)"
  by (auto simp: cloudInitializer_def cloud_HasClusterID_def split: sum.split option.split)

text \<open>What a run of \<open>Initialize\<close> that came to its end has gone through.\<close>

lemma Initialize_Ok:
  assumes "Initialize L c w = (Ok (), c', w')"
  obtains epm b w1 lb where
    "newControlPlaneEndpointManager (lib_HTTPClientFor L) (lib_url_parts L) (lib_SplitHostPort L) (lib_restCfg_Host L)
       (FIPTag (cl_config c)) (ProjectID (cl_config c)) (cl_client c) (APIServerPort (cl_config c))
       (FIPHealthCheckUseHostIP (cl_config c)) = Inr epm"
    "newBGP (cl_client c) (ProjectID (cl_config c)) w = (Inr b, w1)"
    "lb = None \<longleftrightarrow> LoadBalancerSetting (cl_config c) = ''''"
    "\<And>l. lb = Some l \<Longrightarrow> lbs_client l = cl_client c \<and> lbs_project l = ProjectID (cl_config c) \<and> lbs_region l = Region (cl_config c)
      \<and> lbs_bgpEnabler l = ensureNodeBGPEnabled (lib_is_IPv6 L) (cl_client c) b"
    "w' = w1 \<or> w' = snd (Namespaces_Get (lib_clientset L) ''kube-system'' w1)"
    "c' = c\<lparr>cl_loadBalancer := lb, cl_bgp := Some b, cl_instances := Some (newInstances (cl_client c) (ProjectID (cl_config c))),
       cl_controlPlaneEndpointManager := epm\<rparr>"
proof -
  obtain epm b w1 lb where "newControlPlaneEndpointManager (lib_HTTPClientFor L) (lib_url_parts L) (lib_SplitHostPort L) (lib_restCfg_Host L)
       (FIPTag (cl_config c)) (ProjectID (cl_config c)) (cl_client c) (APIServerPort (cl_config c))
       (FIPHealthCheckUseHostIP (cl_config c)) = Inr epm"
    "newBGP (cl_client c) (ProjectID (cl_config c)) w = (Inr b, w1)"
    and l: "newLoadBalancers (lib_url_Parse L) (lib_labels_Parse L)
           (lib_ParseToLabelSelector L) (lib_NewLB L) (lib_peer_order L)
           (cl_client c) (lib_clientset L) (ProjectID (cl_config c)) (Region (cl_config c)) (LoadBalancerSetting (cl_config c))
           (AnnotationLocalASN (cl_config c)) (AnnotationPeerASN (cl_config c)) (AnnotationPeerIP (cl_config c)) (AnnotationSrcIP (cl_config c))
           (AnnotationFIPRegion (cl_config c)) (AnnotationMultiHop (cl_config c)) (BGPNodeSelector (cl_config c))
           (ensureNodeBGPEnabled (lib_is_IPv6 L) (cl_client c) b) w1 = (Ok lb, w')"
    "c' = c\<lparr>cl_loadBalancer := lb, cl_bgp := Some b, cl_instances := Some (newInstances (cl_client c) (ProjectID (cl_config c))),
       cl_controlPlaneEndpointManager := epm\<rparr>"
    using assms by (auto simp: Initialize_def Let_def split: sum.splits prod.splits outcome.splits)
  then show thesis using newLoadBalancers_fields [OF l(1)] by (intro that) auto
qed

section \<open>Samples\<close>

definition sample_clientset :: "'w k8s_client" where
  "sample_clientset =
     \<lparr>Namespaces_Get = (\<lambda>_ w. ((Some ''uid'', None), w)), Services_Get = (\<lambda>_ _ w. ((None, None), w)),
      Services_Update = (\<lambda>_ w. (None, w)), Nodes_Patch = (\<lambda>_ _ w. (None, w))\<rparr>"

definition sample_cp_client :: "'w cp_client" where
  "sample_cp_client =
     \<lparr>Nodes_List = (\<lambda>_ w. (Inr [], w)), Endpoints_Apply = (\<lambda>_ _ _ w. (None, w)), Services_Apply = (\<lambda>_ w. (None, w)),
      Services_ApplyStatus = (\<lambda>_ w. (None, w)), NewRequest = (\<lambda>_. None), HTTP_Get = (\<lambda>_ w. (Inr 200, w))\<rparr>"

definition sample_libraries :: "'w libraries" where
  "sample_libraries =
     \<lparr>lib_clientset = sample_clientset, lib_restCfg_Host = ''10.0.0.1'', lib_HTTPClientFor = (\<lambda>_. Inr sample_cp_client),
      lib_url_parts = (\<lambda>_. None), lib_SplitHostPort = (\<lambda>_. None),
      lib_url_Parse = (\<lambda>_. Inr \<lparr>u_Scheme = ''kube-vip'', u_Path = '''', u_Query = (\<lambda>_. '''')\<rparr>),
      lib_labels_Parse = (\<lambda>_. Inr (\<lambda>_. True)), lib_ParseToLabelSelector = (\<lambda>_. Inl (External ''none'')),
      lib_NewLB = (\<lambda>_ _. Panic), lib_peer_order = (\<lambda>ps. ps), lib_is_IPv6 = (\<lambda>_. False)\<rparr>"

definition sample_project :: project where
  "sample_project = \<lparr>pj_ID = 87553, pj_Name = ''p'', pj_Bgp_Enabled = False, pj_Bgp_LocalASN = 0\<rparr>"

definition sample_config :: Config where
  "sample_config = sample_raw_config\<lparr>LoadBalancerSetting := ''kube-vip://''\<rparr>"

section \<open>Properties\<close>

text \<open>C13: When the provider has been initialised, its parts fit together: load balancing is offered
  exactly when a load balancer is configured and the control plane manager runs exactly when a tag
  is; all parts have the client and the project of the configuration; BGP is on for the project, and
  the AS number that the load balancer gets for any node is the one the project has.\<close>

theorem initialize_wires_components:
  assumes api: "projects_api_contract (cl_client c)"
    and ns: "\<And>n w. snd (Namespaces_Get (lib_clientset L) n w) = w"
    and get: "Projects_Get (cl_client c) (ProjectID (cl_config c)) w = (Inr p0, w0)"
    and run: "Initialize L c w = (Ok (), c', w')"
  shows "(snd (cloud_LoadBalancer c') \<longleftrightarrow> LoadBalancerSetting (cl_config c) \<noteq> '''')
    \<and> (cl_controlPlaneEndpointManager c' \<noteq> None \<longleftrightarrow> FIPTag (cl_config c) \<noteq> '''')
    \<and> cl_config c' = cl_config c
    \<and> cloud_InstancesV2 c' = (Some \<lparr>in_client = cl_client c, in_project = ProjectID (cl_config c)\<rparr>, True)
    \<and> (\<forall>m. cl_controlPlaneEndpointManager c' = Some m \<longrightarrow> cherryClient m = cl_client c
          \<and> cp_projectID m = ProjectID (cl_config c) \<and> apiServerPort m = APIServerPort (cl_config c))
    \<and> (\<forall>l. fst (cloud_LoadBalancer c') = Some l \<longrightarrow> lbs_client l = cl_client c
          \<and> lbs_project l = ProjectID (cl_config c) \<and> lbs_region l = Region (cl_config c))
    \<and> (\<exists>p. Projects_Get (cl_client c) (ProjectID (cl_config c)) w' = (Inr p, w') \<and> pj_Bgp_Enabled p
          \<and> (\<forall>l pid v info v'. fst (cloud_LoadBalancer c') = Some l \<longrightarrow> lbs_bgpEnabler l pid v = (Inr info, v')
               \<longrightarrow> bi_LocalASN info = pj_Bgp_LocalASN p))"
  using run
proof (cases rule: Initialize_Ok)
  case (1 epm b w1 lb)
  have w': "w' = w1" using 1(5) ns by auto
  obtain p where p: "Projects_Get (cl_client c) (ProjectID (cl_config c)) w1 = (Inr p, w1)" "pj_Bgp_Enabled p"
      "bgp_localASN b = pj_Bgp_LocalASN p"
    using newBGP_enabled [OF api get 1(2)] by blast
  have "\<exists>p. Projects_Get (cl_client c) (ProjectID (cl_config c)) w' = (Inr p, w') \<and> pj_Bgp_Enabled p
      \<and> (\<forall>l pid v info v'. fst (cloud_LoadBalancer c') = Some l \<longrightarrow> lbs_bgpEnabler l pid v = (Inr info, v')
           \<longrightarrow> bi_LocalASN info = pj_Bgp_LocalASN p)"
    using 1(4,6) p w' by (auto simp: cloud_LoadBalancer_def dest: ensureNodeBGPEnabled_ASN)
  then show ?thesis using 1(3,4,6) newControlPlaneEndpointManager_fields [OF 1(1)]
    by (simp add: cloud_LoadBalancer_def cloud_InstancesV2_def newInstances_def)
qed

theorem initialize_wires_components_witness:
  "\<exists>c' p. Initialize sample_libraries (projr (newCloud sample_config one_project_client)) sample_project = (Ok (), c', p)
    \<and> snd (cloud_LoadBalancer c') \<and> cl_controlPlaneEndpointManager c' \<noteq> None
    \<and> Projects_Get one_project_client 87553 p = (Inr p, p) \<and> pj_Bgp_Enabled p"
proof -
  let ?c = "projr (newCloud sample_config one_project_client)"
  have api: "projects_api_contract (cl_client ?c)"
    by (simp add: projects_api_contract_def newCloud_def one_project_client_def Let_def)
  have ns: "snd (Namespaces_Get (lib_clientset sample_libraries) n w) = w" for n and w :: project
    by (simp add: sample_libraries_def sample_clientset_def)
  have get: "Projects_Get (cl_client ?c) (ProjectID (cl_config ?c)) sample_project = (Inr sample_project, sample_project)"
    by (simp add: newCloud_def one_project_client_def)
  have "\<exists>c' w'. Initialize sample_libraries ?c sample_project = (Ok (), c', w')"
    by (simp add: Initialize_def newCloud_def sample_libraries_def newControlPlaneEndpointManager_def sample_config_def
        sample_raw_config_def zero_Config_def newBGP_def enableBGP_def one_project_client_def sample_project_def newLoadBalancers_def
        sample_clientset_def Let_def)
  then obtain c' w' where run: "Initialize sample_libraries ?c sample_project = (Ok (), c', w')" by blast
  from initialize_wires_components [OF api ns get run] run show ?thesis
    by (auto simp: newCloud_def sample_config_def sample_raw_config_def zero_Config_def one_project_client_def)
qed

text \<open>When initialising fails the process ends, and in which state: a control plane manager that
  cannot be built ends it before any request is made; without a load balancer setting and a tag
  only the project's BGP can; the provider itself is only written at the very end.\<close>

theorem initialize_failures:
  assumes "Initialize L c w = (r, c', w')"
  shows "(r = Ok () \<or> c' = c)
    \<and> (\<forall>e. newControlPlaneEndpointManager (lib_HTTPClientFor L) (lib_url_parts L) (lib_SplitHostPort L) (lib_restCfg_Host L)
        (FIPTag (cl_config c)) (ProjectID (cl_config c)) (cl_client c) (APIServerPort (cl_config c))
        (FIPHealthCheckUseHostIP (cl_config c)) = Inl e
        \<longrightarrow> r = Err (Errorf (''could not initialize ControlPlaneEndpointManager: '' @ error_text e)) \<and> w' = w)
    \<and> (LoadBalancerSetting (cl_config c) = '''' \<and> FIPTag (cl_config c) = '''' \<longrightarrow>
        w' = snd (newBGP (cl_client c) (ProjectID (cl_config c)) w) \<and>
        (r = Ok () \<longleftrightarrow> (\<exists>b. fst (newBGP (cl_client c) (ProjectID (cl_config c)) w) = Inr b)))"
proof -
  have lb: "newLoadBalancers up lp ps NewLB ord client k8s project region '''' a1 a2 a3 a4 a5 a6 sel bgp v = (Ok None, v)"
    for up lp ps NewLB ord client k8s project region a1 a2 a3 a4 a5 a6 sel bgp v
    by (simp add: newLoadBalancers_def Let_def)
  have cp: "newControlPlaneEndpointManager hc up shp host '''' project client port useIP = Inr None"
    for hc up shp host project client port useIP
    by (simp add: newControlPlaneEndpointManager_def)
  show ?thesis using assms
    by (auto simp: Initialize_def Let_def lb cp split: sum.splits prod.splits outcome.splits)
qed

theorem initialize_failures_witness:
  "Initialize (sample_libraries\<lparr>lib_HTTPClientFor := (\<lambda>_. Inl (External ''tls''))\<rparr>)
      (projr (newCloud sample_config one_project_client)) sample_project
    = (Err (Errorf (''could not initialize ControlPlaneEndpointManager: ''
         @ error_text (Wrapf ''failed to build http client from rest config: '' (External ''tls'')))),
       projr (newCloud sample_config one_project_client), sample_project)"
proof -
  let ?L = "sample_libraries\<lparr>lib_HTTPClientFor := (\<lambda>_. Inl (External ''tls''))\<rparr>"
  let ?c = "projr (newCloud sample_config one_project_client)"
  obtain r c' w' where run: "Initialize ?L ?c sample_project = (r, c', w')" by (metis prod_cases3)
  have "newControlPlaneEndpointManager (lib_HTTPClientFor ?L) (lib_url_parts ?L) (lib_SplitHostPort ?L) (lib_restCfg_Host ?L)
      (FIPTag (cl_config ?c)) (ProjectID (cl_config ?c)) (cl_client ?c) (APIServerPort (cl_config ?c))
      (FIPHealthCheckUseHostIP (cl_config ?c)) = Inl (Wrapf ''failed to build http client from rest config: '' (External ''tls''))"
    by (simp add: newControlPlaneEndpointManager_def newCloud_def sample_config_def sample_raw_config_def zero_Config_def)
  with initialize_failures [OF run] run show ?thesis by auto
qed

text \<open>C33: A provider is only made with a token, and its client from that token; the project ID, which
  every request to the API carries, and the port fit in 32 bits. Until it is initialised it offers no
  load balancer, and an instances interface that is a nil pointer.\<close>

theorem provider_from_configuration:
  assumes "provider_factory NewClient set_UserAgent version labels_Parse (\<lambda>_. Inr raw) getenv (Inr bytes) = Inr c"
    and "int32_range (APIServerPort raw)"
  shows "(\<exists>client. NewClient (env_or getenv ''CHERRY_API_KEY'' (AuthToken raw)) = Inr client
        \<and> cl_client c = set_UserAgent (''cloud-provider-cherry/'' @ version) client)
    \<and> env_or getenv ''CHERRY_API_KEY'' (AuthToken raw) \<noteq> ''''
    \<and> int32_range (ProjectID (cl_config c)) \<and> int32_range (APIServerPort (cl_config c))
    \<and> cloud_LoadBalancer c = (None, False) \<and> cloud_InstancesV2 c = (None, True)"
proof -
  obtain cfg client where cfg: "getConfig labels_Parse (\<lambda>_. Inr raw) getenv (Inr bytes) = Inr cfg"
    and cl: "NewClient (AuthToken cfg) = Inr client"
    and c: "c = \<lparr>cl_client = set_UserAgent (''cloud-provider-cherry/'' @ version) client, cl_config = cfg, cl_instances = None,
      cl_loadBalancer = None, cl_controlPlaneEndpointManager = None, cl_bgp = None\<rparr>"
    using assms(1) by (auto simp: provider_factory_def newCloud_def split: sum.splits)
  obtain pid port host where e: "cfg = effective_config getenv raw pid port host"
    and pid: "ParseInt 32 (env_or getenv projectIDName (itoa (ProjectID raw))) = Inr pid"
    and port: "config_port getenv raw = Inr port" and tok: "AuthToken cfg \<noteq> ''''"
    using cfg by (rule getConfig_Inr)
  have "int32_range pid" using ParseInt_range [OF pid] by simp
  moreover have "int32_range port"
    using port assms(2) ParseInt_range [of 32 "getenv envVarAPIServerPort" port] by (auto simp: config_port_eq split: if_splits)
  moreover have "AuthToken cfg = env_or getenv ''CHERRY_API_KEY'' (AuthToken raw)"
    by (simp add: e effective_config_def apiKeyName_def)
  ultimately show ?thesis using cl tok
    by (simp add: c cloud_LoadBalancer_def cloud_InstancesV2_def e effective_config_def)
qed

theorem provider_from_configuration_witness:
  "\<exists>c. provider_factory (\<lambda>_. Inr one_project_client) (\<lambda>_ cl. cl) ''v1'' (\<lambda>_. None) (\<lambda>_. Inr sample_raw_config) sample_env (Inr ''{}'') = Inr c
    \<and> int32_range (ProjectID (cl_config c)) \<and> cloud_LoadBalancer c = (None, False)"
proof -
  have p: "ParseInt 32 (itoa 87553) = Inr 87553" by (rule ParseInt_itoa) simp_all
  have "\<exists>c. getConfig (\<lambda>_. None) (\<lambda>_. Inr sample_raw_config) sample_env (Inr ''{}'') = Inr c"
    by (simp add: getConfig_run config_port_eq env_or_def sample_env_def sample_raw_config_def
        zero_Config_def env_names p)
  then obtain c where c: "provider_factory (\<lambda>_. Inr one_project_client) (\<lambda>_ cl. cl) ''v1'' (\<lambda>_. None) (\<lambda>_. Inr sample_raw_config)
      sample_env (Inr ''{}'') = Inr c"
    by (auto simp: provider_factory_def newCloud_def)
  have "int32_range (APIServerPort sample_raw_config)" by (simp add: sample_raw_config_def zero_Config_def)
  from provider_from_configuration [OF c this] c show ?thesis by auto
qed

end
