(* ===== verification/Mem_Store.thy ===== *)
theory Mem_Store
  imports Api_Types
begin

text \<open>
  \<^verbatim>\<open>cherry/server/store/memory.go\<close> and \<^verbatim>\<open>store.go\<close>: the in-memory data store behind the fake of
  the Cherry Servers API. The maps are association lists. The store hands out pointers to its
  servers and projects, and its user writes through them, so these two kinds live in a heap
  (a list of objects, a pointer being the index) and the maps hold pointers; regions and plans
  are never written to after they are made and are kept as values. The IDs come from a counter,
  an \<open>int\<close> of 64 bits that wraps around; \<open>has_room\<close> says that it can still give out one more.
  The interface is the record \<open>DataStore\<close>; the contract of one kind of object is the locale
  \<open>numbered_objects\<close>.
\<close>

section \<open>The interface\<close>

text \<open>
  A pointer is a number. The first four fields are what the language does with a pointer, the
  others the methods of the interface; \<open>None\<close> is a nil pointer.
\<close>

record 's DataStore =
  ds_server :: "'s \<Rightarrow> nat \<Rightarrow> server"
  ds_set_server :: "nat \<Rightarrow> server \<Rightarrow> 's \<Rightarrow> 's"
  ds_project :: "'s \<Rightarrow> nat \<Rightarrow> project"
  ds_set_project :: "nat \<Rightarrow> project \<Rightarrow> 's \<Rightarrow> 's"
  ds_CreateRegion :: "string \<Rightarrow> string \<Rightarrow> 's \<Rightarrow> (go_error + region option) \<times> 's"
  ds_ListRegions :: "'s \<Rightarrow> (go_error + region list option) \<times> 's"
  ds_GetRegion :: "int \<Rightarrow> 's \<Rightarrow> (go_error + region option) \<times> 's"
  ds_GetRegionByName :: "string \<Rightarrow> 's \<Rightarrow> (go_error + region option) \<times> 's"
  ds_GetRegionByCode :: "string \<Rightarrow> 's \<Rightarrow> (go_error + region option) \<times> 's"
  ds_CreatePlan :: "string \<Rightarrow> 's \<Rightarrow> (go_error + plan option) \<times> 's"
  ds_ListPlans :: "'s \<Rightarrow> (go_error + plan list option) \<times> 's"
  ds_GetPlan :: "int \<Rightarrow> 's \<Rightarrow> (go_error + plan option) \<times> 's"
  ds_GetPlanByName :: "string \<Rightarrow> 's \<Rightarrow> (go_error + plan option) \<times> 's"
  ds_CreateServer :: "int \<Rightarrow> string \<Rightarrow> plan \<Rightarrow> region \<Rightarrow> 's \<Rightarrow> (go_error + nat option) \<times> 's"
  ds_UpdateServer :: "int \<Rightarrow> nat option \<Rightarrow> 's \<Rightarrow> go_error option \<times> 's"
  ds_ListServers :: "int \<Rightarrow> 's \<Rightarrow> (go_error + nat list) \<times> 's"
  ds_GetServer :: "int \<Rightarrow> 's \<Rightarrow> (go_error + nat option) \<times> 's"
  ds_DeleteServer :: "int \<Rightarrow> 's \<Rightarrow> (go_error + bool) \<times> 's"
  ds_CreateProject :: "string \<Rightarrow> bool \<Rightarrow> 's \<Rightarrow> (go_error + nat option) \<times> 's"
  ds_GetProject :: "int \<Rightarrow> 's \<Rightarrow> (go_error + nat option) \<times> 's"
  ds_UpdateProject :: "int \<Rightarrow> nat option \<Rightarrow> 's \<Rightarrow> go_error option \<times> 's"

section \<open>The store\<close>

record Memory =
  mem_counter :: int
  mem_regions :: "(int \<times> region) list"
  mem_servers :: "(int \<times> nat) list"
  mem_plans :: "(int \<times> plan) list"
  mem_projects :: "(int \<times> nat) list"
  server_heap :: "server list"
  project_heap :: "project list"

definition getID :: "Memory \<Rightarrow> int \<times> Memory" where
  "getID m = (let m1 = m\<lparr>mem_counter := wrap_int64 (mem_counter m + 1)\<rparr> in (mem_counter m1, m1))"

definition mem_CreateRegion :: "string \<Rightarrow> string \<Rightarrow> Memory \<Rightarrow> region \<times> Memory" where
  "mem_CreateRegion name code m =
     (let (i, m1) = getID m;
          region = \<lparr>rg_ID = i, rg_Name = name, rg_RegionIso2 = code, rg_Slug = '''', rg_BGP_Hosts = [], rg_BGP_Asn = 0\<rparr>
      in (region, m1\<lparr>mem_regions := AList.update (rg_ID region) region (mem_regions m1)\<rparr>))"

text \<open>The loop that lists the values of a map: it stops when it has as many as the map has entries.\<close>

fun list_values :: "nat \<Rightarrow> ('a \<Rightarrow> bool) \<Rightarrow> 'a list \<Rightarrow> 'a list \<Rightarrow> 'a list" where
  "list_values entries keep acc [] = acc"
| "list_values entries keep acc (v # vs) =
     (if length acc \<ge> entries then acc
      else if \<not> keep v then list_values entries keep acc vs
      else list_values entries keep (acc @ [v]) vs)"

definition mem_ListRegions :: "(region list \<Rightarrow> region list) \<Rightarrow> Memory \<Rightarrow> region list option" where
  "mem_ListRegions ord m =
     (let entries = length (mem_regions m)
      in if entries \<noteq> 0 then Some (list_values entries (\<lambda>_. True) [] (ord (map snd (mem_regions m)))) else None)"

definition mem_GetRegion :: "int \<Rightarrow> Memory \<Rightarrow> region option" where
  "mem_GetRegion i m = map_of (mem_regions m) i"

definition mem_GetRegionByName :: "(region list \<Rightarrow> region list) \<Rightarrow> string \<Rightarrow> Memory \<Rightarrow> region option" where
  "mem_GetRegionByName ord name m = find (\<lambda>r. rg_Name r = name) (ord (map snd (mem_regions m)))"

definition mem_GetRegionByCode :: "(region list \<Rightarrow> region list) \<Rightarrow> string \<Rightarrow> Memory \<Rightarrow> region option" where
  "mem_GetRegionByCode ord code m = find (\<lambda>r. rg_RegionIso2 r = code) (ord (map snd (mem_regions m)))"

definition mem_CreatePlan :: "string \<Rightarrow> Memory \<Rightarrow> plan \<times> Memory" where
  "mem_CreatePlan name m =
     (let (i, m1) = getID m;
          plan = \<lparr>pl_ID = i, pl_Name = name, pl_Slug = ''slug-'' @ name\<rparr>
      in (plan, m1\<lparr>mem_plans := AList.update (pl_ID plan) plan (mem_plans m1)\<rparr>))"

definition mem_ListPlans :: "(plan list \<Rightarrow> plan list) \<Rightarrow> Memory \<Rightarrow> plan list option" where
  "mem_ListPlans ord m =
     (let entries = length (mem_plans m)
      in if entries \<noteq> 0 then Some (list_values entries (\<lambda>_. True) [] (ord (map snd (mem_plans m)))) else None)"

definition mem_GetPlan :: "int \<Rightarrow> Memory \<Rightarrow> plan option" where
  "mem_GetPlan i m = map_of (mem_plans m) i"

definition mem_GetPlanByName :: "(plan list \<Rightarrow> plan list) \<Rightarrow> string \<Rightarrow> Memory \<Rightarrow> plan option" where
  "mem_GetPlanByName ord name m = find (\<lambda>p. pl_Name p = name) (ord (map snd (mem_plans m)))"

definition mem_CreateServer :: "int \<Rightarrow> string \<Rightarrow> plan \<Rightarrow> region \<Rightarrow> Memory \<Rightarrow> nat \<times> Memory" where
  "mem_CreateServer projectID name plan region m =
     (let (i, m1) = getID m;
          server = \<lparr>srv_ID = i, srv_Hostname = name, srv_State = ''active'', srv_Region = region, srv_Plan = plan,
            srv_ProjectID = projectID, srv_IPAddresses = [], srv_Tags = None, srv_BGP_Enabled = False\<rparr>;
          p = length (server_heap m1)
      in (p, m1\<lparr>server_heap := server_heap m1 @ [server], mem_servers := AList.update (srv_ID server) p (mem_servers m1)\<rparr>))"

definition mem_UpdateServer :: "int \<Rightarrow> nat option \<Rightarrow> Memory \<Rightarrow> go_error option \<times> Memory" where
  "mem_UpdateServer i server m =
     (case server of
        None \<Rightarrow> (Some (Errorf ''must include a valid server''), m)
      | Some p \<Rightarrow>
          if map_of (mem_servers m) (srv_ID (server_heap m ! p)) \<noteq> None
          then (None, m\<lparr>mem_servers := AList.update i p (mem_servers m)\<rparr>)
          else (Some (Errorf ''server not found''), m))"

definition mem_ListServers :: "(nat list \<Rightarrow> nat list) \<Rightarrow> int \<Rightarrow> Memory \<Rightarrow> nat list" where
  "mem_ListServers ord projectID m =
     list_values (length (mem_servers m)) (\<lambda>p. srv_ProjectID (server_heap m ! p) = projectID) []
       (ord (map snd (mem_servers m)))"

definition mem_GetServer :: "int \<Rightarrow> Memory \<Rightarrow> nat option" where
  "mem_GetServer i m = map_of (mem_servers m) i"

definition mem_DeleteServer :: "int \<Rightarrow> Memory \<Rightarrow> bool \<times> Memory" where
  "mem_DeleteServer i m =
     (if map_of (mem_servers m) i \<noteq> None then (True, m\<lparr>mem_servers := AList.delete i (mem_servers m)\<rparr>) else (False, m))"

definition mem_CreateProject :: "string \<Rightarrow> bool \<Rightarrow> Memory \<Rightarrow> nat \<times> Memory" where
  "mem_CreateProject name bgp m =
     (let (i, m1) = getID m;
          project = \<lparr>pj_ID = i, pj_Name = name, pj_Bgp_Enabled = bgp, pj_Bgp_LocalASN = 0\<rparr>;
          p = length (project_heap m1)
      in (p, m1\<lparr>project_heap := project_heap m1 @ [project], mem_projects := AList.update (pj_ID project) p (mem_projects m1)\<rparr>))"

definition mem_GetProject :: "int \<Rightarrow> Memory \<Rightarrow> nat option" where
  "mem_GetProject i m = map_of (mem_projects m) i"

definition mem_UpdateProject :: "int \<Rightarrow> nat option \<Rightarrow> Memory \<Rightarrow> go_error option \<times> Memory" where
  "mem_UpdateProject i project m =
     (case project of
        None \<Rightarrow> (Some (Errorf ''must include a valid project''), m)
      | Some p \<Rightarrow>
          if i \<noteq> pj_ID (project_heap m ! p) then (Some (Errorf ''project ID mismatch''), m)
          else if map_of (mem_projects m) (pj_ID (project_heap m ! p)) \<noteq> None
          then (None, m\<lparr>mem_projects := AList.update (pj_ID (project_heap m ! p)) p (mem_projects m)\<rparr>)
          else (Some (Errorf ''project not found''), m))"

definition NewMemory :: Memory where
  "NewMemory =
     (let mem = \<lparr>mem_counter = 0, mem_regions = [], mem_servers = [], mem_plans = [], mem_projects = [],
            server_heap = [], project_heap = []\<rparr>;
          mem1 = snd (mem_CreatePlan ''baremetal'' mem)
      in snd (mem_CreateRegion ''EU-Nord-1'' ''LT'' mem1))"

text \<open>
  The store as a value of the interface. The arguments are the orders in which the maps of
  regions, plans and servers are visited.
\<close>

definition Memory_as_DataStore ::
  "(region list \<Rightarrow> region list) \<Rightarrow> (plan list \<Rightarrow> plan list) \<Rightarrow> (nat list \<Rightarrow> nat list) \<Rightarrow> Memory DataStore" where
  "Memory_as_DataStore ordR ordP ordS =
     \<lparr>ds_server = (\<lambda>m p. server_heap m ! p), ds_set_server = (\<lambda>p v m. m\<lparr>server_heap := (server_heap m)[p := v]\<rparr>),
      ds_project = (\<lambda>m p. project_heap m ! p), ds_set_project = (\<lambda>p v m. m\<lparr>project_heap := (project_heap m)[p := v]\<rparr>),
      ds_CreateRegion = (\<lambda>name code m. case mem_CreateRegion name code m of (r, m') \<Rightarrow> (Inr (Some r), m')),
      ds_ListRegions = (\<lambda>m. (Inr (mem_ListRegions ordR m), m)),
      ds_GetRegion = (\<lambda>i m. (Inr (mem_GetRegion i m), m)),
      ds_GetRegionByName = (\<lambda>name m. (Inr (mem_GetRegionByName ordR name m), m)),
      ds_GetRegionByCode = (\<lambda>code m. (Inr (mem_GetRegionByCode ordR code m), m)),
      ds_CreatePlan = (\<lambda>name m. case mem_CreatePlan name m of (p, m') \<Rightarrow> (Inr (Some p), m')),
      ds_ListPlans = (\<lambda>m. (Inr (mem_ListPlans ordP m), m)),
      ds_GetPlan = (\<lambda>i m. (Inr (mem_GetPlan i m), m)),
      ds_GetPlanByName = (\<lambda>name m. (Inr (mem_GetPlanByName ordP name m), m)),
      ds_CreateServer = (\<lambda>pr name p r m. case mem_CreateServer pr name p r m of (s, m') \<Rightarrow> (Inr (Some s), m')),
      ds_UpdateServer = mem_UpdateServer,
      ds_ListServers = (\<lambda>pr m. (Inr (mem_ListServers ordS pr m), m)),
      ds_GetServer = (\<lambda>i m. (Inr (mem_GetServer i m), m)),
      ds_DeleteServer = (\<lambda>i m. case mem_DeleteServer i m of (b, m') \<Rightarrow> (Inr b, m')),
      ds_CreateProject = (\<lambda>name bgp m. case mem_CreateProject name bgp m of (p, m') \<Rightarrow> (Inr (Some p), m')),
      ds_GetProject = (\<lambda>i m. (Inr (mem_GetProject i m), m)),
      ds_UpdateProject = mem_UpdateProject\<rparr>"


section \<open>Well-formed stores\<close>

text \<open>
  Every entry stands under the ID of its object, each ID once, and no ID is above the counter.
\<close>

definition entries_ok :: "int \<Rightarrow> ('a \<Rightarrow> int) \<Rightarrow> (int \<times> 'a) list \<Rightarrow> bool" where
  "entries_ok c ident es \<longleftrightarrow> distinct (map fst es) \<and> (\<forall>(k, v) \<in> set es. ident v = k \<and> 0 < k \<and> k \<le> c)"

definition store_ok :: "Memory \<Rightarrow> bool" where
  "store_ok m \<longleftrightarrow> 0 \<le> mem_counter m \<and> mem_counter m < 2 ^ 63 \<and>
     entries_ok (mem_counter m) rg_ID (mem_regions m) \<and> entries_ok (mem_counter m) pl_ID (mem_plans m) \<and>
     entries_ok (mem_counter m) (\<lambda>p. srv_ID (server_heap m ! p)) (mem_servers m) \<and>
     (\<forall>(k, p) \<in> set (mem_servers m). p < length (server_heap m)) \<and>
     entries_ok (mem_counter m) (\<lambda>p. pj_ID (project_heap m ! p)) (mem_projects m) \<and>
     (\<forall>(k, p) \<in> set (mem_projects m). p < length (project_heap m))"

definition has_room :: "Memory \<Rightarrow> bool" where
  "has_room m \<longleftrightarrow> 0 \<le> mem_counter m \<and> mem_counter m + 1 < 2 ^ 63"

lemma entries_ok_Nil [simp]: "entries_ok c f []"
  by (simp add: entries_ok_def)

lemma entries_ok_map_of: "entries_ok c f es \<Longrightarrow> map_of es i = Some v \<Longrightarrow> f v = i \<and> 0 < i \<and> i \<le> c"
  by (auto simp: entries_ok_def dest: map_of_SomeD)

lemma entries_ok_fresh: "entries_ok c f es \<Longrightarrow> c < i \<Longrightarrow> map_of es i = None"
  using entries_ok_map_of [of c f es i] by (cases "map_of es i") auto

lemma entries_ok_mono: "entries_ok c f es \<Longrightarrow> c \<le> c' \<Longrightarrow> entries_ok c' f es"
  by (fastforce simp: entries_ok_def)

lemma entries_ok_cong: "entries_ok c f es \<Longrightarrow> (\<And>v. v \<in> snd ` set es \<Longrightarrow> g v = f v) \<Longrightarrow> entries_ok c g es"
  by (fastforce simp: entries_ok_def)

lemma set_AList_update: "set (AList.update k v es) \<subseteq> insert (k, v) (set es)"
  by (induction es) auto

lemma entries_ok_update:
  assumes "entries_ok c f es" "f v = k" "0 < k" "k \<le> c"
  shows "entries_ok c f (AList.update k v es)"
proof -
  have "distinct (map fst (AList.update k v es))" using assms(1) by (simp add: entries_ok_def distinct_update)
  moreover have "\<forall>(k, v) \<in> set (AList.update k v es). f v = k \<and> 0 < k \<and> k \<le> c"
    using set_AList_update [of k v es] assms by (fastforce simp: entries_ok_def)
  ultimately show ?thesis by (simp add: entries_ok_def)
qed

lemma entries_ok_delete: "entries_ok c f es \<Longrightarrow> entries_ok c f (AList.delete k es)"
  by (auto simp: entries_ok_def AList.delete_eq distinct_map_filter)

lemma has_room_next: "has_room m \<Longrightarrow> wrap_int64 (mem_counter m + 1) = mem_counter m + 1"
  by (simp add: has_room_def wrap_int64_def)

lemma has_room_counter: "has_room m \<Longrightarrow> mem_counter m < 9223372036854775807"
  by (simp add: has_room_def)

lemma no_room_wraps:
  assumes "store_ok m" "\<not> has_room m"
  shows "wrap_int64 (mem_counter m + 1) < mem_counter m"
proof -
  have "mem_counter m = 2 ^ 63 - 1" using assms by (simp add: store_ok_def has_room_def)
  then show ?thesis by (simp add: wrap_int64_def)
qed

lemma getID_eq: "has_room m \<Longrightarrow> getID m = (mem_counter m + 1, m\<lparr>mem_counter := mem_counter m + 1\<rparr>)"
  by (simp add: getID_def has_room_next)

lemmas create_defs = mem_CreateRegion_def mem_CreatePlan_def mem_CreateServer_def mem_CreateProject_def

lemma store_okD:
  assumes "store_ok m"
  shows "0 \<le> mem_counter m \<and> mem_counter m < 2 ^ 63" "entries_ok (mem_counter m) rg_ID (mem_regions m)" "entries_ok (mem_counter m) pl_ID (mem_plans m)"
    "entries_ok (mem_counter m) (\<lambda>p. srv_ID (server_heap m ! p)) (mem_servers m)"
    "(k, p) \<in> set (mem_servers m) \<Longrightarrow> p < length (server_heap m)"
    "entries_ok (mem_counter m) (\<lambda>p. pj_ID (project_heap m ! p)) (mem_projects m)"
    "(k', p') \<in> set (mem_projects m) \<Longrightarrow> p' < length (project_heap m)"
  using assms by (auto simp: store_ok_def)

text \<open>Every method keeps the store well formed, those that create as long as there is room.\<close>

lemma CreateRegion_ok: "store_ok m \<Longrightarrow> has_room m \<Longrightarrow> store_ok (snd (mem_CreateRegion name code m))"
  by (auto simp: store_ok_def create_defs getID_eq has_room_counter Let_def intro!: entries_ok_update intro: entries_ok_mono)

lemma CreatePlan_ok: "store_ok m \<Longrightarrow> has_room m \<Longrightarrow> store_ok (snd (mem_CreatePlan name m))"
  by (auto simp: store_ok_def create_defs getID_eq has_room_counter Let_def intro!: entries_ok_update intro: entries_ok_mono)

text \<open>A heap that has grown has the old objects where they were.\<close>

lemma entries_ok_heap:
  assumes "entries_ok c (\<lambda>p. f (h ! p)) es" "\<forall>(k, p) \<in> set es. p < length h" "c \<le> c'"
  shows "entries_ok c' (\<lambda>p. f ((h @ h') ! p)) es"
  using assms by (fastforce simp: entries_ok_def nth_append)

lemma CreateServer_ok:
  assumes "store_ok m" and room: "has_room m"
  shows "store_ok (snd (mem_CreateServer pr name p r m))"
proof -
  note ok = store_okD [OF assms(1)]
  let ?c = "mem_counter m" and ?l = "length (server_heap m)" and ?m = "snd (mem_CreateServer pr name p r m)"
  obtain v where h: "server_heap ?m = server_heap m @ [v]" "srv_ID v = ?c + 1"
    and s: "mem_servers ?m = AList.update (?c + 1) ?l (mem_servers m)"
    and rest: "mem_counter ?m = ?c + 1" "mem_regions ?m = mem_regions m" "mem_plans ?m = mem_plans m"
      "mem_projects ?m = mem_projects m" "project_heap ?m = project_heap m"
    by (simp add: create_defs getID_eq [OF room] Let_def)
  have "entries_ok (?c + 1) (\<lambda>p. srv_ID (server_heap ?m ! p)) (mem_servers ?m)"
    unfolding h(1) s by (rule entries_ok_update) (use ok h in \<open>auto intro!: entries_ok_heap\<close>)
  moreover have "\<forall>(k, p) \<in> set (mem_servers ?m). p < length (server_heap ?m)"
    using set_AList_update [of "?c + 1" ?l "mem_servers m"] ok(5) unfolding h(1) s by fastforce
  ultimately show ?thesis using ok room by (auto simp: store_ok_def rest has_room_def intro: entries_ok_mono)
qed

lemma CreateProject_ok:
  assumes "store_ok m" and room: "has_room m"
  shows "store_ok (snd (mem_CreateProject name bgp m))"
proof -
  note ok = store_okD [OF assms(1)]
  let ?c = "mem_counter m" and ?l = "length (project_heap m)" and ?m = "snd (mem_CreateProject name bgp m)"
  obtain v where h: "project_heap ?m = project_heap m @ [v]" "pj_ID v = ?c + 1"
    and s: "mem_projects ?m = AList.update (?c + 1) ?l (mem_projects m)"
    and rest: "mem_counter ?m = ?c + 1" "mem_regions ?m = mem_regions m" "mem_plans ?m = mem_plans m"
      "mem_servers ?m = mem_servers m" "server_heap ?m = server_heap m"
    by (simp add: create_defs getID_eq [OF room] Let_def)
  have "entries_ok (?c + 1) (\<lambda>p. pj_ID (project_heap ?m ! p)) (mem_projects ?m)"
    unfolding h(1) s by (rule entries_ok_update) (use ok h in \<open>auto intro!: entries_ok_heap\<close>)
  moreover have "\<forall>(k, p) \<in> set (mem_projects ?m). p < length (project_heap ?m)"
    using set_AList_update [of "?c + 1" ?l "mem_projects m"] ok(7) unfolding h(1) s by fastforce
  ultimately show ?thesis using ok room by (auto simp: store_ok_def rest has_room_def intro: entries_ok_mono)
qed

lemma DeleteServer_ok: "store_ok m \<Longrightarrow> store_ok (snd (mem_DeleteServer i m))"
  by (auto simp: store_ok_def mem_DeleteServer_def AList.delete_eq intro: entries_ok_delete [unfolded AList.delete_eq])

lemma NewMemory_ok: "store_ok NewMemory"
  unfolding NewMemory_def Let_def
  by (intro CreateRegion_ok CreatePlan_ok) (simp_all add: store_ok_def has_room_def create_defs getID_def wrap_int64_def Let_def)


section \<open>The contract of one kind of object\<close>

text \<open>
  \<open>next_id\<close> is the ID that the next object gets. Creating adds one entry, under that ID, and leaves
  every other alone; no ID is given twice while there is room.
\<close>

locale numbered_objects =
  fixes invar :: "'s \<Rightarrow> bool"
    and room :: "'s \<Rightarrow> bool"
    and create :: "'a \<Rightarrow> 's \<Rightarrow> 's"
    and lookup :: "'s \<Rightarrow> int \<rightharpoonup> 'o"
    and ident :: "'o \<Rightarrow> int"
    and next_id :: "'s \<Rightarrow> int"
  assumes next_fresh: "invar s \<Longrightarrow> next_id s \<le> i \<Longrightarrow> lookup s i = None"
    and lookup_ident: "invar s \<Longrightarrow> lookup s i = Some v \<Longrightarrow> ident v = i"
    and create_invar: "invar s \<Longrightarrow> room s \<Longrightarrow> invar (create a s)"
    and create_lookup: "invar s \<Longrightarrow> room s \<Longrightarrow> \<exists>v. lookup (create a s) = (lookup s)(next_id s \<mapsto> v)"
    and create_next: "room s \<Longrightarrow> next_id (create a s) = next_id s + 1"
begin

lemma create_keeps:
  assumes "invar s" "room s" "lookup s i = Some v"
  shows "lookup (create a s) i = Some v"
  using create_lookup [OF assms(1,2), of a] next_fresh [OF assms(1), of i] assms(3) by fastforce

lemma created_ident:
  assumes "invar s" "room s"
  shows "\<exists>v. lookup (create a s) (next_id s) = Some v \<and> ident v = next_id s"
  using create_lookup [OF assms, of a] lookup_ident [OF create_invar [OF assms], of a "next_id s"] by fastforce

lemma create_again:
  assumes "invar s" "room s" "room (create a s)"
  shows "\<exists>v v'. lookup (create b (create a s)) = (lookup s)(next_id s \<mapsto> v, next_id s + 1 \<mapsto> v')"
proof -
  obtain v where v: "lookup (create a s) = (lookup s)(next_id s \<mapsto> v)" using create_lookup [OF assms(1,2)] by blast
  moreover obtain v' where "lookup (create b (create a s)) = (lookup (create a s))(next_id s + 1 \<mapsto> v')"
    using create_lookup [OF create_invar [OF assms(1,2)] assms(3)] by (metis create_next [OF assms(2)])
  ultimately show ?thesis by metis
qed

end

definition server_at :: "Memory \<Rightarrow> int \<rightharpoonup> server" where
  "server_at m i = map_option (\<lambda>p. server_heap m ! p) (mem_GetServer i m)"

definition project_at :: "Memory \<Rightarrow> int \<rightharpoonup> project" where
  "project_at m i = map_option (\<lambda>p. project_heap m ! p) (mem_GetProject i m)"

abbreviation next_ID :: "Memory \<Rightarrow> int" where "next_ID m \<equiv> mem_counter m + 1"

lemma map_of_AList_update: "map_of (AList.update k v es) = (map_of es)(k \<mapsto> v)"
  by (simp add: AList.update_conv')

text \<open>What looking up through the heap gives after an object was added to it.\<close>

lemma lookup_grown_heap:
  assumes "\<And>k p. (k, p) \<in> set es \<Longrightarrow> p < length h"
  shows "map_option (\<lambda>p. (h @ [v]) ! p) (map_of (AList.update k (length h) es) i)
    = (if i = k then Some v else map_option (\<lambda>p. h ! p) (map_of es i))"
  using assms by (cases "map_of es i") (auto simp: map_of_AList_update nth_append dest!: map_of_SomeD)

lemma created_counter:
  "mem_counter (snd (mem_CreateRegion name code m)) = wrap_int64 (next_ID m)" "mem_counter (snd (mem_CreatePlan name m)) = wrap_int64 (next_ID m)"
  "mem_counter (snd (mem_CreateServer pr name p r m)) = wrap_int64 (next_ID m)" "mem_counter (snd (mem_CreateProject name bgp m)) = wrap_int64 (next_ID m)"
  by (simp_all add: create_defs getID_def Let_def)

lemma region_at_created:
  "has_room m \<Longrightarrow> \<exists>v. (\<lambda>i. mem_GetRegion i (snd (mem_CreateRegion name code m))) = (\<lambda>i. mem_GetRegion i m)(next_ID m \<mapsto> v)"
  by (auto simp: mem_GetRegion_def create_defs getID_eq Let_def map_of_AList_update fun_eq_iff)

lemma plan_at_created:
  "has_room m \<Longrightarrow> \<exists>v. (\<lambda>i. mem_GetPlan i (snd (mem_CreatePlan name m))) = (\<lambda>i. mem_GetPlan i m)(next_ID m \<mapsto> v)"
  by (auto simp: mem_GetPlan_def create_defs getID_eq Let_def map_of_AList_update fun_eq_iff)

interpretation regions: numbered_objects store_ok has_room "\<lambda>(name, code) m. snd (mem_CreateRegion name code m)"
  "\<lambda>m i. mem_GetRegion i m" rg_ID next_ID
proof unfold_locales
  show "mem_GetRegion i m = None" if "store_ok m" "next_ID m \<le> i" for m i
    unfolding mem_GetRegion_def by (rule entries_ok_fresh [OF store_okD(2) [OF that(1)]]) (use that(2) in simp)
  show "rg_ID v = i" if "store_ok m" "mem_GetRegion i m = Some v" for m i v
    using entries_ok_map_of [OF store_okD(2) [OF that(1)]] that(2) by (simp add: mem_GetRegion_def)
qed (auto simp: CreateRegion_ok region_at_created created_counter has_room_next split: prod.splits)

interpretation plans: numbered_objects store_ok has_room "\<lambda>name m. snd (mem_CreatePlan name m)"
  "\<lambda>m i. mem_GetPlan i m" pl_ID next_ID
proof unfold_locales
  show "mem_GetPlan i m = None" if "store_ok m" "next_ID m \<le> i" for m i
    unfolding mem_GetPlan_def by (rule entries_ok_fresh [OF store_okD(3) [OF that(1)]]) (use that(2) in simp)
  show "pl_ID v = i" if "store_ok m" "mem_GetPlan i m = Some v" for m i v
    using entries_ok_map_of [OF store_okD(3) [OF that(1)]] that(2) by (simp add: mem_GetPlan_def)
qed (auto simp: CreatePlan_ok plan_at_created created_counter has_room_next)

lemma server_at_fresh: "store_ok m \<Longrightarrow> next_ID m \<le> i \<Longrightarrow> server_at m i = None"
  by (simp add: server_at_def mem_GetServer_def entries_ok_fresh [OF store_okD(4)])

lemma server_at_ident: "store_ok m \<Longrightarrow> server_at m i = Some v \<Longrightarrow> srv_ID v = i"
  by (auto simp: server_at_def mem_GetServer_def dest: entries_ok_map_of [OF store_okD(4)])

lemma project_at_fresh: "store_ok m \<Longrightarrow> next_ID m \<le> i \<Longrightarrow> project_at m i = None"
  by (simp add: project_at_def mem_GetProject_def entries_ok_fresh [OF store_okD(6)])

lemma project_at_ident: "store_ok m \<Longrightarrow> project_at m i = Some v \<Longrightarrow> pj_ID v = i"
  by (auto simp: project_at_def mem_GetProject_def dest: entries_ok_map_of [OF store_okD(6)])

lemma server_at_created:
  assumes "store_ok m" "has_room m"
  shows "server_at (snd (mem_CreateServer pr name p r m)) =
    (server_at m)(next_ID m \<mapsto>
      \<lparr>srv_ID = next_ID m, srv_Hostname = name, srv_State = ''active'', srv_Region = r, srv_Plan = p,
       srv_ProjectID = pr, srv_IPAddresses = [], srv_Tags = None, srv_BGP_Enabled = False\<rparr>)"
  using store_okD(5) [OF assms(1)] lookup_grown_heap [of "mem_servers m" "server_heap m"]
  by (auto simp: fun_eq_iff server_at_def mem_GetServer_def create_defs getID_eq [OF assms(2)] Let_def)

lemma project_at_created:
  assumes "store_ok m" "has_room m"
  shows "project_at (snd (mem_CreateProject name bgp m)) =
    (project_at m)(next_ID m \<mapsto> \<lparr>pj_ID = next_ID m, pj_Name = name, pj_Bgp_Enabled = bgp, pj_Bgp_LocalASN = 0\<rparr>)"
  using store_okD(7) [OF assms(1)] lookup_grown_heap [of "mem_projects m" "project_heap m"]
  by (auto simp: fun_eq_iff project_at_def mem_GetProject_def create_defs getID_eq [OF assms(2)] Let_def)

interpretation servers: numbered_objects store_ok has_room "\<lambda>(pr, name, p, r) m. snd (mem_CreateServer pr name p r m)"
  server_at srv_ID next_ID
  by unfold_locales
    (auto simp: server_at_fresh server_at_ident CreateServer_ok server_at_created created_counter has_room_next split: prod.splits)

interpretation projects: numbered_objects store_ok has_room "\<lambda>(name, bgp) m. snd (mem_CreateProject name bgp m)"
  project_at pj_ID next_ID
  by unfold_locales
    (auto simp: project_at_fresh project_at_ident CreateProject_ok project_at_created created_counter has_room_next split: prod.splits)

end
