(* ===== verification/Fake_API.thy ===== *)
theory Fake_API
  imports Mem_Store
begin

text \<open>
  \<^verbatim>\<open>cherry/server/server.go\<close>: the HTTP fake of the Cherry Servers API. A handler is a function of the
  path variable, the request body and the store. Writing and reading JSON belong to the
  standard library: a response body is the value that is encoded, \<open>encode\<close> gives the error of
  encoding one (before anything is written), and the decoders of the three request types are
  arguments. A struct whose only field is not exported is encoded as the empty object. A panic
  in a handler ends the request; \<^verbatim>\<open>net/http\<close> recovers it and the server goes on.
\<close>

section \<open>Requests and responses\<close>

datatype body =
    EmptyObject
  | ServerBody server
  | ServersBody "server list"
  | ProjectBody project
  | ErrorBody int string

record response =
  rsp_Code :: int
  rsp_Body :: body

record CreateServerRequest =
  csr_Plan :: string
  csr_Region :: string
  csr_Hostname :: string

record UpdateServerRequest =
  usr_Bgp :: bool
  usr_Tags :: "strmap option"

record UpdateProjectRequest =
  upr_Bgp :: "bool option"
  upr_Name :: "string option"

text \<open>The standard library as the handlers use it.\<close>

record codec =
  json_Encode :: "body \<Rightarrow> go_error option"
  json_CreateServer :: "string \<Rightarrow> go_error + CreateServerRequest"
  json_UpdateServer :: "string \<Rightarrow> go_error + UpdateServerRequest"
  json_UpdateProject :: "string \<Rightarrow> go_error + UpdateProjectRequest"

definition error_response :: "int \<Rightarrow> string \<Rightarrow> response" where
  "error_response code msg = \<lparr>rsp_Code = code, rsp_Body = ErrorBody code msg\<rparr>"

definition write_json :: "codec \<Rightarrow> body \<Rightarrow> response" where
  "write_json j b =
     (if json_Encode j b \<noteq> None then error_response 500 ''unable to write json'' else \<lparr>rsp_Code = 200, rsp_Body = b\<rparr>)"

type_synonym 's handled = "response outcome \<times> 's"

section \<open>Handlers\<close>

definition listRegionsHandler :: "codec \<Rightarrow> 's DataStore \<Rightarrow> 's \<Rightarrow> 's handled" where
  "listRegionsHandler j c s =
     (case ds_ListRegions c s of
        (Inl _, s1) \<Rightarrow> (Ok (error_response 500 ''unable to list regions''), s1)
      | (Inr regions, s1) \<Rightarrow> (Ok (write_json j EmptyObject), s1))"

definition getRegionHandler :: "codec \<Rightarrow> 's DataStore \<Rightarrow> string \<Rightarrow> 's \<Rightarrow> 's handled" where
  "getRegionHandler j c regionVar s =
     (case ParseInt 32 regionVar of
        Inl _ \<Rightarrow> (Ok (error_response 400 (''invalid region: '' @ regionVar)), s)
      | Inr ID \<Rightarrow>
          (case ds_GetRegion c ID s of
             (Inl _, s1) \<Rightarrow> (Ok (error_response 404 ''region not found''), s1)
           | (Inr None, s1) \<Rightarrow> (Panic, s1)
           | (Inr (Some region), s1) \<Rightarrow> (Ok (write_json j EmptyObject), s1)))"

definition listPlansHandler :: "codec \<Rightarrow> 's DataStore \<Rightarrow> 's \<Rightarrow> 's handled" where
  "listPlansHandler j c s =
     (case ds_ListPlans c s of
        (Inl _, s1) \<Rightarrow> (Ok (error_response 500 ''unable to list plans''), s1)
      | (Inr plans, s1) \<Rightarrow> (Ok (write_json j EmptyObject), s1))"

definition getPlanHandler :: "codec \<Rightarrow> 's DataStore \<Rightarrow> string \<Rightarrow> 's \<Rightarrow> 's handled" where
  "getPlanHandler j c planVar s =
     (case ParseInt 32 planVar of
        Inl _ \<Rightarrow> (Ok (error_response 400 (''invalid planID: '' @ planVar)), s)
      | Inr ID \<Rightarrow>
          (case ds_GetPlan c ID s of
             (Inl _, s1) \<Rightarrow> (Ok (error_response 404 ''plan not found''), s1)
           | (Inr None, s1) \<Rightarrow> (Panic, s1)
           | (Inr (Some plan), s1) \<Rightarrow> (Ok (write_json j EmptyObject), s1)))"

definition listServersHandler :: "codec \<Rightarrow> 's DataStore \<Rightarrow> string \<Rightarrow> 's \<Rightarrow> 's handled" where
  "listServersHandler j c projectVar s =
     (case ParseInt 32 projectVar of
        Inl _ \<Rightarrow> (Ok (error_response 400 (''invalid project ID: '' @ projectVar)), s)
      | Inr projectID \<Rightarrow>
          (case ds_ListServers c projectID s of
             (Inl _, s1) \<Rightarrow> (Ok (error_response 500 ''project not found''), s1)
           | (Inr servers, s1) \<Rightarrow> (Ok (write_json j (ServersBody (map (ds_server c s1) servers))), s1)))"

definition getServerHandler :: "codec \<Rightarrow> 's DataStore \<Rightarrow> string \<Rightarrow> 's \<Rightarrow> 's handled" where
  "getServerHandler j c serverVar s =
     (case ParseInt 32 serverVar of
        Inl _ \<Rightarrow> (Ok (error_response 400 (''invalid server ID: '' @ serverVar)), s)
      | Inr ID \<Rightarrow>
          (case ds_GetServer c ID s of
             (Inl _, s1) \<Rightarrow> (Ok (error_response 404 ''server not found''), s1)
           | (Inr (Some p), s1) \<Rightarrow> (Ok (write_json j (ServerBody (ds_server c s1 p))), s1)
           | (Inr None, s1) \<Rightarrow> (Ok (error_response 404 ''server not found''), s1)))"

definition createServerHandler :: "codec \<Rightarrow> 's DataStore \<Rightarrow> string \<Rightarrow> string \<Rightarrow> 's \<Rightarrow> 's handled" where
  "createServerHandler j c projectVar text s =
     (case ParseInt 32 projectVar of
        Inl _ \<Rightarrow> (Ok (error_response 400 (''invalid project ID: '' @ projectVar)), s)
      | Inr projectID \<Rightarrow>
     (case json_CreateServer j text of
        Inl _ \<Rightarrow> (Ok (error_response 400 ''cannot parse body of request''), s)
      | Inr req \<Rightarrow>
     (case ParseInt 32 (csr_Plan req) of
        Inl _ \<Rightarrow> (Ok (error_response 400 (''invalid plan ID: '' @ csr_Plan req)), s)
      | Inr planID \<Rightarrow>
     (case ds_GetPlan c planID s of
        (Inl _, s1) \<Rightarrow> (Ok (error_response 404 ''unknown plan ID''), s1)
      | (Inr plan, s1) \<Rightarrow>
     (case ds_GetRegionByName c (csr_Region req) s1 of
        (Inl _, s2) \<Rightarrow> (Ok (error_response 500 ''unknown region''), s2)
      | (Inr region, s2) \<Rightarrow>
     (case (plan, region) of
        (Some pl, Some r) \<Rightarrow>
          (case ds_CreateServer c projectID (csr_Hostname req) pl r s2 of
             (Inl _, s3) \<Rightarrow> (Ok (error_response 500 ''error creating server''), s3)
           | (Inr (Some p), s3) \<Rightarrow> (Ok (write_json j (ServerBody (ds_server c s3 p))), s3)
           | (Inr None, s3) \<Rightarrow> (Ok (error_response 404 ''not found''), s3))
      | _ \<Rightarrow> (Panic, s2)))))))"

text \<open>
  The server is changed through its pointer before the store is told. The last branch of the
  source, for a nil pointer, is not reachable: the pointer has been written through by then.
\<close>

definition updateServerHandler :: "codec \<Rightarrow> 's DataStore \<Rightarrow> string \<Rightarrow> string \<Rightarrow> 's \<Rightarrow> 's handled" where
  "updateServerHandler j c serverVar text s =
     (case ParseInt 32 serverVar of
        Inl _ \<Rightarrow> (Ok (error_response 400 (''invalid server ID: '' @ serverVar)), s)
      | Inr serverID \<Rightarrow>
     (case json_UpdateServer j text of
        Inl _ \<Rightarrow> (Ok (error_response 400 ''unable to parse body of request''), s)
      | Inr req \<Rightarrow>
     (case ds_GetServer c serverID s of
        (Inl _, s1) \<Rightarrow> (Ok (error_response 400 ''unknown server ID''), s1)
      | (Inr None, s1) \<Rightarrow> (Panic, s1)
      | (Inr (Some p), s1) \<Rightarrow>
          let v1 = (ds_server c s1 p)\<lparr>srv_BGP_Enabled := usr_Bgp req\<rparr>;
              v2 = (case usr_Tags req of Some tags \<Rightarrow> v1\<lparr>srv_Tags := Some tags\<rparr> | None \<Rightarrow> v1);
              s2 = ds_set_server c p v2 s1
          in case ds_UpdateServer c serverID (Some p) s2 of
               (Some _, s3) \<Rightarrow> (Ok (error_response 500 ''unable to update server''), s3)
             | (None, s3) \<Rightarrow> (Ok (write_json j (ServerBody (ds_server c s3 p))), s3))))"

definition getProjectHandler :: "codec \<Rightarrow> 's DataStore \<Rightarrow> string \<Rightarrow> 's \<Rightarrow> 's handled" where
  "getProjectHandler j c projectVar s =
     (case ParseInt 32 projectVar of
        Inl _ \<Rightarrow> (Ok (error_response 400 (''invalid project ID: '' @ projectVar)), s)
      | Inr ID \<Rightarrow>
          (case ds_GetProject c ID s of
             (Inl _, s1) \<Rightarrow> (Ok (error_response 404 ''project ID not found''), s1)
           | (Inr (Some p), s1) \<Rightarrow> (Ok (write_json j (ProjectBody (ds_project c s1 p))), s1)
           | (Inr None, s1) \<Rightarrow> (Ok (error_response 404 ''project not found''), s1)))"

definition updateProjectHandler :: "codec \<Rightarrow> 's DataStore \<Rightarrow> string \<Rightarrow> string \<Rightarrow> 's \<Rightarrow> 's handled" where
  "updateProjectHandler j c projectVar text s =
     (case ParseInt 32 projectVar of
        Inl _ \<Rightarrow> (Ok (error_response 400 (''invalid project ID: '' @ projectVar)), s)
      | Inr projectID \<Rightarrow>
     (case json_UpdateProject j text of
        Inl _ \<Rightarrow> (Ok (error_response 400 ''unable to read body of request''), s)
      | Inr req \<Rightarrow>
     (case ds_GetProject c projectID s of
        (Inl _, s1) \<Rightarrow> (Ok (error_response 404 ''project ID not found''), s1)
      | (Inr None, s1) \<Rightarrow> (Panic, s1)
      | (Inr (Some p), s1) \<Rightarrow>
          let bgp = (case upr_Bgp req of Some b \<Rightarrow> b | None \<Rightarrow> False);
              v1 = (ds_project c s1 p)\<lparr>pj_Bgp_Enabled := bgp\<rparr>;
              v2 = (case upr_Name req of Some n \<Rightarrow> v1\<lparr>pj_Name := n\<rparr> | None \<Rightarrow> v1);
              s2 = ds_set_project c p v2 s1
          in case ds_UpdateProject c projectID (Some p) s2 of
               (Some _, s3) \<Rightarrow> (Ok (error_response 500 ''unable to update project''), s3)
             | (None, s3) \<Rightarrow> (Ok (write_json j (ProjectBody (ds_project c s3 p))), s3))))"

section \<open>Routes\<close>

text \<open>
  A request that the router has matched: the route with its path variables, and the body of the
  requests that have one. Matching itself is the router library's.
\<close>

datatype route =
    GetRegions
  | GetRegionID string
  | GetServers string
  | GetServerID string
  | PostServer string string
  | PutServer string string
  | GetPlans
  | GetPlanID string
  | GetProjectID string
  | PutProject string string

fun CreateHandler :: "codec \<Rightarrow> 's DataStore \<Rightarrow> route \<Rightarrow> 's \<Rightarrow> 's handled" where
  "CreateHandler j c GetRegions s = listRegionsHandler j c s"
| "CreateHandler j c (GetRegionID v) s = getRegionHandler j c v s"
| "CreateHandler j c (GetServers v) s = listServersHandler j c v s"
| "CreateHandler j c (GetServerID v) s = getServerHandler j c v s"
| "CreateHandler j c (PostServer v b) s = createServerHandler j c v b s"
| "CreateHandler j c (PutServer v b) s = updateServerHandler j c v b s"
| "CreateHandler j c GetPlans s = listPlansHandler j c s"
| "CreateHandler j c (GetPlanID v) s = getPlanHandler j c v s"
| "CreateHandler j c (GetProjectID v) s = getProjectHandler j c v s"
| "CreateHandler j c (PutProject v b) s = updateProjectHandler j c v b s"

end
