(* ===== verification/Fake_API_Laws.thy ===== *)
theory Fake_API_Laws
  imports Fake_API
begin

text \<open>
  The handlers of the fake API of \<^verbatim>\<open>cherry/server\<close> on its in-memory store: what a write through a
  pointer does to the store, and what each request reads and writes.
\<close>

section \<open>Writing through a pointer\<close>

lemma GetServer_pointer: "store_ok m \<Longrightarrow> mem_GetServer i m = Some p \<Longrightarrow> p < length (server_heap m) \<and> srv_ID (server_heap m ! p) = i"
  using entries_ok_map_of [OF store_okD(4), of m i p] store_okD(5) [of m i p]
  by (auto simp: mem_GetServer_def dest: map_of_SomeD)

lemma GetProject_pointer: "store_ok m \<Longrightarrow> mem_GetProject i m = Some p \<Longrightarrow> p < length (project_heap m) \<and> pj_ID (project_heap m ! p) = i"
  using entries_ok_map_of [OF store_okD(6), of m i p] store_okD(7) [of m i p]
  by (auto simp: mem_GetProject_def dest: map_of_SomeD)

lemma write_server:
  assumes ok: "store_ok m" and p: "mem_GetServer i m = Some p" and v: "srv_ID v = i"
  defines "m' \<equiv> m\<lparr>server_heap := (server_heap m)[p := v], mem_servers := AList.update i p (mem_servers m)\<rparr>"
  shows "store_ok m'" and "server_at m' = (server_at m)(i \<mapsto> v)" and "project_at m' = project_at m"
    and "server_heap m' ! p = v" and "mem_UpdateServer i (Some p) (m\<lparr>server_heap := (server_heap m)[p := v]\<rparr>) = (None, m')"
proof -
  note q = GetServer_pointer [OF ok p]
  have id: "srv_ID ((server_heap m)[p := v] ! k) = srv_ID (server_heap m ! k)" for k
    using q v by (cases "k = p") (auto simp: nth_list_update)
  have heap: "server_heap m' = (server_heap m)[p := v]" by (simp add: m'_def)
  have lookup: "mem_GetServer k m' = mem_GetServer k m" for k
    using p by (simp add: m'_def mem_GetServer_def map_of_AList_update)
  have "entries_ok (mem_counter m) (\<lambda>p. srv_ID (server_heap m' ! p)) (mem_servers m')"
    unfolding m'_def using store_okD(4) [OF ok] entries_ok_map_of [OF store_okD(4) [OF ok]] p
    by (auto simp: id mem_GetServer_def intro!: entries_ok_update)
  moreover have "\<forall>(k, p) \<in> set (mem_servers m'). p < length (server_heap m')"
    using set_AList_update [of i p "mem_servers m"] q store_okD(5) [OF ok] unfolding m'_def by fastforce
  ultimately show "store_ok m'" using store_okD [OF ok] by (auto simp: store_ok_def m'_def)
  have "server_at m' k = ((server_at m)(i \<mapsto> v)) k" for k
  proof (cases "mem_GetServer k m")
    case None
    with p show ?thesis by (auto simp: server_at_def lookup)
  next
    case (Some x)
    with GetServer_pointer [OF ok Some] q p show ?thesis
      by (cases "k = i") (auto simp: server_at_def lookup heap nth_list_update)
  qed
  then show "server_at m' = (server_at m)(i \<mapsto> v)" by blast
  show "project_at m' = project_at m" by (simp add: fun_eq_iff project_at_def mem_GetProject_def m'_def)
  show "server_heap m' ! p = v" using q by (simp add: m'_def)
  show "mem_UpdateServer i (Some p) (m\<lparr>server_heap := (server_heap m)[p := v]\<rparr>) = (None, m')"
    using q v p by (auto simp: mem_UpdateServer_def mem_GetServer_def m'_def)
qed

lemma write_project:
  assumes ok: "store_ok m" and p: "mem_GetProject i m = Some p" and v: "pj_ID v = i"
  defines "m' \<equiv> m\<lparr>project_heap := (project_heap m)[p := v], mem_projects := AList.update i p (mem_projects m)\<rparr>"
  shows "store_ok m'" and "project_at m' = (project_at m)(i \<mapsto> v)" and "server_at m' = server_at m"
    and "project_heap m' ! p = v" and "mem_UpdateProject i (Some p) (m\<lparr>project_heap := (project_heap m)[p := v]\<rparr>) = (None, m')"
proof -
  note q = GetProject_pointer [OF ok p]
  have id: "pj_ID ((project_heap m)[p := v] ! k) = pj_ID (project_heap m ! k)" for k
    using q v by (cases "k = p") (auto simp: nth_list_update)
  have heap: "project_heap m' = (project_heap m)[p := v]" by (simp add: m'_def)
  have lookup: "mem_GetProject k m' = mem_GetProject k m" for k
    using p by (simp add: m'_def mem_GetProject_def map_of_AList_update)
  have "entries_ok (mem_counter m) (\<lambda>p. pj_ID (project_heap m' ! p)) (mem_projects m')"
    unfolding m'_def using store_okD(6) [OF ok] entries_ok_map_of [OF store_okD(6) [OF ok]] p
    by (auto simp: id mem_GetProject_def intro!: entries_ok_update)
  moreover have "\<forall>(k, p) \<in> set (mem_projects m'). p < length (project_heap m')"
    using set_AList_update [of i p "mem_projects m"] q store_okD(7) [OF ok] unfolding m'_def by fastforce
  ultimately show "store_ok m'" using store_okD [OF ok] by (auto simp: store_ok_def m'_def)
  have "project_at m' k = ((project_at m)(i \<mapsto> v)) k" for k
  proof (cases "mem_GetProject k m")
    case None
    with p show ?thesis by (auto simp: project_at_def lookup)
  next
    case (Some x)
    with GetProject_pointer [OF ok Some] q p show ?thesis
      by (cases "k = i") (auto simp: project_at_def lookup heap nth_list_update)
  qed
  then show "project_at m' = (project_at m)(i \<mapsto> v)" by blast
  show "server_at m' = server_at m" by (simp add: fun_eq_iff server_at_def mem_GetServer_def m'_def)
  show "project_heap m' ! p = v" using q by (simp add: m'_def)
  show "mem_UpdateProject i (Some p) (m\<lparr>project_heap := (project_heap m)[p := v]\<rparr>) = (None, m')"
    using q v p by (auto simp: mem_UpdateProject_def mem_GetProject_def m'_def)
qed


section \<open>What the requests do\<close>

abbreviation mem_ds ::
  "(region list \<Rightarrow> region list) \<times> (plan list \<Rightarrow> plan list) \<times> (nat list \<Rightarrow> nat list) \<Rightarrow> Memory DataStore" where
  "mem_ds ord \<equiv> Memory_as_DataStore (fst ord) (fst (snd ord)) (snd (snd ord))"

lemma mem_ds_fields:
  "ds_server (mem_ds ord) m p = server_heap m ! p" "ds_set_server (mem_ds ord) p v m = m\<lparr>server_heap := (server_heap m)[p := v]\<rparr>"
  "ds_project (mem_ds ord) m p = project_heap m ! p" "ds_set_project (mem_ds ord) p v' m = m\<lparr>project_heap := (project_heap m)[p := v']\<rparr>"
  "ds_ListRegions (mem_ds ord) m = (Inr (mem_ListRegions (fst ord) m), m)" "ds_GetRegion (mem_ds ord) i m = (Inr (mem_GetRegion i m), m)"
  "ds_GetRegionByName (mem_ds ord) name m = (Inr (mem_GetRegionByName (fst ord) name m), m)"
  "ds_ListPlans (mem_ds ord) m = (Inr (mem_ListPlans (fst (snd ord)) m), m)" "ds_GetPlan (mem_ds ord) i m = (Inr (mem_GetPlan i m), m)"
  "ds_CreateServer (mem_ds ord) pr name pl r m = (Inr (Some (fst (mem_CreateServer pr name pl r m))), snd (mem_CreateServer pr name pl r m))"
  "ds_UpdateServer (mem_ds ord) i q m = mem_UpdateServer i q m"
  "ds_ListServers (mem_ds ord) pr m = (Inr (mem_ListServers (snd (snd ord)) pr m), m)"
  "ds_GetServer (mem_ds ord) i m = (Inr (mem_GetServer i m), m)" "ds_GetProject (mem_ds ord) i m = (Inr (mem_GetProject i m), m)"
  "ds_UpdateProject (mem_ds ord) i q m = mem_UpdateProject i q m"
  by (simp_all add: Memory_as_DataStore_def split: prod.split)

text \<open>A server and a project after the changes a request asks for.\<close>

definition changed_server :: "UpdateServerRequest \<Rightarrow> server \<Rightarrow> server" where
  "changed_server req v = v\<lparr>srv_BGP_Enabled := usr_Bgp req,
     srv_Tags := (case usr_Tags req of Some tags \<Rightarrow> Some tags | None \<Rightarrow> srv_Tags v)\<rparr>"

definition changed_project :: "UpdateProjectRequest \<Rightarrow> project \<Rightarrow> project" where
  "changed_project req v = v\<lparr>pj_Bgp_Enabled := (upr_Bgp req = Some True),
     pj_Name := (case upr_Name req of Some n \<Rightarrow> n | None \<Rightarrow> pj_Name v)\<rparr>"

definition new_server :: "int \<Rightarrow> CreateServerRequest \<Rightarrow> plan \<Rightarrow> region \<Rightarrow> int \<Rightarrow> server" where
  "new_server projectID req p r i =
     \<lparr>srv_ID = i, srv_Hostname = csr_Hostname req, srv_State = ''active'', srv_Region = r, srv_Plan = p,
      srv_ProjectID = projectID, srv_IPAddresses = [], srv_Tags = None, srv_BGP_Enabled = False\<rparr>"

lemma server_at_Some: "server_at m i = Some v \<longleftrightarrow> (\<exists>p. mem_GetServer i m = Some p \<and> server_heap m ! p = v)"
  by (auto simp: server_at_def)

lemma server_at_None: "server_at m i = None \<longleftrightarrow> mem_GetServer i m = None"
  by (simp add: server_at_def)

lemma project_at_Some: "project_at m i = Some v \<longleftrightarrow> (\<exists>p. mem_GetProject i m = Some p \<and> project_heap m ! p = v)"
  by (auto simp: project_at_def)

lemma project_at_None: "project_at m i = None \<longleftrightarrow> mem_GetProject i m = None"
  by (simp add: project_at_def)

lemma get_server:
  assumes "ParseInt 32 sv = Inr i"
  shows "getServerHandler j (mem_ds ord) sv m =
    (Ok (case server_at m i of Some v \<Rightarrow> write_json j (ServerBody v) | None \<Rightarrow> error_response 404 ''server not found''), m)"
  using assms by (cases "mem_GetServer i m") (simp_all add: getServerHandler_def mem_ds_fields server_at_def)

lemma get_project:
  assumes "ParseInt 32 pv = Inr i"
  shows "getProjectHandler j (mem_ds ord) pv m =
    (Ok (case project_at m i of Some v \<Rightarrow> write_json j (ProjectBody v) | None \<Rightarrow> error_response 404 ''project not found''), m)"
  using assms by (cases "mem_GetProject i m") (simp_all add: getProjectHandler_def mem_ds_fields project_at_def)

lemma put_server:
  assumes ok: "store_ok m" and i: "ParseInt 32 sv = Inr i" and req: "json_UpdateServer j b = Inr req" and v: "server_at m i = Some v"
  obtains m' where "updateServerHandler j (mem_ds ord) sv b m = (Ok (write_json j (ServerBody (changed_server req v))), m')"
    "store_ok m'" "server_at m' = (server_at m)(i \<mapsto> changed_server req v)" "project_at m' = project_at m"
proof -
  obtain p where p: "mem_GetServer i m = Some p" "server_heap m ! p = v" using v by (auto simp: server_at_Some)
  have "srv_ID (changed_server req v) = i" using GetServer_pointer [OF ok p(1)] p(2) by (simp add: changed_server_def)
  note w = write_server [OF ok p(1) this]
  have c: "(case usr_Tags req of Some tags \<Rightarrow> (server_heap m ! p)\<lparr>srv_BGP_Enabled := usr_Bgp req, srv_Tags := Some tags\<rparr>
      | None \<Rightarrow> (server_heap m ! p)\<lparr>srv_BGP_Enabled := usr_Bgp req\<rparr>) = changed_server req v"
    by (simp add: changed_server_def p(2) split: option.split)
  show ?thesis
    by (rule that [OF _ w(1,2,3)])
      (use i req p w(4,5) in \<open>simp add: updateServerHandler_def mem_ds_fields Let_def c\<close>)
qed

lemma put_project:
  assumes ok: "store_ok m" and i: "ParseInt 32 pv = Inr i" and req: "json_UpdateProject j b = Inr req" and v: "project_at m i = Some v"
  obtains m' where "updateProjectHandler j (mem_ds ord) pv b m = (Ok (write_json j (ProjectBody (changed_project req v))), m')"
    "store_ok m'" "project_at m' = (project_at m)(i \<mapsto> changed_project req v)" "server_at m' = server_at m"
proof -
  obtain p where p: "mem_GetProject i m = Some p" "project_heap m ! p = v" using v by (auto simp: project_at_Some)
  have "pj_ID (changed_project req v) = i" using GetProject_pointer [OF ok p(1)] p(2) by (simp add: changed_project_def)
  note w = write_project [OF ok p(1) this]
  have c: "(case upr_Name req of Some n \<Rightarrow> (project_heap m ! p)\<lparr>pj_Bgp_Enabled := (case upr_Bgp req of Some b \<Rightarrow> b | None \<Rightarrow> False), pj_Name := n\<rparr>
      | None \<Rightarrow> (project_heap m ! p)\<lparr>pj_Bgp_Enabled := (case upr_Bgp req of Some b \<Rightarrow> b | None \<Rightarrow> False)\<rparr>) = changed_project req v"
    by (auto simp: changed_project_def p(2) split: option.split)
  show ?thesis
    by (rule that [OF _ w(1,2,3)])
      (use i req p w(4,5) in \<open>simp add: updateProjectHandler_def mem_ds_fields Let_def c\<close>)
qed

end
