(* ===== verification/Fake_API_Runs.thy ===== *)
theory Fake_API_Runs
  imports Fake_API_Laws
begin

text \<open>
  Runs of the fake API: the steps its store goes through, and the properties of every store that
  can be reached and of every request made to it.
\<close>

section \<open>Reachable stores\<close>

text \<open>
  What happens to the store in a run: requests, in any order and with any order of the map
  loops, and what the owner of the store does to it directly, creating objects, deleting
  servers and writing into a server it holds a pointer to. The owner is taken to update a server
  under the server's own ID, as the handlers do; the method itself does not check that. A run goes
  on as long as the counter does not wrap around, that is for \<open>2 ^ 63 - 1\<close> IDs.
\<close>

inductive fake_step :: "codec \<Rightarrow> Memory \<Rightarrow> Memory \<Rightarrow> bool" for j where
  request: "CreateHandler j (mem_ds ord) r m = (x, m') \<Longrightarrow> fake_step j m m'"
| add_region: "fake_step j m (snd (mem_CreateRegion name code m))"
| add_plan: "fake_step j m (snd (mem_CreatePlan name m))"
| add_server: "fake_step j m (snd (mem_CreateServer pr name p r m))"
| add_project: "fake_step j m (snd (mem_CreateProject name bgp m))"
| drop_server: "fake_step j m (snd (mem_DeleteServer i m))"
| edit_server: "mem_GetServer i m = Some p \<Longrightarrow> srv_ID v = i \<Longrightarrow>
    mem_UpdateServer i (Some p) (m\<lparr>server_heap := (server_heap m)[p := v]\<rparr>) = (e, m') \<Longrightarrow> fake_step j m m'"

inductive fake_reachable :: "codec \<Rightarrow> Memory \<Rightarrow> bool" for j where
  start: "fake_reachable j NewMemory"
| step: "fake_reachable j m \<Longrightarrow> fake_step j m m' \<Longrightarrow> mem_counter m \<le> mem_counter m' \<Longrightarrow> fake_reachable j m'"

text \<open>What every step keeps: regions and plans are only ever added.\<close>

definition grows :: "Memory \<Rightarrow> Memory \<Rightarrow> bool" where
  "grows m m' \<longleftrightarrow> mem_counter m \<le> mem_counter m' \<and>
     (\<forall>i r. mem_GetRegion i m = Some r \<longrightarrow> mem_GetRegion i m' = Some r) \<and>
     (\<forall>i p. mem_GetPlan i m = Some p \<longrightarrow> mem_GetPlan i m' = Some p)"

lemma grows_refl [simp]: "grows m m"
  by (simp add: grows_def)

lemma grows_trans: "grows m m1 \<Longrightarrow> grows m1 m2 \<Longrightarrow> grows m m2"
  by (auto simp: grows_def)

lemma grows_same: "mem_counter m' = mem_counter m \<or> mem_counter m' = next_ID m \<Longrightarrow> mem_regions m' = mem_regions m \<Longrightarrow>
    mem_plans m' = mem_plans m \<Longrightarrow> grows m m'"
  by (auto simp: grows_def mem_GetRegion_def mem_GetPlan_def)

lemma grows_update:
  "grows m (snd (mem_UpdateServer i q (m\<lparr>server_heap := h\<rparr>)))" "grows m (snd (mem_UpdateProject i q (m\<lparr>project_heap := h'\<rparr>)))"
  by (auto intro!: grows_same simp: mem_UpdateServer_def mem_UpdateProject_def split: option.split)

lemma grows_created:
  assumes ok: "store_ok m" and room: "has_room m"
  shows "grows m (snd (mem_CreateRegion name code m))" "grows m (snd (mem_CreatePlan name m))"
    "grows m (snd (mem_CreateServer pr name p r m))" "grows m (snd (mem_CreateProject name bgp m))"
proof -
  note next_id = created_counter has_room_next [OF room]
  have "mem_GetPlan k (snd (mem_CreateRegion name code m)) = mem_GetPlan k m"
    "mem_GetRegion k (snd (mem_CreatePlan name m)) = mem_GetRegion k m" for k
    by (simp_all add: mem_GetPlan_def mem_GetRegion_def create_defs getID_def Let_def)
  then show "grows m (snd (mem_CreateRegion name code m))" "grows m (snd (mem_CreatePlan name m))"
    using regions.create_keeps [OF assms, of _ _ "(name, code)"] plans.create_keeps [OF assms, of _ _ name]
    by (simp_all add: grows_def next_id)
  show "grows m (snd (mem_CreateServer pr name p r m))" "grows m (snd (mem_CreateProject name bgp m))"
    by (auto intro!: grows_same simp: next_id) (simp_all add: create_defs getID_eq [OF room] Let_def)
qed

lemma grows_deleted: "grows m (snd (mem_DeleteServer i m))"
  by (auto intro!: grows_same simp: mem_DeleteServer_def)

text \<open>A step that creates does not wrap the counter exactly when there is room.\<close>

lemma created_room:
  assumes "store_ok m" "mem_counter m \<le> mem_counter m'" "mem_counter m' = wrap_int64 (next_ID m)"
  shows "has_room m"
  using no_room_wraps [OF assms(1)] assms(2,3) by linarith

text \<open>A request either leaves the store alone or runs one of the three updates.\<close>

lemma request_cases:
  assumes "CreateHandler j (mem_ds ord) r m = (x, m')"
  obtains "m' = m"
    | pr name p rg where "m' = snd (mem_CreateServer pr name p rg m)"
    | i p v e where "mem_GetServer i m = Some p" "srv_ID v = srv_ID (server_heap m ! p)"
        "mem_UpdateServer i (Some p) (m\<lparr>server_heap := (server_heap m)[p := v]\<rparr>) = (e, m')"
    | i p v e where "mem_GetProject i m = Some p" "pj_ID v = pj_ID (project_heap m ! p)"
        "mem_UpdateProject i (Some p) (m\<lparr>project_heap := (project_heap m)[p := v]\<rparr>) = (e, m')"
proof (cases r)
  case (PostServer v b)
  with assms have "createServerHandler j (mem_ds ord) v b m = (x, m')" by simp
  then show ?thesis using that(1,2)
    by (auto simp: createServerHandler_def mem_ds_fields split: sum.splits option.splits)
next
  case (PutServer v b)
  then show ?thesis using assms
    by (auto simp: updateServerHandler_def mem_ds_fields Let_def split: sum.splits option.splits prod.splits intro: that(1) that(3) [rotated 2])
next
  case (PutProject v b)
  then show ?thesis using assms
    by (auto simp: updateProjectHandler_def mem_ds_fields Let_def split: sum.splits option.splits prod.splits intro: that(1) that(4) [rotated 2])
qed (use assms that(1) in \<open>auto simp: listRegionsHandler_def getRegionHandler_def listPlansHandler_def getPlanHandler_def
  listServersHandler_def getServerHandler_def getProjectHandler_def mem_ds_fields split: sum.splits option.splits\<close>)

lemma request_ok:
  assumes ok: "store_ok m" and run: "CreateHandler j (mem_ds ord) r m = (x, m')" and c: "mem_counter m \<le> mem_counter m'"
  shows "store_ok m' \<and> grows m m'"
  using run
proof (cases rule: request_cases)
  case (2 pr name p rg)
  have "has_room m" by (rule created_room [OF ok c]) (simp add: 2 created_counter)
  with 2 show ?thesis using CreateServer_ok [OF ok] grows_created [OF ok] by simp
next
  case (3 i p v e)
  then show ?thesis using write_server(1,5) [OF ok 3(1), of v] GetServer_pointer [OF ok 3(1)]
      grows_update(1) [of m i "Some p" "(server_heap m)[p := v]"] by simp
next
  case (4 i p v e)
  then show ?thesis using write_project(1,5) [OF ok 4(1), of v] GetProject_pointer [OF ok 4(1)]
      grows_update(2) [of m i "Some p" "(project_heap m)[p := v]"] by simp
qed (simp add: ok)

lemma fake_step_ok: "fake_step j m m' \<Longrightarrow> store_ok m \<Longrightarrow> mem_counter m \<le> mem_counter m' \<Longrightarrow> store_ok m' \<and> grows m m'"
proof (induction rule: fake_step.induct)
  case (request ord r m x m')
  then show ?case using request_ok [OF request(2,1)] by simp
next
  case (edit_server i m p v e m')
  then show ?case using write_server(1,5) [OF edit_server(4,1,2)]
      grows_update(1) [of m i "Some p" "(server_heap m)[p := v]"] by simp
next
  case (add_region m name code)
  then show ?case using created_room [OF add_region created_counter(1)] by (simp add: CreateRegion_ok grows_created)
next
  case (add_plan m name)
  then show ?case using created_room [OF add_plan created_counter(2)] by (simp add: CreatePlan_ok grows_created)
next
  case (add_server m pr name p r)
  then show ?case using created_room [OF add_server created_counter(3)] by (simp add: CreateServer_ok grows_created)
next
  case (add_project m name bgp)
  then show ?case using created_room [OF add_project created_counter(4)] by (simp add: CreateProject_ok grows_created)
qed (simp add: DeleteServer_ok grows_deleted)

lemma fake_reachable_ok: "fake_reachable j m \<Longrightarrow> store_ok m \<and> grows NewMemory m"
  by (induction rule: fake_reachable.induct) (auto simp: NewMemory_ok dest: fake_step_ok grows_trans)

definition baremetal :: plan where
  "baremetal = \<lparr>pl_ID = 1, pl_Name = ''baremetal'', pl_Slug = ''slug-baremetal''\<rparr>"

definition eu_nord_1 :: region where
  "eu_nord_1 = \<lparr>rg_ID = 2, rg_Name = ''EU-Nord-1'', rg_RegionIso2 = ''LT'', rg_Slug = '''', rg_BGP_Hosts = [], rg_BGP_Asn = 0\<rparr>"

lemmas sample_create_defs = create_defs getID_def wrap_int64_def

lemma NewMemory_defaults: "mem_GetPlan 1 NewMemory = Some baremetal" "mem_GetRegion 2 NewMemory = Some eu_nord_1"
  by (simp_all add: NewMemory_def sample_create_defs Let_def mem_GetPlan_def mem_GetRegion_def baremetal_def eu_nord_1_def)


text \<open>The requests that name something the store does not have and that the handlers do not check.\<close>

fun names_nothing :: "codec \<Rightarrow> Memory \<Rightarrow> route \<Rightarrow> bool" where
  "names_nothing j m (GetRegionID v) = (case ParseInt 32 v of Inr i \<Rightarrow> mem_GetRegion i m = None | _ \<Rightarrow> False)"
| "names_nothing j m (GetPlanID v) = (case ParseInt 32 v of Inr i \<Rightarrow> mem_GetPlan i m = None | _ \<Rightarrow> False)"
| "names_nothing j m (PostServer v b) =
     (case (ParseInt 32 v, json_CreateServer j b) of
        (Inr _, Inr req) \<Rightarrow>
          (case ParseInt 32 (csr_Plan req) of
             Inr i \<Rightarrow> mem_GetPlan i m = None \<or> csr_Region req \<notin> (rg_Name \<circ> snd) ` set (mem_regions m)
           | _ \<Rightarrow> False)
      | _ \<Rightarrow> False)"
| "names_nothing j m (PutServer v b) =
     (case (ParseInt 32 v, json_UpdateServer j b) of (Inr i, Inr _) \<Rightarrow> server_at m i = None | _ \<Rightarrow> False)"
| "names_nothing j m (PutProject v b) =
     (case (ParseInt 32 v, json_UpdateProject j b) of (Inr i, Inr _) \<Rightarrow> project_at m i = None | _ \<Rightarrow> False)"
| "names_nothing j m _ = False"

lemma GetRegionByName_None:
  "iteration_order ord \<Longrightarrow> mem_GetRegionByName ord name m = None \<longleftrightarrow> name \<notin> (rg_Name \<circ> snd) ` set (mem_regions m)"
proof -
  assume "iteration_order ord"
  then have "set (ord (map snd (mem_regions m))) = snd ` set (mem_regions m)"
    by (metis iteration_order_def list.set_map mset_eq_setD)
  then show ?thesis by (auto simp: mem_GetRegionByName_def find_None_iff)
qed

lemma list_values_filter:
  "length acc + length (filter keep vs) \<le> entries \<Longrightarrow> list_values entries keep acc vs = acc @ filter keep vs"
  by (induction vs arbitrary: acc) (auto simp flip: length_0_conv)

lemma mem_ListServers_eq:
  assumes "iteration_order ord"
  shows "mem_ListServers ord pr m = filter (\<lambda>p. srv_ProjectID (server_heap m ! p) = pr) (ord (map snd (mem_servers m)))"
proof -
  have "length (ord (map snd (mem_servers m))) = length (mem_servers m)"
    using assms by (metis iteration_order_def length_map size_mset)
  then show ?thesis unfolding mem_ListServers_def
    by (subst list_values_filter) (auto intro: order_trans [OF length_filter_le])
qed

lemma put_server_effect:
  assumes ok: "store_ok m" and run: "updateServerHandler j (mem_ds ord) sv b m = (x, m')"
  shows "(case (ParseInt 32 sv, json_UpdateServer j b) of
      (Inr i, Inr req) \<Rightarrow>
        (case server_at m i of
           None \<Rightarrow> x = Panic \<and> m' = m
         | Some v \<Rightarrow> x = Ok (write_json j (ServerBody (changed_server req v))) \<and> store_ok m'
             \<and> server_at m' = (server_at m)(i \<mapsto> changed_server req v) \<and> project_at m' = project_at m)
    | _ \<Rightarrow> (\<exists>msg. x = Ok (error_response 400 msg)) \<and> m' = m)"
proof (cases "ParseInt 32 sv")
  case (Inr i)
  note i = this
  show ?thesis
  proof (cases "json_UpdateServer j b")
    case (Inr req)
    show ?thesis
    proof (cases "server_at m i")
      case None
      with i Inr run show ?thesis by (auto simp: updateServerHandler_def mem_ds_fields server_at_def)
    next
      case (Some v)
      show ?thesis by (rule put_server [OF ok i Inr Some, of ord]) (use run i Inr Some in auto)
    qed
  qed (use run i in \<open>auto simp: updateServerHandler_def\<close>)
qed (use run in \<open>auto simp: updateServerHandler_def\<close>)

lemma put_project_effect:
  assumes ok: "store_ok m" and run: "updateProjectHandler j (mem_ds ord) pv b m = (x, m')"
  shows "(case (ParseInt 32 pv, json_UpdateProject j b) of
      (Inr i, Inr req) \<Rightarrow>
        (case project_at m i of
           None \<Rightarrow> x = Panic \<and> m' = m
         | Some v \<Rightarrow> x = Ok (write_json j (ProjectBody (changed_project req v))) \<and> store_ok m'
             \<and> project_at m' = (project_at m)(i \<mapsto> changed_project req v) \<and> server_at m' = server_at m)
    | _ \<Rightarrow> (\<exists>msg. x = Ok (error_response 400 msg)) \<and> m' = m)"
proof (cases "ParseInt 32 pv")
  case (Inr i)
  note i = this
  show ?thesis
  proof (cases "json_UpdateProject j b")
    case (Inr req)
    show ?thesis
    proof (cases "project_at m i")
      case None
      with i Inr run show ?thesis by (auto simp: updateProjectHandler_def mem_ds_fields project_at_def)
    next
      case (Some v)
      show ?thesis by (rule put_project [OF ok i Inr Some, of ord]) (use run i Inr Some in auto)
    qed
  qed (use run i in \<open>auto simp: updateProjectHandler_def\<close>)
qed (use run in \<open>auto simp: updateProjectHandler_def\<close>)

lemma read_handlers:
  "getRegionHandler j (mem_ds ord) v m =
     (case ParseInt 32 v of Inl _ \<Rightarrow> Ok (error_response 400 (''invalid region: '' @ v))
      | Inr i \<Rightarrow> if mem_GetRegion i m = None then Panic else Ok (write_json j EmptyObject), m)"
  "getPlanHandler j (mem_ds ord) v m =
     (case ParseInt 32 v of Inl _ \<Rightarrow> Ok (error_response 400 (''invalid planID: '' @ v))
      | Inr i \<Rightarrow> if mem_GetPlan i m = None then Panic else Ok (write_json j EmptyObject), m)"
  "fst (listServersHandler j (mem_ds ord) v m) \<noteq> Panic" "snd (listServersHandler j (mem_ds ord) v m) = m"
  "fst (getServerHandler j (mem_ds ord) v m) \<noteq> Panic" "snd (getServerHandler j (mem_ds ord) v m) = m"
  "fst (getProjectHandler j (mem_ds ord) v m) \<noteq> Panic" "snd (getProjectHandler j (mem_ds ord) v m) = m"
  by (auto simp: getRegionHandler_def getPlanHandler_def listServersHandler_def getServerHandler_def getProjectHandler_def
      mem_ds_fields split: sum.splits option.splits)

lemma post_server_panic:
  assumes "iteration_order (fst ord)"
  shows "fst (createServerHandler j (mem_ds ord) v b m) = Panic \<longleftrightarrow> names_nothing j m (PostServer v b)"
    and "fst (createServerHandler j (mem_ds ord) v b m) = Panic \<Longrightarrow> snd (createServerHandler j (mem_ds ord) v b m) = m"
  by (auto simp: createServerHandler_def mem_ds_fields GetRegionByName_None [OF assms, symmetric] simp del: o_apply
      split: sum.splits option.splits)

lemma post_server_200:
  assumes ok: "store_ok m" and room: "has_room m" and e: "json_Encode j = (\<lambda>_. None)"
    and run: "createServerHandler j (mem_ds ord) pv b m = (Ok \<lparr>rsp_Code = 200, rsp_Body = ServerBody v\<rparr>, m')"
  shows "srv_ID v = next_ID m \<and> server_at m' = (server_at m)(next_ID m \<mapsto> v) \<and> project_at m' = project_at m"
proof -
  obtain pr req i p r where a: "ParseInt 32 pv = Inr pr" "json_CreateServer j b = Inr req" "ParseInt 32 (csr_Plan req) = Inr i"
      "mem_GetPlan i m = Some p" "mem_GetRegionByName (fst ord) (csr_Region req) m = Some r"
    using run by (auto simp: createServerHandler_def mem_ds_fields error_response_def split: sum.splits option.splits)
  then have "v = new_server pr req p r (next_ID m)" "m' = snd (mem_CreateServer pr (csr_Hostname req) p r m)"
    using run e by (auto simp: createServerHandler_def mem_ds_fields write_json_def create_defs getID_eq [OF room] Let_def new_server_def)
  then show ?thesis using server_at_created [OF ok room, of pr "csr_Hostname req" p r]
    by (simp add: new_server_def fun_eq_iff project_at_def mem_GetProject_def create_defs getID_def Let_def)
qed

section \<open>A sample run\<close>

text \<open>A codec with a text for the requests that the samples make.\<close>

definition sample_codec :: codec where
  "sample_codec =
     \<lparr>json_Encode = (\<lambda>_. None),
      json_CreateServer = (\<lambda>s. Inr \<lparr>csr_Plan = ''1'', csr_Region = ''EU-Nord-1'', csr_Hostname = s\<rparr>),
      json_UpdateServer = (\<lambda>s. Inr \<lparr>usr_Bgp = (s \<noteq> ''0''), usr_Tags = (if s = ''t'' then Some Map.empty else None)\<rparr>),
      json_UpdateProject = (\<lambda>s. case s of [] \<Rightarrow> Inl (External ''EOF'') | c # n \<Rightarrow> Inr \<lparr>upr_Bgp = Some (c = CHR ''1''), upr_Name = Some n\<rparr>)\<rparr>"

text \<open>A store with one project and one server in it.\<close>

definition sample_fake :: Memory where
  "sample_fake = snd (mem_CreateServer 3 ''node-a'' baremetal eu_nord_1 (snd (mem_CreateProject ''p'' False NewMemory)))"

definition fake_server :: server where
  "fake_server = \<lparr>srv_ID = 4, srv_Hostname = ''node-a'', srv_State = ''active'', srv_Region = eu_nord_1, srv_Plan = baremetal,
     srv_ProjectID = 3, srv_IPAddresses = [], srv_Tags = None, srv_BGP_Enabled = False\<rparr>"

lemma sample_fake_reachable: "fake_reachable j sample_fake"
proof -
  have "mem_counter NewMemory = 2" by (simp add: NewMemory_def sample_create_defs Let_def)
  then have c: "mem_counter NewMemory \<le> mem_counter (snd (mem_CreateProject ''p'' False NewMemory))"
    "mem_counter (snd (mem_CreateProject ''p'' False NewMemory)) \<le> mem_counter sample_fake"
    by (simp_all add: created_counter wrap_int64_def sample_fake_def)
  show ?thesis
    by (rule fake_reachable.step [OF fake_reachable.step [OF fake_reachable.start add_project c(1)] _ c(2)])
      (simp add: sample_fake_def add_server)
qed

lemma sample_fake_server: "server_at sample_fake 4 = Some fake_server"
  by (simp add: sample_fake_def server_at_def mem_GetServer_def NewMemory_def sample_create_defs Let_def fake_server_def)

lemma sample_fake_project:
  "project_at sample_fake 3 = Some \<lparr>pj_ID = 3, pj_Name = ''p'', pj_Bgp_Enabled = False, pj_Bgp_LocalASN = 0\<rparr>"
  by (simp add: sample_fake_def project_at_def mem_GetProject_def NewMemory_def sample_create_defs Let_def)

lemma sample_fake_counter: "mem_counter sample_fake = 4"
  by (simp add: sample_fake_def NewMemory_def sample_create_defs Let_def)

definition in_order :: "(region list \<Rightarrow> region list) \<times> (plan list \<Rightarrow> plan list) \<times> (nat list \<Rightarrow> nat list)" where
  "in_order = (id, id, id)"

lemma in_order_orders: "iteration_order (fst in_order)" "iteration_order (fst (snd in_order))" "iteration_order (snd (snd in_order))"
  by (simp_all add: iteration_order_def in_order_def)

section \<open>Properties\<close>

text \<open>C29: As long as the 64-bit counter has not wrapped around and whoever holds the store updates
  servers only under their own IDs, every state the fake gets to by requests and by what the
  holder creates, deletes and updates has each region, plan, server and project under its own ID,
  all IDs positive and none above the counter (so the next object, if the counter can still be
  raised, gets an ID no other of its kind has), and the default plan and region in it.\<close>

theorem fake_store_invariant:
  assumes "fake_reachable j m"
  shows "(\<forall>i v. server_at m i = Some v \<longrightarrow> srv_ID v = i \<and> 0 < i \<and> i \<le> mem_counter m)
    \<and> (\<forall>i v. project_at m i = Some v \<longrightarrow> pj_ID v = i \<and> 0 < i \<and> i \<le> mem_counter m)
    \<and> (\<forall>i v. mem_GetRegion i m = Some v \<longrightarrow> rg_ID v = i \<and> 0 < i \<and> i \<le> mem_counter m)
    \<and> (\<forall>i v. mem_GetPlan i m = Some v \<longrightarrow> pl_ID v = i \<and> 0 < i \<and> i \<le> mem_counter m)
    \<and> (mem_counter m + 1 < 2 ^ 63 \<longrightarrow> fst (getID m) = mem_counter m + 1)
    \<and> mem_GetPlan 1 m = Some baremetal \<and> mem_GetRegion 2 m = Some eu_nord_1"
proof -
  have ok: "store_ok m" and g: "grows NewMemory m" using fake_reachable_ok [OF assms] by auto
  have "srv_ID v = i \<and> 0 < i \<and> i \<le> mem_counter m" if "server_at m i = Some v" for i v
    using that entries_ok_map_of [OF store_okD(4) [OF ok], of i] by (auto simp: server_at_Some mem_GetServer_def)
  moreover have "pj_ID v = i \<and> 0 < i \<and> i \<le> mem_counter m" if "project_at m i = Some v" for i v
    using that entries_ok_map_of [OF store_okD(6) [OF ok], of i] by (auto simp: project_at_Some mem_GetProject_def)
  moreover have "rg_ID v = i \<and> 0 < i \<and> i \<le> mem_counter m" if "mem_GetRegion i m = Some v" for i v
    using that entries_ok_map_of [OF store_okD(2) [OF ok], of i] by (auto simp: mem_GetRegion_def)
  moreover have "pl_ID v = i \<and> 0 < i \<and> i \<le> mem_counter m" if "mem_GetPlan i m = Some v" for i v
    using that entries_ok_map_of [OF store_okD(3) [OF ok], of i] by (auto simp: mem_GetPlan_def)
  moreover have "fst (getID m) = mem_counter m + 1" if "mem_counter m + 1 < 2 ^ 63"
    using getID_eq [of m] that store_okD(1) [OF ok] by (simp add: has_room_def)
  moreover have "mem_GetPlan 1 m = Some baremetal" "mem_GetRegion 2 m = Some eu_nord_1"
    using g NewMemory_defaults by (auto simp: grows_def)
  ultimately show ?thesis by blast
qed

theorem fake_store_invariant_witness:
  "server_at sample_fake 4 = Some fake_server \<and> srv_ID fake_server = 4 \<and> (4 :: int) \<le> mem_counter sample_fake
    \<and> mem_GetPlan 1 sample_fake = Some baremetal \<and> mem_GetRegion 2 sample_fake = Some eu_nord_1"
  using fake_store_invariant [OF sample_fake_reachable] sample_fake_server by blast

text \<open>C32: A request to the fake panics exactly when it reads a region or a plan, creates a server or
  updates a server or a project, and names a plan, region, server or project that the store does not
  have; a request that panics leaves the store as it was. Reading a server or a project never
  panics.\<close>

theorem fake_request_panics_iff:
  assumes "fake_reachable j m" and "iteration_order (fst ord)"
  shows "(fst (CreateHandler j (mem_ds ord) r m) = Panic \<longleftrightarrow> names_nothing j m r)
    \<and> (fst (CreateHandler j (mem_ds ord) r m) = Panic \<longrightarrow> snd (CreateHandler j (mem_ds ord) r m) = m)"
proof (cases r)
  case (PostServer v b)
  then show ?thesis using post_server_panic [OF assms(2)] by simp
next
  case (PutServer v b)
  obtain x m' where "updateServerHandler j (mem_ds ord) v b m = (x, m')" by fastforce
  with put_server_effect [OF conjunct1 [OF fake_reachable_ok [OF assms(1)]] this] PutServer show ?thesis
    by (auto split: sum.splits option.splits)
next
  case (PutProject v b)
  obtain x m' where "updateProjectHandler j (mem_ds ord) v b m = (x, m')" by fastforce
  with put_project_effect [OF conjunct1 [OF fake_reachable_ok [OF assms(1)]] this] PutProject show ?thesis
    by (auto split: sum.splits option.splits)
qed (auto simp: read_handlers listRegionsHandler_def listPlansHandler_def mem_ds_fields split: sum.splits)

theorem fake_request_panics_iff_witness:
  "fst (CreateHandler sample_codec (mem_ds in_order) (PutProject (itoa 7) ''1x'') sample_fake) = Panic
    \<and> fst (CreateHandler sample_codec (mem_ds in_order) (GetProjectID (itoa 7)) sample_fake) \<noteq> Panic"
proof -
  note iff = fake_request_panics_iff [OF sample_fake_reachable [of sample_codec] in_order_orders(1)]
  have "project_at sample_fake 7 = None"
    using fake_reachable_ok [OF sample_fake_reachable] by (intro project_at_fresh) (auto simp: sample_fake_counter)
  moreover have "json_UpdateProject sample_codec ''1x'' = Inr \<lparr>upr_Bgp = Some True, upr_Name = Some ''x''\<rparr>"
    by (simp add: sample_codec_def)
  ultimately have "names_nothing sample_codec sample_fake (PutProject (itoa 7) ''1x'')"
    by (simp add: ParseInt_itoa)
  then show ?thesis using iff [of "PutProject (itoa 7) ''1x''"] iff [of "GetProjectID (itoa 7)"]
    by (simp del: CreateHandler.simps names_nothing.simps(3,4,5))
qed

text \<open>Listing the servers of a project gives each server of the project once, whatever the order
  in which the map is visited; the loop's early exit never cuts the list short.\<close>

theorem fake_list_servers_complete:
  assumes "fake_reachable j m" and "iteration_order (snd (snd ord))" and "ParseInt 32 pv = Inr pr"
  shows "\<exists>vs. CreateHandler j (mem_ds ord) (GetServers pv) m = (Ok (write_json j (ServersBody vs)), m)
    \<and> set vs = {v \<in> ran (server_at m). srv_ProjectID v = pr} \<and> distinct (map srv_ID vs)"
proof -
  let ?o = "snd (snd ord)" and ?h = "\<lambda>p. server_heap m ! p"
  let ?ps = "mem_ListServers ?o pr m"
  have ok: "store_ok m" using fake_reachable_ok [OF assms(1)] by simp
  have d: "distinct (map fst (mem_servers m))" using store_okD(4) [OF ok] by (simp add: entries_ok_def)
  have k: "map (\<lambda>p. srv_ID (?h p)) (map snd (mem_servers m)) = map fst (mem_servers m)"
    using store_okD(4) [OF ok] by (auto simp: entries_ok_def)
  have m: "mset (?o (map snd (mem_servers m))) = mset (map snd (mem_servers m))"
    using assms(2) by (simp add: iteration_order_def)
  then have "mset (map (\<lambda>p. srv_ID (?h p)) (?o (map snd (mem_servers m)))) = mset (map fst (mem_servers m))"
    by (metis k mset_map)
  then have "distinct (map (\<lambda>p. srv_ID (?h p)) (?o (map snd (mem_servers m))))"
    using d by (metis mset_eq_imp_distinct_iff)
  then have "distinct (map (\<lambda>p. srv_ID (?h p)) ?ps)"
    unfolding mem_ListServers_eq [OF assms(2)] by (rule distinct_map_filter)
  moreover have "?h ` set ?ps = {v \<in> ran (server_at m). srv_ProjectID v = pr}"
  proof -
    have "set ?ps = {p \<in> ran (map_of (mem_servers m)). srv_ProjectID (?h p) = pr}"
      using mset_eq_setD [OF m] by (auto simp: mem_ListServers_eq [OF assms(2)] ran_distinct [OF d])
    moreover have "ran (server_at m) = ?h ` ran (map_of (mem_servers m))"
      by (auto simp: ran_def server_at_def mem_GetServer_def)
    ultimately show ?thesis by auto
  qed
  ultimately show ?thesis using assms(3)
    by (intro exI [of _ "map ?h ?ps"]) (simp add: listServersHandler_def mem_ds_fields comp_def cong: map_cong)
qed

theorem fake_list_servers_complete_witness:
  "\<exists>vs. CreateHandler sample_codec (mem_ds in_order) (GetServers (itoa 3)) sample_fake
      = (Ok (write_json sample_codec (ServersBody vs)), sample_fake) \<and> fake_server \<in> set vs"
proof -
  have "ParseInt 32 (itoa 3) = Inr 3" by (simp add: ParseInt_itoa)
  moreover have "fake_server \<in> ran (server_at sample_fake)" "srv_ProjectID fake_server = 3"
    using sample_fake_server by (auto simp: ran_def fake_server_def)
  ultimately show ?thesis using fake_list_servers_complete [OF sample_fake_reachable in_order_orders(3), of "itoa 3" 3 sample_codec] by fastforce
qed

text \<open>What a request wrote is what the next one reads. An update of a known server answers with
  the server as it is stored from then on, with the BGP flag of the request and with the tags of the
  request or, when it has none, the old ones; every other server and all projects are as they
  were.\<close>

theorem fake_update_then_get:
  assumes "fake_reachable j m" and "ParseInt 32 sv = Inr i" and "json_UpdateServer j b = Inr req"
    and "server_at m i = Some v" and "ParseInt 32 sv' = Inr i'"
  shows "\<exists>m'. CreateHandler j (mem_ds ord) (PutServer sv b) m = (Ok (write_json j (ServerBody (changed_server req v))), m')
    \<and> project_at m' = project_at m
    \<and> CreateHandler j (mem_ds ord') (GetServerID sv') m' =
        (if i' = i then Ok (write_json j (ServerBody (changed_server req v)))
         else fst (CreateHandler j (mem_ds ord) (GetServerID sv') m), m')"
proof -
  have ok: "store_ok m" using fake_reachable_ok [OF assms(1)] by simp
  show ?thesis
    by (rule put_server [OF ok assms(2-4), of ord]) (auto simp: get_server [OF assms(5)])
qed

theorem fake_update_then_get_witness:
  "\<exists>m'. snd (CreateHandler sample_codec (mem_ds in_order) (PutServer (itoa 4) ''t'') sample_fake) = m'
    \<and> CreateHandler sample_codec (mem_ds in_order) (GetServerID (itoa 4)) m'
      = (Ok (write_json sample_codec (ServerBody (fake_server\<lparr>srv_BGP_Enabled := True, srv_Tags := Some Map.empty\<rparr>))), m')"
proof -
  let ?req = "\<lparr>usr_Bgp = True, usr_Tags = Some Map.empty\<rparr>"
  have b: "json_UpdateServer sample_codec ''t'' = Inr ?req" by (simp add: sample_codec_def)
  have p: "ParseInt 32 (itoa 4) = Inr 4" by (simp add: ParseInt_itoa)
  have v: "changed_server ?req fake_server = fake_server\<lparr>srv_BGP_Enabled := True, srv_Tags := Some Map.empty\<rparr>"
    by (simp add: changed_server_def)
  from fake_update_then_get [OF sample_fake_reachable p b sample_fake_server p, of in_order in_order]
  show ?thesis by (auto simp: v simp del: CreateHandler.simps)
qed

text \<open>C30: As long as the counter of the store has not come to the end of its 64 bits, a server that a
  request created has a fresh ID, every other server is as it was, and the server is found under
  the ID in the answer if that is below \<open>2 ^ 31\<close>; from there up to \<open>2 ^ 63\<close> the store hands out IDs
  but the handlers read 32 bits, and the answer to the ID is status 400.\<close>

theorem fake_create_then_get:
  assumes "fake_reachable j m" and "json_Encode j = (\<lambda>_. None)"
    and "CreateHandler j (mem_ds ord) (PostServer pv b) m = (Ok \<lparr>rsp_Code = 200, rsp_Body = ServerBody v\<rparr>, m')"
    and c: "mem_counter m + 1 < 2 ^ 63"
  shows "srv_ID v < 2 ^ 63 \<and> server_at m (srv_ID v) = None \<and> server_at m' = (server_at m)(srv_ID v \<mapsto> v) \<and> project_at m' = project_at m
    \<and> CreateHandler j (mem_ds ord') (GetServerID (itoa (srv_ID v))) m' =
        (Ok (if srv_ID v < 2 ^ 31 then \<lparr>rsp_Code = 200, rsp_Body = ServerBody v\<rparr>
             else error_response 400 (''invalid server ID: '' @ itoa (srv_ID v))), m')"
proof -
  have ok: "store_ok m" using fake_reachable_ok [OF assms(1)] by simp
  have run: "createServerHandler j (mem_ds ord) pv b m = (Ok \<lparr>rsp_Code = 200, rsp_Body = ServerBody v\<rparr>, m')"
    using assms(3) by simp
  have room: "has_room m" using c store_okD(1) [OF ok] by (simp add: has_room_def)
  from run have v: "srv_ID v = next_ID m" "server_at m' = (server_at m)(srv_ID v \<mapsto> v)" "project_at m' = project_at m"
    using post_server_200 [OF ok room assms(2)] by auto
  have "0 \<le> srv_ID v" using store_okD(1) [OF ok] v(1) by simp
  then have p: "ParseInt 32 (itoa (srv_ID v)) = Inr (srv_ID v) \<longleftrightarrow> srv_ID v < 2 ^ 31"
    using ParseInt_itoa_iff [of 32 "srv_ID v"] by simp
  have get: "CreateHandler j (mem_ds ord') (GetServerID (itoa (srv_ID v))) m' =
      (Ok (if srv_ID v < 2 ^ 31 then \<lparr>rsp_Code = 200, rsp_Body = ServerBody v\<rparr>
             else error_response 400 (''invalid server ID: '' @ itoa (srv_ID v))), m')"
  proof (cases "srv_ID v < 2 ^ 31")
    case True
    with p have "ParseInt 32 (itoa (srv_ID v)) = Inr (srv_ID v)" by simp
    from get_server [OF this] True v assms(2) show ?thesis by (simp add: write_json_def)
  next
    case False
    then obtain e where "ParseInt 32 (itoa (srv_ID v)) = Inl e"
      using ParseInt_itoa_beyond [of 32 "srv_ID v"] by auto
    with False show ?thesis by (simp add: getServerHandler_def)
  qed
  show ?thesis using server_at_fresh [OF ok, of "srv_ID v"] v get c by simp
qed

theorem fake_create_then_get_witness:
  "\<exists>v m'. CreateHandler sample_codec (mem_ds in_order) (PostServer (itoa 3) ''b'') sample_fake
      = (Ok \<lparr>rsp_Code = 200, rsp_Body = ServerBody v\<rparr>, m') \<and> srv_ID v = 5
    \<and> CreateHandler sample_codec (mem_ds in_order) (GetServerID (itoa 5)) m'
      = (Ok \<lparr>rsp_Code = 200, rsp_Body = ServerBody v\<rparr>, m')"
proof -
  have e: "json_Encode sample_codec = (\<lambda>_. None)" by (simp add: sample_codec_def)
  have p: "ParseInt 32 (itoa 3) = Inr 3" "ParseInt 32 (itoa 1) = Inr 1" by (simp_all add: ParseInt_itoa)
  have one: "ParseInt 32 ''1'' = Inr 1" using p(2) by (simp add: print_eval)
  have req: "json_CreateServer sample_codec ''b'' = Inr \<lparr>csr_Plan = ''1'', csr_Region = ''EU-Nord-1'', csr_Hostname = ''b''\<rparr>"
    by (simp add: sample_codec_def)
  have plan: "mem_GetPlan 1 sample_fake = Some baremetal"
    by (simp add: sample_fake_def NewMemory_def sample_create_defs Let_def mem_GetPlan_def baremetal_def)
  have region: "mem_GetRegionByName (fst in_order) ''EU-Nord-1'' sample_fake = Some eu_nord_1"
    by (simp add: sample_fake_def NewMemory_def sample_create_defs Let_def mem_GetRegionByName_def in_order_def eu_nord_1_def)
  obtain v m' where run: "CreateHandler sample_codec (mem_ds in_order) (PostServer (itoa 3) ''b'') sample_fake
      = (Ok \<lparr>rsp_Code = 200, rsp_Body = ServerBody v\<rparr>, m')" and v: "srv_ID v = 5"
    by (simp add: createServerHandler_def mem_ds_fields p one req plan region e write_json_def sample_fake_counter
        sample_create_defs Let_def)
  from fake_create_then_get [OF sample_fake_reachable e run, of in_order] run v show ?thesis by (auto simp: sample_fake_counter)
qed

end
