(* ===== verification/Fake_API_Clients.thy ===== *)
theory Fake_API_Clients
  imports Fake_API_Runs BGP
begin

text \<open>
  The provider against the fake API: \<^verbatim>\<open>bgp.go\<close> and \<^verbatim>\<open>instances.go\<close> run with a client whose calls are
  requests to \<^verbatim>\<open>cherry/server\<close>. The client is not code of this repository; what is used of it is
  the predicate \<open>talks_to\<close>: which request a call makes, and that the answer is returned, as an
  error when its status is not 200.
\<close>

section \<open>A client of the fake\<close>

fun project_of :: "body \<Rightarrow> project option" where
  "project_of (ProjectBody p) = Some p"
| "project_of _ = None"

fun server_of :: "body \<Rightarrow> server option" where
  "server_of (ServerBody s) = Some s"
| "server_of _ = None"

definition replied :: "(body \<Rightarrow> 'a option) \<Rightarrow> Memory handled \<Rightarrow> (go_error + 'a) \<times> Memory \<Rightarrow> bool" where
  "replied f h r \<longleftrightarrow> snd r = snd h \<and>
     (case fst h of
        Ok rsp \<Rightarrow> if rsp_Code rsp = 200 then (\<forall>v. f (rsp_Body rsp) = Some v \<longrightarrow> fst r = Inr v) else (\<exists>e. fst r = Inl e)
      | _ \<Rightarrow> (\<exists>e. fst r = Inl e))"

definition replied_get :: "Memory handled \<Rightarrow> (server \<times> int option \<times> go_error option) \<times> Memory \<Rightarrow> bool" where
  "replied_get h r \<longleftrightarrow> snd r = snd h \<and>
     (case fst h of
        Ok rsp \<Rightarrow> fst (snd (fst r)) = Some (rsp_Code rsp) \<and>
          (if rsp_Code rsp = 200 then snd (snd (fst r)) = None \<and> (\<forall>v. server_of (rsp_Body rsp) = Some v \<longrightarrow> fst (fst r) = v)
           else snd (snd (fst r)) \<noteq> None)
      | _ \<Rightarrow> fst (snd (fst r)) = None \<and> snd (snd (fst r)) \<noteq> None)"

text \<open>\<open>T\<close> are the tags that the client can send, the finite maps of strings that JSON can carry.\<close>

definition talks_to :: "codec \<Rightarrow> Memory DataStore \<Rightarrow> strmap option set \<Rightarrow> Memory cherry_client \<Rightarrow> bool" where
  "talks_to j d T c \<longleftrightarrow>
     (\<forall>i m. replied project_of (CreateHandler j d (GetProjectID (itoa i)) m) (Projects_Get c i m)) \<and>
     (\<forall>i n b m. \<exists>text. json_UpdateProject j text = Inr \<lparr>upr_Bgp = Some b, upr_Name = Some n\<rparr> \<and>
        replied project_of (CreateHandler j d (PutProject (itoa i) text) m) (Projects_Update c i n b m)) \<and>
     (\<forall>i m. replied_get (CreateHandler j d (GetServerID (itoa i)) m) (Servers_Get c i m)) \<and>
     (\<forall>i t b m. t \<in> T \<longrightarrow> (\<exists>text. json_UpdateServer j text = Inr \<lparr>usr_Bgp = b, usr_Tags = t\<rparr> \<and>
        replied server_of (CreateHandler j d (PutServer (itoa i) text) m) (Servers_Update c i t b m)))"

section \<open>What its calls return\<close>

lemma ParseInt_32: "0 \<le> i \<Longrightarrow> i < 2 ^ 31 \<Longrightarrow> ParseInt 32 (itoa i) = Inr i"
  using ParseInt_itoa_iff [of 32 i] by simp

lemma Projects_Get_fake:
  assumes "talks_to j (mem_ds ord) T c" "json_Encode j = (\<lambda>_. None)" "0 \<le> i" "i < 2 ^ 31"
  shows "project_at m i = Some p \<Longrightarrow> Projects_Get c i m = (Inr p, m)"
    and "project_at m i = None \<Longrightarrow> \<exists>e. Projects_Get c i m = (Inl e, m)"
proof -
  have "replied project_of (CreateHandler j (mem_ds ord) (GetProjectID (itoa i)) m) (Projects_Get c i m)"
    using assms(1) by (simp add: talks_to_def)
  then show "project_at m i = Some p \<Longrightarrow> Projects_Get c i m = (Inr p, m)"
    and "project_at m i = None \<Longrightarrow> \<exists>e. Projects_Get c i m = (Inl e, m)"
    using get_project [OF ParseInt_32 [OF assms(3,4)], of j ord m] assms(2)
    by (auto simp: replied_def write_json_def error_response_def prod_eq_iff)
qed

lemma Projects_Update_fake:
  assumes "talks_to j (mem_ds ord) T c" "json_Encode j = (\<lambda>_. None)" "0 \<le> i" "i < 2 ^ 31"
    and "store_ok m" "project_at m i = Some p"
  obtains m' where "Projects_Update c i n b m = (Inr (p\<lparr>pj_Name := n, pj_Bgp_Enabled := b\<rparr>), m')" "store_ok m'"
    "project_at m' = (project_at m)(i \<mapsto> p\<lparr>pj_Name := n, pj_Bgp_Enabled := b\<rparr>)" "server_at m' = server_at m"
proof -
  let ?req = "\<lparr>upr_Bgp = Some b, upr_Name = Some n\<rparr>"
  obtain req where req: "json_UpdateProject j req = Inr ?req"
    and a: "replied project_of (CreateHandler j (mem_ds ord) (PutProject (itoa i) req) m) (Projects_Update c i n b m)"
    using assms(1) unfolding talks_to_def by blast
  have v: "changed_project ?req p = p\<lparr>pj_Name := n, pj_Bgp_Enabled := b\<rparr>" by (simp add: changed_project_def)
  obtain m' where m': "updateProjectHandler j (mem_ds ord) (itoa i) req m = (Ok (write_json j (ProjectBody (changed_project ?req p))), m')"
    "store_ok m'" "project_at m' = (project_at m)(i \<mapsto> changed_project ?req p)" "server_at m' = server_at m"
    by (rule put_project [OF assms(5) ParseInt_32 [OF assms(3,4)] req assms(6)])
  show ?thesis
    by (rule that [of m']) (use a assms(2) m' in \<open>auto simp: v replied_def write_json_def prod_eq_iff\<close>)
qed

lemma Servers_Get_fake:
  assumes "talks_to j (mem_ds ord) T c" "json_Encode j = (\<lambda>_. None)"
  shows "0 \<le> i \<Longrightarrow> i < 2 ^ 31 \<Longrightarrow> server_at m i = Some v \<Longrightarrow> Servers_Get c i m = ((v, Some 200, None), m)"
    and "0 \<le> i \<Longrightarrow> i < 2 ^ 31 \<Longrightarrow> server_at m i = None \<Longrightarrow> \<exists>s e. Servers_Get c i m = ((s, Some 404, Some e), m)"
    and "2 ^ 31 \<le> i \<Longrightarrow> \<exists>s e. Servers_Get c i m = ((s, Some 400, Some e), m)"
proof -
  have a: "replied_get (CreateHandler j (mem_ds ord) (GetServerID (itoa i)) m) (Servers_Get c i m)"
    using assms(1) by (simp add: talks_to_def)
  show "Servers_Get c i m = ((v, Some 200, None), m)" if "0 \<le> i" "i < 2 ^ 31" "server_at m i = Some v"
    using a get_server [OF ParseInt_32 [OF that(1,2)], of j ord m] assms(2) that(3)
    by (auto simp: replied_get_def write_json_def prod_eq_iff)
  show "\<exists>s e. Servers_Get c i m = ((s, Some 404, Some e), m)" if "0 \<le> i" "i < 2 ^ 31" "server_at m i = None"
    using a get_server [OF ParseInt_32 [OF that(1,2)], of j ord m] that(3)
    by (auto simp: replied_get_def error_response_def prod_eq_iff)
  show "\<exists>s e. Servers_Get c i m = ((s, Some 400, Some e), m)" if "2 ^ 31 \<le> i"
    using a ParseInt_itoa_beyond [of 32 i] that
    by (auto simp: replied_get_def error_response_def prod_eq_iff getServerHandler_def)
qed

lemma Servers_Update_fake:
  assumes "talks_to j (mem_ds ord) T c" "json_Encode j = (\<lambda>_. None)" "0 \<le> i" "i < 2 ^ 31"
    and "store_ok m" "server_at m i = Some v" "srv_Tags v \<in> T"
  obtains m' where "Servers_Update c i (srv_Tags v) b m = (Inr (v\<lparr>srv_BGP_Enabled := b\<rparr>), m')" "store_ok m'"
    "server_at m' = (server_at m)(i \<mapsto> v\<lparr>srv_BGP_Enabled := b\<rparr>)" "project_at m' = project_at m"
proof -
  let ?req = "\<lparr>usr_Bgp = b, usr_Tags = srv_Tags v\<rparr>"
  obtain req where req: "json_UpdateServer j req = Inr ?req"
    and a: "replied server_of (CreateHandler j (mem_ds ord) (PutServer (itoa i) req) m) (Servers_Update c i (srv_Tags v) b m)"
    using assms(1,7) unfolding talks_to_def by blast
  have v: "changed_server ?req v = v\<lparr>srv_BGP_Enabled := b\<rparr>" by (simp add: changed_server_def split: option.split)
  obtain m' where m': "updateServerHandler j (mem_ds ord) (itoa i) req m = (Ok (write_json j (ServerBody (changed_server ?req v))), m')"
    "store_ok m'" "server_at m' = (server_at m)(i \<mapsto> changed_server ?req v)" "project_at m' = project_at m"
    by (rule put_server [OF assms(5) ParseInt_32 [OF assms(3,4)] req assms(6)])
  show ?thesis
    by (rule that [of m']) (use a assms(2) m' in \<open>auto simp: v replied_def write_json_def prod_eq_iff\<close>)
qed


section \<open>A sample client\<close>

definition reply :: "(body \<Rightarrow> 'a option) \<Rightarrow> Memory handled \<Rightarrow> (go_error + 'a) \<times> Memory" where
  "reply f h = (case fst h of
       Ok rsp \<Rightarrow> if rsp_Code rsp = 200 then (case f (rsp_Body rsp) of Some v \<Rightarrow> Inr v | None \<Rightarrow> Inl (External ''body''))
         else Inl (External ''status'')
     | _ \<Rightarrow> Inl (External ''EOF''), snd h)"

definition reply_get :: "Memory handled \<Rightarrow> (server \<times> int option \<times> go_error option) \<times> Memory" where
  "reply_get h = (case fst h of
       Ok rsp \<Rightarrow> (case server_of (rsp_Body rsp) of Some v \<Rightarrow> v | None \<Rightarrow> fake_server, Some (rsp_Code rsp),
         if rsp_Code rsp = 200 then None else Some (External ''status''))
     | _ \<Rightarrow> (fake_server, None, Some (External ''EOF'')), snd h)"

definition fake_client :: "Memory DataStore \<Rightarrow> Memory cherry_client" where
  "fake_client d =
     \<lparr>Projects_Get = (\<lambda>i m. reply project_of (CreateHandler sample_codec d (GetProjectID (itoa i)) m)),
      Projects_Update = (\<lambda>i n b m. reply project_of
        (CreateHandler sample_codec d (PutProject (itoa i) ((if b then CHR ''1'' else CHR ''0'') # n)) m)),
      Servers_Get = (\<lambda>i m. reply_get (CreateHandler sample_codec d (GetServerID (itoa i)) m)),
      Servers_List = (\<lambda>_ m. (Inr [], m)),
      Servers_Update = (\<lambda>i t b m. reply server_of (CreateHandler sample_codec d (PutServer (itoa i) (if b then ''1'' else ''0'')) m)),
      IPs_List = (\<lambda>_ m. (Inr [], m)), IPs_Create = (\<lambda>_ _ _ m. (Inl (External ''none''), m)),
      IPs_Remove = (\<lambda>_ m. (None, m)), IPs_Update = (\<lambda>_ _ m. (None, m))\<rparr>"

lemma replied_reply: "replied f h (reply f h)"
  by (auto simp: replied_def reply_def split: outcome.splits option.splits)

lemma replied_reply_get: "replied_get h (reply_get h)"
  by (auto simp: replied_get_def reply_get_def split: outcome.splits)

lemma fake_client_talks: "talks_to sample_codec d {None} (fake_client d)"
proof -
  have p: "json_UpdateProject sample_codec ((if b then CHR ''1'' else CHR ''0'') # n) = Inr \<lparr>upr_Bgp = Some b, upr_Name = Some n\<rparr>" for b n
    by (simp add: sample_codec_def)
  have s: "json_UpdateServer sample_codec (if b then ''1'' else ''0'') = Inr \<lparr>usr_Bgp = b, usr_Tags = None\<rparr>" for b
    by (simp add: sample_codec_def)
  have "\<exists>t. json_UpdateProject sample_codec t = Inr \<lparr>upr_Bgp = Some b, upr_Name = Some n\<rparr> \<and>
      replied project_of (CreateHandler sample_codec d (PutProject (itoa i) t) m) (Projects_Update (fake_client d) i n b m)" for i n b m
    by (rule exI, rule conjI, rule p) (simp add: fake_client_def replied_reply del: CreateHandler.simps if_split)
  moreover have "\<exists>t. json_UpdateServer sample_codec t = Inr \<lparr>usr_Bgp = b, usr_Tags = None\<rparr> \<and>
      replied server_of (CreateHandler sample_codec d (PutServer (itoa i) t) m) (Servers_Update (fake_client d) i None b m)" for i b m
    by (rule exI, rule conjI, rule s) (simp add: fake_client_def replied_reply del: CreateHandler.simps if_split)
  ultimately show ?thesis unfolding talks_to_def
    by (simp add: fake_client_def replied_reply replied_reply_get del: CreateHandler.simps if_split)
qed

lemma sample_codec_encodes: "json_Encode sample_codec = (\<lambda>_. None)"
  by (simp add: sample_codec_def)

section \<open>Properties\<close>

text \<open>C31: Starting BGP against the fake turns it on for the project and changes nothing else in the
  store; the name of the project stays, its AS number is kept in the result, and starting again
  changes nothing. For a project the store does not have it fails and changes nothing.\<close>

theorem new_bgp_against_fake:
  assumes reach: "fake_reachable j m" and enc: "json_Encode j = (\<lambda>_. None)" and talks: "talks_to j (mem_ds ord) T c"
    and i: "0 \<le> i" "i < 2 ^ 31"
  shows "case project_at m i of
      Some p \<Rightarrow> (\<exists>m'. newBGP c i m = (Inr \<lparr>bgp_project = i, bgp_localASN = pj_Bgp_LocalASN p\<rparr>, m')
        \<and> project_at m' = (project_at m)(i \<mapsto> p\<lparr>pj_Bgp_Enabled := True\<rparr>) \<and> server_at m' = server_at m
        \<and> newBGP c i m' = newBGP c i m)
    | None \<Rightarrow> (\<exists>e. newBGP c i m = (Inl e, m))"
proof (cases "project_at m i")
  case None
  then show ?thesis using Projects_Get_fake(2) [OF talks enc i None] by (auto simp: newBGP_def enableBGP_def)
next
  case (Some p)
  have ok: "store_ok m" using fake_reachable_ok [OF reach] by simp
  note get = Projects_Get_fake(1) [OF talks enc i]
  have again: "newBGP c i m' = (Inr \<lparr>bgp_project = i, bgp_localASN = pj_Bgp_LocalASN q\<rparr>, m')"
    if "project_at m' i = Some q" "pj_Bgp_Enabled q" for m' q
    using get [OF that(1)] that(2) by (simp add: newBGP_def enableBGP_def)
  show ?thesis
  proof (cases "pj_Bgp_Enabled p")
    case True
    then have "p\<lparr>pj_Bgp_Enabled := True\<rparr> = p" by simp
    with again [OF Some True] Some show ?thesis by auto
  next
    case False
    obtain m' where u: "Projects_Update c i (pj_Name p) True m = (Inr (p\<lparr>pj_Name := pj_Name p, pj_Bgp_Enabled := True\<rparr>), m')"
      "project_at m' = (project_at m)(i \<mapsto> p\<lparr>pj_Name := pj_Name p, pj_Bgp_Enabled := True\<rparr>)" "server_at m' = server_at m"
      by (rule Projects_Update_fake [OF talks enc i ok Some])
    have "newBGP c i m = (Inr \<lparr>bgp_project = i, bgp_localASN = pj_Bgp_LocalASN p\<rparr>, m')"
      using False u(1) get [OF Some] by (simp add: newBGP_def enableBGP_def)
    with again [of m'] u(2,3) Some show ?thesis by auto
  qed
qed

theorem new_bgp_against_fake_witness:
  "\<exists>m'. newBGP (fake_client (mem_ds in_order)) 3 sample_fake = (Inr \<lparr>bgp_project = 3, bgp_localASN = 0\<rparr>, m')
    \<and> project_at m' 3 = Some \<lparr>pj_ID = 3, pj_Name = ''p'', pj_Bgp_Enabled = True, pj_Bgp_LocalASN = 0\<rparr>
    \<and> newBGP (fake_client (mem_ds in_order)) 3 m' = (Inr \<lparr>bgp_project = 3, bgp_localASN = 0\<rparr>, m')"
  using new_bgp_against_fake [OF sample_fake_reachable sample_codec_encodes fake_client_talks, of 3 in_order]
  by (auto simp: sample_fake_project)

text \<open>Against the fake, a node exists exactly when the store has the server of its provider ID,
  it is shut down exactly when that server is inactive, and asking whether an unknown server is
  shut down is replied with not found; neither call changes the store.\<close>

theorem instances_against_fake:
  assumes "json_Encode j = (\<lambda>_. None)" and "talks_to j (mem_ds ord) T c"
    and "serverIDFromProviderID (nd_ProviderID n) = Inr i" and "0 \<le> i" and "i < 2 ^ 31"
  shows "InstanceExists c n m = (Ok (server_at m i \<noteq> None), m)
    \<and> InstanceShutdown c n m =
        (case server_at m i of Some v \<Rightarrow> Ok (srv_State v = ''inactive'') | None \<Rightarrow> Err InstanceNotFound, m)"
  using Servers_Get_fake(1,2) [OF assms(2,1,4,5), of m] assms(3)
  by (cases "server_at m i")
    (auto simp: InstanceExists_def InstanceShutdown_def serverFromProviderID_def serverByID_def)

theorem instances_against_fake_witness:
  "InstanceExists (fake_client (mem_ds in_order)) (sample_node ''node-a'' (itoa 4)) sample_fake = (Ok True, sample_fake)
    \<and> InstanceExists (fake_client (mem_ds in_order)) (sample_node ''node-b'' (itoa 5)) sample_fake = (Ok False, sample_fake)"
proof -
  have i: "serverIDFromProviderID (nd_ProviderID (sample_node n (itoa i))) = Inr i" if "int64_range i" for n i
    using that by (simp add: sample_node_def serverIDFromProviderID_accepts(1) Atoi_itoa)
  have "server_at sample_fake 5 = None"
    using fake_reachable_ok [OF sample_fake_reachable] by (intro server_at_fresh) (auto simp: sample_fake_counter)
  then show ?thesis
    using instances_against_fake [OF sample_codec_encodes fake_client_talks i, of 4 in_order "''node-a''" sample_fake]
      instances_against_fake [OF sample_codec_encodes fake_client_talks i, of 5 in_order "''node-b''" sample_fake]
    by (simp add: sample_fake_server)
qed

text \<open>C34: Enabling BGP on a node against the fake: the server of the provider ID has BGP on from then
  on, with its tags and addresses as they were, no other server and no project changes, and the
  answer is the peering information of the server.\<close>

theorem ensure_node_bgp_against_fake:
  assumes reach: "fake_reachable j m" and enc: "json_Encode j = (\<lambda>_. None)" and talks: "talks_to j (mem_ds ord) T c"
    and pid: "serverIDFromProviderID pid = Inr i" and i: "i < 2 ^ 31" and v: "server_at m i = Some v" and t: "srv_Tags v \<in> T"
  shows "\<exists>m'. ensureNodeBGPEnabled v6 c b pid m = (nodeBGPInfoFromServer v6 b v, m')
    \<and> server_at m' = (server_at m)(i \<mapsto> v\<lparr>srv_BGP_Enabled := True\<rparr>) \<and> project_at m' = project_at m"
proof -
  have ok: "store_ok m" using fake_reachable_ok [OF reach] by simp
  have i0: "0 \<le> i" using v entries_ok_map_of [OF store_okD(4) [OF ok], of i] by (auto simp: server_at_Some mem_GetServer_def)
  note get = Servers_Get_fake(1) [OF talks enc i0 i v]
  show ?thesis
  proof (cases "srv_BGP_Enabled v")
    case True
    then have "v\<lparr>srv_BGP_Enabled := True\<rparr> = v" by simp
    with True get pid v show ?thesis by (auto simp: ensureNodeBGPEnabled_def)
  next
    case False
    obtain m' where u: "Servers_Update c i (srv_Tags v) True m = (Inr (v\<lparr>srv_BGP_Enabled := True\<rparr>), m')"
      "server_at m' = (server_at m)(i \<mapsto> v\<lparr>srv_BGP_Enabled := True\<rparr>)" "project_at m' = project_at m"
      by (rule Servers_Update_fake [OF talks enc i0 i ok v t])
    have "nodeBGPInfoFromServer v6 b (v\<lparr>srv_BGP_Enabled := True, srv_IPAddresses := srv_IPAddresses v\<rparr>) = nodeBGPInfoFromServer v6 b v"
      by (rule nodeBGPInfoFromServer_cong) simp_all
    with False get pid u show ?thesis by (auto simp: ensureNodeBGPEnabled_def Let_def)
  qed
qed

theorem ensure_node_bgp_against_fake_witness:
  "\<exists>m'. snd (ensureNodeBGPEnabled (\<lambda>_. False) (fake_client (mem_ds in_order)) \<lparr>bgp_project = 3, bgp_localASN = 65010\<rparr> (itoa 4) sample_fake) = m'
    \<and> server_at m' 4 = Some (fake_server\<lparr>srv_BGP_Enabled := True\<rparr>)"
proof -
  have "serverIDFromProviderID (itoa 4) = Inr 4" by (simp add: serverIDFromProviderID_accepts(1) Atoi_itoa)
  moreover have "srv_Tags fake_server \<in> {None}" by (simp add: fake_server_def)
  ultimately obtain m' where "ensureNodeBGPEnabled (\<lambda>_. False) (fake_client (mem_ds in_order)) \<lparr>bgp_project = 3, bgp_localASN = 65010\<rparr>
      (itoa 4) sample_fake = (nodeBGPInfoFromServer (\<lambda>_. False) \<lparr>bgp_project = 3, bgp_localASN = 65010\<rparr> fake_server, m')"
    "server_at m' = (server_at sample_fake)(4 \<mapsto> fake_server\<lparr>srv_BGP_Enabled := True\<rparr>)"
    using ensure_node_bgp_against_fake [OF sample_fake_reachable sample_codec_encodes fake_client_talks _ _ sample_fake_server,
        of "itoa 4" "\<lambda>_. False" in_order "\<lparr>bgp_project = 3, bgp_localASN = 65010\<rparr>"] by auto
  then show ?thesis by simp
qed

end
