(* ===== verification/MetalLB_Config.thy ===== *)
theory MetalLB_Config
  imports MetalLB_Resources
begin

text \<open>
  \<^verbatim>\<open>cherry/loadbalancers/metallb/config.go\<close>: the configuration file of MetalLB before its
  resources, with the comparison of peers and pools and the operations on a file. A comparison
  sorts what it compares in place: slicing with \<open>[:]\<close> does not copy, so the operands come back
  with their selectors, expressions, values, addresses and communities in another order. Each
  comparison therefore returns its operands beside its result. The operands of one comparison
  are taken not to share arrays with each other. A comparison that indexes a slice or follows a
  pointer returns an outcome, since it may panic. \<open>sort.Sort\<close> is the insertion sort of the library
  up to twelve elements; what it does to longer slices is an argument (\<open>sorters\<close>).
\<close>

section \<open>Sorting in place\<close>

text \<open>\<open>Less\<close> returns its result and the two elements, which it may have written into.\<close>

fun insert_left_eff :: "('a \<Rightarrow> 'a \<Rightarrow> bool \<times> 'a \<times> 'a) \<Rightarrow> 'a \<Rightarrow> 'a list \<Rightarrow> 'a list" where
  "insert_left_eff lt x [] = [x]"
| "insert_left_eff lt x (y # ys) =
     (case lt x y of (b, x', y') \<Rightarrow> if b then y' # insert_left_eff lt x' ys else x' # y' # ys)"

definition insertionSort_eff :: "('a \<Rightarrow> 'a \<Rightarrow> bool \<times> 'a \<times> 'a) \<Rightarrow> 'a list \<Rightarrow> 'a list" where
  "insertionSort_eff lt xs = rev (foldl (\<lambda>acc x. insert_left_eff lt x acc) [] xs)"

definition sort_Sort_eff :: "('a list \<Rightarrow> 'a list) \<Rightarrow> ('a \<Rightarrow> 'a \<Rightarrow> bool \<times> 'a \<times> 'a) \<Rightarrow> 'a list \<Rightarrow> 'a list" where
  "sort_Sort_eff pdq lt xs = (if length xs \<le> 12 then insertionSort_eff lt xs else pdq xs)"

text \<open>The loop that compares two sorted slices of one length element by element.\<close>

fun equal_loop :: "('a \<Rightarrow> 'a \<Rightarrow> bool \<times> 'a \<times> 'a) \<Rightarrow> 'a list \<Rightarrow> 'a list \<Rightarrow> bool \<times> 'a list \<times> 'a list" where
  "equal_loop eq (p # ps) (q # qs) =
     (case eq p q of (b, p', q') \<Rightarrow>
        if \<not> b then (False, p' # ps, q' # qs)
        else case equal_loop eq ps qs of (r, ps', qs') \<Rightarrow> (r, p' # ps', q' # qs'))"
| "equal_loop eq ps qs = (True, ps, qs)"

text \<open>A list of elements that stand at known places of another list, written back to them.\<close>

definition write_back :: "'a list \<Rightarrow> (nat \<times> 'a) list \<Rightarrow> 'a list" where
  "write_back xs ys = foldl (\<lambda>xs (i, y). xs[i := y]) xs ys"

definition at_place :: "('a \<Rightarrow> 'a \<Rightarrow> bool \<times> 'a \<times> 'a) \<Rightarrow> nat \<times> 'a \<Rightarrow> nat \<times> 'a \<Rightarrow> bool \<times> (nat \<times> 'a) \<times> (nat \<times> 'a)" where
  "at_place f p q = (case f (snd p) (snd q) of (b, x, y) \<Rightarrow> (b, (fst p, x), (fst q, y)))"

definition strings_Compare :: "string \<Rightarrow> string \<Rightarrow> int" where
  "strings_Compare a b = (if a = b then 0 else if a < b then - 1 else 1)"

text \<open>
  What \<open>sort.Sort\<close> does to slices of more than twelve elements of the four types. \<open>Less\<close> of
  advertisements may panic, and so may their sort.
\<close>

record sorters =
  pdq_requirements :: "SelectorRequirements list \<Rightarrow> SelectorRequirements list"
  pdq_selectors :: "(nat \<times> NodeSelector) list \<Rightarrow> (nat \<times> NodeSelector) list"
  pdq_resources :: "Resource list \<Rightarrow> Resource list"
  pdq_advertisements :: "BgpAdvertisement list \<Rightarrow> BgpAdvertisement list outcome"

section \<open>Requirements of a selector\<close>

fun values_less :: "string list \<Rightarrow> string list \<Rightarrow> bool" where
  "values_less (v # vs) (w # ws) = (if v \<noteq> w then v < w else values_less vs ws)"
| "values_less vs ws = False"

fun values_compare :: "string list \<Rightarrow> string list \<Rightarrow> int" where
  "values_compare (v # vs) (w # ws) = (if v \<noteq> w then strings_Compare v w else values_compare vs ws)"
| "values_compare vs ws = 0"

abbreviation sort_values :: "SelectorRequirements \<Rightarrow> SelectorRequirements" where
  "sort_values s \<equiv> s\<lparr>sr_Values := map_option sort (sr_Values s)\<rparr>"

abbreviation values_of :: "SelectorRequirements \<Rightarrow> string list" where
  "values_of s \<equiv> nil_list (sr_Values s)"

definition SelectorRequirementsSlice_Less ::
  "SelectorRequirements \<Rightarrow> SelectorRequirements \<Rightarrow> bool \<times> SelectorRequirements \<times> SelectorRequirements" where
  "SelectorRequirementsSlice_Less s t =
     (if sr_Key s \<noteq> sr_Key t then (sr_Key s < sr_Key t, s, t)
      else if sr_Operator s \<noteq> sr_Operator t then (sr_Operator s < sr_Operator t, s, t)
      else if length (values_of s) \<noteq> length (values_of t) then (length (values_of s) < length (values_of t), s, t)
      else (values_less (values_of (sort_values s)) (values_of (sort_values t)), sort_values s, sort_values t))"

definition SelectorRequirements_Compare ::
  "SelectorRequirements \<Rightarrow> SelectorRequirements \<Rightarrow> int \<times> SelectorRequirements \<times> SelectorRequirements" where
  "SelectorRequirements_Compare s t =
     (if sr_Key s \<noteq> sr_Key t then (strings_Compare (sr_Key s) (sr_Key t), s, t)
      else if sr_Operator s \<noteq> sr_Operator t then (strings_Compare (sr_Operator s) (sr_Operator t), s, t)
      else case (sr_Values s, sr_Values t) of
          (None, None) \<Rightarrow> (0, s, t)
        | (None, Some _) \<Rightarrow> (- 1, s, t)
        | (Some _, None) \<Rightarrow> (1, s, t)
        | (Some vs, Some ws) \<Rightarrow>
            if length vs < length ws then (- 1, s, t)
            else if length vs > length ws then (1, s, t)
            else (values_compare (values_of (sort_values s)) (values_of (sort_values t)), sort_values s, sort_values t))"

definition SelectorRequirements_Equal ::
  "SelectorRequirements \<Rightarrow> SelectorRequirements \<Rightarrow> bool \<times> SelectorRequirements \<times> SelectorRequirements" where
  "SelectorRequirements_Equal s t = (case SelectorRequirements_Compare s t of (c, s', t') \<Rightarrow> (c = 0, s', t'))"

definition SelectorRequirementsSlice_Equal ::
  "sorters \<Rightarrow> SelectorRequirements list \<Rightarrow> SelectorRequirements list
    \<Rightarrow> bool \<times> SelectorRequirements list \<times> SelectorRequirements list" where
  "SelectorRequirementsSlice_Equal z s t =
     (if length s \<noteq> length t then (False, s, t)
      else equal_loop SelectorRequirements_Equal
        (sort_Sort_eff (pdq_requirements z) SelectorRequirementsSlice_Less s)
        (sort_Sort_eff (pdq_requirements z) SelectorRequirementsSlice_Less t))"

section \<open>Node selectors\<close>

definition map_len :: "strmap option \<Rightarrow> nat" where
  "map_len m = card (dom (nil_map m))"

text \<open>The loop over the sorted keys of two maps of one size; \<open>None\<close> when it comes to its end.\<close>

fun labels_less :: "strmap \<Rightarrow> strmap \<Rightarrow> string list \<Rightarrow> string list \<Rightarrow> bool option" where
  "labels_less m n (k # ks) (l # ls) =
     (if k \<noteq> l then Some (k < l)
      else if map_get m k \<noteq> map_get n k then Some (map_get m k < map_get n k)
      else labels_less m n ks ls)"
| "labels_less m n ks ls = None"

text \<open>The loop over the sorted expressions: it ends at the first that compares less.\<close>

fun exprs_less ::
  "SelectorRequirements list \<Rightarrow> SelectorRequirements list \<Rightarrow> bool \<times> SelectorRequirements list \<times> SelectorRequirements list" where
  "exprs_less (v # vs) (w # ws) =
     (case SelectorRequirements_Compare v w of (c, v', w') \<Rightarrow>
        if c < 0 then (True, v' # vs, w' # ws)
        else case exprs_less vs ws of (r, vs', ws') \<Rightarrow> (r, v' # vs', w' # ws'))"
| "exprs_less vs ws = (False, vs, ws)"

definition NodeSelectors_Less :: "sorters \<Rightarrow> NodeSelector \<Rightarrow> NodeSelector \<Rightarrow> bool \<times> NodeSelector \<times> NodeSelector" where
  "NodeSelectors_Less z s t =
     (if ns_MatchLabels s = None \<and> ns_MatchLabels t \<noteq> None then (True, s, t)
      else if ns_MatchLabels s \<noteq> None \<and> ns_MatchLabels t = None then (False, s, t)
      else if map_len (ns_MatchLabels s) \<noteq> map_len (ns_MatchLabels t)
      then (map_len (ns_MatchLabels s) < map_len (ns_MatchLabels t), s, t)
      else let m = nil_map (ns_MatchLabels s); n = nil_map (ns_MatchLabels t)
      in case labels_less m n (sorted_list_of_set (dom m)) (sorted_list_of_set (dom n)) of
           Some b \<Rightarrow> (b, s, t)
         | None \<Rightarrow>
      (case (ns_MatchExpressions s, ns_MatchExpressions t) of
         (None, Some _) \<Rightarrow> (True, s, t)
       | (Some _, None) \<Rightarrow> (False, s, t)
       | (None, None) \<Rightarrow> (False, s, t)
       | (Some es, Some fs) \<Rightarrow>
           if length es \<noteq> length fs then (length es < length fs, s, t)
           else case exprs_less (sort_Sort_eff (pdq_requirements z) SelectorRequirementsSlice_Less es)
               (sort_Sort_eff (pdq_requirements z) SelectorRequirementsSlice_Less fs) of
             (b, es', fs') \<Rightarrow> (b, s\<lparr>ns_MatchExpressions := Some es'\<rparr>, t\<lparr>ns_MatchExpressions := Some fs'\<rparr>)))"

text \<open>The operand \<open>t\<close> is not nil; a nil pointer is unequal to everything.\<close>

definition NodeSelector_Equal :: "sorters \<Rightarrow> NodeSelector \<Rightarrow> NodeSelector \<Rightarrow> bool \<times> NodeSelector \<times> NodeSelector" where
  "NodeSelector_Equal z s t =
     (let m = nil_map (ns_MatchLabels s); n = nil_map (ns_MatchLabels t)
      in if map_len (ns_MatchLabels s) \<noteq> map_len (ns_MatchLabels t)
           \<or> length (nil_list (ns_MatchExpressions s)) \<noteq> length (nil_list (ns_MatchExpressions t)) then (False, s, t)
      else if \<exists>k \<in> dom m. map_get n k \<noteq> map_get m k then (False, s, t)
      else case SelectorRequirementsSlice_Equal z (nil_list (ns_MatchExpressions s)) (nil_list (ns_MatchExpressions t)) of
             (b, es, fs) \<Rightarrow>
               (b, s\<lparr>ns_MatchExpressions := map_option (\<lambda>_. es) (ns_MatchExpressions s)\<rparr>,
                   t\<lparr>ns_MatchExpressions := map_option (\<lambda>_. fs) (ns_MatchExpressions t)\<rparr>))"

text \<open>
  The sort moves the selectors of the slice itself; they carry their place along, which matters
  where a slice of some of them is sorted.
\<close>

definition sort_selectors :: "sorters \<Rightarrow> (nat \<times> NodeSelector) list \<Rightarrow> (nat \<times> NodeSelector) list" where
  "sort_selectors z = sort_Sort_eff (pdq_selectors z) (at_place (NodeSelectors_Less z))"

definition NodeSelectors_Equal ::
  "sorters \<Rightarrow> NodeSelector list \<Rightarrow> NodeSelector list \<Rightarrow> bool \<times> NodeSelector list \<times> NodeSelector list" where
  "NodeSelectors_Equal z n t =
     (if length n \<noteq> length t then (False, n, t)
      else equal_loop (NodeSelector_Equal z)
        (map snd (sort_selectors z (enumerate 0 n))) (map snd (sort_selectors z (enumerate 0 t))))"

definition is_service_selector :: "NodeSelector \<Rightarrow> bool" where
  "is_service_selector ns \<longleftrightarrow> map_len (ns_MatchLabels ns) \<le> 2 \<and> length (nil_list (ns_MatchExpressions ns)) = 0 \<and>
     (map_get (nil_map (ns_MatchLabels ns)) serviceNameKey \<noteq> '''' \<or> map_get (nil_map (ns_MatchLabels ns)) serviceNameSpaceKey \<noteq> '''')"

text \<open>
  The selectors that are kept stand in slices of their own, so their order in the operands stays;
  the expressions inside them are shared with the operands.
\<close>

definition NodeSelectors_EqualIgnoreService ::
  "sorters \<Rightarrow> NodeSelector list \<Rightarrow> NodeSelector list \<Rightarrow> bool \<times> NodeSelector list \<times> NodeSelector list" where
  "NodeSelectors_EqualIgnoreService z n t =
     (let ns1 = filter (\<lambda>(_, ns). \<not> is_service_selector ns) (enumerate 0 n);
          os1 = filter (\<lambda>(_, ns). \<not> is_service_selector ns) (enumerate 0 t)
      in if length ns1 \<noteq> length os1 then (False, n, t)
      else case equal_loop (at_place (NodeSelector_Equal z)) (sort_selectors z ns1) (sort_selectors z os1) of
             (b, ns', os') \<Rightarrow> (b, write_back n ns', write_back t os'))"

section \<open>Peers\<close>

definition peer_fields_differ :: "Peer \<Rightarrow> Peer \<Rightarrow> bool" where
  "peer_fields_differ p q \<longleftrightarrow> pe_MyASN p \<noteq> pe_MyASN q \<or> pe_ASN p \<noteq> pe_ASN q \<or> pe_Addr p \<noteq> pe_Addr q \<or> pe_Port p \<noteq> pe_Port q
     \<or> pe_HoldTime p \<noteq> pe_HoldTime q \<or> pe_Password p \<noteq> pe_Password q \<or> pe_RouterID p \<noteq> pe_RouterID q"

definition Peer_Equal :: "sorters \<Rightarrow> Peer \<Rightarrow> Peer \<Rightarrow> bool \<times> Peer \<times> Peer" where
  "Peer_Equal z p q =
     (if peer_fields_differ p q then (False, p, q)
      else case NodeSelectors_Equal z (pe_NodeSelectors p) (pe_NodeSelectors q) of
             (b, n, t) \<Rightarrow> (b, p\<lparr>pe_NodeSelectors := n\<rparr>, q\<lparr>pe_NodeSelectors := t\<rparr>))"

definition Peer_EqualIgnoreService :: "sorters \<Rightarrow> Peer \<Rightarrow> Peer \<Rightarrow> bool \<times> Peer \<times> Peer" where
  "Peer_EqualIgnoreService z p q =
     (if peer_fields_differ p q then (False, p, q)
      else case NodeSelectors_EqualIgnoreService z (pe_NodeSelectors p) (pe_NodeSelectors q) of
             (b, n, t) \<Rightarrow> (b, p\<lparr>pe_NodeSelectors := n\<rparr>, q\<lparr>pe_NodeSelectors := t\<rparr>))"

definition Peer_Services :: "Peer \<Rightarrow> Resource list" where
  "Peer_Services p = services_of ns_MatchLabels (pe_NodeSelectors p)"

definition service_selector :: "strmap \<Rightarrow> NodeSelector" where
  "service_selector m = \<lparr>ns_MatchLabels = Some m, ns_MatchExpressions = None\<rparr>"

definition Peer_AddService :: "sorters \<Rightarrow> Peer \<Rightarrow> string \<Rightarrow> string \<Rightarrow> bool \<times> Peer" where
  "Peer_AddService z p svcNamespace svcName =
     (case add_service (pdq_resources z) ns_MatchLabels service_selector svcNamespace svcName (pe_NodeSelectors p) of
        (b, nss) \<Rightarrow> (b, p\<lparr>pe_NodeSelectors := nss\<rparr>))"

definition Peer_RemoveService :: "sorters \<Rightarrow> Peer \<Rightarrow> string \<Rightarrow> string \<Rightarrow> (bool \<times> nat) \<times> Peer" where
  "Peer_RemoveService z p svcNamespace svcName =
     (case remove_service (pdq_resources z) ns_MatchLabels service_selector svcNamespace svcName (pe_NodeSelectors p) of
        (r, nss) \<Rightarrow> (r, p\<lparr>pe_NodeSelectors := nss\<rparr>))"

text \<open>The source address, the multi-hop flag and the name are not copied.\<close>

definition Peer_Duplicate :: "Peer \<Rightarrow> Peer" where
  "Peer_Duplicate p =
     \<lparr>pe_MyASN = pe_MyASN p, pe_ASN = pe_ASN p, pe_Addr = pe_Addr p, pe_Port = pe_Port p, pe_SrcAddr = '''',
      pe_HoldTime = pe_HoldTime p, pe_RouterID = pe_RouterID p,
      pe_NodeSelectors = map NodeSelector_Duplicate (pe_NodeSelectors p),
      pe_Password = pe_Password p, pe_EBGPMultiHop = False, pe_Name = ''''\<rparr>"

fun match_selector_loop :: "sorters \<Rightarrow> NodeSelector list \<Rightarrow> NodeSelector \<Rightarrow> bool \<times> NodeSelector list \<times> NodeSelector" where
  "match_selector_loop z [] s = (False, [], s)"
| "match_selector_loop z (n # ns) s =
     (case NodeSelector_Equal z n s of (b, n', s') \<Rightarrow>
        if b then (True, n' # ns, s')
        else case match_selector_loop z ns s' of (r, ns', s'') \<Rightarrow> (r, n' # ns', s''))"

definition MatchSelector :: "sorters \<Rightarrow> Peer \<Rightarrow> NodeSelector \<Rightarrow> bool \<times> Peer \<times> NodeSelector" where
  "MatchSelector z p s =
     (case match_selector_loop z (pe_NodeSelectors p) s of (b, ns, s') \<Rightarrow> (b, p\<lparr>pe_NodeSelectors := ns\<rparr>, s'))"

section \<open>Pools\<close>

text \<open>
  Comparing pools may panic: a pointer that is nil is followed, and a slice of communities is
  indexed by the length of another. Nothing is kept of the operands then.
\<close>

fun comms_less :: "string list \<Rightarrow> string list \<Rightarrow> bool outcome" where
  "comms_less [] ws = Ok False"
| "comms_less (v # vs) [] = Panic"
| "comms_less (v # vs) (w # ws) = (if v < w then Ok True else comms_less vs ws)"

fun comms_equal :: "string list \<Rightarrow> string list \<Rightarrow> bool outcome" where
  "comms_equal [] ws = Ok True"
| "comms_equal (v # vs) [] = Panic"
| "comms_equal (v # vs) (w # ws) = (if v \<noteq> w then Ok False else comms_equal vs ws)"

abbreviation sort_comms :: "BgpAdvertisement \<Rightarrow> BgpAdvertisement" where
  "sort_comms b \<equiv> b\<lparr>ba_Communities := sort (ba_Communities b)\<rparr>"

definition BgpAdvertisements_Less ::
  "BgpAdvertisement \<Rightarrow> BgpAdvertisement \<Rightarrow> (bool \<times> BgpAdvertisement \<times> BgpAdvertisement) outcome" where
  "BgpAdvertisements_Less a b =
     (case (ba_AggregationLength a, ba_AggregationLength b) of
        (Some la, Some lb) \<Rightarrow>
          if la < lb then Ok (True, a, b)
          else (case (ba_LocalPref a, ba_LocalPref b) of
            (Some pa, Some pb) \<Rightarrow>
              if pa < pb then Ok (True, a, b)
              else if length (ba_Communities a) < length (ba_Communities b) then Ok (True, a, b)
              else (case comms_less (ba_Communities (sort_comms a)) (ba_Communities (sort_comms b)) of
                  Ok r \<Rightarrow> Ok (r, sort_comms a, sort_comms b)
                | Err e \<Rightarrow> Err e
                | Panic \<Rightarrow> Panic)
          | _ \<Rightarrow> Panic)
      | _ \<Rightarrow> Panic)"

definition BgpAdvertisement_Equal ::
  "BgpAdvertisement \<Rightarrow> BgpAdvertisement \<Rightarrow> (bool \<times> BgpAdvertisement \<times> BgpAdvertisement) outcome" where
  "BgpAdvertisement_Equal a b =
     (case (ba_AggregationLength a, ba_AggregationLength b) of
        (Some la, Some lb) \<Rightarrow>
          if la \<noteq> lb then Ok (False, a, b)
          else (case (ba_LocalPref a, ba_LocalPref b) of
            (Some pa, Some pb) \<Rightarrow>
              if pa \<noteq> pb then Ok (False, a, b)
              else (case comms_equal (ba_Communities (sort_comms a)) (ba_Communities (sort_comms b)) of
                  Ok r \<Rightarrow> Ok (r, sort_comms a, sort_comms b)
                | Err e \<Rightarrow> Err e
                | Panic \<Rightarrow> Panic)
          | _ \<Rightarrow> Panic)
      | _ \<Rightarrow> Panic)"

text \<open>The insertion sort and the loop again, with calls that may panic.\<close>

fun insert_left_adv :: "BgpAdvertisement \<Rightarrow> BgpAdvertisement list \<Rightarrow> BgpAdvertisement list outcome" where
  "insert_left_adv x [] = Ok [x]"
| "insert_left_adv x (y # ys) =
     (case BgpAdvertisements_Less x y of
        Ok (b, x', y') \<Rightarrow>
          if b then (case insert_left_adv x' ys of Ok zs \<Rightarrow> Ok (y' # zs) | Err e \<Rightarrow> Err e | Panic \<Rightarrow> Panic) else Ok (x' # y' # ys)
      | Err e \<Rightarrow> Err e
      | Panic \<Rightarrow> Panic)"

fun insertionSort_adv :: "BgpAdvertisement list \<Rightarrow> BgpAdvertisement list \<Rightarrow> BgpAdvertisement list outcome" where
  "insertionSort_adv acc [] = Ok (rev acc)"
| "insertionSort_adv acc (x # xs) =
     (case insert_left_adv x acc of Ok acc' \<Rightarrow> insertionSort_adv acc' xs | Err e \<Rightarrow> Err e | Panic \<Rightarrow> Panic)"

definition sort_advertisements :: "sorters \<Rightarrow> BgpAdvertisement list \<Rightarrow> BgpAdvertisement list outcome" where
  "sort_advertisements z xs = (if length xs \<le> 12 then insertionSort_adv [] xs else pdq_advertisements z xs)"

fun equal_loop_adv ::
  "BgpAdvertisement list \<Rightarrow> BgpAdvertisement list \<Rightarrow> (bool \<times> BgpAdvertisement list \<times> BgpAdvertisement list) outcome" where
  "equal_loop_adv [] qs = Ok (True, [], qs)"
| "equal_loop_adv (p # ps) [] = Panic"
| "equal_loop_adv (p # ps) (q # qs) =
     (case BgpAdvertisement_Equal p q of
        Ok (b, p', q') \<Rightarrow>
          if \<not> b then Ok (False, p' # ps, q' # qs)
          else (case equal_loop_adv ps qs of
              Ok (r, ps', qs') \<Rightarrow> Ok (r, p' # ps', q' # qs')
            | Err e \<Rightarrow> Err e
            | Panic \<Rightarrow> Panic)
      | Err e \<Rightarrow> Err e
      | Panic \<Rightarrow> Panic)"

text \<open>The loop over the sorted addresses, which indexes the other slice.\<close>

fun addrs_equal :: "string list \<Rightarrow> string list \<Rightarrow> bool outcome" where
  "addrs_equal [] ws = Ok True"
| "addrs_equal (v # vs) [] = Panic"
| "addrs_equal (v # vs) (w # ws) = (if v \<noteq> w then Ok False else addrs_equal vs ws)"

definition AddressPool_EqualIgnoreName :: "sorters \<Rightarrow> AddressPool \<Rightarrow> AddressPool \<Rightarrow> (bool \<times> AddressPool \<times> AddressPool) outcome" where
  "AddressPool_EqualIgnoreName z a p =
     (if ap_Protocol a \<noteq> ap_Protocol p \<or> ap_AvoidBuggyIPs a \<noteq> ap_AvoidBuggyIPs p then Ok (False, a, p)
      else case (ap_AutoAssign a, ap_AutoAssign p) of
        (Some aa, Some pa) \<Rightarrow>
          if aa \<noteq> pa then Ok (False, a, p)
          else if length (ap_Addresses a) \<noteq> length (ap_Addresses p) then Ok (False, a, p)
          else let a1 = a\<lparr>ap_Addresses := sort (ap_Addresses a)\<rparr>; p1 = p\<lparr>ap_Addresses := sort (ap_Addresses p)\<rparr>
          in (case addrs_equal (ap_Addresses a1) (ap_Addresses p1) of
              Err e \<Rightarrow> Err e
            | Panic \<Rightarrow> Panic
            | Ok False \<Rightarrow> Ok (False, a1, p1)
            | Ok True \<Rightarrow>
          if length (ap_BGPAdvertisements a1) \<noteq> length (ap_BGPAdvertisements p1) then Ok (False, a1, p1)
          else (case sort_advertisements z (ap_BGPAdvertisements a1) of
              Ok abgp \<Rightarrow>
                (case sort_advertisements z (ap_BGPAdvertisements p1) of
                   Ok obgp \<Rightarrow>
                     (case equal_loop_adv abgp obgp of
                        Ok (b, abgp', obgp') \<Rightarrow>
                          Ok (b, a1\<lparr>ap_BGPAdvertisements := abgp'\<rparr>, p1\<lparr>ap_BGPAdvertisements := obgp'\<rparr>)
                      | Err e \<Rightarrow> Err e
                      | Panic \<Rightarrow> Panic)
                 | Err e \<Rightarrow> Err e
                 | Panic \<Rightarrow> Panic)
            | Err e \<Rightarrow> Err e
            | Panic \<Rightarrow> Panic))
      | _ \<Rightarrow> Panic)"

definition AddressPool_Equal :: "sorters \<Rightarrow> AddressPool \<Rightarrow> AddressPool \<Rightarrow> (bool \<times> AddressPool \<times> AddressPool) outcome" where
  "AddressPool_Equal z a p =
     (case AddressPool_EqualIgnoreName z a p of
        Ok (b, a', p') \<Rightarrow> Ok (b \<and> ap_Name a' = ap_Name p', a', p')
      | Err e \<Rightarrow> Err e
      | Panic \<Rightarrow> Panic)"

definition BgpAdvertisement_Duplicate :: "BgpAdvertisement \<Rightarrow> BgpAdvertisement outcome" where
  "BgpAdvertisement_Duplicate b =
     (case (ba_AggregationLength b, ba_LocalPref b) of
        (Some l, Some p) \<Rightarrow> Ok \<lparr>ba_AggregationLength = Some l, ba_LocalPref = Some p, ba_Communities = ba_Communities b\<rparr>
      | _ \<Rightarrow> Panic)"

fun duplicate_advs :: "BgpAdvertisement list \<Rightarrow> BgpAdvertisement list outcome" where
  "duplicate_advs [] = Ok []"
| "duplicate_advs (b # bs) =
     (case BgpAdvertisement_Duplicate b of
        Ok b' \<Rightarrow> (case duplicate_advs bs of Ok bs' \<Rightarrow> Ok (b' # bs') | Err e \<Rightarrow> Err e | Panic \<Rightarrow> Panic)
      | Err e \<Rightarrow> Err e
      | Panic \<Rightarrow> Panic)"

definition AddressPool_Duplicate :: "AddressPool \<Rightarrow> AddressPool outcome" where
  "AddressPool_Duplicate a =
     (case ap_AutoAssign a of
        None \<Rightarrow> Panic
      | Some aa \<Rightarrow>
          (case duplicate_advs (ap_BGPAdvertisements a) of
             Ok bgpads \<Rightarrow> Ok \<lparr>ap_Protocol = ap_Protocol a, ap_Name = ap_Name a, ap_Addresses = ap_Addresses a,
                 ap_AvoidBuggyIPs = ap_AvoidBuggyIPs a, ap_AutoAssign = Some aa, ap_BGPAdvertisements = bgpads\<rparr>
           | Err e \<Rightarrow> Err e
           | Panic \<Rightarrow> Panic))"

section \<open>The file\<close>

record ConfigFile =
  cf_Peers :: "Peer list"
  cf_BGPCommunities :: "strmap option"
  cf_Pools :: "AddressPool list"

text \<open>YAML is an argument: \<open>unmarshal\<close> and \<open>marshal\<close> stand for the functions of \<^verbatim>\<open>sigs.k8s.io/yaml\<close>.\<close>

definition ParseConfig :: "(string \<Rightarrow> go_error + ConfigFile) \<Rightarrow> string \<Rightarrow> go_error + ConfigFile" where
  "ParseConfig unmarshal bs =
     (case unmarshal bs of Inl e \<Rightarrow> Inl (Wrapf ''could not parse config: '' e) | Inr raw \<Rightarrow> Inr raw)"

text \<open>
  The operations return whether they changed anything, the file, and their argument, whose parts
  may have been sorted; \<open>None\<close> is a nil argument.
\<close>

fun find_peer_loop :: "sorters \<Rightarrow> Peer list \<Rightarrow> Peer \<Rightarrow> bool \<times> Peer list \<times> Peer" where
  "find_peer_loop z [] add = (False, [], add)"
| "find_peer_loop z (peer # ps) add =
     (case Peer_Equal z peer add of (b, peer', add') \<Rightarrow>
        if b then (True, peer' # ps, add')
        else case find_peer_loop z ps add' of (r, ps', add'') \<Rightarrow> (r, peer' # ps', add''))"

definition AddPeer :: "sorters \<Rightarrow> ConfigFile \<Rightarrow> Peer option \<Rightarrow> bool \<times> ConfigFile \<times> Peer option" where
  "AddPeer z cfg add =
     (case add of
        None \<Rightarrow> (False, cfg, None)
      | Some a \<Rightarrow>
          (case find_peer_loop z (cf_Peers cfg) a of (found, ps, a') \<Rightarrow>
             if found then (False, cfg\<lparr>cf_Peers := ps\<rparr>, Some a')
             else (True, cfg\<lparr>cf_Peers := ps @ [a']\<rparr>, Some a')))"

fun link_peers_loop :: "sorters \<Rightarrow> string \<Rightarrow> string \<Rightarrow> Peer list \<Rightarrow> Peer \<Rightarrow> bool \<times> Peer list \<times> Peer" where
  "link_peers_loop z svcNamespace svcName [] add = (False, [], add)"
| "link_peers_loop z svcNamespace svcName (peer # ps) add =
     (case Peer_EqualIgnoreService z peer add of (b, peer', add') \<Rightarrow>
        let peer'' = (if b then snd (Peer_AddService z peer' svcNamespace svcName) else peer')
        in case link_peers_loop z svcNamespace svcName ps add' of (r, ps', add'') \<Rightarrow> (b \<or> r, peer'' # ps', add''))"

definition AddPeerByService ::
  "sorters \<Rightarrow> ConfigFile \<Rightarrow> Peer option \<Rightarrow> string \<Rightarrow> string \<Rightarrow> bool \<times> ConfigFile \<times> Peer option" where
  "AddPeerByService z cfg add svcNamespace svcName =
     (case add of
        None \<Rightarrow> (False, cfg, None)
      | Some a \<Rightarrow>
          (case link_peers_loop z svcNamespace svcName (cf_Peers cfg) a of (found, ps, a') \<Rightarrow>
             if found then (True, cfg\<lparr>cf_Peers := ps\<rparr>, Some a')
             else let a'' = snd (Peer_AddService z a' svcNamespace svcName)
                  in (True, cfg\<lparr>cf_Peers := ps @ [a'']\<rparr>, Some a'')))"

fun remove_peer_loop :: "sorters \<Rightarrow> Peer list \<Rightarrow> Peer \<Rightarrow> Peer list \<times> Peer" where
  "remove_peer_loop z [] r = ([], r)"
| "remove_peer_loop z (peer # ps) r =
     (case Peer_Equal z peer r of (b, peer', r') \<Rightarrow>
        (case remove_peer_loop z ps r' of (ps', r'') \<Rightarrow> (if b then ps' else peer' # ps', r'')))"

definition RemovePeer :: "sorters \<Rightarrow> ConfigFile \<Rightarrow> Peer option \<Rightarrow> ConfigFile \<times> Peer option" where
  "RemovePeer z cfg remove =
     (case remove of
        None \<Rightarrow> (cfg, None)
      | Some r \<Rightarrow> (case remove_peer_loop z (cf_Peers cfg) r of (ps, r') \<Rightarrow> (cfg\<lparr>cf_Peers := ps\<rparr>, Some r')))"

fun unlink_peers_loop :: "sorters \<Rightarrow> string \<Rightarrow> string \<Rightarrow> Peer list \<Rightarrow> bool \<times> Peer list" where
  "unlink_peers_loop z svcNamespace svcName [] = (False, [])"
| "unlink_peers_loop z svcNamespace svcName (peer # ps) =
     (case Peer_RemoveService z peer svcNamespace svcName of ((peerChanged, left), peer') \<Rightarrow>
        (case unlink_peers_loop z svcNamespace svcName ps of (changed, ps') \<Rightarrow>
           (changed \<or> peerChanged \<or> left \<le> 0, if \<not> peerChanged \<or> left \<ge> 1 then peer' # ps' else ps')))"

definition RemovePeersByService :: "sorters \<Rightarrow> ConfigFile \<Rightarrow> string \<Rightarrow> string \<Rightarrow> bool \<times> ConfigFile" where
  "RemovePeersByService z cfg svcNamespace svcName =
     (case unlink_peers_loop z svcNamespace svcName (cf_Peers cfg) of (changed, ps) \<Rightarrow> (changed, cfg\<lparr>cf_Peers := ps\<rparr>))"

fun remove_selector_loop :: "sorters \<Rightarrow> Peer list \<Rightarrow> NodeSelector \<Rightarrow> Peer list \<times> NodeSelector" where
  "remove_selector_loop z [] r = ([], r)"
| "remove_selector_loop z (peer # ps) r =
     (case MatchSelector z peer r of (b, peer', r') \<Rightarrow>
        (case remove_selector_loop z ps r' of (ps', r'') \<Rightarrow> (if b then ps' else peer' # ps', r'')))"

definition RemovePeersBySelector :: "sorters \<Rightarrow> ConfigFile \<Rightarrow> NodeSelector option \<Rightarrow> bool \<times> ConfigFile \<times> NodeSelector option" where
  "RemovePeersBySelector z cfg remove =
     (case remove of
        None \<Rightarrow> (False, cfg, None)
      | Some r \<Rightarrow>
          let originalCount = length (cf_Peers cfg)
          in case remove_selector_loop z (cf_Peers cfg) r of (ps, r') \<Rightarrow>
               (length ps \<noteq> originalCount, cfg\<lparr>cf_Peers := ps\<rparr>, Some r'))"

definition nameJoiner :: string where "nameJoiner = '',''"

text \<open>
  The loop over the pools: the pools seen so far, whether it returned (and with which result),
  and the pool that is added.
\<close>

fun add_pool_loop ::
  "sorters \<Rightarrow> AddressPool list \<Rightarrow> AddressPool \<Rightarrow> (bool option \<times> AddressPool list \<times> AddressPool) outcome" where
  "add_pool_loop z [] add = Ok (None, [], add)"
| "add_pool_loop z (pool # ps) add =
     (case AddressPool_Equal z pool add of
        Err e \<Rightarrow> Err e
      | Panic \<Rightarrow> Panic
      | Ok (True, pool1, add1) \<Rightarrow> Ok (Some False, pool1 # ps, add1)
      | Ok (False, pool1, add1) \<Rightarrow>
          (case AddressPool_EqualIgnoreName z pool1 add1 of
             Err e \<Rightarrow> Err e
           | Panic \<Rightarrow> Panic
           | Ok (True, pool2, add2) \<Rightarrow>
               let existing = split_on nameJoiner (ap_Name pool2)
               in if ap_Name add2 \<in> set existing then Ok (Some False, pool2 # ps, add2)
               else Ok (Some True, pool2\<lparr>ap_Name := join_with nameJoiner (sort (existing @ [ap_Name add2]))\<rparr> # ps, add2)
           | Ok (False, pool2, add2) \<Rightarrow>
               (case add_pool_loop z ps add2 of
                  Ok (r, ps', add3) \<Rightarrow> Ok (r, pool2 # ps', add3)
                | Err e \<Rightarrow> Err e
                | Panic \<Rightarrow> Panic)))"

definition AddAddressPool :: "sorters \<Rightarrow> ConfigFile \<Rightarrow> AddressPool option \<Rightarrow> (bool \<times> ConfigFile \<times> AddressPool option) outcome" where
  "AddAddressPool z cfg add =
     (case add of
        None \<Rightarrow> Ok (False, cfg, None)
      | Some a \<Rightarrow>
          (case add_pool_loop z (cf_Pools cfg) a of
             Ok (Some b, ps, a') \<Rightarrow> Ok (b, cfg\<lparr>cf_Pools := ps\<rparr>, Some a')
           | Ok (None, ps, a') \<Rightarrow> Ok (True, cfg\<lparr>cf_Pools := ps @ [a']\<rparr>, Some a')
           | Err e \<Rightarrow> Err e
           | Panic \<Rightarrow> Panic))"

fun remove_pool_loop :: "sorters \<Rightarrow> AddressPool list \<Rightarrow> AddressPool \<Rightarrow> (AddressPool list \<times> AddressPool) outcome" where
  "remove_pool_loop z [] r = Ok ([], r)"
| "remove_pool_loop z (pool # ps) r =
     (case AddressPool_Equal z pool r of
        Err e \<Rightarrow> Err e
      | Panic \<Rightarrow> Panic
      | Ok (True, pool1, r1) \<Rightarrow> remove_pool_loop z ps r1
      | Ok (False, pool1, r1) \<Rightarrow>
          (case AddressPool_EqualIgnoreName z pool1 r1 of
             Err e \<Rightarrow> Err e
           | Panic \<Rightarrow> Panic
           | Ok (b, pool2, r2) \<Rightarrow>
               let pool3 = (if b then pool2\<lparr>ap_Name := join_with nameJoiner
                     (sort (filter (\<lambda>name. name \<noteq> ap_Name r2) (split_on nameJoiner (ap_Name pool2))))\<rparr> else pool2)
               in case remove_pool_loop z ps r2 of
                    Ok (ps', r3) \<Rightarrow> Ok (pool3 # ps', r3)
                  | Err e \<Rightarrow> Err e
                  | Panic \<Rightarrow> Panic))"

definition RemoveAddressPool :: "sorters \<Rightarrow> ConfigFile \<Rightarrow> AddressPool option \<Rightarrow> (ConfigFile \<times> AddressPool option) outcome" where
  "RemoveAddressPool z cfg remove =
     (case remove of
        None \<Rightarrow> Ok (cfg, None)
      | Some r \<Rightarrow>
          (case remove_pool_loop z (cf_Pools cfg) r of
             Ok (ps, r') \<Rightarrow> Ok (cfg\<lparr>cf_Pools := ps\<rparr>, Some r')
           | Err e \<Rightarrow> Err e
           | Panic \<Rightarrow> Panic))"

definition RemoveAddressPoolByAddress :: "ConfigFile \<Rightarrow> string \<Rightarrow> ConfigFile" where
  "RemoveAddressPoolByAddress cfg addr =
     (if addr = '''' then cfg
      else cfg\<lparr>cf_Pools := filter (\<lambda>pool. \<not> list_ex (\<lambda>ipaddr. addr = ipaddr) (ap_Addresses pool)) (cf_Pools cfg)\<rparr>)"

end
