(* ===== verification/MetalLB_ConfigMap.thy ===== *)
theory MetalLB_ConfigMap
  imports MetalLB_Config
begin

text \<open>
  \<^verbatim>\<open>cherry/loadbalancers/metallb/configmap.go\<close>: the configurer that keeps the configuration file of
  MetalLB in a ConfigMap. \<open>Get\<close> reads the file into the configurer, the operations change it there
  and \<open>Update\<close> writes it back. Before \<open>Get\<close> the file is a nil pointer, and following it panics.
  The operations have loops of their own, written beside those of \<^verbatim>\<open>config.go\<close>, which they resemble.
\<close>

section \<open>Data\<close>

text \<open>The client of the ConfigMap: reading its data, and patching the entry \<^verbatim>\<open>config\<close>.\<close>

record 'w cm_client =
  ConfigMaps_Get :: "string \<Rightarrow> 'w \<Rightarrow> (go_error + strmap option) \<times> 'w"
  ConfigMaps_Patch :: "string \<Rightarrow> string \<Rightarrow> 'w \<Rightarrow> go_error option \<times> 'w"

record 'w CMConfigurer =
  cm_namespace :: string
  cm_configMapName :: string
  cm_config :: "ConfigFile option"
  cm_cmi :: "'w cm_client"

section \<open>Operations\<close>

definition getConfigMap :: "(string \<Rightarrow> go_error + ConfigFile) \<Rightarrow> 'w CMConfigurer \<Rightarrow> 'w \<Rightarrow> (go_error + ConfigFile) \<times> 'w" where
  "getConfigMap unmarshal m w =
     (case ConfigMaps_Get (cm_cmi m) (cm_configMapName m) w of
        (Inl e, w') \<Rightarrow> (Inl (Wrapf (''unable to get metallb configmap '' @ cm_configMapName m @ '': '') e), w')
      | (Inr data, w') \<Rightarrow> (ParseConfig unmarshal (map_get (nil_map data) ''config''), w'))"

definition CM_Get :: "(string \<Rightarrow> go_error + ConfigFile) \<Rightarrow> 'w CMConfigurer \<Rightarrow> 'w \<Rightarrow> go_error option \<times> 'w CMConfigurer \<times> 'w" where
  "CM_Get unmarshal m w =
     (case getConfigMap unmarshal m w of
        (Inl e, w') \<Rightarrow> (Some e, m\<lparr>cm_config := None\<rparr>, w')
      | (Inr cfg, w') \<Rightarrow> (None, m\<lparr>cm_config := Some cfg\<rparr>, w'))"

definition CM_Update :: "(ConfigFile option \<Rightarrow> go_error + string) \<Rightarrow> 'w CMConfigurer \<Rightarrow> 'w \<Rightarrow> go_error option \<times> 'w" where
  "CM_Update marshal m w =
     (case marshal (cm_config m) of
        Inl e \<Rightarrow> (Some (Wrapf ''error converting configfile data to bytes: '' e), w)
      | Inr b \<Rightarrow> ConfigMaps_Patch (cm_cmi m) (cm_configMapName m) b w)"

text \<open>
  The configurer does not call the operations of the file but has loops of its own, which carry
  along what they have built so far: the inner loop of \<open>UpdatePeersByService\<close> over the peers of the
  file and the outer one over the peers to add, where a peer that is not found is appended.
\<close>

fun cm_match_loop ::
  "sorters \<Rightarrow> string \<Rightarrow> string \<Rightarrow> Peer list \<Rightarrow> Peer list \<Rightarrow> bool \<Rightarrow> Peer \<Rightarrow> bool \<times> Peer list \<times> Peer" where
  "cm_match_loop z svcNamespace svcName [] peers found add = (found, peers, add)"
| "cm_match_loop z svcNamespace svcName (peer # rest) peers found add =
     (case Peer_EqualIgnoreService z peer add of
        (True, peer', add') \<Rightarrow>
          cm_match_loop z svcNamespace svcName rest (peers @ [snd (Peer_AddService z peer' svcNamespace svcName)]) True add'
      | (False, peer', add') \<Rightarrow> cm_match_loop z svcNamespace svcName rest (peers @ [peer']) found add')"

fun update_peers_loop :: "sorters \<Rightarrow> string \<Rightarrow> string \<Rightarrow> Peer list \<Rightarrow> Peer list \<Rightarrow> bool \<Rightarrow> bool \<times> Peer list" where
  "update_peers_loop z svcNamespace svcName [] peers changed = (changed, peers)"
| "update_peers_loop z svcNamespace svcName (add # adds) peers changed =
     (case cm_match_loop z svcNamespace svcName peers [] False add of (found, ps, add') \<Rightarrow>
        let (found', ps') = (if \<not> found then (True, ps @ [snd (Peer_AddService z add' svcNamespace svcName)]) else (found, ps));
            changed' = (if \<not> changed then found' else changed)
        in update_peers_loop z svcNamespace svcName adds ps' changed')"

definition CM_UpdatePeersByService :: "sorters \<Rightarrow> 'w CMConfigurer \<Rightarrow> Peer list \<Rightarrow> string \<Rightarrow> string \<Rightarrow> bool outcome \<times> 'w CMConfigurer" where
  "CM_UpdatePeersByService z m adds svcNamespace svcName =
     (case cm_config m of
        None \<Rightarrow> (if adds = [] then Ok False else Panic, m)
      | Some cfg \<Rightarrow>
          (case update_peers_loop z svcNamespace svcName adds (cf_Peers cfg) False of
             (changed, ps) \<Rightarrow> (Ok changed, m\<lparr>cm_config := Some (cfg\<lparr>cf_Peers := ps\<rparr>)\<rparr>)))"

fun cm_unlink_loop :: "sorters \<Rightarrow> string \<Rightarrow> string \<Rightarrow> Peer list \<Rightarrow> Peer list \<Rightarrow> bool \<Rightarrow> bool \<times> Peer list" where
  "cm_unlink_loop z svcNamespace svcName [] peers changed = (changed, peers)"
| "cm_unlink_loop z svcNamespace svcName (peer # rest) peers changed =
     (case Peer_RemoveService z peer svcNamespace svcName of ((peerChanged, left), peer') \<Rightarrow>
        let peers' = (if \<not> peerChanged \<or> left \<ge> 1 then peers @ [peer'] else peers);
            changed' = (if peerChanged \<or> left \<le> 0 then True else changed)
        in cm_unlink_loop z svcNamespace svcName rest peers' changed')"

definition CM_RemovePeersByService :: "sorters \<Rightarrow> 'w CMConfigurer \<Rightarrow> string \<Rightarrow> string \<Rightarrow> bool outcome \<times> 'w CMConfigurer" where
  "CM_RemovePeersByService z m svcNamespace svcName =
     (case cm_config m of
        None \<Rightarrow> (Panic, m)
      | Some cfg \<Rightarrow>
          (case cm_unlink_loop z svcNamespace svcName (cf_Peers cfg) [] False of
             (changed, ps) \<Rightarrow> (Ok changed, m\<lparr>cm_config := Some (cfg\<lparr>cf_Peers := ps\<rparr>)\<rparr>)))"

text \<open>
  The loop over the pools by index: the pools, of which the one at \<open>i\<close> is compared (and sorted) in
  its place, whether the loop returned, and with which result, and the pool that is added.
\<close>

function cm_pool_loop ::
  "sorters \<Rightarrow> nat \<Rightarrow> AddressPool list \<Rightarrow> AddressPool \<Rightarrow> (bool option \<times> AddressPool list \<times> AddressPool) outcome" where
  "cm_pool_loop z i pools add =
     (if length pools \<le> i then Ok (None, pools, add)
      else case AddressPool_Equal z (pools ! i) add of
        Err e \<Rightarrow> Err e
      | Panic \<Rightarrow> Panic
      | Ok (equal, pool1, add1) \<Rightarrow>
          if equal then Ok (Some False, pools[i := pool1], add1)
          else (case AddressPool_EqualIgnoreName z pool1 add1 of
             Err e \<Rightarrow> Err e
           | Panic \<Rightarrow> Panic
           | Ok (same, pool2, add2) \<Rightarrow>
               if same then
                 (let existing = split_on nameJoiner (ap_Name pool2)
                  in if list_ex (\<lambda>name. name = ap_Name add2) existing then Ok (Some False, pools[i := pool2], add2)
                  else Ok (Some True, pools[i := pool2\<lparr>ap_Name := join_with nameJoiner (sort (existing @ [ap_Name add2]))\<rparr>], add2))
               else cm_pool_loop z (i + 1) (pools[i := pool2]) add2))"
  by pat_completeness auto

termination cm_pool_loop
  by (relation "measure (\<lambda>(z, i, pools, add). length pools - i)") auto

declare cm_pool_loop.simps [simp del]

definition CM_AddAddressPool :: "sorters \<Rightarrow> 'w CMConfigurer \<Rightarrow> AddressPool option \<Rightarrow> bool outcome \<times> 'w CMConfigurer" where
  "CM_AddAddressPool z m add =
     (case add of
        None \<Rightarrow> (Ok False, m)
      | Some a \<Rightarrow>
          (case cm_config m of
             None \<Rightarrow> (Panic, m)
           | Some cfg \<Rightarrow>
               (case cm_pool_loop z 0 (cf_Pools cfg) a of
                  Ok (Some b, ps, a') \<Rightarrow> (Ok b, m\<lparr>cm_config := Some (cfg\<lparr>cf_Pools := ps\<rparr>)\<rparr>)
                | Ok (None, ps, a') \<Rightarrow> (Ok True, m\<lparr>cm_config := Some (cfg\<lparr>cf_Pools := ps @ [a']\<rparr>)\<rparr>)
                | Err e \<Rightarrow> (Err e, m)
                | Panic \<Rightarrow> (Panic, m))))"

fun cm_has_address :: "string \<Rightarrow> string list \<Rightarrow> bool \<Rightarrow> bool" where
  "cm_has_address addr [] found = found"
| "cm_has_address addr (ipaddr # ips) found = cm_has_address addr ips (if addr = ipaddr then True else found)"

fun cm_drop_pools_loop :: "string \<Rightarrow> AddressPool list \<Rightarrow> AddressPool list \<Rightarrow> AddressPool list" where
  "cm_drop_pools_loop addr [] pools = pools"
| "cm_drop_pools_loop addr (pool # rest) pools =
     cm_drop_pools_loop addr rest (if \<not> cm_has_address addr (ap_Addresses pool) False then pools @ [pool] else pools)"

definition CM_RemoveAddressPoolByAddress :: "'w CMConfigurer \<Rightarrow> string \<Rightarrow> unit outcome \<times> 'w CMConfigurer" where
  "CM_RemoveAddressPoolByAddress m addr =
     (if addr = '''' then (Ok (), m)
      else case cm_config m of
        None \<Rightarrow> (Panic, m)
      | Some cfg \<Rightarrow>
          (Ok (), m\<lparr>cm_config := Some (cfg\<lparr>cf_Pools := cm_drop_pools_loop addr (cf_Pools cfg) []\<rparr>)\<rparr>))"

definition CM_RemoveAddressPool :: "'w CMConfigurer \<Rightarrow> string \<Rightarrow> unit outcome \<times> 'w CMConfigurer" where
  "CM_RemoveAddressPool m pool = (Ok (), m)"

end
