(* ===== verification/MetalLB_Config_Laws.thy ===== *)
theory MetalLB_Config_Laws
  imports MetalLB_ConfigMap "HOL-Library.Product_Lexorder"
begin

text \<open>
  Properties of the configuration file of MetalLB and of its configurer. What a comparison leaves
  alone is stated by classes: requirements up to the order of their values, selectors up to the
  order of their expressions, peers up to the order of their selectors. All sorting keeps the
  classes; on them the comparisons are what their comments promise, but for the cases that the
  counterexamples show.
\<close>

section \<open>Sorting in place\<close>

text \<open>\<open>lt\<close> writes into its operands but keeps what \<open>f\<close> sees of them.\<close>

definition keeps :: "('a \<Rightarrow> 'c) \<Rightarrow> ('a \<Rightarrow> 'a \<Rightarrow> 'r \<times> 'a \<times> 'a) \<Rightarrow> bool" where
  "keeps f lt \<longleftrightarrow> (\<forall>x y r x' y'. lt x y = (r, x', y') \<longrightarrow> f x' = f x \<and> f y' = f y)"

lemma keepsD: "keeps f lt \<Longrightarrow> lt x y = (r, x', y') \<Longrightarrow> f x' = f x \<and> f y' = f y"
  by (auto simp: keeps_def)

lemma keepsI: "(\<And>x y r x' y'. lt x y = (r, x', y') \<Longrightarrow> f x' = f x \<and> f y' = f y) \<Longrightarrow> keeps f lt"
  by (auto simp: keeps_def)

lemma insert_left_eff_mset:
  "keeps f lt \<Longrightarrow> mset (map f (insert_left_eff lt x ys)) = add_mset (f x) (mset (map f ys))"
proof (induction ys arbitrary: x)
  case (Cons y ys)
  obtain b x' y' where lt: "lt x y = (b, x', y')" by (metis prod.exhaust)
  with Cons.IH [OF Cons.prems, of x'] keepsD [OF Cons.prems lt] show ?case by simp
qed simp

lemma insertionSort_eff_mset:
  assumes "keeps f lt"
  shows "mset (map f (insertionSort_eff lt xs)) = mset (map f xs)"
proof -
  have "mset (map f (foldl (\<lambda>acc x. insert_left_eff lt x acc) acc xs)) = mset (map f acc) + mset (map f xs)" for acc
    by (induction xs arbitrary: acc) (simp_all add: insert_left_eff_mset [OF assms, simplified])
  from this [of "[]"] show ?thesis by (simp add: insertionSort_eff_def)
qed

lemma sort_Sort_eff_mset:
  assumes "keeps f lt" "\<And>xs. mset (map f (pdq xs)) = mset (map f xs)"
  shows "mset (map f (sort_Sort_eff pdq lt xs)) = mset (map f xs)"
  using insertionSort_eff_mset [OF assms(1)] assms(2) by (simp add: sort_Sort_eff_def)

lemma sort_Sort_eff_length:
  assumes "keeps f lt" "\<And>xs. mset (map f (pdq xs)) = mset (map f xs)"
  shows "length (sort_Sort_eff pdq lt xs) = length xs"
  using mset_eq_length [OF sort_Sort_eff_mset [OF assms]] by simp

lemma equal_loop_keeps:
  assumes "keeps f eq" "equal_loop eq ps qs = (b, ps', qs')"
  shows "map f ps' = map f ps \<and> map f qs' = map f qs"
  using assms(2)
proof (induction ps arbitrary: qs b ps' qs')
  case (Cons p ps)
  show ?case
  proof (cases qs)
    case Nil
    with Cons.prems show ?thesis by simp
  next
    case (Cons q rest)
    obtain c p' q' where e: "eq p q = (c, p', q')" by (metis prod.exhaust)
    obtain r rs ss where l: "equal_loop eq ps rest = (r, rs, ss)" by (metis prod.exhaust)
    show ?thesis using Cons.prems Cons e l Cons.IH [OF l] keepsD [OF assms(1) e] by (auto split: if_splits)
  qed
qed simp

text \<open>The loop says whether the slices are equal at every place, if \<open>eq\<close> says so of elements.\<close>

lemma equal_loop_result:
  assumes "\<And>x y. x \<in> set ps \<Longrightarrow> y \<in> set qs \<Longrightarrow> fst (eq x y) \<longleftrightarrow> f x = g y" "length ps = length qs"
  shows "fst (equal_loop eq ps qs) \<longleftrightarrow> map f ps = map g qs"
  using assms(2,1)
proof (induction ps qs rule: list_induct2)
  case (Cons p ps q qs)
  obtain c p' q' where e: "eq p q = (c, p', q')" by (metis prod.exhaust)
  obtain r rs ss where l: "equal_loop eq ps qs = (r, rs, ss)" by (metis prod.exhaust)
  from Cons.IH Cons.prems have "r \<longleftrightarrow> map f ps = map g qs" by (simp add: l)
  moreover have "c \<longleftrightarrow> f p = g q" using Cons.prems [of p q] e by simp
  ultimately show ?case by (simp add: e l)
qed simp

lemma equal_loop_sound:
  assumes "\<And>x y. P x \<Longrightarrow> P y \<Longrightarrow> fst (eq x y) \<Longrightarrow> f x = f y" "length ps = length qs" "\<forall>x \<in> set ps \<union> set qs. P x"
    "fst (equal_loop eq ps qs)"
  shows "map f ps = map f qs"
  using assms(2,3,4)
proof (induction ps qs rule: list_induct2)
  case (Cons p ps q qs)
  obtain c p' q' where e: "eq p q = (c, p', q')" by (metis prod.exhaust)
  obtain r rs ss where l: "equal_loop eq ps qs = (r, rs, ss)" by (metis prod.exhaust)
  have "c" "r" using Cons.prems(2) e l by (auto split: if_splits)
  with Cons.IH Cons.prems(1) assms(1) [of p q] e l show ?case by simp
qed simp

text \<open>Sorting by a key: on elements with \<open>P\<close>, \<open>lt\<close> compares the keys, and it keeps the keys and \<open>P\<close>.\<close>

definition compares :: "('a \<Rightarrow> bool) \<Rightarrow> ('a \<Rightarrow> 'k::linorder) \<Rightarrow> ('a \<Rightarrow> 'a \<Rightarrow> bool \<times> 'a \<times> 'a) \<Rightarrow> bool" where
  "compares P key lt \<longleftrightarrow> (\<forall>x y r x' y'. P x \<longrightarrow> P y \<longrightarrow> lt x y = (r, x', y') \<longrightarrow>
     (r \<longleftrightarrow> key x < key y) \<and> key x' = key x \<and> key y' = key y \<and> P x' \<and> P y')"

lemma comparesD:
  "compares P key lt \<Longrightarrow> P x \<Longrightarrow> P y \<Longrightarrow> lt x y = (r, x', y') \<Longrightarrow>
     (r \<longleftrightarrow> key x < key y) \<and> key x' = key x \<and> key y' = key y \<and> P x' \<and> P y'"
  unfolding compares_def by blast

lemma insert_left_eff_keys:
  assumes "compares P key lt" "P x" "\<forall>y \<in> set ys. P y"
  shows "map key (insert_left_eff lt x ys) = insert_left (<) (key x) (map key ys) \<and> (\<forall>y \<in> set (insert_left_eff lt x ys). P y)"
  using assms(2,3)
proof (induction ys arbitrary: x)
  case (Cons y ys)
  obtain b x' y' where lt: "lt x y = (b, x', y')" by (metis prod.exhaust)
  have "(b \<longleftrightarrow> key x < key y) \<and> key x' = key x \<and> key y' = key y \<and> P x' \<and> P y'"
    by (rule comparesD [OF assms(1) _ _ lt]) (use Cons.prems in auto)
  with Cons.IH [of x'] Cons.prems lt show ?case by simp
qed simp

lemma insert_left_sorted: "sorted (rev ys) \<Longrightarrow> sorted (rev (insert_left (<) (x :: 'k::linorder) ys))"
proof (induction ys)
  case (Cons y ys)
  have "set (insert_left (<) x ys) = insert x (set ys)" by (metis insert_left_mset set_mset_add_mset_insert set_mset_mset)
  with Cons show ?case by (auto simp: sorted_append)
qed simp

lemma insertionSort_eff_keys:
  assumes "compares P key lt" "\<forall>x \<in> set xs. P x"
  shows "map key (insertionSort_eff lt xs) = sort (map key xs)"
proof -
  let ?ins = "\<lambda>acc x. insert_left_eff lt x acc"
  have "sorted (rev (map key acc)) \<Longrightarrow> \<forall>x \<in> set acc. P x \<Longrightarrow> \<forall>x \<in> set ys. P x \<Longrightarrow>
      sorted (rev (map key (foldl ?ins acc ys))) \<and> mset (map key (foldl ?ins acc ys)) = mset (map key acc) + mset (map key ys)" for acc ys
  proof (induction ys arbitrary: acc)
    case (Cons y ys)
    then have "P y" by simp
    note step = insert_left_eff_keys [OF assms(1) this Cons.prems(2)]
    then have "mset (map key (insert_left_eff lt y acc)) = add_mset (key y) (mset (map key acc))" by (metis insert_left_mset)
    with Cons.IH [of "insert_left_eff lt y acc"] Cons.prems step show ?case by (simp add: insert_left_sorted rev_map [symmetric])
  qed simp
  from this [of "[]" xs] assms(2)
  have "sorted (map key (insertionSort_eff lt xs))" "mset (map key (insertionSort_eff lt xs)) = mset (map key xs)"
    by (simp_all add: insertionSort_eff_def rev_map)
  then show ?thesis by (metis properties_for_sort)
qed

lemma sort_Sort_eff_keys:
  assumes "compares P key lt" "\<forall>x \<in> set xs. P x" "map key (pdq xs) = sort (map key xs)"
  shows "map key (sort_Sort_eff pdq lt xs) = sort (map key xs)"
  using insertionSort_eff_keys [OF assms(1,2)] assms(3) by (simp add: sort_Sort_eff_def)

lemma image_mset_inj_on_eq:
  assumes "inj_on f (set_mset A \<union> set_mset B)" "image_mset f A = image_mset f B"
  shows "A = B"
proof -
  let ?g = "the_inv_into (set_mset A \<union> set_mset B) f"
  have "image_mset (\<lambda>x. ?g (f x)) A = A" "image_mset (\<lambda>x. ?g (f x)) B = B"
    using assms(1) by (auto simp: the_inv_into_f_f intro!: multiset.map_ident_strong)
  with arg_cong [OF assms(2), of "image_mset ?g"] show ?thesis by (simp add: image_mset.compositionality comp_def)
qed

lemma sort_eq_iff_mset: "sort xs = sort ys \<longleftrightarrow> mset xs = mset ys"
  by (metis mset_sort sorted_list_of_multiset_mset)


section \<open>Requirements\<close>

definition req_class :: "SelectorRequirements \<Rightarrow> string \<times> string \<times> string multiset option" where
  "req_class r = (sr_Key r, sr_Operator r, map_option mset (sr_Values r))"

definition req_key :: "SelectorRequirements \<Rightarrow> string \<times> string \<times> nat \<times> string list" where
  "req_key r = (sr_Key r, sr_Operator r, length (values_of r), sort (values_of r))"

lemma nil_list_sort [simp]: "nil_list (map_option sort x) = sort (nil_list x)"
  by (cases x) simp_all

lemma option_mset_sort [simp]: "map_option mset (map_option sort x) = map_option mset x"
  by (cases x) simp_all

lemma sort_values_class [simp]: "req_class (sort_values r) = req_class r" "req_key (sort_values r) = req_key r"
  by (simp_all add: req_class_def req_key_def sorted_sort_id)

lemma values_less_iff: "length vs = length ws \<Longrightarrow> values_less vs ws \<longleftrightarrow> vs < ws"
  by (induction vs ws rule: list_induct2) auto

lemma strings_Compare_0 [simp]: "strings_Compare a b = 0 \<longleftrightarrow> a = b"
  by (simp add: strings_Compare_def)

lemma values_compare_iff: "length vs = length ws \<Longrightarrow> values_compare vs ws = 0 \<longleftrightarrow> vs = ws"
  by (induction vs ws rule: list_induct2) auto

lemma Less_keeps_class: "keeps req_class SelectorRequirementsSlice_Less"
  by (rule keepsI) (auto simp: SelectorRequirementsSlice_Less_def split: if_splits)

lemma Less_compares: "compares (\<lambda>_. True) req_key SelectorRequirementsSlice_Less"
  by (auto simp: compares_def SelectorRequirementsSlice_Less_def req_key_def values_less_iff sorted_sort_id split: if_splits)

lemma Compare_keeps: "keeps req_class SelectorRequirements_Compare"
  by (rule keepsI) (auto simp: SelectorRequirements_Compare_def req_class_def split: if_splits option.splits)

lemma Compare_0: "fst (SelectorRequirements_Compare s t) = 0 \<longleftrightarrow> req_class s = req_class t"
  by (auto simp: SelectorRequirements_Compare_def req_class_def values_compare_iff sort_eq_iff_mset
      dest: mset_eq_length split: option.splits)

lemma Equal_keeps: "keeps req_class SelectorRequirements_Equal"
  using keepsD [OF Compare_keeps] by (intro keepsI) (auto simp: SelectorRequirements_Equal_def split: prod.splits)

lemma Equal_iff: "fst (SelectorRequirements_Equal s t) \<longleftrightarrow> req_class s = req_class t"
  by (simp add: SelectorRequirements_Equal_def split_beta flip: Compare_0)

text \<open>
  What is used of \<open>sort.Sort\<close> on a long slice: it permutes the slice, up to the writes of \<open>Less\<close>,
  and it sorts when \<open>Less\<close> compares keys.
\<close>

definition sel_content :: "NodeSelector \<Rightarrow> strmap option \<times> (string \<times> string \<times> string multiset option) multiset option" where
  "sel_content s = (ns_MatchLabels s, map_option (\<lambda>es. mset (map req_class es)) (ns_MatchExpressions s))"

definition permuting :: "sorters \<Rightarrow> bool" where
  "permuting z \<longleftrightarrow> (\<forall>xs. mset (map req_class (pdq_requirements z xs)) = mset (map req_class xs))
     \<and> (\<forall>xs. mset (map (map_prod id sel_content) (pdq_selectors z xs)) = mset (map (map_prod id sel_content) xs))
     \<and> iteration_order (pdq_resources z)"

text \<open>A selector with labels only, none of them empty, and the key of its labels.\<close>

definition plain_selector :: "NodeSelector \<Rightarrow> bool" where
  "plain_selector s \<longleftrightarrow> ns_MatchExpressions s = None \<and>
     (case ns_MatchLabels s of None \<Rightarrow> False | Some m \<Rightarrow> finite (dom m) \<and> '''' \<notin> ran m)"

definition sel_key :: "NodeSelector \<Rightarrow> nat \<times> (string \<times> string) list" where
  "sel_key s = (let m = nil_map (ns_MatchLabels s)
     in (card (dom m), map (\<lambda>k. (k, map_get m k)) (sorted_list_of_set (dom m))))"

definition sorting :: "sorters \<Rightarrow> bool" where
  "sorting z \<longleftrightarrow> (\<forall>xs. map req_key (pdq_requirements z xs) = sort (map req_key xs))
     \<and> (\<forall>xs. (\<forall>x \<in> set xs. plain_selector (snd x)) \<longrightarrow>
          map (\<lambda>x. sel_key (snd x)) (pdq_selectors z xs) = sort (map (\<lambda>x. sel_key (snd x)) xs))"

abbreviation sort_requirements :: "sorters \<Rightarrow> SelectorRequirements list \<Rightarrow> SelectorRequirements list" where
  "sort_requirements z \<equiv> sort_Sort_eff (pdq_requirements z) SelectorRequirementsSlice_Less"

lemma sort_requirements_class:
  assumes "permuting z"
  shows "mset (map req_class (sort_requirements z s)) = mset (map req_class s)" "length (sort_requirements z s) = length s"
proof -
  have p: "mset (map req_class (pdq_requirements z xs)) = mset (map req_class xs)" for xs
    using assms by (simp add: permuting_def)
  show "mset (map req_class (sort_requirements z s)) = mset (map req_class s)" by (rule sort_Sort_eff_mset [OF Less_keeps_class p])
  show "length (sort_requirements z s) = length s" by (rule sort_Sort_eff_length [OF Less_keeps_class p])
qed

lemma slice_Equal_iff_sorted:
  assumes "permuting z"
  shows "fst (SelectorRequirementsSlice_Equal z s t)
    \<longleftrightarrow> length s = length t \<and> map req_class (sort_requirements z s) = map req_class (sort_requirements z t)"
proof (cases "length s = length t")
  case True
  then have "length (sort_requirements z s) = length (sort_requirements z t)" by (simp add: sort_requirements_class [OF assms])
  from equal_loop_result [OF Equal_iff this] True show ?thesis by (simp add: SelectorRequirementsSlice_Equal_def)
qed (simp add: SelectorRequirementsSlice_Equal_def)

lemma slice_Equal_keeps:
  assumes z: "permuting z" and eq: "SelectorRequirementsSlice_Equal z s t = (b, s', t')"
  shows "mset (map req_class s') = mset (map req_class s)" "mset (map req_class t') = mset (map req_class t)"
proof -
  have "mset (map req_class s') = mset (map req_class s) \<and> mset (map req_class t') = mset (map req_class t)"
  proof (cases "length s = length t")
    case True
    then have "equal_loop SelectorRequirements_Equal (sort_requirements z s) (sort_requirements z t) = (b, s', t')"
      using eq by (simp add: SelectorRequirementsSlice_Equal_def)
    from equal_loop_keeps [OF Equal_keeps this] show ?thesis by (metis sort_requirements_class(1) [OF z])
  qed (use eq in \<open>simp add: SelectorRequirementsSlice_Equal_def\<close>)
  then show "mset (map req_class s') = mset (map req_class s)" "mset (map req_class t') = mset (map req_class t)" by simp_all
qed

text \<open>The key is that of the class, and tells the classes apart but for nil and empty values.\<close>

definition class_key :: "string \<times> string \<times> string multiset option \<Rightarrow> string \<times> string \<times> nat \<times> string list" where
  "class_key c = (case c of (k, op, vs) \<Rightarrow>
     let m = (case vs of None \<Rightarrow> {#} | Some m \<Rightarrow> m) in (k, op, size m, sorted_list_of_multiset m))"

lemma req_key_class: "req_key r = class_key (req_class r)"
  by (cases "sr_Values r") (simp_all add: req_key_def class_key_def req_class_def)

lemma class_key_inj: "class_key c = class_key d \<Longrightarrow> snd (snd c) \<noteq> Some {#} \<Longrightarrow> snd (snd d) \<noteq> Some {#} \<Longrightarrow> c = d"
  by (cases c; cases d)
    (auto simp: class_key_def Let_def dest: arg_cong [of _ _ mset] split: option.splits)

definition no_empty_values :: "SelectorRequirements list \<Rightarrow> bool" where
  "no_empty_values rs \<longleftrightarrow> (\<forall>r \<in> set rs. sr_Values r \<noteq> Some [])"

lemma no_empty_values_class: "no_empty_values rs \<longleftrightarrow> (\<forall>c \<in># mset (map req_class rs). snd (snd c) \<noteq> Some {#})"
  by (auto simp: no_empty_values_def req_class_def)

lemma slice_Equal_iff:
  assumes z: "permuting z" "sorting z" and ne: "no_empty_values s" "no_empty_values t"
  shows "fst (SelectorRequirementsSlice_Equal z s t) \<longleftrightarrow> mset (map req_class s) = mset (map req_class t)"
proof
  show "mset (map req_class s) = mset (map req_class t)" if "fst (SelectorRequirementsSlice_Equal z s t)"
    using that by (metis slice_Equal_iff_sorted [OF z(1)] sort_requirements_class(1) [OF z(1)])
  let ?s = "sort_requirements z s" and ?t = "sort_requirements z t"
  assume eq: "mset (map req_class s) = mset (map req_class t)"
  have keys: "map req_key (sort_requirements z u) = sort (map req_key u)" for u
    using z(2) by (intro sort_Sort_eff_keys [OF Less_compares]) (simp_all add: sorting_def)
  have "mset (map req_key s) = mset (map req_key t)"
    using arg_cong [OF eq, of "image_mset class_key"] by (simp add: req_key_class [abs_def] image_mset.compositionality comp_def)
  then have "map req_key ?s = map req_key ?t" unfolding keys by (simp add: sort_eq_iff_mset)
  then have k: "list_all2 (\<lambda>x y. class_key (req_class x) = class_key (req_class y)) ?s ?t"
    by (simp add: req_key_class [abs_def] list_all2_map1 list_all2_map2 flip: list.rel_eq)
  have "snd (snd (req_class x)) \<noteq> Some {#}" if "x \<in> set ?s \<union> set ?t" for x
    using that ne sort_requirements_class(1) [OF z(1), of s] sort_requirements_class(1) [OF z(1), of t]
    unfolding no_empty_values_class by (metis Un_iff image_eqI list.set_map set_mset_mset)
  then have "list_all2 (\<lambda>x y. req_class x = req_class y) ?s ?t"
    using k by (auto intro: class_key_inj elim!: list.rel_mono_strong)
  then have "map req_class ?s = map req_class ?t" by (simp add: list_all2_map1 list_all2_map2 flip: list.rel_eq)
  then show "fst (SelectorRequirementsSlice_Equal z s t)"
    using mset_eq_length [OF eq] by (simp add: slice_Equal_iff_sorted [OF z(1)])
qed

section \<open>Selectors\<close>

definition sel_class :: "NodeSelector \<Rightarrow> strmap \<times> (string \<times> string \<times> string multiset option) multiset" where
  "sel_class s = (nil_map (ns_MatchLabels s), mset (map req_class (nil_list (ns_MatchExpressions s))))"

lemma sel_class_content: "sel_class s = (case sel_content s of (l, e) \<Rightarrow> (nil_map l, case e of None \<Rightarrow> {#} | Some m \<Rightarrow> m))"
  by (cases "ns_MatchExpressions s") (simp_all add: sel_class_def sel_content_def)

definition labels_ok :: "NodeSelector \<Rightarrow> bool" where
  "labels_ok s \<longleftrightarrow> finite (dom (nil_map (ns_MatchLabels s))) \<and> '''' \<notin> ran (nil_map (ns_MatchLabels s))"

lemma labels_ok_content: "sel_content s = sel_content t \<Longrightarrow> labels_ok s \<longleftrightarrow> labels_ok t"
  by (simp add: labels_ok_def sel_content_def)

lemma labels_test:
  assumes "finite (dom m)" "finite (dom n)" "'''' \<notin> ran m"
  shows "card (dom m) = card (dom n) \<and> \<not> (\<exists>k \<in> dom m. map_get n k \<noteq> map_get m k) \<longleftrightarrow> m = n"
proof (intro iffI conjI)
  assume a: "card (dom m) = card (dom n) \<and> \<not> (\<exists>k \<in> dom m. map_get n k \<noteq> map_get m k)"
  have n: "n k = Some v" if "m k = Some v" for k v
    using a that assms(3) by (fastforce simp: map_get_def ran_def split: option.splits)
  then have "dom m \<subseteq> dom n" by blast
  with a assms(2) have "dom m = dom n" by (simp add: card_subset_eq)
  with n show "m = n" by (metis domIff map_le_antisym map_le_def domI option.exhaust_sel order_refl)
qed auto

lemma exprs_less_keeps: "exprs_less vs ws = (b, vs', ws') \<Longrightarrow> map req_class vs' = map req_class vs \<and> map req_class ws' = map req_class ws"
proof (induction vs arbitrary: ws b vs' ws')
  case (Cons v vs)
  show ?case
  proof (cases ws)
    case (Cons w rest)
    obtain c v' w' where e: "SelectorRequirements_Compare v w = (c, v', w')" by (metis prod.exhaust)
    obtain r rs ss where l: "exprs_less vs rest = (r, rs, ss)" by (metis prod.exhaust)
    show ?thesis using Cons.prems Cons e l Cons.IH [OF l] keepsD [OF Compare_keeps e] by (auto split: if_splits)
  qed (use Cons.prems in simp)
qed simp

text \<open>A comparison leaves its operands alone or writes back what the comparison of their expressions gave.\<close>

lemma NodeSelectors_Less_writes:
  "snd (NodeSelectors_Less z s t) = (s, t) \<or>
     (\<exists>es fs. ns_MatchExpressions s = Some es \<and> ns_MatchExpressions t = Some fs \<and>
       (case exprs_less (sort_requirements z es) (sort_requirements z fs) of
          (b, es', fs') \<Rightarrow> NodeSelectors_Less z s t = (b, s\<lparr>ns_MatchExpressions := Some es'\<rparr>, t\<lparr>ns_MatchExpressions := Some fs'\<rparr>)))"
  by (cases "ns_MatchExpressions s"; cases "ns_MatchExpressions t")
    (simp_all add: NodeSelectors_Less_def Let_def split_beta split: option.split)

lemma NodeSelector_Equal_writes:
  "snd (NodeSelector_Equal z s t) = (s, t) \<or>
     (case SelectorRequirementsSlice_Equal z (nil_list (ns_MatchExpressions s)) (nil_list (ns_MatchExpressions t)) of
        (b, es, fs) \<Rightarrow> NodeSelector_Equal z s t = (b, s\<lparr>ns_MatchExpressions := map_option (\<lambda>_. es) (ns_MatchExpressions s)\<rparr>,
          t\<lparr>ns_MatchExpressions := map_option (\<lambda>_. fs) (ns_MatchExpressions t)\<rparr>))"
  by (simp add: NodeSelector_Equal_def Let_def split_beta)

lemma NodeSelectors_Less_keeps:
  assumes z: "permuting z"
  shows "keeps sel_content (NodeSelectors_Less z)"
proof (rule keepsI)
  fix s t b s' t'
  assume r: "NodeSelectors_Less z s t = (b, s', t')"
  show "sel_content s' = sel_content s \<and> sel_content t' = sel_content t"
  proof (cases "s' = s \<and> t' = t")
    case False
    with r obtain es fs where e: "ns_MatchExpressions s = Some es" "ns_MatchExpressions t = Some fs"
      and w: "case exprs_less (sort_requirements z es) (sort_requirements z fs) of
        (b, es', fs') \<Rightarrow> NodeSelectors_Less z s t = (b, s\<lparr>ns_MatchExpressions := Some es'\<rparr>, t\<lparr>ns_MatchExpressions := Some fs'\<rparr>)"
      using NodeSelectors_Less_writes [of z s t] by auto
    obtain b' es' fs' where l: "exprs_less (sort_requirements z es) (sort_requirements z fs) = (b', es', fs')" by (metis prod.exhaust)
    have st: "s' = s\<lparr>ns_MatchExpressions := Some es'\<rparr>" "t' = t\<lparr>ns_MatchExpressions := Some fs'\<rparr>" using w l r by simp_all
    have "mset (map req_class es') = mset (map req_class es) \<and> mset (map req_class fs') = mset (map req_class fs)"
      using exprs_less_keeps [OF l] by (metis sort_requirements_class(1) [OF z])
    then show ?thesis by (simp add: sel_content_def e st)
  qed simp
qed

lemma NodeSelector_Equal_keeps:
  assumes z: "permuting z"
  shows "keeps sel_content (NodeSelector_Equal z)"
proof (rule keepsI)
  fix s t b s' t'
  assume r: "NodeSelector_Equal z s t = (b, s', t')"
  show "sel_content s' = sel_content s \<and> sel_content t' = sel_content t"
  proof (cases "s' = s \<and> t' = t")
    case False
    with r obtain es fs where l: "SelectorRequirementsSlice_Equal z (nil_list (ns_MatchExpressions s)) (nil_list (ns_MatchExpressions t)) = (b, es, fs)"
      and st: "s' = s\<lparr>ns_MatchExpressions := map_option (\<lambda>_. es) (ns_MatchExpressions s)\<rparr>"
        "t' = t\<lparr>ns_MatchExpressions := map_option (\<lambda>_. fs) (ns_MatchExpressions t)\<rparr>"
      using NodeSelector_Equal_writes [of z s t] by (auto split: prod.splits)
    from slice_Equal_keeps [OF z l] show ?thesis
      by (cases "ns_MatchExpressions s"; cases "ns_MatchExpressions t") (simp_all add: sel_content_def st)
  qed simp
qed

lemma NodeSelector_Equal_sound:
  assumes z: "permuting z" and ok: "labels_ok s" "labels_ok t" and eq: "fst (NodeSelector_Equal z s t)"
  shows "sel_class s = sel_class t"
proof -
  have "nil_map (ns_MatchLabels s) = nil_map (ns_MatchLabels t)"
    using eq ok labels_test [of "nil_map (ns_MatchLabels s)" "nil_map (ns_MatchLabels t)"]
    by (auto simp: NodeSelector_Equal_def map_len_def Let_def labels_ok_def split: if_splits)
  moreover have "fst (SelectorRequirementsSlice_Equal z (nil_list (ns_MatchExpressions s)) (nil_list (ns_MatchExpressions t)))"
    using eq by (auto simp: NodeSelector_Equal_def Let_def split: if_splits prod.splits)
  ultimately show ?thesis
    unfolding sel_class_def by (metis slice_Equal_iff_sorted [OF z] sort_requirements_class(1) [OF z])
qed

lemma NodeSelector_Equal_complete:
  assumes z: "permuting z" "sorting z" and ok: "labels_ok s" "labels_ok t"
    and ne: "no_empty_values (nil_list (ns_MatchExpressions s))" "no_empty_values (nil_list (ns_MatchExpressions t))"
    and cls: "sel_class s = sel_class t"
  shows "fst (NodeSelector_Equal z s t)"
proof -
  have m: "nil_map (ns_MatchLabels s) = nil_map (ns_MatchLabels t)"
    and e: "mset (map req_class (nil_list (ns_MatchExpressions s))) = mset (map req_class (nil_list (ns_MatchExpressions t)))"
    using cls by (auto simp: sel_class_def)
  have "fst (SelectorRequirementsSlice_Equal z (nil_list (ns_MatchExpressions s)) (nil_list (ns_MatchExpressions t)))"
    using slice_Equal_iff [OF z ne] e by simp
  then show ?thesis using m mset_eq_length [OF e]
    by (auto simp: NodeSelector_Equal_def map_len_def Let_def split: prod.split)
qed

section \<open>Lists of selectors\<close>

abbreviation placed :: "nat \<times> NodeSelector \<Rightarrow> nat \<times> strmap option \<times> (string \<times> string \<times> string multiset option) multiset option" where
  "placed \<equiv> map_prod id sel_content"

lemma at_place_keeps: "keeps f lt \<Longrightarrow> keeps (map_prod id f) (at_place lt)"
  by (rule keepsI) (auto simp: at_place_def dest: keepsD split: prod.splits)

lemma sort_selectors_content:
  assumes "permuting z"
  shows "mset (map placed (sort_selectors z xs)) = mset (map placed xs)" "length (sort_selectors z xs) = length xs"
proof -
  have p: "mset (map placed (pdq_selectors z xs)) = mset (map placed xs)" for xs using assms by (simp add: permuting_def)
  note k = at_place_keeps [OF NodeSelectors_Less_keeps [OF assms]]
  show "mset (map placed (sort_selectors z xs)) = mset (map placed xs)"
    unfolding sort_selectors_def by (rule sort_Sort_eff_mset [OF k p])
  show "length (sort_selectors z xs) = length xs"
    unfolding sort_selectors_def by (rule sort_Sort_eff_length [OF k p])
qed

lemma sort_selectors_snd:
  assumes "permuting z"
  shows "mset (map (\<lambda>x. sel_content (snd x)) (sort_selectors z xs)) = mset (map (\<lambda>x. sel_content (snd x)) xs)"
  using arg_cong [OF sort_selectors_content(1) [OF assms, of xs], of "image_mset snd"]
  by (simp add: image_mset.compositionality comp_def)

lemma map_snd_enumerate: "map (\<lambda>x. f (snd x)) (enumerate k n) = map f n"
  by (induction n arbitrary: k) simp_all

lemma NodeSelectors_Equal_keeps:
  assumes z: "permuting z" and eq: "NodeSelectors_Equal z n t = (b, n', t')"
  shows "mset (map sel_content n') = mset (map sel_content n) \<and> mset (map sel_content t') = mset (map sel_content t)"
proof (cases "length n = length t")
  case True
  then have "equal_loop (NodeSelector_Equal z) (map snd (sort_selectors z (enumerate 0 n))) (map snd (sort_selectors z (enumerate 0 t))) = (b, n', t')"
    using eq by (simp add: NodeSelectors_Equal_def)
  from equal_loop_keeps [OF NodeSelector_Equal_keeps [OF z] this] show ?thesis
    using sort_selectors_snd [OF z, of "enumerate 0 n"] sort_selectors_snd [OF z, of "enumerate 0 t"]
    by (simp add: map_snd_enumerate comp_def del: mset_map)
qed (use eq in \<open>simp add: NodeSelectors_Equal_def\<close>)

lemma NodeSelectors_Equal_iff_sorted:
  assumes z: "permuting z" and eq: "\<And>s t. s \<in> S \<Longrightarrow> t \<in> S \<Longrightarrow> fst (NodeSelector_Equal z s t) \<longleftrightarrow> f s = f t"
    and S: "snd ` set (sort_selectors z (enumerate 0 n)) \<subseteq> S" "snd ` set (sort_selectors z (enumerate 0 t)) \<subseteq> S"
  shows "fst (NodeSelectors_Equal z n t) \<longleftrightarrow> length n = length t \<and>
    map (\<lambda>x. f (snd x)) (sort_selectors z (enumerate 0 n)) = map (\<lambda>x. f (snd x)) (sort_selectors z (enumerate 0 t))"
proof (cases "length n = length t")
  case True
  let ?n = "map snd (sort_selectors z (enumerate 0 n))" and ?t = "map snd (sort_selectors z (enumerate 0 t))"
  have "length ?n = length ?t" using True by (simp add: sort_selectors_content [OF z])
  moreover have "fst (NodeSelector_Equal z x y) \<longleftrightarrow> f x = f y" if "x \<in> set ?n" "y \<in> set ?t" for x y
    using that S by (intro eq) auto
  ultimately have "fst (equal_loop (NodeSelector_Equal z) ?n ?t) \<longleftrightarrow> map f ?n = map f ?t" by (intro equal_loop_result) auto
  with True show ?thesis by (simp add: NodeSelectors_Equal_def comp_def)
qed (simp add: NodeSelectors_Equal_def)

text \<open>Equal lists have the same selectors, whatever the order \<open>Less\<close> put them in.\<close>

lemma NodeSelectors_Equal_sound:
  assumes z: "permuting z" and ok: "\<forall>s \<in> set n \<union> set t. labels_ok s" and eq: "fst (NodeSelectors_Equal z n t)"
  shows "mset (map sel_class n) = mset (map sel_class t)"
proof -
  let ?n = "sort_selectors z (enumerate 0 n)" and ?t = "sort_selectors z (enumerate 0 t)"
  have len: "length n = length t" using eq by (simp add: NodeSelectors_Equal_def split: if_splits)
  have c: "mset (map (\<lambda>x. sel_content (snd x)) (sort_selectors z (enumerate 0 u))) = mset (map sel_content u)" for u
    using sort_selectors_snd [OF z, of "enumerate 0 u"] by (simp only: map_snd_enumerate)
  have ok': "labels_ok (snd x)" if "x \<in> set ?n \<union> set ?t" for x
  proof -
    have "sel_content (snd x) \<in> sel_content ` (set n \<union> set t)"
      using that mset_eq_setD [OF c [of n]] mset_eq_setD [OF c [of t]] by auto
    then show ?thesis using ok labels_ok_content by blast
  qed
  have "fst (equal_loop (NodeSelector_Equal z) (map snd ?n) (map snd ?t))"
    using eq len by (simp add: NodeSelectors_Equal_def)
  moreover have "length (map snd ?n) = length (map snd ?t)" using len by (simp add: sort_selectors_content [OF z])
  ultimately have "map sel_class (map snd ?n) = map sel_class (map snd ?t)"
    using ok' by (intro equal_loop_sound [where P = labels_ok and eq = "NodeSelector_Equal z"] NodeSelector_Equal_sound [OF z]) auto
  then have "mset (map (\<lambda>x. sel_class (snd x)) ?n) = mset (map (\<lambda>x. sel_class (snd x)) ?t)" by (simp add: comp_def del: mset_map)
  moreover have "mset (map (\<lambda>x. sel_class (snd x)) (sort_selectors z (enumerate 0 u))) = mset (map sel_class u)" for u
    using arg_cong [OF c [of u], of "image_mset (\<lambda>(l, e). (nil_map l, case e of None \<Rightarrow> {#} | Some m \<Rightarrow> m))"]
    by (simp add: image_mset.compositionality comp_def sel_class_content [abs_def])
  ultimately show ?thesis by metis
qed

section \<open>The loops of the configurer\<close>

text \<open>
  The configurer of the ConfigMap has its own copies of the loops of the file. They build their
  results in another way; what they compute is the same.
\<close>

lemma cm_match_loop_eq:
  "cm_match_loop z n m ps acc found a =
     (case link_peers_loop z n m ps a of (r, ps', a') \<Rightarrow> (found \<or> r, acc @ ps', a'))"
proof (induction ps arbitrary: acc found a)
  case (Cons p ps)
  obtain b p1 a1 where e: "Peer_EqualIgnoreService z p a = (b, p1, a1)" by (metis prod.exhaust)
  obtain r qs a2 where l: "link_peers_loop z n m ps a1 = (r, qs, a2)" by (metis prod.exhaust)
  show ?case by (cases b) (simp_all add: e l Cons.IH)
qed simp

text \<open>The peers after one peer of a call was linked or appended.\<close>

definition update_peer :: "sorters \<Rightarrow> string \<Rightarrow> string \<Rightarrow> Peer list \<Rightarrow> Peer \<Rightarrow> Peer list" where
  "update_peer z n m peers a =
     (case link_peers_loop z n m peers a of (found, ps, a') \<Rightarrow>
        if \<not> found then ps @ [snd (Peer_AddService z a' n m)] else ps)"

lemma update_peers_loop_Cons:
  "update_peers_loop z n m (a # adds) peers changed = update_peers_loop z n m adds (update_peer z n m peers a) True"
  by (cases "link_peers_loop z n m peers a") (auto simp: cm_match_loop_eq update_peer_def)

declare update_peers_loop.simps(2) [simp del]

lemma cm_unlink_loop_eq:
  "cm_unlink_loop z n m ps acc changed = (case unlink_peers_loop z n m ps of (c, ps') \<Rightarrow> (changed \<or> c, acc @ ps'))"
proof (induction ps arbitrary: acc changed)
  case (Cons p ps)
  obtain found left q where r: "Peer_RemoveService z p n m = ((found, left), q)" by (metis prod.exhaust)
  obtain c qs where l: "unlink_peers_loop z n m ps = (c, qs)" by (metis prod.exhaust)
  show ?case by (auto simp: r l Cons.IH)
qed simp

lemma cm_pool_loop_append:
  "cm_pool_loop z (length done) (done @ ps) a =
     (case add_pool_loop z ps a of Ok (r, ps', a') \<Rightarrow> Ok (r, done @ ps', a') | Err e \<Rightarrow> Err e | Panic \<Rightarrow> Panic)"
proof (induction ps arbitrary: "done" a)
  case Nil
  show ?case by (simp add: cm_pool_loop.simps)
next
  case (Cons p ps)
  have IH: "cm_pool_loop z (Suc (length done)) (done @ q # ps) b =
      (case add_pool_loop z ps b of Ok (r, ps', a') \<Rightarrow> Ok (r, done @ q # ps', a') | Err e \<Rightarrow> Err e | Panic \<Rightarrow> Panic)" for q b
    using Cons.IH [of "done @ [q]" b] by (auto split: outcome.split prod.split)
  show ?case
    by (subst cm_pool_loop.simps)
      (auto simp: nth_append list_update_append list_ex_iff Let_def IH split: outcome.split prod.split bool.split)
qed

lemma cm_has_address_eq: "cm_has_address addr ips found \<longleftrightarrow> found \<or> addr \<in> set ips"
  by (induction ips arbitrary: found) auto

lemma cm_drop_pools_loop_eq:
  "cm_drop_pools_loop addr ps acc = acc @ filter (\<lambda>pool. \<not> list_ex (\<lambda>ipaddr. addr = ipaddr) (ap_Addresses pool)) ps"
  by (induction ps arbitrary: acc) (auto simp: cm_has_address_eq list_ex_iff)

section \<open>Selectors with labels only\<close>

lemma plain_selectorE:
  assumes "plain_selector s"
  obtains m where "s = \<lparr>ns_MatchLabels = Some m, ns_MatchExpressions = None\<rparr>" "finite (dom m)" "'''' \<notin> ran m"
  using assms by (cases s) (auto simp: plain_selector_def split: option.splits)

lemma plain_content: "plain_selector s \<Longrightarrow> sel_content t = sel_content s \<longleftrightarrow> t = s"
  by (erule plain_selectorE) (cases t; auto simp: sel_content_def)

lemma labels_less_eq:
  assumes "length ks = length ls"
  shows "labels_less m n ks ls =
    (let a = map (\<lambda>k. (k, map_get m k)) ks; b = map (\<lambda>k. (k, map_get n k)) ls in if a = b then None else Some (a < b))"
  using assms by (induction ks ls rule: list_induct2) (auto simp: Let_def)

lemma labels_key_inj:
  assumes "finite (dom m)" "finite (dom n)"
    "map (\<lambda>k. (k, map_get m k)) (sorted_list_of_set (dom m)) = map (\<lambda>k. (k, map_get n k)) (sorted_list_of_set (dom n))"
  shows "m = n"
proof -
  have "sorted_list_of_set (dom m) = sorted_list_of_set (dom n)"
    using arg_cong [OF assms(3), of "map fst"] by (simp add: comp_def)
  then have d: "dom m = dom n" using assms(1,2) by (metis set_sorted_list_of_set)
  have "map_get m k = map_get n k" if "k \<in> dom m" for k
    using assms(3) that by (simp add: d assms(2))
  then show ?thesis using d by (intro ext) (metis domIff map_get_def option.case_eq_if option.exhaust_sel)
qed

lemma plain_Less:
  assumes "plain_selector s" "plain_selector t"
  shows "NodeSelectors_Less z s t = (sel_key s < sel_key t, s, t)"
proof -
  obtain m where s: "s = \<lparr>ns_MatchLabels = Some m, ns_MatchExpressions = None\<rparr>" "finite (dom m)" using assms(1) by (rule plain_selectorE)
  obtain n where t: "t = \<lparr>ns_MatchLabels = Some n, ns_MatchExpressions = None\<rparr>" "finite (dom n)" using assms(2) by (rule plain_selectorE)
  have [simp]: "nil_map (Some x) = x" for x by (simp add: nil_map_def)
  show ?thesis
  proof (cases "card (dom m) = card (dom n)")
    case True
    then have "length (sorted_list_of_set (dom m)) = length (sorted_list_of_set (dom n))" by simp
    from labels_less_eq [OF this, of m n] True show ?thesis
      by (auto simp: NodeSelectors_Less_def s(1) t(1) map_len_def sel_key_def Let_def)
  qed (auto simp: NodeSelectors_Less_def s(1) t(1) map_len_def sel_key_def Let_def)
qed

lemma plain_key_inj: "plain_selector s \<Longrightarrow> plain_selector t \<Longrightarrow> sel_key s = sel_key t \<Longrightarrow> s = t"
  by (elim plain_selectorE) (auto simp: sel_key_def Let_def nil_map_def intro: labels_key_inj)

lemma plain_compares: "compares (\<lambda>x. plain_selector (snd x)) (\<lambda>x. sel_key (snd x)) (at_place (NodeSelectors_Less z))"
  by (auto simp: compares_def at_place_def plain_Less)

lemma plain_Equal:
  assumes "plain_selector s" "plain_selector t"
  shows "fst (NodeSelector_Equal z s t) \<longleftrightarrow> s = t"
proof -
  obtain m where s: "s = \<lparr>ns_MatchLabels = Some m, ns_MatchExpressions = None\<rparr>" "finite (dom m)" "'''' \<notin> ran m"
    using assms(1) by (rule plain_selectorE)
  obtain n where t: "t = \<lparr>ns_MatchLabels = Some n, ns_MatchExpressions = None\<rparr>" "finite (dom n)" using assms(2) by (rule plain_selectorE)
  have [simp]: "nil_map (Some x) = x" for x by (simp add: nil_map_def)
  have "fst (NodeSelector_Equal z s t) \<longleftrightarrow> card (dom m) = card (dom n) \<and> \<not> (\<exists>k \<in> dom m. map_get n k \<noteq> map_get m k)"
    by (simp add: NodeSelector_Equal_def s(1) t(1) map_len_def Let_def SelectorRequirementsSlice_Equal_def
        sort_Sort_eff_def insertionSort_eff_def)
  then show ?thesis using labels_test [OF s(2) t(2) s(3)] by (simp add: s(1) t(1))
qed

lemma plain_Equal_lists:
  assumes z: "permuting z" "sorting z" and plain: "\<forall>s \<in> set n \<union> set t. plain_selector s"
  shows "fst (NodeSelectors_Equal z n t) \<longleftrightarrow> mset n = mset t"
proof -
  let ?s = "\<lambda>u. sort_selectors z (enumerate 0 u)"
  have c: "mset (map (\<lambda>x. sel_content (snd x)) (?s u)) = mset (map sel_content u)" for u
    using sort_selectors_snd [OF z(1), of "enumerate 0 u"] by (simp only: map_snd_enumerate)
  have pl: "plain_selector (snd x)" if "x \<in> set (?s u)" "u = n \<or> u = t" for u x
  proof -
    have "sel_content (snd x) \<in> sel_content ` set u" using that mset_eq_setD [OF c [of u]] by auto
    then show ?thesis using that(2) plain plain_content by auto
  qed
  have "snd ` set (?s n) \<subseteq> Collect plain_selector" "snd ` set (?s t) \<subseteq> Collect plain_selector" using pl by auto
  with plain_Equal [of _ _ z] have "fst (NodeSelectors_Equal z n t) \<longleftrightarrow> length n = length t \<and> map snd (?s n) = map snd (?s t)"
    by (intro NodeSelectors_Equal_iff_sorted [OF z(1), where f = "\<lambda>s. s" and S = "Collect plain_selector"]) auto
  moreover have m: "mset (map snd (?s u)) = mset u" if "u = n \<or> u = t" for u
  proof -
    have "inj_on sel_content (set (map snd (?s u)) \<union> set u)"
      using that plain pl [OF _ that] plain_content by (auto simp: inj_on_def)
    moreover have "image_mset sel_content (mset (map snd (?s u))) = image_mset sel_content (mset u)"
      using c [of u] by (simp add: image_mset.compositionality comp_def)
    ultimately show ?thesis by (intro image_mset_inj_on_eq [of sel_content]) simp_all
  qed
  moreover have "map snd (?s n) = map snd (?s t)" if "mset n = mset t"
  proof -
    have k: "map (\<lambda>x. sel_key (snd x)) (?s u) = sort (map sel_key u)" if "u = n \<or> u = t" for u
    proof -
      have "\<forall>x \<in> set (enumerate 0 u). plain_selector (snd x)"
        using that plain by (metis UnCI map_snd_enumerate map_ident image_eqI list.set_map)
      from sort_Sort_eff_keys [OF plain_compares this, of "pdq_selectors z" z] z(2) this show ?thesis
        by (simp add: sort_selectors_def sorting_def map_snd_enumerate)
    qed
    have "map (\<lambda>x. sel_key (snd x)) (?s n) = map (\<lambda>x. sel_key (snd x)) (?s t)"
      using that by (simp add: k sort_eq_iff_mset)
    then have "map sel_key (map snd (?s n)) = map sel_key (map snd (?s t))" by (simp add: comp_def)
    moreover have "inj_on sel_key (set (map snd (?s n)) \<union> set (map snd (?s t)))"
      using pl plain_key_inj by (fastforce simp: inj_on_def)
    ultimately show ?thesis by (simp only: inj_on_map_eq_map)
  qed
  ultimately show ?thesis by (metis mset_eq_length)
qed

end
