(* ===== verification/MetalLB_ConfigMap_Laws.thy ===== *)
theory MetalLB_ConfigMap_Laws
  imports MetalLB_Config_Laws
begin

text \<open>
  The operations on the configuration file and on the configurer of the ConfigMap. On peers whose
  selectors have only labels, adding and removing are insertion into and removal from a set of
  what \<open>AddPeer\<close> calls a match, as long as peers that match are equal. Peers meet the contract
  \<open>service_links\<close>, and with it the configurer links and unlinks services.
\<close>

section \<open>Peers as a set\<close>

definition peer_class :: "Peer \<Rightarrow> uint32 \<times> uint32 \<times> string \<times> uint16 \<times> string \<times> string \<times> string \<times> NodeSelector multiset" where
  "peer_class p = (pe_MyASN p, pe_ASN p, pe_Addr p, pe_Port p, pe_HoldTime p, pe_Password p, pe_RouterID p, mset (pe_NodeSelectors p))"

definition plain_peer :: "Peer \<Rightarrow> bool" where
  "plain_peer p \<longleftrightarrow> (\<forall>s \<in> set (pe_NodeSelectors p). plain_selector s)"

lemma plain_contents:
  assumes "\<forall>s \<in> set n. plain_selector s" "mset (map sel_content n') = mset (map sel_content n)"
  shows "mset n' = mset n \<and> (\<forall>s \<in> set n'. plain_selector s)"
proof -
  have plain: "plain_selector s" if "s \<in> set n'" for s
  proof -
    have "sel_content s \<in> sel_content ` set n" using that mset_eq_setD [OF assms(2)] by auto
    then show ?thesis using assms(1) plain_content by auto
  qed
  moreover have "inj_on sel_content (set_mset (mset n') \<union> set_mset (mset n))"
    using plain assms(1) plain_content by (auto simp: inj_on_def)
  ultimately show ?thesis using assms(2) by (auto intro: image_mset_inj_on_eq [of sel_content])
qed

lemma plain_peer_Equal:
  assumes z: "permuting z" "sorting z" and plain: "plain_peer p" "plain_peer q" and eq: "Peer_Equal z p q = (b, p', q')"
  shows "(b \<longleftrightarrow> peer_class p = peer_class q) \<and> peer_class p' = peer_class p \<and> peer_class q' = peer_class q
    \<and> plain_peer p' \<and> plain_peer q'"
proof (cases "peer_fields_differ p q")
  case True
  then show ?thesis using eq plain by (auto simp: Peer_Equal_def peer_fields_differ_def peer_class_def)
next
  case False
  obtain b' n t where r: "NodeSelectors_Equal z (pe_NodeSelectors p) (pe_NodeSelectors q) = (b', n, t)" by (metis prod.exhaust)
  with False eq have e: "b = b'" "p' = p\<lparr>pe_NodeSelectors := n\<rparr>" "q' = q\<lparr>pe_NodeSelectors := t\<rparr>" by (auto simp: Peer_Equal_def)
  have "b' \<longleftrightarrow> mset (pe_NodeSelectors p) = mset (pe_NodeSelectors q)"
    using plain_Equal_lists [OF z, of "pe_NodeSelectors p" "pe_NodeSelectors q"] plain r by (auto simp: plain_peer_def)
  moreover have "mset n = mset (pe_NodeSelectors p) \<and> (\<forall>s \<in> set n. plain_selector s)"
    "mset t = mset (pe_NodeSelectors q) \<and> (\<forall>s \<in> set t. plain_selector s)"
    using NodeSelectors_Equal_keeps [OF z(1) r] plain by (auto intro!: plain_contents simp: plain_peer_def simp del: mset_map)
  ultimately show ?thesis using False by (simp add: e peer_class_def plain_peer_def peer_fields_differ_def)
qed

lemma find_peer_loop_eq:
  assumes z: "permuting z" "sorting z"
  shows "\<forall>p \<in> set ps. plain_peer p \<Longrightarrow> plain_peer a \<Longrightarrow> find_peer_loop z ps a = (b, ps', a') \<Longrightarrow>
    (b \<longleftrightarrow> peer_class a \<in> peer_class ` set ps) \<and> map peer_class ps' = map peer_class ps \<and> peer_class a' = peer_class a
    \<and> (\<forall>p \<in> set ps'. plain_peer p) \<and> plain_peer a'"
proof (induction ps arbitrary: a b ps' a')
  case (Cons p ps)
  obtain c p1 a1 where e: "Peer_Equal z p a = (c, p1, a1)" by (metis prod.exhaust)
  obtain d qs a2 where l: "find_peer_loop z ps a1 = (d, qs, a2)" by (metis prod.exhaust)
  have pe: "(c \<longleftrightarrow> peer_class p = peer_class a) \<and> peer_class p1 = peer_class p \<and> peer_class a1 = peer_class a \<and> plain_peer p1 \<and> plain_peer a1"
    using Cons.prems by (intro plain_peer_Equal [OF z _ _ e]) auto
  with Cons.IH [OF _ _ l] Cons.prems e l show ?case by (auto split: if_splits)
qed auto

lemma remove_peer_loop_eq:
  assumes z: "permuting z" "sorting z"
  shows "\<forall>p \<in> set ps. plain_peer p \<Longrightarrow> plain_peer a \<Longrightarrow> remove_peer_loop z ps a = (ps', a') \<Longrightarrow>
    map peer_class ps' = filter (\<lambda>c. c \<noteq> peer_class a) (map peer_class ps) \<and> peer_class a' = peer_class a
    \<and> (\<forall>p \<in> set ps'. plain_peer p) \<and> plain_peer a'"
proof (induction ps arbitrary: a ps' a')
  case (Cons p ps)
  obtain c p1 a1 where e: "Peer_Equal z p a = (c, p1, a1)" by (metis prod.exhaust)
  obtain qs a2 where l: "remove_peer_loop z ps a1 = (qs, a2)" by (metis prod.exhaust)
  have pe: "(c \<longleftrightarrow> peer_class p = peer_class a) \<and> peer_class p1 = peer_class p \<and> peer_class a1 = peer_class a \<and> plain_peer p1 \<and> plain_peer a1"
    using Cons.prems by (intro plain_peer_Equal [OF z _ _ e]) auto
  with Cons.IH [OF _ _ l] Cons.prems e l show ?case by (auto split: if_splits)
qed auto

section \<open>Peers that services share\<close>

abbreviation Peer_plain :: "Peer \<Rightarrow> NodeSelector list" where
  "Peer_plain p \<equiv> plain_of ns_MatchLabels (pe_NodeSelectors p)"

lemma service_selector_labels [simp]: "ns_MatchLabels (service_selector m) = Some m"
  by (simp add: service_selector_def)

interpretation cm_links: service_links
  "Peer_AddService (z\<lparr>pdq_resources := permute f\<rparr>)" "Peer_RemoveService (z\<lparr>pdq_resources := permute f\<rparr>)" Peer_Services Peer_plain for z f
proof unfold_locales
  fix p :: Peer and n m :: string
  let ?z = "z\<lparr>pdq_resources := permute f\<rparr>" and ?nss = "pe_NodeSelectors p"
  note [simp] = Peer_AddService_def Peer_RemoveService_def Peer_Services_def split_beta
  show "snd (Peer_AddService ?z p n m) = p" if "\<not> fst (Peer_AddService ?z p n m)"
    using that by (auto simp: add_service_def split: option.splits)
  assume ne: "n \<noteq> ''''" "m \<noteq> ''''"
  note a = add_service_laws [where labels = ns_MatchLabels and mk = service_selector, OF iteration_order_permute service_selector_labels ne, of f ?nss]
    and r = remove_service_laws [where labels = ns_MatchLabels and mk = service_selector, OF iteration_order_permute service_selector_labels ne, of f ?nss]
  show "fst (Peer_AddService ?z p n m) \<longleftrightarrow> \<lparr>res_Namespace = n, res_Name = m\<rparr> \<notin> set (Peer_Services p)"
    and "Peer_plain (snd (Peer_AddService ?z p n m)) = Peer_plain p"
    and "fst (Peer_AddService ?z p n m) \<Longrightarrow> mset (Peer_Services (snd (Peer_AddService ?z p n m)))
      = add_mset \<lparr>res_Namespace = n, res_Name = m\<rparr> (mset (Peer_Services p))"
    using a by simp_all
  show "fst (fst (Peer_RemoveService ?z p n m)) \<longleftrightarrow> \<lparr>res_Namespace = n, res_Name = m\<rparr> \<in> set (Peer_Services p)"
    and "snd (fst (Peer_RemoveService ?z p n m)) = length (Peer_Services (snd (Peer_RemoveService ?z p n m)))"
    and "mset (Peer_Services (snd (Peer_RemoveService ?z p n m)))
      = filter_mset (\<lambda>r. r \<noteq> \<lparr>res_Namespace = n, res_Name = m\<rparr>) (mset (Peer_Services p))"
    and "Peer_plain (snd (Peer_RemoveService ?z p n m)) = Peer_plain p"
    using r by simp_all
qed

text \<open>Sorters that permute are of the shape the contract is shown for.\<close>

lemma permuting_permute:
  assumes "permuting z"
  obtains f where "z = z\<lparr>pdq_resources := permute f\<rparr>"
proof -
  have "permute (Slice_Permutation (pdq_resources z)) = pdq_resources z"
    using assms by (intro Slice_Permutation_inverse) (simp add: permuting_def)
  then show thesis using that [of "Slice_Permutation (pdq_resources z)"] by simp
qed

lemma services_of_labels: "services_of labels nss = services_of (\<lambda>x. x) (map labels nss)"
  by (induction nss) (simp_all add: services_of_def selector_service_def)

lemma same_services:
  assumes "map sel_content n' = map sel_content n"
  shows "services_of ns_MatchLabels n' = services_of ns_MatchLabels n"
proof -
  have "map ns_MatchLabels n' = map ns_MatchLabels n"
    using arg_cong [OF assms, of "map fst"] by (simp add: sel_content_def comp_def)
  then show ?thesis by (metis services_of_labels)
qed

lemma write_back_content:
  assumes "\<forall>(i, y) \<in> set ys. i < length n \<and> f y = f (n ! i)"
  shows "map f (write_back n ys) = map f n"
  using assms
proof (induction ys arbitrary: n)
  case (Cons x ys)
  obtain i y where x: "x = (i, y)" by fastforce
  have eq: "map f (n[i := y]) = map f n" using Cons.prems x by (auto simp: map_update list_update_same_conv)
  have "\<forall>(j, v) \<in> set ys. j < length (n[i := y]) \<and> f v = f (n[i := y] ! j)"
  proof (intro ballI, clarify)
    fix j v assume "(j, v) \<in> set ys"
    then have "j < length n" "f v = f (n ! j)" using Cons.prems by auto
    moreover have "f (n[i := y] ! j) = f (n ! j)" using \<open>j < length n\<close> arg_cong [OF eq, of "\<lambda>l. l ! j"] by simp
    ultimately show "j < length (n[i := y]) \<and> f v = f (n[i := y] ! j)" by simp
  qed
  from Cons.IH [OF this] eq show ?case by (simp add: x write_back_def)
qed (simp add: write_back_def)

lemma placed_enumerate:
  assumes "x \<in> set ys" "set (map placed ys) \<subseteq> set (map placed (enumerate 0 n))"
  shows "fst x < length n \<and> sel_content (snd x) = sel_content (n ! fst x)"
proof -
  have "placed x \<in> set (map placed (enumerate 0 n))" using assms by auto
  then obtain y where y: "y \<in> set (enumerate 0 n)" "placed x = placed y" by auto
  from arg_cong [OF y(2), of fst] arg_cong [OF y(2), of snd]
  have "fst x = fst y" "sel_content (snd x) = sel_content (snd y)" by (simp_all only: fst_map_prod snd_map_prod comp_apply id_apply)
  with y(1) show ?thesis by (simp add: in_set_enumerate_eq)
qed

lemma EqualIgnoreService_keeps:
  assumes z: "permuting z" and eq: "NodeSelectors_EqualIgnoreService z n t = (b, n', t')"
  shows "map sel_content n' = map sel_content n \<and> map sel_content t' = map sel_content t"
proof -
  let ?f = "\<lambda>u. filter (\<lambda>(_, ns). \<not> is_service_selector ns) (enumerate 0 u)"
  obtain b' ns' os' where l: "equal_loop (at_place (NodeSelector_Equal z)) (sort_selectors z (?f n)) (sort_selectors z (?f t)) = (b', ns', os')"
    by (metis prod.exhaust)
  have "map placed ns' = map placed (sort_selectors z (?f n)) \<and> map placed os' = map placed (sort_selectors z (?f t))"
    by (rule equal_loop_keeps [OF at_place_keeps [OF NodeSelector_Equal_keeps [OF z]] l])
  then have s: "set (map placed ns') = set (map placed (?f n))" "set (map placed os') = set (map placed (?f t))"
    using mset_eq_setD [OF sort_selectors_content(1) [OF z]] by metis+
  have f: "set (map placed (?f u)) \<subseteq> set (map placed (enumerate 0 u))" for u
    by (simp only: list.set_map) (intro image_mono filter_is_subset)
  have "map sel_content (write_back n ns') = map sel_content n" "map sel_content (write_back t os') = map sel_content t"
    using placed_enumerate [OF _ f [of n, folded s(1)]] placed_enumerate [OF _ f [of t, folded s(2)]]
    by (intro write_back_content; fastforce)+
  then show ?thesis using eq l by (auto simp: NodeSelectors_EqualIgnoreService_def Let_def split: if_splits)
qed

section \<open>What the operations do to each peer\<close>

abbreviation link :: "string \<Rightarrow> string \<Rightarrow> Resource" where
  "link n m \<equiv> \<lparr>res_Namespace = n, res_Name = m\<rparr>"

definition same_peer :: "Peer \<Rightarrow> Peer \<Rightarrow> bool" where
  "same_peer p q \<longleftrightarrow> q\<lparr>pe_NodeSelectors := pe_NodeSelectors p\<rparr> = p"

text \<open>
  The node selectors of a peer that link no service, up to the order of the selectors, of their
  expressions and of the values of these.
\<close>

definition others :: "Peer \<Rightarrow> (strmap \<times> (string \<times> string \<times> string multiset option) multiset) multiset" where
  "others p = mset (map sel_class (Peer_plain p))"

text \<open>
  Selectors as the controller writes them: without empty label values, and with the two labels of
  a service only in a selector that links one and has nothing else.
\<close>

definition tidy_selector :: "NodeSelector \<Rightarrow> bool" where
  "tidy_selector s \<longleftrightarrow> labels_ok s \<and>
     (case selector_service ns_MatchLabels s of (n, m) \<Rightarrow>
        if is_service_selector s then n \<noteq> '''' \<and> m \<noteq> '''' else n = '''' \<and> m = '''')"

definition tidy_peer :: "Peer \<Rightarrow> bool" where
  "tidy_peer p \<longleftrightarrow> (\<forall>s \<in> set (pe_NodeSelectors p). tidy_selector s)"

text \<open>A peer of the file that matches a wanted one: its fields, and the node selectors that count.\<close>

definition matches :: "Peer \<Rightarrow> Peer \<Rightarrow> bool" where
  "matches p a \<longleftrightarrow> \<not> peer_fields_differ p a \<and> others p = others a"

text \<open>
  What becomes of a peer of the file: its fields and other selectors stay, and so do its services;
  the one that is linked may have been added, but only if the peer matches one of \<open>A\<close>.
\<close>

definition grown :: "Peer set \<Rightarrow> string \<Rightarrow> string \<Rightarrow> Peer \<Rightarrow> Peer \<Rightarrow> bool" where
  "grown A n m p q \<longleftrightarrow> same_peer p q \<and> others q = others p \<and>
     (set (Peer_Services q) = set (Peer_Services p)
      \<or> set (Peer_Services q) = insert (link n m) (set (Peer_Services p)) \<and> (\<exists>a \<in> A. matches p a))"

lemma same_peer_refl [simp]: "same_peer p p"
  by (simp add: same_peer_def)

lemma same_peer_trans: "same_peer p q \<Longrightarrow> same_peer q r \<Longrightarrow> same_peer p r"
  by (cases p; cases q; cases r) (auto simp: same_peer_def)

lemma same_peer_differ: "same_peer p q \<Longrightarrow> peer_fields_differ q a = peer_fields_differ p a"
  by (cases p; cases q) (auto simp: same_peer_def peer_fields_differ_def)

lemma differ_same_peer: "same_peer a b \<Longrightarrow> peer_fields_differ p b = peer_fields_differ p a"
  by (cases a; cases b) (auto simp: same_peer_def peer_fields_differ_def)

lemma same_peer_update [simp]: "same_peer p (p\<lparr>pe_NodeSelectors := n\<rparr>)"
  by (simp add: same_peer_def)

lemma matches_left: "same_peer p q \<Longrightarrow> others q = others p \<Longrightarrow> matches q a = matches p a"
  by (simp add: matches_def same_peer_differ)

lemma matches_right: "same_peer a b \<Longrightarrow> others b = others a \<Longrightarrow> matches p b = matches p a"
  by (simp add: matches_def differ_same_peer)

lemma matches_refl [simp]: "matches p p"
  by (simp add: matches_def peer_fields_differ_def)

lemma grown_refl [simp]: "grown A n m p p"
  by (simp add: grown_def)

lemma grown_trans: "grown A n m p q \<Longrightarrow> grown A n m q r \<Longrightarrow> grown A n m p r"
  using matches_left [of p q] by (auto simp: grown_def intro: same_peer_trans)

text \<open>Tidy selectors link a service exactly if the comparison ignores them.\<close>

lemma tidy_plain:
  assumes "\<forall>s \<in> set nss. tidy_selector s"
  shows "filter (\<lambda>s. \<not> is_service_selector s) nss = plain_of ns_MatchLabels nss"
proof -
  have "\<not> is_service_selector s \<longleftrightarrow> selector_service ns_MatchLabels s = ('''', '''')" if "s \<in> set nss" for s
  proof (cases "selector_service ns_MatchLabels s")
    case (Pair n m)
    then show ?thesis using assms that by (auto simp: tidy_selector_def split: if_splits)
  qed
  then show ?thesis unfolding plain_of_def by (intro filter_cong) auto
qed

lemma selector_service_content: "sel_content s = sel_content t \<Longrightarrow> selector_service ns_MatchLabels s = selector_service ns_MatchLabels t"
  by (simp add: sel_content_def selector_service_def)

lemma is_service_selector_content:
  assumes "sel_content s = sel_content t"
  shows "is_service_selector s = is_service_selector t"
proof -
  have "length (nil_list (ns_MatchExpressions s)) = length (nil_list (ns_MatchExpressions t))"
    using assms by (cases "ns_MatchExpressions s"; cases "ns_MatchExpressions t") (auto simp: sel_content_def dest: arg_cong [of _ _ size])
  moreover have "ns_MatchLabels s = ns_MatchLabels t" using assms by (simp add: sel_content_def)
  ultimately show ?thesis by (simp add: is_service_selector_def)
qed

lemma tidy_content: "sel_content s = sel_content t \<Longrightarrow> tidy_selector s = tidy_selector t"
  unfolding tidy_selector_def
  by (simp only: labels_ok_content [of s t] selector_service_content [of s t] is_service_selector_content [of s t])

lemma same_content:
  assumes "map sel_content n' = map sel_content n"
  shows "map sel_content (plain_of ns_MatchLabels n') = map sel_content (plain_of ns_MatchLabels n)"
    and "(\<forall>s \<in> set n'. tidy_selector s) = (\<forall>s \<in> set n. tidy_selector s)"
proof -
  have l: "list_all2 (\<lambda>s t. sel_content s = sel_content t) n' n"
    using assms by (simp add: list_all2_map1 list_all2_map2 flip: list.rel_eq)
  then show "map sel_content (plain_of ns_MatchLabels n') = map sel_content (plain_of ns_MatchLabels n)"
    by (induction rule: list_all2_induct) (auto simp: plain_of_def dest: selector_service_content)
  show "(\<forall>s \<in> set n'. tidy_selector s) = (\<forall>s \<in> set n. tidy_selector s)"
    using l by (induction rule: list_all2_induct) (auto dest: tidy_content)
qed

lemma class_of_contents:
  assumes "mset (map (\<lambda>x. sel_content (f x)) xs) = mset (map (\<lambda>x. sel_content (g x)) ys)"
  shows "mset (map (\<lambda>x. sel_class (f x)) xs) = mset (map (\<lambda>x. sel_class (g x)) ys)"
  using arg_cong [OF assms, of "image_mset (\<lambda>(l, e). (nil_map l, case e of None \<Rightarrow> {#} | Some m \<Rightarrow> m))"]
  by (simp add: image_mset.compositionality comp_def sel_class_content [abs_def])

lemma others_content: "map sel_content (pe_NodeSelectors q) = map sel_content (pe_NodeSelectors p) \<Longrightarrow> others q = others p"
  unfolding others_def using class_of_contents [of "\<lambda>x. x" _ "\<lambda>x. x"] same_content(1) by metis

lemma snd_filter_enumerate: "map snd (filter (\<lambda>(_, s). P s) (enumerate k n)) = filter P n"
  by (induction n arbitrary: k) auto

text \<open>Equal but for the services: the selectors that link none are the same.\<close>

lemma EqualIgnoreService_sound:
  assumes z: "permuting z" and ok: "\<forall>s \<in> set n \<union> set t. tidy_selector s" and eq: "fst (NodeSelectors_EqualIgnoreService z n t)"
  shows "mset (map sel_class (plain_of ns_MatchLabels n)) = mset (map sel_class (plain_of ns_MatchLabels t))"
proof -
  let ?f = "\<lambda>u. filter (\<lambda>(_, ns). \<not> is_service_selector ns) (enumerate 0 u)"
  let ?n = "sort_selectors z (?f n)" and ?t = "sort_selectors z (?f t)"
  have len: "length (?f n) = length (?f t)" and loop: "fst (equal_loop (at_place (NodeSelector_Equal z)) ?n ?t)"
    using eq by (auto simp: NodeSelectors_EqualIgnoreService_def Let_def split: if_splits prod.splits)
  have f: "map (\<lambda>x. g (snd x)) (?f u) = map g (plain_of ns_MatchLabels u)" if "\<forall>s \<in> set u. tidy_selector s" for u and g :: "NodeSelector \<Rightarrow> 'c"
    unfolding tidy_plain [OF that, symmetric] snd_filter_enumerate [of "\<lambda>s. \<not> is_service_selector s" 0 u, symmetric]
    by (simp add: comp_def)
  have c: "mset (map (\<lambda>x. sel_content (snd x)) (sort_selectors z (?f u))) = mset (map sel_content (plain_of ns_MatchLabels u))"
    if "\<forall>s \<in> set u. tidy_selector s" for u
    using sort_selectors_snd [OF z, of "?f u"] f [OF that, of sel_content] by simp
  have lab: "labels_ok (snd x)" if u: "\<forall>s \<in> set u. tidy_selector s" and x: "x \<in> set (sort_selectors z (?f u))" for u x
  proof -
    have "sel_content (snd x) \<in> set (map (\<lambda>x. sel_content (snd x)) (sort_selectors z (?f u)))"
      unfolding list.set_map using x by (rule imageI)
    also have "\<dots> = set (map sel_content (plain_of ns_MatchLabels u))" by (rule mset_eq_setD [OF c [OF u]])
    finally obtain s where "s \<in> set u" "sel_content (snd x) = sel_content s" by (auto simp: plain_of_def)
    then show ?thesis using u labels_ok_content [of "snd x" s] by (simp add: tidy_selector_def)
  qed
  have ok': "labels_ok (snd x)" if "x \<in> set ?n \<union> set ?t" for x
    using that by (elim UnE) (rule lab; use ok in blast)+
  have "map (\<lambda>x. sel_class (snd x)) ?n = map (\<lambda>x. sel_class (snd x)) ?t"
  proof (rule equal_loop_sound [where P = "\<lambda>x. labels_ok (snd x)", OF _ _ _ loop])
    show "sel_class (snd x) = sel_class (snd y)"
      if "labels_ok (snd x)" "labels_ok (snd y)" "fst (at_place (NodeSelector_Equal z) x y)" for x y
      using NodeSelector_Equal_sound [OF z that(1,2)] that(3) by (auto simp: at_place_def split: prod.splits)
    show "length ?n = length ?t" using len by (simp add: sort_selectors_content [OF z])
    show "\<forall>x \<in> set ?n \<union> set ?t. labels_ok (snd x)" using ok' by blast
  qed
  moreover have "mset (map (\<lambda>x. sel_class (snd x)) (sort_selectors z (?f u))) = mset (map sel_class (plain_of ns_MatchLabels u))"
    if "\<forall>s \<in> set u. tidy_selector s" for u
    using class_of_contents [where f = snd and g = "\<lambda>x. x", OF c [OF that]] .
  ultimately show ?thesis using ok by (metis UnCI)
qed

text \<open>A peer after a comparison: the same but for the order inside its selectors.\<close>

definition alike :: "Peer \<Rightarrow> Peer \<Rightarrow> bool" where
  "alike p q \<longleftrightarrow> same_peer p q \<and> map sel_content (pe_NodeSelectors q) = map sel_content (pe_NodeSelectors p)"

lemma alikeD:
  assumes "alike p q"
  shows "same_peer p q" "others q = others p" "Peer_Services q = Peer_Services p" "tidy_peer q = tidy_peer p"
    "matches q a = matches p a" "matches b q = matches b p" "grown A n m p q"
proof -
  have c: "map sel_content (pe_NodeSelectors q) = map sel_content (pe_NodeSelectors p)" and s: "same_peer p q"
    using assms by (simp_all add: alike_def)
  show "same_peer p q" "others q = others p" "Peer_Services q = Peer_Services p" "tidy_peer q = tidy_peer p"
    using s others_content [OF c] same_services [OF c] same_content(2) [OF c] by (simp_all add: Peer_Services_def tidy_peer_def)
  then show "matches q a = matches p a" "matches b q = matches b p" "grown A n m p q"
    by (simp_all add: matches_left matches_right grown_def)
qed

lemma alike_trans: "alike p q \<Longrightarrow> alike q r \<Longrightarrow> alike p r"
  by (auto simp: alike_def intro: same_peer_trans)

lemma Peer_EqualIgnoreService_keeps:
  assumes z: "permuting z" and eq: "Peer_EqualIgnoreService z p q = (b, p', q')" and ok: "tidy_peer p" "tidy_peer q"
  shows "alike p p' \<and> alike q q' \<and> (b \<longrightarrow> matches p q)"
proof (cases "peer_fields_differ p q")
  case False
  obtain c n t where r: "NodeSelectors_EqualIgnoreService z (pe_NodeSelectors p) (pe_NodeSelectors q) = (c, n, t)" by (metis prod.exhaust)
  have e: "b = c" "p' = p\<lparr>pe_NodeSelectors := n\<rparr>" "q' = q\<lparr>pe_NodeSelectors := t\<rparr>"
    using eq False r by (auto simp: Peer_EqualIgnoreService_def)
  have "others p = others q" if c
    unfolding others_def using ok that r by (intro EqualIgnoreService_sound [OF z]) (auto simp: tidy_peer_def)
  with EqualIgnoreService_keeps [OF z r] False show ?thesis by (simp add: e alike_def matches_def)
qed (use eq in \<open>auto simp: Peer_EqualIgnoreService_def alike_def\<close>)

lemma tidy_service_selector:
  assumes "res_Namespace r \<noteq> ''''" "res_Name r \<noteq> ''''"
  shows "tidy_selector (service_selector (service_labels r))"
proof -
  have "dom (service_labels r) = {serviceNameSpaceKey, serviceNameKey}" "ran (service_labels r) = {res_Namespace r, res_Name r}"
    by (auto simp: service_labels_def)
  then show ?thesis using assms
    by (simp add: tidy_selector_def service_selector_def labels_ok_def nil_map_def selector_service_def is_service_selector_def map_len_def)
qed

lemma Peer_AddService_tidy:
  assumes z: "permuting z" and ne: "n \<noteq> ''''" "m \<noteq> ''''" and ok: "tidy_peer p"
  shows "tidy_peer (snd (Peer_AddService z p n m))"
proof (cases "add_service_loop ns_MatchLabels n m (pe_NodeSelectors p) [link n m] []")
  case None
  then show ?thesis using ok by (simp add: Peer_AddService_def add_service_def)
next
  case (Some x)
  let ?s = "sort_Sort (pdq_resources z) Resources_Less (link n m # services_of ns_MatchLabels (pe_NodeSelectors p))"
  have "tidy_selector (service_selector (service_labels r))" if "r \<in> set ?s" for r
  proof -
    have "iteration_order (pdq_resources z)" using z by (simp add: permuting_def)
    then have "r \<in> insert (link n m) (set (services_of ns_MatchLabels (pe_NodeSelectors p)))" using that by (simp add: sort_Sort_set)
    then show ?thesis using ne services_of_nonempty [of r] by (intro tidy_service_selector) auto
  qed
  moreover have "x = (link n m # services_of ns_MatchLabels (pe_NodeSelectors p), Peer_plain p)"
    using Some by (auto simp: add_service_loop_eq split: if_splits)
  ultimately show ?thesis using ok Some
    by (auto simp: tidy_peer_def Peer_AddService_def add_service_def plain_of_def)
qed

lemma Peer_AddService_grown:
  assumes z: "permuting z" and ne: "n \<noteq> ''''" "m \<noteq> ''''" and a: "a \<in> A" "matches p a"
  shows "grown A n m p (snd (Peer_AddService z p n m)) \<and> link n m \<in> set (Peer_Services (snd (Peer_AddService z p n m)))"
proof -
  obtain f where f: "z = z\<lparr>pdq_resources := permute f\<rparr>" by (rule permuting_permute [OF z])
  let ?q = "snd (Peer_AddService z p n m)"
  have l: "link n m \<in> set (Peer_Services ?q)" by (subst f, rule cm_links.add_linked [OF ne])
  have "others ?q = others p" unfolding others_def by (subst f, subst cm_links.add_plain [OF ne]) (rule refl)
  moreover have "set (Peer_Services ?q) = insert (link n m) (set (Peer_Services p)) \<or> ?q = p"
  proof (cases "fst (Peer_AddService z p n m)")
    case True
    then have "mset (Peer_Services ?q) = add_mset (link n m) (mset (Peer_Services p))" by (metis f cm_links.add_services [OF ne])
    then show ?thesis by (metis set_mset_add_mset_insert set_mset_mset)
  next
    case False
    then show ?thesis by (metis f cm_links.add_no_change)
  qed
  moreover have "same_peer p ?q" by (simp add: Peer_AddService_def split_beta)
  ultimately show ?thesis using l a by (auto simp: grown_def)
qed

lemma link_peers_loop_grown:
  assumes z: "permuting z" and ne: "n \<noteq> ''''" "m \<noteq> ''''" and a0: "a0 \<in> A"
  shows "link_peers_loop z n m ps a = (found, ps', a') \<Longrightarrow> \<forall>p \<in> set ps. tidy_peer p \<Longrightarrow> tidy_peer a0 \<Longrightarrow> alike a0 a \<Longrightarrow>
    list_all2 (grown A n m) ps ps' \<and> (\<forall>p \<in> set ps'. tidy_peer p) \<and> alike a0 a'
    \<and> (found \<longrightarrow> (\<exists>p \<in> set ps'. link n m \<in> set (Peer_Services p) \<and> matches p a0))"
proof (induction ps arbitrary: a found ps' a')
  case (Cons p ps)
  obtain b p1 a1 where e: "Peer_EqualIgnoreService z p a = (b, p1, a1)" by (metis prod.exhaust)
  obtain r qs a2 where l: "link_peers_loop z n m ps a1 = (r, qs, a2)" by (metis prod.exhaust)
  let ?p = "if b then snd (Peer_AddService z p1 n m) else p1"
  have "tidy_peer p" "tidy_peer a" using Cons.prems alikeD(4) by auto
  note k = Peer_EqualIgnoreService_keeps [OF z e this]
  have p1: "tidy_peer p1" "grown A n m p p1" using k \<open>tidy_peer p\<close> alikeD(4,7) by blast+
  have m: "matches p1 a0" if b using k that alikeD(5,6) Cons.prems(4) by blast
  have p: "grown A n m p ?p \<and> tidy_peer ?p \<and> (b \<longrightarrow> link n m \<in> set (Peer_Services ?p) \<and> matches ?p a0)"
  proof (cases b)
    case True
    note g = Peer_AddService_grown [OF z ne a0 m [OF True]]
    then have "matches ?p a0" using m [OF True] True matches_left [of p1 ?p a0] by (simp add: grown_def)
    with g True p1 show ?thesis using Peer_AddService_tidy [OF z ne] grown_trans by auto
  qed (use p1 in simp)
  moreover have "ps' = ?p # qs" "found = (b \<or> r)" "a' = a2" using Cons.prems(1) e l by (auto simp: Let_def)
  moreover have "alike a0 a1" using k Cons.prems(4) alike_trans by blast
  ultimately show ?case using Cons.IH [OF l] Cons.prems(2,3) by auto
qed simp

text \<open>Peers after an addition: those before, grown, and behind them new ones out of \<open>A\<close>.\<close>

definition extends :: "Peer set \<Rightarrow> string \<Rightarrow> string \<Rightarrow> Peer list \<Rightarrow> Peer list \<Rightarrow> bool" where
  "extends A n m ps ps' \<longleftrightarrow> (\<exists>qs rs. ps' = qs @ rs \<and> list_all2 (grown A n m) ps qs \<and> (\<forall>r \<in> set rs. \<exists>a \<in> A. grown A n m a r))"

lemma extends_append: "list_all2 (grown A n m) ps qs \<Longrightarrow> \<forall>r \<in> set rs. \<exists>a \<in> A. grown A n m a r \<Longrightarrow> extends A n m ps (qs @ rs)"
  unfolding extends_def by blast

lemma extends_refl [simp]: "extends A n m ps ps"
  using extends_append [of A n m ps ps "[]"] by (simp add: list_all2_refl)

lemma extends_trans:
  assumes "extends A n m ps qs" "extends A n m qs rs"
  shows "extends A n m ps rs"
proof -
  obtain q1 q2 where q: "qs = q1 @ q2" "list_all2 (grown A n m) ps q1" "\<forall>r \<in> set q2. \<exists>a \<in> A. grown A n m a r"
    using assms(1) by (auto simp: extends_def)
  obtain r1 r2 where r: "rs = r1 @ r2" "list_all2 (grown A n m) qs r1" "\<forall>r \<in> set r2. \<exists>a \<in> A. grown A n m a r"
    using assms(2) by (auto simp: extends_def)
  from r(2) q(1) obtain s1 s2 where s: "r1 = s1 @ s2" "list_all2 (grown A n m) q1 s1" "list_all2 (grown A n m) q2 s2"
    by (auto simp: list_all2_append1)
  have "list_all2 (grown A n m) ps s1" by (rule list_all2_trans [OF _ q(2) s(2)]) (rule grown_trans)
  moreover have "\<forall>r \<in> set s2. \<exists>a \<in> A. grown A n m a r"
    using s(3) q(3) by (metis grown_trans in_set_conv_nth list_all2_conv_all_nth)
  ultimately show ?thesis using r(1,3) s(1) unfolding extends_def by (intro exI [of _ s1] exI [of _ "s2 @ r2"]) auto
qed

text \<open>A peer that matches \<open>a\<close> and that the service is linked to.\<close>

definition linked :: "string \<Rightarrow> string \<Rightarrow> Peer list \<Rightarrow> Peer \<Rightarrow> bool" where
  "linked n m ps a \<longleftrightarrow> (\<exists>p \<in> set ps. link n m \<in> set (Peer_Services p) \<and> matches p a)"

lemma linked_extends:
  assumes "extends A n m ps ps'" "linked n m ps a"
  shows "linked n m ps' a"
proof -
  obtain p where p: "p \<in> set ps" "link n m \<in> set (Peer_Services p)" "matches p a" using assms(2) by (auto simp: linked_def)
  obtain q where q: "q \<in> set ps'" "grown A n m p q"
    using assms(1) p(1) unfolding extends_def by (metis Un_iff in_set_conv_nth list_all2_conv_all_nth set_append)
  with p matches_left [of p q a] show ?thesis by (auto simp: linked_def grown_def)
qed

lemma update_peer_links:
  assumes z: "permuting z" and ne: "n \<noteq> ''''" "m \<noteq> ''''" and a: "a \<in> A" and ok: "\<forall>p \<in> set ps. tidy_peer p" "tidy_peer a"
  shows "extends A n m ps (update_peer z n m ps a) \<and> linked n m (update_peer z n m ps a) a \<and> (\<forall>p \<in> set (update_peer z n m ps a). tidy_peer p)"
proof -
  obtain found qs a' where l: "link_peers_loop z n m ps a = (found, qs, a')" by (metis prod.exhaust)
  have "alike a a" by (simp add: alike_def)
  note k = link_peers_loop_grown [OF z ne a l ok this]
  then have a': "matches a' a" "tidy_peer a'" "grown A n m a a'" using ok(2) alikeD(4,5,7) matches_refl by blast+
  let ?q = "snd (Peer_AddService z a' n m)"
  note g = Peer_AddService_grown [OF z ne a a'(1)]
  have q: "grown A n m a ?q" "tidy_peer ?q" "matches ?q a"
    using g a' Peer_AddService_tidy [OF z ne a'(2)] matches_left [of a' ?q a] grown_trans by (auto simp: grown_def [of _ _ _ a'])
  show ?thesis
  proof (cases found)
    case True
    with k l extends_append [of A n m ps qs "[]"] show ?thesis by (auto simp: update_peer_def linked_def)
  next
    case False
    have "extends A n m ps (qs @ [?q])" using k q(1) a by (intro extends_append) auto
    with False k l q g show ?thesis by (auto simp: update_peer_def linked_def)
  qed
qed

lemma update_peers_loop_links:
  assumes z: "permuting z" and ne: "n \<noteq> ''''" "m \<noteq> ''''"
  shows "update_peers_loop z n m adds ps c = (c', ps') \<Longrightarrow> set adds \<subseteq> A \<Longrightarrow> \<forall>p \<in> set ps \<union> set adds. tidy_peer p \<Longrightarrow>
    c' = (c \<or> adds \<noteq> []) \<and> extends A n m ps ps' \<and> (\<forall>a \<in> set adds. linked n m ps' a) \<and> (\<forall>p \<in> set ps'. tidy_peer p)"
proof (induction adds arbitrary: ps c)
  case (Cons a adds)
  let ?ps = "update_peer z n m ps a"
  have "a \<in> A" "\<forall>p \<in> set ps. tidy_peer p" "tidy_peer a" using Cons.prems by auto
  note u = update_peer_links [OF z ne this]
  have "\<forall>p \<in> set ?ps \<union> set adds. tidy_peer p" using u Cons.prems(3) by auto
  then have IH: "c' \<and> extends A n m ?ps ps' \<and> (\<forall>a \<in> set adds. linked n m ps' a) \<and> (\<forall>p \<in> set ps'. tidy_peer p)"
    using Cons.IH [of ?ps True] Cons.prems(1,2) by (simp add: update_peers_loop_Cons)
  then have "linked n m ps' a" "extends A n m ps ps'" using u linked_extends extends_trans by blast+
  with IH show ?case by simp
qed simp

lemma Peer_RemoveService_links:
  assumes z: "permuting z" and ne: "n \<noteq> ''''" "m \<noteq> ''''" and r: "Peer_RemoveService z p n m = ((found, left), q)"
  shows "(found \<longleftrightarrow> link n m \<in> set (Peer_Services p)) \<and> left = length (Peer_Services q) \<and> same_peer p q \<and> Peer_plain q = Peer_plain p
    \<and> mset (Peer_Services q) = filter_mset (\<lambda>r. r \<noteq> link n m) (mset (Peer_Services p))"
proof -
  obtain f where f: "z = z\<lparr>pdq_resources := permute f\<rparr>" by (rule permuting_permute [OF z])
  note l = cm_links.remove_found [OF ne, where z = z and f = f and p = p] cm_links.remove_size [OF ne, where z = z and f = f and p = p]
    cm_links.remove_plain [OF ne, where z = z and f = f and p = p] cm_links.remove_services [OF ne, where z = z and f = f and p = p]
  have "same_peer p q" using r by (auto simp: Peer_RemoveService_def split: prod.splits)
  with l r show ?thesis unfolding f [symmetric] by simp
qed

definition unlinked :: "string \<Rightarrow> string \<Rightarrow> Peer \<Rightarrow> Peer \<Rightarrow> bool" where
  "unlinked n m p q \<longleftrightarrow> same_peer p q \<and> Peer_plain q = Peer_plain p
    \<and> mset (Peer_Services q) = filter_mset (\<lambda>r. r \<noteq> link n m) (mset (Peer_Services p))"

lemma unlinked_empty:
  assumes "mset q = filter_mset (\<lambda>r. r \<noteq> x) (mset p)" "x \<in> set p"
  shows "q = [] \<longleftrightarrow> set p = {x}"
proof -
  have "set q = {y \<in> set p. y \<noteq> x}" using arg_cong [OF assms(1), of set_mset] by simp
  then have "q = [] \<longleftrightarrow> (\<forall>y \<in> set p. y = x)" by (simp flip: set_empty) blast
  also have "\<dots> \<longleftrightarrow> set p = {x}" using assms(2) by blast
  finally show ?thesis .
qed

lemma unlink_peers_loop_eq:
  assumes z: "permuting z" and ne: "n \<noteq> ''''" "m \<noteq> ''''"
  shows "unlink_peers_loop z n m ps = (c, ps') \<Longrightarrow>
    (c \<longleftrightarrow> (\<exists>p \<in> set ps. link n m \<in> set (Peer_Services p) \<or> Peer_Services p = []))
    \<and> list_all2 (unlinked n m) (filter (\<lambda>p. set (Peer_Services p) \<noteq> {link n m}) ps) ps'"
proof (induction ps arbitrary: c ps')
  case (Cons p ps)
  obtain found left q where r: "Peer_RemoveService z p n m = ((found, left), q)" by (metis prod.exhaust)
  obtain c1 qs where l: "unlink_peers_loop z n m ps = (c1, qs)" by (metis prod.exhaust)
  note k = Peer_RemoveService_links [OF z ne r]
  have e: "c = (c1 \<or> found \<or> left \<le> 0)" "ps' = (if \<not> found \<or> left \<ge> 1 then q # qs else qs)" using Cons.prems r l by simp_all
  show ?case
  proof (cases found)
    case True
    have "Peer_Services q = [] \<longleftrightarrow> set (Peer_Services p) = {link n m}" using k True by (intro unlinked_empty) auto
    then have "left \<ge> 1 \<longleftrightarrow> set (Peer_Services p) \<noteq> {link n m}" using k by (simp add: Suc_le_eq)
    with True e k Cons.IH [OF l] show ?thesis by (auto simp: unlinked_def)
  next
    case False
    then have "mset (Peer_Services q) = mset (Peer_Services p)" "set (Peer_Services p) \<noteq> {link n m}"
      using k by (auto simp: filter_mset_eq_conv)
    then have "left \<le> 0 \<longleftrightarrow> Peer_Services p = []" using k mset_eq_length by fastforce
    with False e k Cons.IH [OF l] \<open>set _ \<noteq> _\<close> show ?thesis by (auto simp: unlinked_def)
  qed
qed simp

section \<open>Properties of the peers\<close>

text \<open>
  The match that \<open>AddPeer\<close> asks for: the two AS numbers, the address and the node selectors in any
  order. Peers are told apart by it when those that match are the same in all other fields.
\<close>

definition match_class :: "Peer \<Rightarrow> uint32 \<times> uint32 \<times> string \<times> NodeSelector multiset" where
  "match_class p = (pe_MyASN p, pe_ASN p, pe_Addr p, mset (pe_NodeSelectors p))"

definition told_apart :: "Peer set \<Rightarrow> bool" where
  "told_apart S \<longleftrightarrow> (\<forall>p \<in> S. \<forall>q \<in> S. match_class p = match_class q \<longrightarrow> same_peer p q)"

definition peer_set :: "ConfigFile \<Rightarrow> (uint32 \<times> uint32 \<times> string \<times> NodeSelector multiset) set" where
  "peer_set cfg = match_class ` set (cf_Peers cfg)"

definition peers_wf :: "ConfigFile \<Rightarrow> bool" where
  "peers_wf cfg \<longleftrightarrow> (\<forall>p \<in> set (cf_Peers cfg). plain_peer p) \<and> distinct (map match_class (cf_Peers cfg))"

definition match_of :: "uint32 \<times> uint32 \<times> string \<times> uint16 \<times> string \<times> string \<times> string \<times> NodeSelector multiset
    \<Rightarrow> uint32 \<times> uint32 \<times> string \<times> NodeSelector multiset" where
  "match_of = (\<lambda>(my, asn, addr, _, _, _, _, sels). (my, asn, addr, sels))"

lemma match_of_class: "match_of (peer_class p) = match_class p"
  by (simp add: match_of_def peer_class_def match_class_def)

lemma map_match_class: "map match_class ps = map match_of (map peer_class ps)"
  by (simp add: match_of_class)

lemma told_apart_class: "told_apart S \<Longrightarrow> p \<in> S \<Longrightarrow> q \<in> S \<Longrightarrow> peer_class p = peer_class q \<longleftrightarrow> match_class p = match_class q"
  using match_of_class by (cases p; cases q) (fastforce simp: told_apart_def same_peer_def peer_class_def match_class_def)

text \<open>Sorters, a peer and a configurer for the examples.\<close>

definition sample_sorters :: sorters where
  "sample_sorters = \<lparr>pdq_requirements = sort_key req_key, pdq_selectors = sort_key (\<lambda>x. sel_key (snd x)),
     pdq_resources = (\<lambda>xs. xs), pdq_advertisements = Ok\<rparr>"

definition sample_peer :: "string \<Rightarrow> strmap list \<Rightarrow> Peer" where
  "sample_peer addr ms = \<lparr>pe_MyASN = 65000, pe_ASN = 65530, pe_Addr = addr, pe_Port = 179, pe_SrcAddr = '''', pe_HoldTime = '''',
     pe_RouterID = '''', pe_NodeSelectors = map service_selector ms, pe_Password = '''', pe_EBGPMultiHop = False, pe_Name = ''''\<rparr>"

definition sample_file :: "Peer list \<Rightarrow> ConfigFile" where
  "sample_file ps = \<lparr>cf_Peers = ps, cf_BGPCommunities = None, cf_Pools = []\<rparr>"

definition sample_configurer :: "Peer list \<Rightarrow> unit CMConfigurer" where
  "sample_configurer ps = \<lparr>cm_namespace = ''metallb-system'', cm_configMapName = ''config'', cm_config = Some (sample_file ps),
     cm_cmi = \<lparr>ConfigMaps_Get = (\<lambda>_ w. (Inr None, w)), ConfigMaps_Patch = (\<lambda>_ _ w. (None, w))\<rparr>\<rparr>"

lemma sample_sorters_permuting: "permuting sample_sorters"
  by (simp add: permuting_def sample_sorters_def)

lemma map_sort_key: "map f (sort_key f xs) = sort (map f xs)"
  by (intro properties_for_sort [symmetric]) simp_all

lemma sample_sorters_sorting: "sorting sample_sorters"
  by (simp add: sorting_def sample_sorters_def map_sort_key)

text \<open>
  C35: On peers whose selectors have labels only, none of them with an empty value, the file is
  a set of peers, told apart by what \<open>AddPeer\<close> calls a match: the AS numbers, the address and the
  node selectors in any order. As long as peers that match do not differ in another field, \<open>AddPeer\<close>
  inserts the peer and says whether it was new, \<open>RemovePeer\<close> takes it out; no peer is ever in the
  file twice, and the pools stay. The sorts inside the comparisons, which write into the file, do
  not show.
\<close>

theorem config_peers_refine_set:
  assumes "permuting z" "sorting z" "peers_wf cfg" "plain_peer a" "told_apart (insert a (set (cf_Peers cfg)))"
  shows "(case AddPeer z cfg (Some a) of (changed, cfg', _) \<Rightarrow>
      (changed \<longleftrightarrow> match_class a \<notin> peer_set cfg) \<and> peer_set cfg' = insert (match_class a) (peer_set cfg)
      \<and> peers_wf cfg' \<and> cf_Pools cfg' = cf_Pools cfg)
    \<and> (case RemovePeer z cfg (Some a) of (cfg', _) \<Rightarrow>
      peer_set cfg' = peer_set cfg - {match_class a} \<and> peers_wf cfg' \<and> cf_Pools cfg' = cf_Pools cfg)"
proof -
  let ?P = "cf_Peers cfg"
  have plain: "\<forall>p \<in> set ?P. plain_peer p" and d: "distinct (map match_class ?P)"
    using assms(3) by (simp_all add: peers_wf_def)
  have iff: "peer_class p = peer_class a \<longleftrightarrow> match_class p = match_class a" if "p \<in> set ?P" for p
    using told_apart_class [OF assms(5), of p a] that by simp
  obtain found ps a1 where f: "find_peer_loop z (cf_Peers cfg) a = (found, ps, a1)" by (metis prod.exhaust)
  obtain qs a2 where r: "remove_peer_loop z (cf_Peers cfg) a = (qs, a2)" by (metis prod.exhaust)
  note F = find_peer_loop_eq [OF assms(1,2) plain assms(4) f] and R = remove_peer_loop_eq [OF assms(1,2) plain assms(4) r]
  have s: "map match_class ps = map match_class ?P" using F by (simp only: map_match_class)
  have t: "map match_class qs = filter (\<lambda>c. c \<noteq> match_class a) (map match_class ?P)"
  proof -
    have "map peer_class qs = filter (\<lambda>c. c \<noteq> peer_class a) (map peer_class ?P)" using R by blast
    then have "map peer_class qs = map peer_class (filter (\<lambda>p. peer_class p \<noteq> peer_class a) ?P)" by (simp only: filter_map comp_def)
    then have "map match_class qs = map match_class (filter (\<lambda>p. peer_class p \<noteq> peer_class a) ?P)" by (simp only: map_match_class)
    also have "filter (\<lambda>p. peer_class p \<noteq> peer_class a) ?P = filter (\<lambda>p. match_class p \<noteq> match_class a) ?P"
      using iff by (intro filter_cong) auto
    finally show ?thesis by (simp only: filter_map comp_def)
  qed
  have a: "match_class a1 = match_class a" "plain_peer a1" "\<forall>p \<in> set ps. plain_peer p" using F by (metis match_of_class)+
  have "found \<longleftrightarrow> (\<exists>p \<in> set ?P. peer_class p = peer_class a)" using F by (metis (no_types, lifting) image_iff)
  then have "found \<longleftrightarrow> match_class a \<in> peer_set cfg" using iff by (auto simp: peer_set_def image_iff) metis
  moreover have "match_class ` set ps = peer_set cfg" "distinct (map match_class ps)"
    unfolding peer_set_def using d s by (metis list.set_map)+
  ultimately have add: "case AddPeer z cfg (Some a) of (changed, cfg', _) \<Rightarrow>
      (changed \<longleftrightarrow> match_class a \<notin> peer_set cfg) \<and> peer_set cfg' = insert (match_class a) (peer_set cfg)
      \<and> peers_wf cfg' \<and> cf_Pools cfg' = cf_Pools cfg"
    using a by (auto simp: AddPeer_def f peers_wf_def peer_set_def)
  have "match_class ` set qs = peer_set cfg - {match_class a}" using arg_cong [OF t, of set] by (auto simp: peer_set_def)
  moreover have "distinct (map match_class qs)" unfolding t using d by (rule distinct_filter)
  ultimately show ?thesis using add R by (simp add: RemovePeer_def r peers_wf_def peer_set_def)
qed

theorem config_peers_refine_set_witness:
  "fst (AddPeer sample_sorters (sample_file []) (Some (sample_peer ''10.0.0.1'' [[''host'' \<mapsto> ''a'']])))
   \<and> peer_set (fst (RemovePeer sample_sorters (sample_file [sample_peer ''10.0.0.1'' [[''host'' \<mapsto> ''a'']]])
       (Some (sample_peer ''10.0.0.1'' [[''host'' \<mapsto> ''a'']])))) = {}"
proof -
  let ?p = "sample_peer ''10.0.0.1'' [[''host'' \<mapsto> ''a'']]"
  have p: "plain_peer ?p" by (simp add: sample_peer_def plain_peer_def plain_selector_def service_selector_def)
  have f: "peers_wf (sample_file [])" "peers_wf (sample_file [?p])" using p by (simp_all add: peers_wf_def sample_file_def)
  have t: "told_apart (insert ?p (set (cf_Peers (sample_file []))))" "told_apart (insert ?p (set (cf_Peers (sample_file [?p]))))"
    by (simp_all add: told_apart_def sample_file_def)
  note z = sample_sorters_permuting sample_sorters_sorting
  from config_peers_refine_set [OF z f(1) p t(1)] config_peers_refine_set [OF z f(2) p t(2)] show ?thesis
    by (auto simp: peer_set_def sample_file_def split: prod.splits)
qed

text \<open>
  C37: Linking peers to a service through the configurer of the ConfigMap, for peers with
  selectors as the controller writes them. Every peer of the call ends up linked: the file has a
  peer that the service is linked to and that matches it in the AS numbers, the address, the port,
  the hold time, the password, the router ID and in the node selectors that link no service. The
  peers that were in the file stay in their places and keep their fields, their services and their
  other selectors, and the service is linked to none of them that matches no peer of the call;
  what is new in the file is one of the peers of the call. Nothing but the peers changes, and no
  change goes unreported.
\<close>

theorem configmap_update_links:
  assumes "permuting z" "n \<noteq> ''''" "m \<noteq> ''''" "cm_config c = Some cfg" "\<forall>p \<in> set (cf_Peers cfg) \<union> set adds. tidy_peer p"
  shows "\<exists>ch ps. CM_UpdatePeersByService z c adds n m = (Ok ch, c\<lparr>cm_config := Some (cfg\<lparr>cf_Peers := ps\<rparr>)\<rparr>)
    \<and> extends (set adds) n m (cf_Peers cfg) ps \<and> (\<forall>a \<in> set adds. linked n m ps a) \<and> (\<forall>p \<in> set ps. tidy_peer p)
    \<and> (ps \<noteq> cf_Peers cfg \<longrightarrow> ch)"
proof -
  obtain ch ps where l: "update_peers_loop z n m adds (cf_Peers cfg) False = (ch, ps)" by (metis prod.exhaust)
  have "ps = cf_Peers cfg" if "adds = []" using l that by simp
  with update_peers_loop_links [OF assms(1-3) l order_refl assms(5)] l assms(4) show ?thesis by (auto simp: CM_UpdatePeersByService_def)
qed

text \<open>A peer of one node, and the same peer with a service linked to it.\<close>

lemma sample_peer_tidy: "tidy_peer (sample_peer addr [[''host'' \<mapsto> ''a'']])"
  by (simp add: sample_peer_def tidy_peer_def tidy_selector_def service_selector_def labels_ok_def nil_map_def selector_service_def
      is_service_selector_def map_get_def serviceNameKey_def serviceNameSpaceKey_def)

theorem configmap_update_links_witness:
  "\<exists>ch ps. CM_UpdatePeersByService sample_sorters (sample_configurer []) [sample_peer ''10.0.0.1'' [[''host'' \<mapsto> ''a'']]] ''default'' ''web''
      = (Ok ch, (sample_configurer [])\<lparr>cm_config := Some (sample_file ps)\<rparr>)
    \<and> linked ''default'' ''web'' ps (sample_peer ''10.0.0.1'' [[''host'' \<mapsto> ''a'']]) \<and> ch"
proof -
  let ?a = "sample_peer ''10.0.0.1'' [[''host'' \<mapsto> ''a'']]"
  have cfg: "cm_config (sample_configurer []) = Some (sample_file [])" "\<And>ps. (sample_file [])\<lparr>cf_Peers := ps\<rparr> = sample_file ps"
    "cf_Peers (sample_file []) = []"
    by (simp_all add: sample_configurer_def sample_file_def)
  have "\<forall>p \<in> set (cf_Peers (sample_file [])) \<union> set [?a]. tidy_peer p" by (simp add: cfg sample_peer_tidy)
  from configmap_update_links [OF sample_sorters_permuting _ _ cfg(1) this, of "''default''" "''web''"]
  obtain ch ps where r: "CM_UpdatePeersByService sample_sorters (sample_configurer []) [?a] ''default'' ''web''
      = (Ok ch, (sample_configurer [])\<lparr>cm_config := Some (sample_file ps)\<rparr>)" "linked ''default'' ''web'' ps ?a" "ps \<noteq> [] \<longrightarrow> ch"
    by (auto simp: cfg)
  moreover have "ps \<noteq> []" using r(2) by (auto simp: linked_def)
  ultimately show ?thesis by blast
qed

text \<open>
  C38: Unlinking a service through the configurer of the ConfigMap: exactly the peers that the
  service alone was linked to are removed; all others keep their fields, their other services and
  their other selectors, and are no longer linked to the service. A change is also reported for a
  peer that no service is linked to, though it stays as it is.
\<close>

theorem configmap_remove_unlinks:
  assumes "permuting z" "n \<noteq> ''''" "m \<noteq> ''''" "cm_config c = Some cfg"
  shows "\<exists>ps. CM_RemovePeersByService z c n m =
      (Ok (\<exists>p \<in> set (cf_Peers cfg). link n m \<in> set (Peer_Services p) \<or> Peer_Services p = []), c\<lparr>cm_config := Some (cfg\<lparr>cf_Peers := ps\<rparr>)\<rparr>)
    \<and> list_all2 (unlinked n m) (filter (\<lambda>p. set (Peer_Services p) \<noteq> {link n m}) (cf_Peers cfg)) ps"
proof -
  obtain ch ps where l: "unlink_peers_loop z n m (cf_Peers cfg) = (ch, ps)" by (metis prod.exhaust)
  then have "cm_unlink_loop z n m (cf_Peers cfg) [] False = (ch, ps)" by (simp add: cm_unlink_loop_eq)
  with unlink_peers_loop_eq [OF assms(1-3) l] assms(4) show ?thesis by (auto simp: CM_RemovePeersByService_def)
qed

theorem configmap_remove_unlinks_witness:
  "CM_RemovePeersByService sample_sorters (sample_configurer [sample_peer ''10.0.0.1'' [service_labels (link ''default'' ''web'')]]) ''default'' ''web''
      = (Ok True, sample_configurer [])"
proof -
  let ?p = "sample_peer ''10.0.0.1'' [service_labels (link ''default'' ''web'')]"
  have s: "Peer_Services ?p = [link ''default'' ''web'']"
    by (simp add: sample_peer_def Peer_Services_def services_of_def selector_service_def service_labels_def nil_map_def map_get_def
        serviceNameKey_def serviceNameSpaceKey_def)
  show ?thesis
    using configmap_remove_unlinks [OF sample_sorters_permuting, of "''default''" "''web''" "sample_configurer [?p]" "sample_file [?p]"]
    by (auto simp: sample_configurer_def sample_file_def s)
qed

end
