(* ===== verification/MetalLB_ConfigPools_Laws.thy ===== *)
theory MetalLB_ConfigPools_Laws
  imports MetalLB_ConfigMap_Laws
begin

text \<open>
  The address pools of the configuration file. MetalLB does not take two pools that differ in
  their name only, so the file has one pool for each content, with the names joined by commas: it
  refines a map from contents to sets of names. The comparison of pools follows pointers without
  a check; when adding and removing a pool panic is stated exactly. Then the operations of the
  configurer of the ConfigMap are compared with those of the file. At the end stand the cases in
  which the comparisons are not what their names say.
\<close>

section \<open>Comparing pools\<close>

definition pool_class :: "AddressPool \<Rightarrow> string \<times> bool \<times> bool option \<times> string multiset" where
  "pool_class p = (ap_Protocol p, ap_AvoidBuggyIPs p, ap_AutoAssign p, mset (ap_Addresses p))"

definition pool_names :: "AddressPool \<Rightarrow> string list" where
  "pool_names p = split_on nameJoiner (ap_Name p)"

definition pool_wf :: "AddressPool \<Rightarrow> bool" where
  "pool_wf p \<longleftrightarrow> ap_AutoAssign p \<noteq> None \<and> ap_BGPAdvertisements p = [] \<and> distinct (pool_names p)"

text \<open>What a comparison leaves of a pool: everything but the order of its addresses.\<close>

definition same_pool :: "AddressPool \<Rightarrow> AddressPool \<Rightarrow> bool" where
  "same_pool p q \<longleftrightarrow> pool_class q = pool_class p \<and> ap_Name q = ap_Name p \<and> ap_BGPAdvertisements q = ap_BGPAdvertisements p"

lemma same_pool_refl [simp]: "same_pool p p"
  by (simp add: same_pool_def)

lemma same_pool_sorted [simp]: "same_pool p (p\<lparr>ap_Addresses := sort (ap_Addresses p)\<rparr>)"
  by (simp add: same_pool_def pool_class_def)

lemma same_pool_trans: "same_pool p q \<Longrightarrow> same_pool q r \<Longrightarrow> same_pool p r"
  by (simp add: same_pool_def)

lemma same_pool_wf: "same_pool p q \<Longrightarrow> pool_wf q = pool_wf p"
  by (simp add: same_pool_def pool_wf_def pool_names_def pool_class_def)

text \<open>Two pools on which the comparison follows a nil pointer: it gets to \<open>AutoAssign\<close>, and one is not set.\<close>

definition clash :: "AddressPool \<Rightarrow> AddressPool \<Rightarrow> bool" where
  "clash a p \<longleftrightarrow> ap_Protocol a = ap_Protocol p \<and> ap_AvoidBuggyIPs a = ap_AvoidBuggyIPs p
     \<and> (ap_AutoAssign a = None \<or> ap_AutoAssign p = None)"

lemma addrs_equal_length: "length vs = length ws \<Longrightarrow> addrs_equal vs ws = Ok (vs = ws)"
  by (induction vs ws rule: list_induct2) auto

lemma EqualIgnoreName_clash: "clash a p \<Longrightarrow> AddressPool_EqualIgnoreName z a p = Panic"
  by (cases "ap_AutoAssign a"; cases "ap_AutoAssign p") (simp_all add: clash_def AddressPool_EqualIgnoreName_def)

lemma EqualIgnoreName_result:
  assumes advs: "ap_BGPAdvertisements a = []" "ap_BGPAdvertisements p = []" and c: "\<not> clash a p"
  obtains a' p' where "AddressPool_EqualIgnoreName z a p = Ok (pool_class a = pool_class p, a', p')" "same_pool a a'" "same_pool p p'"
proof (cases "ap_Protocol a = ap_Protocol p \<and> ap_AvoidBuggyIPs a = ap_AvoidBuggyIPs p")
  case False
  then have "AddressPool_EqualIgnoreName z a p = Ok (False, a, p)" "pool_class a \<noteq> pool_class p"
    by (auto simp: AddressPool_EqualIgnoreName_def pool_class_def)
  then show thesis using that [of a p] by simp
next
  case both: True
  then obtain x y where auto: "ap_AutoAssign a = Some x" "ap_AutoAssign p = Some y" using c by (auto simp: clash_def)
  show thesis
  proof (cases "ap_Protocol a = ap_Protocol p \<and> ap_AvoidBuggyIPs a = ap_AvoidBuggyIPs p \<and> x = y \<and> length (ap_Addresses a) = length (ap_Addresses p)")
    case False
    then have "AddressPool_EqualIgnoreName z a p = Ok (False, a, p)" "pool_class a \<noteq> pool_class p"
      using auto by (auto simp: AddressPool_EqualIgnoreName_def pool_class_def dest: mset_eq_length)
    then show thesis using that [of a p] by simp
  next
    case True
    let ?a = "a\<lparr>ap_Addresses := sort (ap_Addresses a)\<rparr>" and ?p = "p\<lparr>ap_Addresses := sort (ap_Addresses p)\<rparr>"
    have "pool_class a = pool_class p \<longleftrightarrow> sort (ap_Addresses a) = sort (ap_Addresses p)"
      using True auto by (simp add: pool_class_def sort_eq_iff_mset)
    then have "AddressPool_EqualIgnoreName z a p = Ok (pool_class a = pool_class p, ?a, ?p)"
      using True auto advs
      by (auto simp: AddressPool_EqualIgnoreName_def Let_def sort_advertisements_def addrs_equal_length)
    then show thesis using that by simp
  qed
qed

lemma EqualIgnoreName_wf:
  assumes "pool_wf a" "pool_wf p"
  obtains a' p' where "AddressPool_EqualIgnoreName z a p = Ok (pool_class a = pool_class p, a', p')" "same_pool a a'" "same_pool p p'"
proof -
  have "ap_BGPAdvertisements a = []" "ap_BGPAdvertisements p = []" "\<not> clash a p" using assms by (auto simp: pool_wf_def clash_def)
  then show thesis using that by (rule EqualIgnoreName_result)
qed

lemma Equal_wf:
  assumes "pool_wf a" "pool_wf p"
  obtains a' p' where "AddressPool_Equal z a p = Ok (pool_class a = pool_class p \<and> ap_Name a = ap_Name p, a', p')" "same_pool a a'" "same_pool p p'"
proof -
  obtain a' p' where e: "AddressPool_EqualIgnoreName z a p = Ok (pool_class a = pool_class p, a', p')" "same_pool a a'" "same_pool p p'"
    using assms by (rule EqualIgnoreName_wf)
  then show thesis using that [of a' p'] by (simp add: AddressPool_Equal_def same_pool_def)
qed

section \<open>Names\<close>

abbreviation no_comma :: "string \<Rightarrow> bool" where
  "no_comma s \<equiv> CHR '','' \<notin> set s"

lemma pool_names_single: "no_comma n \<Longrightarrow> pool_names (p\<lparr>ap_Name := n\<rparr>) = [n]"
  by (simp add: pool_names_def nameJoiner_def split_char_notin)

lemma pool_names_join: "xs \<noteq> [] \<Longrightarrow> \<forall>x \<in> set xs. no_comma x \<Longrightarrow> pool_names (p\<lparr>ap_Name := join_with nameJoiner xs\<rparr>) = xs"
  by (simp add: pool_names_def nameJoiner_def split_join)

lemma pool_names_no_comma: "x \<in> set (pool_names p) \<Longrightarrow> no_comma x"
  by (auto simp: pool_names_def nameJoiner_def dest: split_char_parts)

lemma pool_names_eq_single: "no_comma n \<Longrightarrow> ap_Name p = n \<longleftrightarrow> pool_names p = [n]"
  by (metis join_split join_with.simps(2) nameJoiner_def pool_names_def split_char_notin)

lemma pool_names_neq_Nil [simp]: "pool_names p \<noteq> []"
  by (simp add: pool_names_def)

lemma distinct_eq_single: "distinct xs \<Longrightarrow> xs \<noteq> [] \<Longrightarrow> xs = [x] \<longleftrightarrow> set xs - {x} = {}"
  by (cases xs; cases "tl xs") auto

text \<open>What the file says of a pool: its content, and the names of it.\<close>

definition pool_view :: "AddressPool \<Rightarrow> (string \<times> bool \<times> bool option \<times> string multiset) \<times> string set" where
  "pool_view p = (pool_class p, set (pool_names p))"

lemma same_pool_view: "same_pool p q \<Longrightarrow> pool_view q = pool_view p"
  by (simp add: same_pool_def pool_view_def pool_names_def)

lemma add_name_view:
  assumes "pool_wf p" "no_comma n" "n \<notin> set (pool_names p)"
  shows "pool_view (p\<lparr>ap_Name := join_with nameJoiner (sort (pool_names p @ [n]))\<rparr>) = (pool_class p, insert n (set (pool_names p)))
    \<and> pool_wf (p\<lparr>ap_Name := join_with nameJoiner (sort (pool_names p @ [n]))\<rparr>)"
proof -
  have "sort (pool_names p @ [n]) \<noteq> []" by (metis append_is_Nil_conv length_0_conv length_sort not_Cons_self2)
  moreover have "\<forall>x \<in> set (sort (pool_names p @ [n])). no_comma x" using assms(2) pool_names_no_comma by auto
  ultimately have "pool_names (p\<lparr>ap_Name := join_with nameJoiner (sort (pool_names p @ [n]))\<rparr>) = sort (pool_names p @ [n])"
    by (rule pool_names_join)
  with assms show ?thesis by (simp add: pool_view_def pool_wf_def pool_class_def)
qed

lemma remove_name_view:
  assumes "pool_wf p" "set (pool_names p) - {n} \<noteq> {}"
  defines "q \<equiv> p\<lparr>ap_Name := join_with nameJoiner (sort (filter (\<lambda>x. x \<noteq> n) (pool_names p)))\<rparr>"
  shows "pool_view q = (pool_class p, set (pool_names p) - {n}) \<and> pool_wf q"
proof -
  let ?ns = "sort (filter (\<lambda>x. x \<noteq> n) (pool_names p))"
  have s: "set ?ns = set (pool_names p) - {n}" by auto
  then have "?ns \<noteq> []" using assms(2) by (metis set_empty)
  moreover have "\<forall>x \<in> set ?ns. no_comma x" using pool_names_no_comma by auto
  ultimately have "pool_names q = ?ns" unfolding q_def by (rule pool_names_join)
  with assms s show ?thesis by (simp add: pool_view_def pool_wf_def pool_class_def)
qed

section \<open>The loops\<close>

definition add_name :: "'c \<Rightarrow> 'n \<Rightarrow> 'c \<times> 'n set \<Rightarrow> 'c \<times> 'n set" where
  "add_name c n v = (fst v, if fst v = c then insert n (snd v) else snd v)"

lemma add_name_other: "c \<notin> pool_class ` set ps \<Longrightarrow> map (add_name c n) (map pool_view ps) = map pool_view ps"
  by (induction ps) (auto simp: add_name_def pool_view_def)

lemma add_name_there: "n \<in> N \<Longrightarrow> add_name c n (c, N) = (c, N)"
  by (auto simp: add_name_def)

text \<open>The result of the loop: whether it stopped at a pool, and whether the name was new there.\<close>

definition add_result :: "AddressPool list \<Rightarrow> AddressPool \<Rightarrow> bool option" where
  "add_result ps a = map_option (\<lambda>N. ap_Name a \<notin> N) (map_of (map pool_view ps) (pool_class a))"

lemma add_result_Cons:
  "add_result (p # ps) a = (if pool_class p = pool_class a then Some (ap_Name a \<notin> set (pool_names p)) else add_result ps a)"
  by (auto simp: add_result_def pool_view_def)

lemma add_result_same: "same_pool a b \<Longrightarrow> add_result ps b = add_result ps a"
  by (simp add: add_result_def same_pool_def)

text \<open>The two comparisons a loop makes of a pool.\<close>

lemma compare_pools:
  assumes "pool_wf p" "pool_wf a"
  obtains p1 a1 p2 a2 where "AddressPool_Equal z p a = Ok (pool_class p = pool_class a \<and> ap_Name p = ap_Name a, p1, a1)"
    "AddressPool_EqualIgnoreName z p1 a1 = Ok (pool_class p = pool_class a, p2, a2)"
    "same_pool p p1" "same_pool a a1" "same_pool p p2" "same_pool a a2"
proof -
  obtain p1 a1 where e: "AddressPool_Equal z p a = Ok (pool_class p = pool_class a \<and> ap_Name p = ap_Name a, p1, a1)"
    "same_pool p p1" "same_pool a a1" using assms by (rule Equal_wf)
  have wf: "pool_wf p1" "pool_wf a1" using e assms same_pool_wf by auto
  obtain p2 a2 where i: "AddressPool_EqualIgnoreName z p1 a1 = Ok (pool_class p1 = pool_class a1, p2, a2)"
    "same_pool p1 p2" "same_pool a1 a2" using wf by (rule EqualIgnoreName_wf)
  show thesis using that [OF e(1) _ e(2,3)] i e same_pool_trans by (simp add: same_pool_def)
qed

lemma add_pool_loop_view:
  "\<forall>p \<in> set ps. pool_wf p \<Longrightarrow> distinct (map pool_class ps) \<Longrightarrow> pool_wf a \<Longrightarrow> no_comma (ap_Name a) \<Longrightarrow>
    \<exists>ps' a'. add_pool_loop z ps a = Ok (add_result ps a, ps', a') \<and> same_pool a a' \<and> (\<forall>p \<in> set ps'. pool_wf p)
      \<and> map pool_view ps' = map (add_name (pool_class a) (ap_Name a)) (map pool_view ps)"
proof (induction ps arbitrary: a)
  case (Cons p ps)
  have "pool_wf p" "pool_wf a" using Cons.prems by simp_all
  then obtain p1 a1 p2 a2 where e: "AddressPool_Equal z p a = Ok (pool_class p = pool_class a \<and> ap_Name p = ap_Name a, p1, a1)"
    and i: "AddressPool_EqualIgnoreName z p1 a1 = Ok (pool_class p = pool_class a, p2, a2)"
    and s1: "same_pool p p1" "same_pool a a1" and s: "same_pool p p2" "same_pool a a2" by (rule compare_pools)
  note view = same_pool_view [OF s1(1)] same_pool_view [OF s(1)]
    and wf2 = same_pool_wf [OF s(1)] same_pool_wf [OF s(2)] same_pool_wf [OF s1(1)]
  have tl: "map (add_name (pool_class p) (ap_Name a)) (map pool_view ps) = map pool_view ps" using Cons.prems(2) by (intro add_name_other) auto
  consider "pool_class p = pool_class a" "ap_Name p = ap_Name a" | "pool_class p = pool_class a" "ap_Name p \<noteq> ap_Name a" | "pool_class p \<noteq> pool_class a"
    by auto
  then show ?case
  proof cases
    case 1
    then have "ap_Name a \<in> set (pool_names p)" using Cons.prems(4) pool_names_eq_single [of "ap_Name a" p] by simp
    with 1 tl view wf2 s1 e Cons.prems show ?thesis by (simp add: add_result_Cons add_name_there pool_view_def)
  next
    case 2
    have n: "split_on nameJoiner (ap_Name p2) = pool_names p" "ap_Name a2 = ap_Name a" using s by (simp_all add: same_pool_def pool_names_def)
    then have n2: "pool_names p2 = pool_names p" by (simp add: pool_names_def)
    show ?thesis
    proof (cases "ap_Name a \<in> set (pool_names p)")
      case True
      with 2 tl view wf2 e i n s Cons.prems show ?thesis by (simp add: add_result_Cons add_name_there pool_view_def)
    next
      case False
      note v = add_name_view [of p2 "ap_Name a", unfolded n2, OF _ Cons.prems(4) False]
      have "pool_class p2 = pool_class p" using s by (simp add: same_pool_def)
      with 2 tl v wf2 e i n s False Cons.prems show ?thesis by (simp add: add_result_Cons add_name_def pool_view_def)
    qed
  next
    case 3
    have "pool_class a2 = pool_class a" "ap_Name a2 = ap_Name a" using s by (simp_all add: same_pool_def)
    moreover from this obtain ps' a' where "add_pool_loop z ps a2 = Ok (add_result ps a2, ps', a')" "same_pool a2 a'" "\<forall>p \<in> set ps'. pool_wf p"
      "map pool_view ps' = map (add_name (pool_class a) (ap_Name a)) (map pool_view ps)"
      using Cons.IH [of a2] Cons.prems wf2 by auto
    moreover have "add_name (pool_class a) (ap_Name a) (pool_view p) = pool_view p" using 3 by (simp add: add_name_def pool_view_def)
    ultimately show ?thesis using 3 e i s view wf2 Cons.prems add_result_same [OF s(2)] same_pool_trans [OF s(2)]
      by (simp add: add_result_Cons)
  qed
qed (simp add: add_result_def)

definition drop_name :: "'c \<Rightarrow> 'n \<Rightarrow> ('c \<times> 'n set) list \<Rightarrow> ('c \<times> 'n set) list" where
  "drop_name c n vs = filter (\<lambda>v. snd v \<noteq> {}) (map (\<lambda>v. (fst v, if fst v = c then snd v - {n} else snd v)) vs)"

lemma drop_name_Cons:
  "drop_name c n (pool_view p # vs) = (if pool_class p \<noteq> c then pool_view p # drop_name c n vs
     else if set (pool_names p) - {n} = {} then drop_name c n vs else (c, set (pool_names p) - {n}) # drop_name c n vs)"
  by (auto simp: drop_name_def pool_view_def)

lemma remove_pool_loop_view:
  "\<forall>p \<in> set ps. pool_wf p \<Longrightarrow> pool_wf a \<Longrightarrow> no_comma (ap_Name a) \<Longrightarrow>
    \<exists>ps' a'. remove_pool_loop z ps a = Ok (ps', a') \<and> same_pool a a' \<and> (\<forall>p \<in> set ps'. pool_wf p)
      \<and> map pool_view ps' = drop_name (pool_class a) (ap_Name a) (map pool_view ps)"
proof (induction ps arbitrary: a)
  case (Cons p ps)
  have wf: "pool_wf p" "pool_wf a" using Cons.prems by simp_all
  then obtain p1 a1 p2 a2 where e: "AddressPool_Equal z p a = Ok (pool_class p = pool_class a \<and> ap_Name p = ap_Name a, p1, a1)"
    and i: "AddressPool_EqualIgnoreName z p1 a1 = Ok (pool_class p = pool_class a, p2, a2)"
    and s1: "same_pool p p1" "same_pool a a1" and s: "same_pool p p2" "same_pool a a2" by (rule compare_pools)
  have IH: "\<exists>ps' a'. remove_pool_loop z ps b = Ok (ps', a') \<and> same_pool a a' \<and> (\<forall>p \<in> set ps'. pool_wf p)
      \<and> map pool_view ps' = drop_name (pool_class a) (ap_Name a) (map pool_view ps)" if b: "same_pool a b" for b
  proof -
    have "pool_class b = pool_class a" "ap_Name b = ap_Name a" using b by (simp_all add: same_pool_def)
    then show ?thesis using Cons.IH [of b] Cons.prems same_pool_wf [OF b] same_pool_trans [OF b] by fastforce
  qed
  have single: "ap_Name p = ap_Name a \<longleftrightarrow> set (pool_names p) - {ap_Name a} = {}"
    using Cons.prems(3) wf(1) distinct_eq_single [of "pool_names p"] pool_names_eq_single [of "ap_Name a" p] by (simp add: pool_wf_def)
  consider "pool_class p = pool_class a" "ap_Name p = ap_Name a" | "pool_class p = pool_class a" "ap_Name p \<noteq> ap_Name a" | "pool_class p \<noteq> pool_class a"
    by auto
  then show ?case
  proof cases
    case 1
    with single e IH [OF s1(2)] show ?thesis by (simp add: drop_name_Cons)
  next
    case 2
    have n: "split_on nameJoiner (ap_Name p2) = pool_names p" "ap_Name a2 = ap_Name a" "pool_names p2 = pool_names p" "pool_class p2 = pool_class p"
      using s by (simp_all add: same_pool_def pool_names_def)
    have "set (pool_names p) - {ap_Name a} \<noteq> {}" using 2 single by simp
    note v = remove_name_view [of p2 "ap_Name a", unfolded n(3,4), OF _ this]
    obtain ps' a' where "remove_pool_loop z ps a2 = Ok (ps', a')" "same_pool a a'" "\<forall>p \<in> set ps'. pool_wf p"
      "map pool_view ps' = drop_name (pool_class a) (ap_Name a) (map pool_view ps)" using IH [OF s(2)] by blast
    with 2 e i n v wf same_pool_wf [OF s(1)] single show ?thesis by (simp add: drop_name_Cons)
  next
    case 3
    obtain ps' a' where "remove_pool_loop z ps a2 = Ok (ps', a')" "same_pool a a'" "\<forall>p \<in> set ps'. pool_wf p"
      "map pool_view ps' = drop_name (pool_class a) (ap_Name a) (map pool_view ps)" using IH [OF s(2)] by blast
    with 3 e i wf same_pool_wf [OF s(1)] same_pool_view [OF s(1)] show ?thesis by (simp add: drop_name_Cons)
  qed
qed (simp add: drop_name_def)

section \<open>The pools as a map\<close>

definition pool_map :: "ConfigFile \<Rightarrow> (string \<times> bool \<times> bool option \<times> string multiset) \<rightharpoonup> string set" where
  "pool_map cfg = map_of (map pool_view (cf_Pools cfg))"

definition pools_wf :: "ConfigFile \<Rightarrow> bool" where
  "pools_wf cfg \<longleftrightarrow> (\<forall>p \<in> set (cf_Pools cfg). pool_wf p) \<and> distinct (map pool_class (cf_Pools cfg))"

definition names_at :: "('c \<rightharpoonup> 'n set) \<Rightarrow> 'c \<Rightarrow> 'n set" where
  "names_at m c = (case m c of None \<Rightarrow> {} | Some N \<Rightarrow> N)"

lemma map_fst_view: "map fst (map pool_view ps) = map pool_class ps"
  by (simp add: pool_view_def)

lemma map_of_add_name:
  "map_of (map (add_name c n) vs) = (case map_of vs c of None \<Rightarrow> map_of vs | Some N \<Rightarrow> (map_of vs)(c \<mapsto> insert n N))"
  by (induction vs) (auto simp: add_name_def fun_eq_iff split: option.splits)

lemma fst_drop_name: "set (map fst (drop_name c n vs)) \<subseteq> set (map fst vs)"
  by (force simp: drop_name_def)

lemma distinct_drop_name: "distinct (map fst vs) \<Longrightarrow> distinct (map fst (drop_name c n vs))"
  by (simp add: drop_name_def distinct_map_filter comp_def)

lemma map_of_drop_name:
  assumes "distinct (map fst vs)" "\<forall>v \<in> set vs. snd v \<noteq> {}"
  shows "map_of (drop_name c n vs) = (map_of vs)(c := if names_at (map_of vs) c - {n} = {} then None else Some (names_at (map_of vs) c - {n}))"
  using assms
proof (induction vs)
  case (Cons v vs)
  then have "fst v \<notin> set (map fst vs)" by simp
  then have "map_of (drop_name c n vs) (fst v) = None" "map_of vs (fst v) = None"
    using fst_drop_name [of c n vs] by (metis map_of_eq_None_iff list.set_map subsetD)+
  with Cons show ?case by (cases v) (auto simp: drop_name_def names_at_def fun_eq_iff)
qed (auto simp: drop_name_def names_at_def)

lemma AddAddressPool_map:
  assumes "pools_wf cfg" "pool_wf a" "no_comma (ap_Name a)"
  obtains cfg' a' where "AddAddressPool z cfg (Some a) = Ok (ap_Name a \<notin> names_at (pool_map cfg) (pool_class a), cfg', Some a')"
    "pool_map cfg' = (pool_map cfg)(pool_class a \<mapsto> insert (ap_Name a) (names_at (pool_map cfg) (pool_class a)))"
    "pools_wf cfg'" "cf_Peers cfg' = cf_Peers cfg" "same_pool a a'"
proof -
  have wf: "\<forall>p \<in> set (cf_Pools cfg). pool_wf p" "distinct (map pool_class (cf_Pools cfg))" using assms(1) by (simp_all add: pools_wf_def)
  obtain ps a' where l: "add_pool_loop z (cf_Pools cfg) a = Ok (add_result (cf_Pools cfg) a, ps, a')" "same_pool a a'" "\<forall>p \<in> set ps. pool_wf p"
    "map pool_view ps = map (add_name (pool_class a) (ap_Name a)) (map pool_view (cf_Pools cfg))"
    using add_pool_loop_view [OF wf assms(2,3), of z] by blast
  have cl: "map pool_class ps = map pool_class (cf_Pools cfg)"
    using arg_cong [OF l(4), of "map fst"] by (simp add: pool_view_def add_name_def comp_def)
  note m = map_of_add_name [of "pool_class a" "ap_Name a" "map pool_view (cf_Pools cfg)", folded l(4)]
  show thesis
  proof (cases "pool_map cfg (pool_class a)")
    case None
    have "pool_class a \<notin> set (map pool_class (cf_Pools cfg))"
      using None by (metis map_fst_view map_of_eq_None_iff list.set_map pool_map_def)
    then have d: "distinct (map pool_class (ps @ [a']))" using wf(2) l(2) by (simp add: cl same_pool_def del: set_map)
    have v: "pool_view a' = (pool_class a, {ap_Name a})" using same_pool_view [OF l(2)] assms(3) pool_names_single [of "ap_Name a" a] by (simp add: pool_view_def)
    show thesis
      using that [of "cfg\<lparr>cf_Pools := ps @ [a']\<rparr>" a'] None l m d v assms(2) same_pool_wf [OF l(2)]
      by (simp add: AddAddressPool_def add_result_def pool_map_def names_at_def pools_wf_def map_add_def fun_eq_iff split: option.splits)
  next
    case (Some N)
    with that [of "cfg\<lparr>cf_Pools := ps\<rparr>" a'] l m wf cl show thesis
      by (simp add: AddAddressPool_def add_result_def pool_map_def names_at_def pools_wf_def)
  qed
qed

lemma RemoveAddressPool_map:
  assumes "pools_wf cfg" "pool_wf a" "no_comma (ap_Name a)"
  obtains cfg' a' where "RemoveAddressPool z cfg (Some a) = Ok (cfg', Some a')"
    "pool_map cfg' = (pool_map cfg)(pool_class a := if names_at (pool_map cfg) (pool_class a) - {ap_Name a} = {} then None
        else Some (names_at (pool_map cfg) (pool_class a) - {ap_Name a}))"
    "pools_wf cfg'" "cf_Peers cfg' = cf_Peers cfg"
proof -
  have wf: "\<forall>p \<in> set (cf_Pools cfg). pool_wf p" "distinct (map pool_class (cf_Pools cfg))" using assms(1) by (simp_all add: pools_wf_def)
  obtain ps a' where l: "remove_pool_loop z (cf_Pools cfg) a = Ok (ps, a')" "\<forall>p \<in> set ps. pool_wf p"
    "map pool_view ps = drop_name (pool_class a) (ap_Name a) (map pool_view (cf_Pools cfg))"
    using remove_pool_loop_view [OF wf(1) assms(2,3), of z] by blast
  have d: "distinct (map fst (map pool_view (cf_Pools cfg)))" using wf(2) by (simp only: map_fst_view)
  have "distinct (map pool_class ps)" using distinct_drop_name [OF d, of "pool_class a" "ap_Name a"] by (metis l(3) map_fst_view)
  moreover have "\<forall>v \<in> set (map pool_view (cf_Pools cfg)). snd v \<noteq> {}" by (auto simp: pool_view_def)
  note map_of_drop_name [OF d this, of "pool_class a" "ap_Name a", folded l(3)]
  ultimately show thesis using that [of "cfg\<lparr>cf_Pools := ps\<rparr>" a'] l by (simp add: RemoveAddressPool_def pool_map_def pools_wf_def)
qed

section \<open>Properties of the pools\<close>

definition sample_pool :: "string \<Rightarrow> string list \<Rightarrow> AddressPool" where
  "sample_pool n as = \<lparr>ap_Protocol = ''bgp'', ap_Name = n, ap_Addresses = as, ap_AvoidBuggyIPs = True, ap_AutoAssign = Some False,
     ap_BGPAdvertisements = []\<rparr>"

lemma sample_pool_wf: "no_comma n \<Longrightarrow> pool_wf (sample_pool n as)"
  using pool_names_single [of n "sample_pool n as"] by (simp add: pool_wf_def sample_pool_def)

text \<open>
  C36: The pools of the file refine a map from contents (protocol, flags and addresses in any
  order) to sets of names, for pools without advertisements whose \<open>AutoAssign\<close> is set: adding a
  pool puts its name into the set of its content and says whether it was new there; removing a pool
  takes its name out, and the pool itself with its last name. The file never has two pools that
  differ in their name only, which MetalLB does not take. The peers stay.
\<close>

theorem config_pools_refine_map:
  assumes "pools_wf cfg" "pool_wf a" "CHR '','' \<notin> set (ap_Name a)"
  shows "(\<exists>cfg' a'. AddAddressPool z cfg (Some a) = Ok (ap_Name a \<notin> names_at (pool_map cfg) (pool_class a), cfg', Some a')
      \<and> pool_map cfg' = (pool_map cfg)(pool_class a \<mapsto> insert (ap_Name a) (names_at (pool_map cfg) (pool_class a)))
      \<and> pools_wf cfg' \<and> cf_Peers cfg' = cf_Peers cfg)
    \<and> (\<exists>cfg' a'. RemoveAddressPool z cfg (Some a) = Ok (cfg', Some a')
      \<and> pool_map cfg' = (pool_map cfg)(pool_class a := if names_at (pool_map cfg) (pool_class a) - {ap_Name a} = {} then None
          else Some (names_at (pool_map cfg) (pool_class a) - {ap_Name a}))
      \<and> pools_wf cfg' \<and> cf_Peers cfg' = cf_Peers cfg)"
  using AddAddressPool_map [OF assms, of z] RemoveAddressPool_map [OF assms, of z] by metis

theorem config_pools_refine_map_witness:
  "\<exists>cfg' a'. AddAddressPool sample_sorters (sample_file []) (Some (sample_pool ''web'' [''10.0.0.1/32''])) = Ok (True, cfg', a')
    \<and> pool_map cfg' = [pool_class (sample_pool ''web'' [''10.0.0.1/32'']) \<mapsto> {''web''}]"
proof -
  have "pools_wf (sample_file [])" by (simp add: pools_wf_def sample_file_def)
  moreover have "pool_wf (sample_pool ''web'' [''10.0.0.1/32''])" by (rule sample_pool_wf) simp
  moreover have "pool_map (sample_file []) = Map.empty" "ap_Name (sample_pool ''web'' [''10.0.0.1/32'']) = ''web''"
    by (simp_all add: pool_map_def sample_file_def sample_pool_def)
  ultimately show ?thesis
    using config_pools_refine_map [of "sample_file []" "sample_pool ''web'' [''10.0.0.1/32'']" sample_sorters]
    by (auto simp: names_at_def)
qed

text \<open>
  Adding a pool under a new name and removing it gives back the pools there were, with the
  names they had, also when the pool was merged into one with the same content.
\<close>

theorem config_pool_round_trip:
  assumes "pools_wf cfg" "pool_wf a" "CHR '','' \<notin> set (ap_Name a)" "ap_Name a \<notin> names_at (pool_map cfg) (pool_class a)"
  shows "\<exists>cfg1 a1 cfg2 a2. AddAddressPool z cfg (Some a) = Ok (True, cfg1, Some a1)
    \<and> RemoveAddressPool z cfg1 (Some a1) = Ok (cfg2, Some a2) \<and> pool_map cfg2 = pool_map cfg"
proof -
  obtain cfg1 a1 where s: "AddAddressPool z cfg (Some a) = Ok (ap_Name a \<notin> names_at (pool_map cfg) (pool_class a), cfg1, Some a1)"
    "pool_map cfg1 = (pool_map cfg)(pool_class a \<mapsto> insert (ap_Name a) (names_at (pool_map cfg) (pool_class a)))"
    "pools_wf cfg1" "cf_Peers cfg1 = cf_Peers cfg" "same_pool a a1" using assms(1-3) by (rule AddAddressPool_map)
  then have a1: "pool_wf a1" "no_comma (ap_Name a1)" "ap_Name a1 = ap_Name a" "pool_class a1 = pool_class a"
    using assms same_pool_wf [OF s(5)] by (simp_all add: same_pool_def)
  obtain cfg2 a2 where r: "RemoveAddressPool z cfg1 (Some a1) = Ok (cfg2, Some a2)"
    "pool_map cfg2 = (pool_map cfg1)(pool_class a1 := if names_at (pool_map cfg1) (pool_class a1) - {ap_Name a1} = {} then None
        else Some (names_at (pool_map cfg1) (pool_class a1) - {ap_Name a1}))" using s(3) a1(1,2) by (rule RemoveAddressPool_map)
  have "names_at (pool_map cfg1) (pool_class a1) - {ap_Name a1} = names_at (pool_map cfg) (pool_class a)"
    using assms(4) by (auto simp: s(2) a1 names_at_def)
  moreover have "pool_map cfg (pool_class a) \<noteq> Some {}" by (auto simp: pool_map_def pool_view_def dest!: map_of_SomeD)
  ultimately have "pool_map cfg2 = pool_map cfg" using r(2)
    by (simp add: s(2) a1 fun_eq_iff) (auto simp: names_at_def split: option.splits)
  then show ?thesis using s(1) r(1) assms(4) by auto
qed

theorem config_pool_round_trip_witness:
  "\<exists>cfg1 a1 cfg2 a2. AddAddressPool sample_sorters (sample_file []) (Some (sample_pool ''web'' [''10.0.0.1/32''])) = Ok (True, cfg1, Some a1)
    \<and> RemoveAddressPool sample_sorters cfg1 (Some a1) = Ok (cfg2, Some a2) \<and> pool_map cfg2 = Map.empty"
proof -
  have "pools_wf (sample_file [])" by (simp add: pools_wf_def sample_file_def)
  moreover have "pool_wf (sample_pool ''web'' [''10.0.0.1/32''])" by (rule sample_pool_wf) simp
  moreover have "pool_map (sample_file []) = Map.empty" "ap_Name (sample_pool ''web'' [''10.0.0.1/32'']) = ''web''"
    by (simp_all add: pool_map_def sample_file_def sample_pool_def)
  ultimately show ?thesis
    using config_pool_round_trip [of "sample_file []" "sample_pool ''web'' [''10.0.0.1/32'']" sample_sorters]
    by (simp add: names_at_def)
qed

text \<open>What the loops over the pools come to, with pools that may clash.\<close>

lemma same_pool_clash: "same_pool a b \<Longrightarrow> clash p b = clash p a"
  by (simp add: same_pool_def pool_class_def clash_def)

lemma clash_compared:
  assumes advs: "ap_BGPAdvertisements p = []" "ap_BGPAdvertisements a = []" and c: "\<not> clash p a"
  obtains p1 a1 p2 a2 where "AddressPool_Equal z p a = Ok (pool_class p = pool_class a \<and> ap_Name p = ap_Name a, p1, a1)"
    "AddressPool_EqualIgnoreName z p1 a1 = Ok (pool_class p = pool_class a, p2, a2)" "same_pool a a1" "same_pool a a2"
proof -
  obtain p1 a1 where e: "AddressPool_EqualIgnoreName z p a = Ok (pool_class p = pool_class a, p1, a1)"
    "same_pool p p1" "same_pool a a1" using assms by (rule EqualIgnoreName_result)
  have "ap_BGPAdvertisements p1 = []" "ap_BGPAdvertisements a1 = []" "\<not> clash p1 a1"
    using e assms by (simp_all add: same_pool_def pool_class_def clash_def)
  then obtain p2 a2 where i: "AddressPool_EqualIgnoreName z p1 a1 = Ok (pool_class p1 = pool_class a1, p2, a2)"
    "same_pool p1 p2" "same_pool a1 a2" by (rule EqualIgnoreName_result)
  show thesis
    by (rule that [of p1 a1 p2 a2]) (use e i same_pool_trans in \<open>auto simp: AddressPool_Equal_def same_pool_def\<close>)
qed

lemma add_pool_loop_panics:
  "\<forall>p \<in> set (a # ps). ap_BGPAdvertisements p = [] \<Longrightarrow>
    add_pool_loop z ps a = Panic \<longleftrightarrow> (\<exists>p. find (\<lambda>p. clash p a \<or> pool_class p = pool_class a) ps = Some p \<and> clash p a)"
proof (induction ps arbitrary: a)
  case (Cons p ps)
  show ?case
  proof (cases "clash p a")
    case True
    then show ?thesis by (simp add: AddressPool_Equal_def EqualIgnoreName_clash)
  next
    case False
    moreover have "ap_BGPAdvertisements p = []" "ap_BGPAdvertisements a = []" using Cons.prems by simp_all
    ultimately obtain p1 a1 p2 a2 where e: "AddressPool_Equal z p a = Ok (pool_class p = pool_class a \<and> ap_Name p = ap_Name a, p1, a1)"
      and i: "AddressPool_EqualIgnoreName z p1 a1 = Ok (pool_class p = pool_class a, p2, a2)" and s: "same_pool a a2"
      using clash_compared by metis
    have "pool_class a2 = pool_class a" "ap_BGPAdvertisements a2 = ap_BGPAdvertisements a" using s by (simp_all add: same_pool_def)
    with Cons.IH [of a2] Cons.prems e i False same_pool_clash [OF s] show ?thesis
      by (auto simp: Let_def split: outcome.splits bool.splits)
  qed
qed simp

lemma remove_pool_loop_panics:
  "\<forall>p \<in> set (a # ps). ap_BGPAdvertisements p = [] \<Longrightarrow> remove_pool_loop z ps a = Panic \<longleftrightarrow> (\<exists>p \<in> set ps. clash p a)"
proof (induction ps arbitrary: a)
  case (Cons p ps)
  show ?case
  proof (cases "clash p a")
    case True
    then show ?thesis by (simp add: AddressPool_Equal_def EqualIgnoreName_clash)
  next
    case False
    moreover have "ap_BGPAdvertisements p = []" "ap_BGPAdvertisements a = []" using Cons.prems by simp_all
    ultimately obtain p1 a1 p2 a2 where e: "AddressPool_Equal z p a = Ok (pool_class p = pool_class a \<and> ap_Name p = ap_Name a, p1, a1)"
      and i: "AddressPool_EqualIgnoreName z p1 a1 = Ok (pool_class p = pool_class a, p2, a2)" and s: "same_pool a a1" "same_pool a a2"
      using clash_compared by metis
    have "ap_BGPAdvertisements a1 = []" "ap_BGPAdvertisements a2 = []" using s Cons.prems by (simp_all add: same_pool_def)
    with Cons.IH [of a1] Cons.IH [of a2] Cons.prems e i False same_pool_clash [OF s(1)] same_pool_clash [OF s(2)] show ?thesis
      by (auto simp: Let_def split: outcome.splits bool.splits)
  qed
qed simp

text \<open>
  C39: When adding or removing a pool panics, for pools without advertisements. Two pools clash if
  they agree in protocol and flag and one of them has no \<open>AutoAssign\<close>, whose pointer is followed
  without a check. Adding a pool panics exactly if the first pool of the file that clashes with it
  or has its content clashes. Removing a pool, which looks
  at all pools, panics exactly if some pool clashes with it. Nothing else panics: the addresses are
  compared only where there are as many.
\<close>

theorem pool_operations_panic_iff:
  assumes "\<forall>p \<in> set (a # cf_Pools cfg). ap_BGPAdvertisements p = []"
  shows "(AddAddressPool z cfg (Some a) = Panic \<longleftrightarrow>
      (\<exists>p. find (\<lambda>p. clash p a \<or> pool_class p = pool_class a) (cf_Pools cfg) = Some p \<and> clash p a))
    \<and> (RemoveAddressPool z cfg (Some a) = Panic \<longleftrightarrow> (\<exists>p \<in> set (cf_Pools cfg). clash p a))"
proof -
  have "AddAddressPool z cfg (Some a) = Panic \<longleftrightarrow> add_pool_loop z (cf_Pools cfg) a = Panic"
    by (auto simp: AddAddressPool_def split: outcome.splits option.splits)
  moreover have "RemoveAddressPool z cfg (Some a) = Panic \<longleftrightarrow> remove_pool_loop z (cf_Pools cfg) a = Panic"
    by (auto simp: RemoveAddressPool_def split: outcome.splits)
  ultimately show ?thesis using add_pool_loop_panics [OF assms, of z] remove_pool_loop_panics [OF assms, of z] by simp
qed

theorem pool_operations_panic_iff_witness:
  "(AddAddressPool sample_sorters ((sample_file [])\<lparr>cf_Pools := [sample_pool ''web'' [''10.0.0.1/32''],
       (sample_pool ''other'' [''10.1.0.0/16''])\<lparr>ap_AutoAssign := None\<rparr>]\<rparr>) (Some (sample_pool ''web'' [''10.0.0.1/32''])) \<noteq> Panic)
   \<and> (RemoveAddressPool sample_sorters ((sample_file [])\<lparr>cf_Pools := [sample_pool ''web'' [''10.0.0.1/32''],
       (sample_pool ''other'' [''10.1.0.0/16''])\<lparr>ap_AutoAssign := None\<rparr>]\<rparr>) (Some (sample_pool ''web'' [''10.0.0.1/32''])) = Panic)"
  using pool_operations_panic_iff [of "sample_pool ''web'' [''10.0.0.1/32'']" "(sample_file [])\<lparr>cf_Pools := [sample_pool ''web'' [''10.0.0.1/32''],
       (sample_pool ''other'' [''10.1.0.0/16''])\<lparr>ap_AutoAssign := None\<rparr>]\<rparr>" sample_sorters]
  by (simp add: sample_pool_def clash_def)

section \<open>The configurer and the file\<close>

text \<open>Adding the peers of a call one by one to a file: the changes that are reported, and the file.\<close>

definition add_peers :: "sorters \<Rightarrow> string \<Rightarrow> string \<Rightarrow> Peer list \<Rightarrow> bool \<times> ConfigFile \<Rightarrow> bool \<times> ConfigFile" where
  "add_peers z n m adds r = foldl (\<lambda>(changed, f) a. case AddPeerByService z f (Some a) n m of (b, f', _) \<Rightarrow> (changed \<or> b, f')) r adds"

lemma update_peer_file:
  "\<exists>a'. AddPeerByService z cfg (Some a) n m = (True, cfg\<lparr>cf_Peers := update_peer z n m (cf_Peers cfg) a\<rparr>, a')"
  by (simp add: AddPeerByService_def update_peer_def Let_def split: prod.splits)

lemma update_peers_loop_file:
  "update_peers_loop z n m adds ps ch = (c, qs) \<Longrightarrow> add_peers z n m adds (ch, cfg\<lparr>cf_Peers := ps\<rparr>) = (c, cfg\<lparr>cf_Peers := qs\<rparr>)"
proof (induction adds arbitrary: ps ch)
  case (Cons a adds)
  obtain a' where "AddPeerByService z (cfg\<lparr>cf_Peers := ps\<rparr>) (Some a) n m = (True, cfg\<lparr>cf_Peers := update_peer z n m ps a\<rparr>, a')"
    using update_peer_file [of z "cfg\<lparr>cf_Peers := ps\<rparr>" a n m] by auto
  with Cons.IH [of "update_peer z n m ps a" True] Cons.prems show ?case by (simp add: add_peers_def update_peers_loop_Cons)
qed (simp add: add_peers_def)

lemma cm_pool_loop_eq: "cm_pool_loop z 0 ps a = add_pool_loop z ps a"
  using cm_pool_loop_append [of z "[]" ps a] by (auto split: outcome.splits)

text \<open>
  C40: The configurer does not call the operations of the file but has copies of their loops,
  written in another way, and the two agree, panics included: updating the peers of a service is
  adding them one by one with \<open>AddPeerByService\<close>, where a change is reported if one of the calls
  reports one, and removing peers, adding a pool and removing pools by address are the operations
  of the file.
\<close>

theorem configmap_agrees_with_file:
  assumes "cm_config c = Some cfg"
  shows "CM_UpdatePeersByService z c adds n m = (case add_peers z n m adds (False, cfg) of (ch, f) \<Rightarrow> (Ok ch, c\<lparr>cm_config := Some f\<rparr>))
    \<and> CM_RemovePeersByService z c n m = (case RemovePeersByService z cfg n m of (ch, f) \<Rightarrow> (Ok ch, c\<lparr>cm_config := Some f\<rparr>))
    \<and> CM_AddAddressPool z c pool = (case AddAddressPool z cfg pool of
        Ok (ch, f, _) \<Rightarrow> (Ok ch, c\<lparr>cm_config := Some f\<rparr>) | Err e \<Rightarrow> (Err e, c) | Panic \<Rightarrow> (Panic, c))
    \<and> CM_RemoveAddressPoolByAddress c addr = (Ok (), c\<lparr>cm_config := Some (RemoveAddressPoolByAddress cfg addr)\<rparr>)"
proof -
  have c [simp]: "c\<lparr>cm_config := Some cfg\<rparr> = c" using assms by simp
  obtain ch ps where l: "update_peers_loop z n m adds (cf_Peers cfg) False = (ch, ps)" by (metis prod.exhaust)
  have "CM_UpdatePeersByService z c adds n m = (case add_peers z n m adds (False, cfg) of (ch, f) \<Rightarrow> (Ok ch, c\<lparr>cm_config := Some f\<rparr>))"
    using update_peers_loop_file [OF l, of cfg] by (simp add: CM_UpdatePeersByService_def assms l)
  moreover have "CM_RemovePeersByService z c n m = (case RemovePeersByService z cfg n m of (ch, f) \<Rightarrow> (Ok ch, c\<lparr>cm_config := Some f\<rparr>))"
    by (simp add: CM_RemovePeersByService_def RemovePeersByService_def cm_unlink_loop_eq assms split: prod.splits)
  moreover have "CM_AddAddressPool z c pool = (case AddAddressPool z cfg pool of
        Ok (ch, f, _) \<Rightarrow> (Ok ch, c\<lparr>cm_config := Some f\<rparr>) | Err e \<Rightarrow> (Err e, c) | Panic \<Rightarrow> (Panic, c))"
    by (simp add: CM_AddAddressPool_def AddAddressPool_def cm_pool_loop_eq assms split: option.split outcome.split)
  moreover have "CM_RemoveAddressPoolByAddress c addr = (Ok (), c\<lparr>cm_config := Some (RemoveAddressPoolByAddress cfg addr)\<rparr>)"
    by (simp add: CM_RemoveAddressPoolByAddress_def RemoveAddressPoolByAddress_def cm_drop_pools_loop_eq assms)
  ultimately show ?thesis by blast
qed

theorem configmap_agrees_with_file_witness:
  "CM_RemoveAddressPoolByAddress (sample_configurer []) ''10.0.0.1/32'' = (Ok (), sample_configurer [])"
  using configmap_agrees_with_file [of "sample_configurer []" "sample_file []" sample_sorters "[]" "''default''" "''web''" None "''10.0.0.1/32''"]
  by (simp add: sample_configurer_def sample_file_def RemoveAddressPoolByAddress_def)

section \<open>Where the comparisons fail\<close>

text \<open>
  Labels are compared by lookup alone, which gives the empty string for a key that is not there:
  two selectors with different keys and empty values are equal.
\<close>

lemma empty_label_values_are_equal:
  "fst (NodeSelector_Equal z (service_selector [''a'' \<mapsto> '''']) (service_selector [''b'' \<mapsto> '''']))"
  by (simp add: NodeSelector_Equal_def service_selector_def map_len_def nil_map_def map_get_def Let_def
      SelectorRequirementsSlice_Equal_def sort_Sort_eff_def insertionSort_eff_def)

text \<open>
  \<open>NodeSelectors.Less\<close> goes on after an expression that is greater: two selectors can each be less
  than the other, so the result of sorting them depends on their order.
\<close>

definition sample_selector :: "(string \<times> string) \<Rightarrow> (string \<times> string) \<Rightarrow> NodeSelector" where
  "sample_selector r s = \<lparr>ns_MatchLabels = None, ns_MatchExpressions =
     Some [\<lparr>sr_Key = fst r, sr_Operator = snd r, sr_Values = None\<rparr>, \<lparr>sr_Key = fst s, sr_Operator = snd s, sr_Values = None\<rparr>]\<rparr>"

lemma selectors_less_is_no_order:
  "fst (NodeSelectors_Less z (sample_selector (''a'', ''In'') (''d'', ''In'')) (sample_selector (''b'', ''In'') (''c'', ''In'')))
   \<and> fst (NodeSelectors_Less z (sample_selector (''b'', ''In'') (''c'', ''In'')) (sample_selector (''a'', ''In'') (''d'', ''In'')))"
  by (simp add: NodeSelectors_Less_def sample_selector_def map_len_def nil_map_def Let_def sort_Sort_eff_def insertionSort_eff_def
      SelectorRequirementsSlice_Less_def SelectorRequirements_Compare_def strings_Compare_def less_char_def)

text \<open>
  Communities are compared up to the length of the first operand: a prefix is equal to the whole,
  and the other way round the comparison panics.
\<close>

definition sample_adv :: "string list \<Rightarrow> BgpAdvertisement" where
  "sample_adv cs = \<lparr>ba_AggregationLength = Some 32, ba_LocalPref = Some 100, ba_Communities = cs\<rparr>"

lemma communities_compared_as_prefix:
  "BgpAdvertisement_Equal (sample_adv []) (sample_adv [''65000:1'']) = Ok (True, sample_adv [], sample_adv [''65000:1''])
   \<and> BgpAdvertisement_Equal (sample_adv [''65000:1'']) (sample_adv []) = Panic"
  by (simp add: BgpAdvertisement_Equal_def sample_adv_def)


end
