(* ===== verification/Spec2Isabelle.thy ===== *)
theory Spec2Isabelle
  imports Instances Provider_Config Load_Balancer_Laws MetalLB_Pool_Laws Control_Plane_Laws Cloud Fake_API_Clients MetalLB_ConfigPools_Laws
begin

text \<open>
  A model of the Kubernetes cloud controller manager for Cherry Servers
  (\<^verbatim>\<open>cloud-provider-cherry\<close>) and the theorems about it. File names below are relative to
  \<^verbatim>\<open>src/cherry/\<close>.

  \<^bold>\<open>The program.\<close> The controller manager calls a cloud provider: its instances (what server a
  node is, whether it exists, its addresses) and its load balancers (a floating IP for every
  service of type LoadBalancer, announced over BGP by one of three implementors: kube-vip,
  MetalLB or an empty one). Beside these runs a manager that keeps one floating IP of the
  control plane on a node whose API server answers. All of them talk to the Cherry Servers API
  and to Kubernetes.

  \<^bold>\<open>How it is modelled.\<close> Every Go function is a HOL function of the same name; a method takes
  its receiver as an argument. Code outside the repository is an argument: the API clients are
  records of functions over an arbitrary world \<open>'w\<close> that each call passes on, so that a call may
  fail, change things, or answer differently the next time. What a theorem needs of such a
  client is a named hypothesis (\<open>servers_api_contract\<close>, \<open>kind_contract\<close>, \<open>pools_contract\<close>,
  \<open>counts_requests\<close>, \<open>unaffected_by_reads\<close>), and every theorem with hypotheses has a witness on
  concrete clients (\<^verbatim>\<open>Samples\<close> and the sample section of each theory). Errors are values of
  \<open>go_error\<close>, a call that may panic returns an \<open>outcome\<close>. Go's \<open>int\<close> is \<open>int\<close>, with the range that
  parsing enforces; ASNs and ports of peers are 32- and 16-bit words, and their conversions
  wrap. A map whose order of iteration can be observed is an association list listed through an
  argument that permutes it. Logging is left out. Every loop is a structural recursion or has
  a termination proof; no fuel is used.

  \<^bold>\<open>Theories.\<close>
  \<^item> \<^verbatim>\<open>Go_Prelude\<close>: errors, outcomes, maps, the functions of \<^verbatim>\<open>strings\<close> and \<^verbatim>\<open>strconv\<close> that the
    code uses, and lemmas on them. \<^verbatim>\<open>Api_Types\<close>: the objects of the two APIs and their clients.
  \<^item> \<^verbatim>\<open>Server_IP\<close>, \<^verbatim>\<open>Instances\<close> (\<^verbatim>\<open>server_ip.go\<close>, \<^verbatim>\<open>instances.go\<close>): provider IDs are printed and
    parsed back, and exactly the well-formed ones are accepted; node addresses are those of the
    API; the outcomes of existence and shutdown for every answer of the API.
  \<^item> \<^verbatim>\<open>Provider_Config\<close> (\<^verbatim>\<open>config.go\<close>, \<^verbatim>\<open>constants.go\<close>): the environment wins over the file; the
    names of the annotations in the file are not used, other than the documentation says.
  \<^item> \<^verbatim>\<open>IP_Reservations\<close> (\<^verbatim>\<open>ipreservations.go\<close>): the search by tags is the first match.
  \<^item> \<^verbatim>\<open>BGP\<close> (\<^verbatim>\<open>bgp.go\<close>): enabling BGP for the project and for a server converges, keeps what else the
    server has and is idempotent (locale \<open>bgp_enabler\<close>).
  \<^item> \<^verbatim>\<open>LB_Interface\<close> (\<^verbatim>\<open>loadbalancers/interface.go\<close>, \<^verbatim>\<open>node.go\<close>): the implementors as a record, and the
    contract of their annotations as the locale \<open>service_ip_annotations\<close>, which \<^verbatim>\<open>Kubevip_LB\<close>,
    \<^verbatim>\<open>Empty_LB\<close> and \<^verbatim>\<open>MetalLB_LB\<close> interpret.
  \<^item> \<^verbatim>\<open>MetalLB_Peers\<close> (\<^verbatim>\<open>metallb/bgp_peers.go\<close>): the peers of the nodes in the three modes.
    \<^verbatim>\<open>MetalLB_Resources\<close> (\<^verbatim>\<open>metallb/resource.go\<close>): the services linked to a peer, kept in node
    selectors (locale \<open>service_links\<close>). \<^verbatim>\<open>MetalLB_CRD\<close> (\<^verbatim>\<open>metallb/crd.go\<close>): all operations of
    the configurer; \<^verbatim>\<open>MetalLB_CRD_Laws\<close> shows that updating the peers of a service keeps a contract
    on the stored peers that is stated on their fields (\<open>service_peers_updated\<close>), that a second
    update finds them settled, and that removing them unlinks the service; \<^verbatim>\<open>MetalLB_Pool_Laws\<close>
    that adding an address pool is idempotent and removing it undoes it.
    \<^verbatim>\<open>MetalLB_LB\<close> (\<^verbatim>\<open>metallb/metallb.go\<close>) puts these together.
  \<^item> \<^verbatim>\<open>MetalLB_Config\<close> (\<^verbatim>\<open>metallb/config.go\<close>), \<^verbatim>\<open>MetalLB_ConfigMap\<close> (\<^verbatim>\<open>metallb/configmap.go\<close>): the
    configuration file of MetalLB before its resources, and the other configurer, which keeps the
    file in a ConfigMap. Comparing two parts of a file sorts them in place, so a comparison returns
    its operands, too; one that indexes or follows a pointer may panic. The two files have their own
    copies of most loops, and so have the two theories. \<^verbatim>\<open>MetalLB_Config_Laws\<close>: the sorts keep the
    contents, the comparisons compare them as multisets, and the copies of the loops over the peers
    agree. \<^verbatim>\<open>MetalLB_ConfigMap_Laws\<close>: the peers of a file refine a set of what \<open>AddPeer\<close> calls a match
    (\<open>match_class\<close>) as long as peers that match are equal (\<open>told_apart\<close>), and the configurer links
    and unlinks services (the contract \<open>service_links\<close> again), on peers without empty label values
    (\<open>tidy_peer\<close>), which the comparison of selectors does not see. \<^verbatim>\<open>MetalLB_ConfigPools_Laws\<close>: the
    pools refine a map from contents to sets of names, exactly when the operations on pools panic,
    and that the operations of the configurer agree with their copies in the file. \<open>sort.Sort\<close> on
    more than twelve elements is an argument; the hypotheses \<open>permuting\<close> and \<open>sorting\<close> say that it
    permutes, and sorts where the order is one.
  \<^item> \<^verbatim>\<open>Load_Balancers\<close> (\<^verbatim>\<open>loadbalancers.go\<close>) and \<^verbatim>\<open>Load_Balancer_Laws\<close>: a floating IP is requested
    only when needed, reservations of services are kept apart by their tags, the reported
    address, the annotations of nodes, and what happens on deletion. A node selector that does not
    parse is a nil selector, and filtering nodes with it panics.
  \<^item> \<^verbatim>\<open>SSA_Helpers\<close>, \<^verbatim>\<open>Control_Plane\<close> (\<^verbatim>\<open>ssa-helpers.go\<close>, \<^verbatim>\<open>fip_controlplane_reconciliation.go\<close>) and
    \<^verbatim>\<open>Control_Plane_Laws\<close>: the manager as a transition system over the events of its informers
    (\<open>handle_event\<close>, \<open>cp_reachable\<close>). The floating IP moves only with cause and only to a node
    that answered; a health check and a move away from a node find a healthy one among the
    candidates that the node filters promise (locales \<open>node_filter\<close> and \<open>try_filter\<close>); the ports
    keep their invariant, and only deletions that reach the informer as tombstones make it panic.
  \<^item> \<^verbatim>\<open>Cloud\<close> (\<^verbatim>\<open>cloud.go\<close>, \<^verbatim>\<open>../main.go\<close>): the provider made from its configuration, and
    \<open>Initialize\<close>, which builds the components above and gives them to each other: what is offered
    follows the configuration, and the AS number of the project is the one the load balancer
    announces with.
  \<^item> \<^verbatim>\<open>Mem_Store\<close>, \<^verbatim>\<open>Fake_API\<close> (\<^verbatim>\<open>server/store/\<close>, \<^verbatim>\<open>server/server.go\<close>): the in-memory fake of the
    Cherry Servers API, its interface \<open>DataStore\<close> as a record and the contract of each kind of
    object as the locale \<open>numbered_objects\<close>. \<^verbatim>\<open>Fake_API_Laws\<close> and \<^verbatim>\<open>Fake_API_Runs\<close>: what every
    sequence of requests keeps (\<open>fake_reachable\<close>), round trips of requests, the IDs that no longer
    fit, and exactly which requests panic. The counter of the IDs wraps at 64 bits, and a run is
    followed until it does (\<open>2 ^ 63 - 1\<close> objects); the owner of the store is taken to update a server
    under its own ID, since the store files it under any. \<^verbatim>\<open>Fake_API_Clients\<close>: \<^verbatim>\<open>bgp.go\<close> and
    \<^verbatim>\<open>instances.go\<close> run against it, with the client library as the hypothesis \<open>talks_to\<close>.
  \<^item> This theory: what the three implementors have in common.

  \<^bold>\<open>Not modelled.\<close> Goroutines and mutexes beyond one handler at a time; arrays that the two operands
  of one comparison of the configuration file share; the set-up and start of informers and the time
  limit of health checks; logging, flags and the matching of request paths.
\<close>

section \<open>The implementors\<close>

text \<open>The implementors that \<open>newLoadBalancers\<close> can choose.\<close>

definition implementors :: "'w LB set" where
  "implementors = range kubevip_NewLB \<union> range (\<lambda>a. empty_as_LB (empty_NewLB a)) \<union> range metallb_as_LB"

lemma implementor_contract:
  assumes "impl \<in> implementors"
  shows "\<exists>key. service_ip_annotations (lb_ServiceIP impl) (lb_SetServiceIP impl) key"
proof -
  consider (kubevip) c where "impl = kubevip_NewLB c" | (empty) a where "impl = empty_as_LB (empty_NewLB a)"
    | (metallb) m where "impl = metallb_as_LB m"
    using assms by (auto simp: implementors_def)
  then show ?thesis
  proof cases
    case kubevip
    with kubevip_ip.service_ip_annotations_axioms show ?thesis by (auto simp: kubevip_NewLB_def)
  next
    case empty
    with empty_ip.service_ip_annotations_axioms [of "empty_NewLB a"] show ?thesis by (auto simp: empty_as_LB_def)
  next
    case metallb
    with metallb_ip.service_ip_annotations_axioms show ?thesis by (auto simp: metallb_as_LB_def)
  qed
qed

text \<open>
  C17: For every implementor, the address written into a service is the one read from it
  afterwards, whatever the service said before; one annotation changes and nothing else, and
  writing a second address leaves no trace of the first.
\<close>

theorem service_ip_set_then_get:
  assumes "impl \<in> implementors" and "ip \<noteq> ''''"
  shows "\<exists>key s'. lb_SetServiceIP impl (Some s) ip = (None, Some s')
    \<and> lb_ServiceIP impl (Some s') = (ip, True)
    \<and> (\<forall>k. k \<noteq> key \<longrightarrow> annotation s' k = annotation s k)
    \<and> s'\<lparr>svc_Annotations := svc_Annotations s\<rparr> = s
    \<and> lb_SetServiceIP impl (Some s') ip2 = lb_SetServiceIP impl (Some s) ip2"
proof -
  obtain key where c: "service_ip_annotations (lb_ServiceIP impl) (lb_SetServiceIP impl) key"
    using implementor_contract [OF assms(1)] by blast
  let ?s = "set_annotation key ip s"
  have set: "lb_SetServiceIP impl (Some s) ip = (None, Some ?s)" by (rule service_ip_annotations.set_some [OF c])
  moreover have "lb_ServiceIP impl (Some ?s) = (ip, True)"
    using service_ip_annotations.get_set [OF c assms(2), of s] set by simp
  moreover have "lb_SetServiceIP impl (Some ?s) ip2 = lb_SetServiceIP impl (Some s) ip2"
    using service_ip_annotations.set_again [OF c, of s ip ip2] set by simp
  moreover have "\<forall>k. k \<noteq> key \<longrightarrow> annotation ?s k = annotation s k" by simp
  moreover have "?s\<lparr>svc_Annotations := svc_Annotations s\<rparr> = s" by (simp add: set_annotation_def)
  ultimately show ?thesis by blast
qed

theorem service_ip_set_then_get_witness:
  "\<exists>s'. lb_SetServiceIP (kubevip_NewLB '''' :: nat LB) (Some (sample_service ''web'')) ''5.199.1.2'' = (None, Some s')
     \<and> lb_ServiceIP (kubevip_NewLB '''' :: nat LB) (Some s') = (''5.199.1.2'', True)"
  using service_ip_set_then_get [of "kubevip_NewLB '''' :: nat LB" "''5.199.1.2''" "sample_service ''web''"]
  by (auto simp: implementors_def)

end
